(* ===== verification/Prelude.thy ===== *)
theory Prelude
  imports Main "HOL-Library.Sublist" "HOL-Library.Word"
begin

section \<open>Shared vocabulary of the model\<close>

text \<open>
  What every component uses: JavaScript exceptions as values (\<open>js_error\<close>), the result
  of a call that may throw (\<open>'a result\<close>), optional properties, array access with
  \<open>undefined\<close> outside the bounds, and the few string functions the code calls.
  Strings are lists of characters; \<open>number\<close>s that hold heights, slots and times are
  integers (the code never leaves the safe-integer range with them).
\<close>

named_theorems ub_defs "the getters of the unfinalized-blocks service, which throw before init"

subsection \<open>Exceptions and results\<close>

text \<open>
  The two JSON-RPC error codes that \<open>api.solana.ts\<close> tells apart; every other code of
  \<open>@solana/errors\<close> is \<open>OTHER_CODE\<close>.
\<close>

datatype solana_code =
    SERVER_ERROR_SLOT_SKIPPED
  | SERVER_ERROR_LONG_TERM_STORAGE_SLOT_SKIPPED
  | OTHER_CODE int

text \<open>
  \<open>BlockUnavailableError\<close> is the class of \<open>@subql/node-core\<close>; a \<open>SolanaError\<close>
  carries its code, message and the optional \<open>context.statusCode\<close>; \<open>Error\<close> is a plain
  error with its message, \<open>ErrorCause\<close> one with a cause. \<open>AssertionError\<close> comes from
  \<open>assert\<close>, \<open>TypeError\<close> from the language, \<open>ProcessExit\<close> is the end of the
  process by \<open>exitWithError\<close>.
\<close>

datatype js_error =
    BlockUnavailableError
  | SolanaError solana_code string "int option"
  | Error string
  | ErrorCause string js_error
  | AssertionError string
  | TypeError string
  | ProcessExit string

type_synonym 'a result = "js_error + 'a"

text \<open>\<open>isl\<close> tells a thrown error; \<open>traverse\<close> is a loop over a list that stops at the
  first call that throws, as \<open>for (...) await f(x)\<close> and \<open>map\<close> with a throwing callback do.\<close>

fun traverse :: "('a \<Rightarrow> 'b result) \<Rightarrow> 'a list \<Rightarrow> 'b list result" where
  "traverse f [] = Inr []"
| "traverse f (x # xs) =
     (case f x of Inl e \<Rightarrow> Inl e
      | Inr y \<Rightarrow> (case traverse f xs of Inl e \<Rightarrow> Inl e | Inr ys \<Rightarrow> Inr (y # ys)))"

lemma traverse_Inr_iff:
  "traverse f xs = Inr ys \<longleftrightarrow> list_all2 (\<lambda>x y. f x = Inr y) xs ys"
proof (induction xs arbitrary: ys)
  case (Cons x xs)
  show ?case
  proof (cases ys)
    case (Cons y zs)
    with Cons.IH [of zs] show ?thesis
      by (cases "f x"; cases "traverse f xs") auto
  qed (auto split: sum.splits)
qed auto

lemma traverse_Inr_map: "(\<And>x. x \<in> set xs \<Longrightarrow> f x = Inr (g x)) \<Longrightarrow> traverse f xs = Inr (map g xs)"
  by (induction xs) auto

lemma traverse_length: "traverse f xs = Inr ys \<Longrightarrow> length ys = length xs"
  by (auto simp: traverse_Inr_iff dest: list_all2_lengthD)

lemma traverse_Inl: "traverse f xs = Inl e \<Longrightarrow> \<exists>x \<in> set xs. f x = Inl e"
  by (induction xs) (auto split: sum.splits)

lemma traverse_total: "(\<exists>ys. traverse f xs = Inr ys) \<longleftrightarrow> (\<forall>x \<in> set xs. \<exists>y. f x = Inr y)"
  by (induction xs) (auto split: sum.splits)

lemma list_all2_set_right: "list_all2 P xs ys \<Longrightarrow> y \<in> set ys \<Longrightarrow> \<exists>x \<in> set xs. P x y"
  by (induction rule: list_all2_induct) auto

subsection \<open>Optional values and arrays\<close>

text \<open>Truthiness of an optional string: neither \<open>undefined\<close> nor the empty string.\<close>

fun truthy :: "string option \<Rightarrow> bool" where
  "truthy None = False"
| "truthy (Some s) = (s \<noteq> [])"

text \<open>\<open>lodash.last\<close> and \<open>xs[i]\<close>.\<close>

definition last_opt :: "'a list \<Rightarrow> 'a option" where
  "last_opt xs = (if xs = [] then None else Some (last xs))"

definition nth_opt :: "'a list \<Rightarrow> nat \<Rightarrow> 'a option" where
  "nth_opt xs i = (if i < length xs then Some (xs ! i) else None)"

lemma last_opt_simps [simp]:
  "last_opt [] = None" "last_opt (xs @ [x]) = Some x"
  by (simp_all add: last_opt_def)

lemma last_opt_None [simp]: "last_opt xs = None \<longleftrightarrow> xs = []"
  by (simp add: last_opt_def)

lemma last_opt_Some: "last_opt xs = Some x \<longleftrightarrow> (\<exists>ys. xs = ys @ [x])"
  by (auto simp: last_opt_def) (metis append_butlast_last_id)

lemma nth_opt_simps [simp]:
  "nth_opt [] i = None" "nth_opt (x # xs) 0 = Some x" "nth_opt (x # xs) (Suc i) = nth_opt xs i"
  by (simp_all add: nth_opt_def)

lemma nth_opt_Some: "nth_opt xs i = Some x \<longleftrightarrow> i < length xs \<and> xs ! i = x"
  by (auto simp: nth_opt_def)

lemma nth_opt_append: "nth_opt (xs @ ys) i = (if i < length xs then nth_opt xs i else nth_opt ys (i - length xs))"
  by (auto simp: nth_opt_def nth_append)

text \<open>\<open>xs.map((x, i) => ...)\<close>.\<close>

definition mapi :: "(nat \<Rightarrow> 'a \<Rightarrow> 'b) \<Rightarrow> 'a list \<Rightarrow> 'b list" where
  "mapi f xs = map (\<lambda>(i, x). f i x) (enumerate 0 xs)"

lemma length_mapi [simp]: "length (mapi f xs) = length xs"
  by (simp add: mapi_def)

lemma nth_mapi [simp]: "i < length xs \<Longrightarrow> mapi f xs ! i = f i (xs ! i)"
  by (simp add: mapi_def nth_enumerate_eq)

lemma map_mapi: "map g (mapi f xs) = mapi (\<lambda>i x. g (f i x)) xs"
  by (simp add: mapi_def split_def comp_def)

lemma mapi_const: "mapi (\<lambda>i. f) xs = map f xs"
  by (rule nth_equalityI) auto

lemma mapi_index: "mapi (\<lambda>i x. f i) xs = map f [0..<length xs]"
  by (rule nth_equalityI) auto

lemma all_less_Suc_split: "(\<forall>i < Suc n. P i) \<longleftrightarrow> P 0 \<and> (\<forall>i < n. P (Suc i))"
  using less_Suc_eq_0_disj by auto

lemma sorted_enumerate: "sorted_wrt (<) (map fst (enumerate n xs))"
  by simp

lemma sorted_wrt_map_filter_fst:
  "sorted_wrt (<) (map fst (filter P (enumerate n xs)))"
  unfolding sorted_wrt_map by (rule sorted_wrt_filter) (rule sorted_enumerate [unfolded sorted_wrt_map])

text \<open>Assignment of a property: an existing one keeps its place, a new one comes last.\<close>

fun set_entry :: "string \<Rightarrow> 'v \<Rightarrow> (string \<times> 'v) list \<Rightarrow> (string \<times> 'v) list" where
  "set_entry k v [] = [(k, v)]"
| "set_entry k v ((k', v') # es) = (if k' = k then (k, v) # es else (k', v') # set_entry k v es)"

lemma set_entry_map [simp]: "map_of (set_entry k v es) = (map_of es)(k \<mapsto> v)"
  by (induction es) (auto simp: fun_eq_iff)

text \<open>\<open>{...a, ...b}\<close>, and with \<open>a = []\<close> the constructor of \<open>Map\<close> on a list of entries.\<close>

definition set_entries :: "(string \<times> 'v) list \<Rightarrow> (string \<times> 'v) list \<Rightarrow> (string \<times> 'v) list" where
  "set_entries a b = foldl (\<lambda>es (k, v). set_entry k v es) a b"

lemma map_of_set_entries: "map_of (set_entries a b) = map_of a ++ map_of (rev b)"
proof (induction b arbitrary: a)
  case (Cons kv b)
  then show ?case by (cases kv) (auto simp: set_entries_def fun_eq_iff map_add_def split: option.splits)
qed (simp add: set_entries_def)

lemma set_entry_keys: "fst ` set (set_entry k v es) = insert k (fst ` set es)"
  by (induction k v es rule: set_entry.induct) (simp_all add: insert_commute)

lemma set_entry_distinct: "distinct (map fst es) \<Longrightarrow> distinct (map fst (set_entry k v es))"
  by (induction k v es rule: set_entry.induct) (auto simp: set_entry_keys)

lemma set_entries_distinct: "distinct (map fst a) \<Longrightarrow> distinct (map fst (set_entries a b))"
  by (induction b arbitrary: a) (auto simp: set_entries_def set_entry_distinct split: prod.split)

text \<open>\<open>lodash.uniqBy\<close>: of the elements with one key the first is kept; \<open>uniq\<close> removes repeated elements.\<close>

fun uniqBy :: "('a \<Rightarrow> 'k) \<Rightarrow> 'a list \<Rightarrow> 'a list" where
  "uniqBy key [] = []"
| "uniqBy key (x # xs) = x # filter (\<lambda>y. key y \<noteq> key x) (uniqBy key xs)"

fun uniq :: "'a list \<Rightarrow> 'a list" where
  "uniq [] = []"
| "uniq (x # xs) = x # removeAll x (uniq xs)"

lemma set_uniq [simp]: "set (uniq xs) = set xs"
  by (induction xs) auto

lemma distinct_uniq: "distinct (uniq xs)"
  by (induction xs) (auto simp: distinct_removeAll)

subsection \<open>Strings\<close>

text \<open>\<open>s.startsWith(p)\<close>, \<open>s.split(' ')\<close> on one separator character, and
  \<open>s.replace(p, '')\<close> (the first occurrence of a pattern string only).\<close>

definition startsWith :: "string \<Rightarrow> string \<Rightarrow> bool" where
  "startsWith s p = (take (length p) s = p)"

fun split_at :: "char \<Rightarrow> string \<Rightarrow> string list" where
  "split_at c [] = [[]]"
| "split_at c (x # xs) =
     (if x = c then [] # split_at c xs
      else (case split_at c xs of w # ws \<Rightarrow> (x # w) # ws | [] \<Rightarrow> [[x]]))"

fun remove_first :: "string \<Rightarrow> string \<Rightarrow> string" where
  "remove_first p [] = []"
| "remove_first p (x # xs) =
     (if p \<noteq> [] \<and> take (length p) (x # xs) = p then drop (length p) (x # xs)
      else x # remove_first p xs)"

text \<open>\<open>s.replace(p, q)\<close> with a pattern string: the first occurrence.\<close>

fun replace_first :: "string \<Rightarrow> string \<Rightarrow> string \<Rightarrow> string" where
  "replace_first p q [] = []"
| "replace_first p q (x # xs) =
     (if p \<noteq> [] \<and> take (length p) (x # xs) = p then q @ drop (length p) (x # xs)
      else x # replace_first p q xs)"

text \<open>\<open>ls.join('\n')\<close>.\<close>

fun join_lines :: "string list \<Rightarrow> string" where
  "join_lines [] = []"
| "join_lines [l] = l"
| "join_lines (l # ls) = l @ CHR 0x0A # join_lines ls"

lemma startsWith_append [simp]: "startsWith (p @ s) p"
  by (simp add: startsWith_def)

lemma startsWith_iff: "startsWith s p \<longleftrightarrow> (\<exists>t. s = p @ t)"
  unfolding startsWith_def by (metis append_take_drop_id append_eq_conv_conj)

lemma split_at_nonempty [simp]: "split_at c s \<noteq> []"
  by (induction s) (auto split: list.splits)

lemma split_at_word: "c \<notin> set w \<Longrightarrow> split_at c w = [w]"
  by (induction w) auto

lemma split_at_append: "c \<notin> set w \<Longrightarrow> split_at c (w @ c # s) = w # split_at c s"
  by (induction w) auto

lemma remove_first_prefix: "p \<noteq> [] \<Longrightarrow> remove_first p (p @ s) = s"
  by (cases p) auto

end
