(* ===== verification/Json.thy ===== *)
theory Json
  imports Prelude
begin

section \<open>JSON text\<close>

text \<open>
  The values of JavaScript that the code builds or passes on, and \<open>JSON.stringify\<close> on them. The
  text serves as a key (the memoised method of the decoder, the removal of equal dictionary
  conditions) and as a measure (the size of a block), so two facts matter: equal texts come
  from equal values, and a \<open>bigint\<close> has a text only where \<open>BigInt.prototype.toJSON\<close> is set,
  as \<open>packages/node/src/main.ts\<close> does. The proof of the first follows the usual argument for
  prefix-free codes: each piece of text can be split off a longer one.
\<close>

subsection \<open>Values\<close>

datatype js_value =
    JNull
  | JBool bool
  | JNum int
  | JBig int
  | JStr string
  | JArr "js_value list"
  | JObj "(string \<times> js_value) list"

text \<open>Named properties that the code copies and never reads, in their order.\<close>

type_synonym js_fields = "(string \<times> js_value) list"

text \<open>A property that is \<open>undefined\<close> has no text; an array element that is \<open>undefined\<close> prints as \<open>null\<close>.\<close>

definition optional_field :: "string \<Rightarrow> ('a \<Rightarrow> js_value) \<Rightarrow> 'a option \<Rightarrow> js_fields" where
  "optional_field k f v = (case v of None \<Rightarrow> [] | Some x \<Rightarrow> [(k, f x)])"

definition nullable :: "('a \<Rightarrow> js_value) \<Rightarrow> 'a option \<Rightarrow> js_value" where
  "nullable f v = (case v of None \<Rightarrow> JNull | Some x \<Rightarrow> f x)"

definition strings_json :: "string list \<Rightarrow> js_value" where
  "strings_json ss = JArr (map JStr ss)"

text \<open>A value as a condition; \<open>None\<close> is \<open>undefined\<close>.\<close>

fun value_truthy :: "js_value option \<Rightarrow> bool" where
  "value_truthy None = False"
| "value_truthy (Some JNull) = False"
| "value_truthy (Some (JBool b)) = b"
| "value_truthy (Some (JNum n)) = (n \<noteq> 0)"
| "value_truthy (Some (JBig n)) = (n \<noteq> 0)"
| "value_truthy (Some (JStr s)) = (s \<noteq> [])"
| "value_truthy (Some v) = True"

subsection \<open>Printing\<close>

definition digit :: "nat \<Rightarrow> char" where
  "digit d = char_of (48 + d)"

definition is_digit :: "char \<Rightarrow> bool" where
  "is_digit c = (48 \<le> (of_char c :: nat) \<and> (of_char c :: nat) \<le> 57)"

fun show_nat :: "nat \<Rightarrow> string" where
  "show_nat n = (if n < 10 then [digit n] else show_nat (n div 10) @ [digit (n mod 10)])"

declare show_nat.simps [simp del]

definition show_int :: "int \<Rightarrow> string" where
  "show_int i = (if i < 0 then CHR ''-'' # show_nat (nat (- i)) else show_nat (nat i))"

definition hex_digit :: "nat \<Rightarrow> char" where
  "hex_digit d = (if d < 10 then char_of (48 + d) else char_of (87 + d))"

text \<open>The quotation mark, the backslash and the control characters are escaped.\<close>

definition escape :: "char \<Rightarrow> string" where
  "escape c =
     (if c = CHR 0x22 then [CHR 0x5C, CHR 0x22]
      else if c = CHR 0x5C then [CHR 0x5C, CHR 0x5C]
      else if c = CHR 0x08 then [CHR 0x5C, CHR ''b'']
      else if c = CHR 0x09 then [CHR 0x5C, CHR ''t'']
      else if c = CHR 0x0A then [CHR 0x5C, CHR ''n'']
      else if c = CHR 0x0C then [CHR 0x5C, CHR ''f'']
      else if c = CHR 0x0D then [CHR 0x5C, CHR ''r'']
      else if (of_char c :: nat) < 32 then
        CHR 0x5C # ''u00'' @ [hex_digit (of_char c div 16), hex_digit (of_char c mod 16)]
      else [c])"

definition quote :: "string \<Rightarrow> string" where
  "quote s = CHR 0x22 # concat (map escape s) @ [CHR 0x22]"

fun join_comma :: "string list \<Rightarrow> string" where
  "join_comma [] = []"
| "join_comma [s] = s"
| "join_comma (s # ss) = s @ CHR '','' # join_comma ss"

text \<open>The text with \<open>BigInt.prototype.toJSON = function () { return this.toString(); }\<close>.\<close>

definition BigInt_toJSON :: "int \<Rightarrow> string" where
  "BigInt_toJSON i = show_int i"

fun json_text :: "js_value \<Rightarrow> string" where
  "json_text JNull = ''null''"
| "json_text (JBool b) = (if b then ''true'' else ''false'')"
| "json_text (JNum i) = show_int i"
| "json_text (JBig i) = quote (BigInt_toJSON i)"
| "json_text (JStr s) = quote s"
| "json_text (JArr vs) = CHR ''['' # join_comma (map json_text vs) @ '']''"
| "json_text (JObj fs) = CHR ''{'' # join_comma (map (\<lambda>(k, v). quote k @ CHR '':'' # json_text v) fs) @ ''}''"

fun has_bigint :: "js_value \<Rightarrow> bool" where
  "has_bigint (JBig i) = True"
| "has_bigint (JArr vs) = list_ex has_bigint vs"
| "has_bigint (JObj fs) = list_ex (\<lambda>(k, v). has_bigint v) fs"
| "has_bigint v = False"

text \<open>\<open>patched\<close>: \<open>BigInt.prototype.toJSON\<close> is set.\<close>

definition JSON_stringify :: "bool \<Rightarrow> js_value \<Rightarrow> string result" where
  "JSON_stringify patched v =
     (if has_bigint v \<and> \<not> patched then Inl (TypeError ''Do not know how to serialize a BigInt'')
      else Inr (json_text v))"

text \<open>\<open>Buffer.byteLength(s, 'utf8')\<close>; the characters of the model are below 256.\<close>

definition byteLength :: "string \<Rightarrow> nat" where
  "byteLength s = sum_list (map (\<lambda>c. if (of_char c :: nat) < 128 then 1 else 2) s)"

lemma byteLength_append [simp]: "byteLength (s @ t) = byteLength s + byteLength t"
  and byteLength_Nil [simp]: "byteLength [] = 0"
  by (simp_all add: byteLength_def)

lemma byteLength_Cons: "byteLength (c # s) = (if (of_char c :: nat) < 128 then 1 else 2) + byteLength s"
  by (simp add: byteLength_def)

lemma byteLength_length: "length s \<le> byteLength s"
  by (induction s) (auto simp: byteLength_Cons)

subsection \<open>Equal texts come from equal values\<close>

lemma is_digit_digit: "d < 10 \<Longrightarrow> is_digit (digit d)"
  by (simp add: is_digit_def digit_def)

definition digit_value :: "char \<Rightarrow> nat" where
  "digit_value c = of_char c - 48"

lemma digit_value_digit: "d < 10 \<Longrightarrow> digit_value (digit d) = d"
  by (simp add: digit_value_def digit_def)

lemma show_nat_digits: "list_all is_digit (show_nat n)"
proof (induction n rule: show_nat.induct)
  case (1 n)
  then show ?case by (cases "n < 10") (simp_all add: show_nat.simps [of n] is_digit_digit)
qed

lemma show_nat_nonempty [simp]: "show_nat n \<noteq> []"
  by (subst show_nat.simps) simp

lemma show_nat_value: "foldl (\<lambda>a c. 10 * a + digit_value c) 0 (show_nat n) = n"
proof (induction n rule: show_nat.induct)
  case (1 n)
  then show ?case by (cases "n < 10") (simp_all add: show_nat.simps [of n] digit_value_digit)
qed

text \<open>What may follow a number: the end, or a character that is not a digit.\<close>

definition ends :: "string \<Rightarrow> bool" where
  "ends r = (case r of [] \<Rightarrow> True | c # cs \<Rightarrow> \<not> is_digit c)"

lemma ends_simps [simp]: "ends []" "ends (c # r) \<longleftrightarrow> \<not> is_digit c"
  by (simp_all add: ends_def)

lemma takeWhile_digits: "list_all is_digit s \<Longrightarrow> ends r \<Longrightarrow> takeWhile is_digit (s @ r) = s"
  by (cases r) (simp_all add: ends_def list_all_iff)

lemma show_nat_split:
  assumes "show_nat n @ r = show_nat m @ r'" and "ends r" and "ends r'"
  shows "n = m \<and> r = r'"
proof -
  have "show_nat n = show_nat m"
    using arg_cong [OF assms(1), of "takeWhile is_digit"] takeWhile_digits [OF show_nat_digits] assms(2,3) by simp
  with assms(1) show ?thesis using show_nat_value by (metis same_append_eq)
qed

lemma show_nat_hd: "\<exists>c t. show_nat n = c # t \<and> is_digit c"
  using show_nat_digits [of n] show_nat_nonempty [of n] by (cases "show_nat n") auto

lemma show_int_split:
  assumes "show_int i @ r = show_int j @ r'" and "ends r" and "ends r'"
  shows "i = j \<and> r = r'"
proof -
  have minus: "CHR ''-'' # s \<noteq> show_nat n @ t" for s n t
    using show_nat_hd [of n] by (auto simp: is_digit_def)
  have "(i < 0) = (j < 0)" using assms(1) minus by (auto simp: show_int_def split: if_splits) (metis minus)+
  with assms show ?thesis by (auto simp: show_int_def dest!: show_nat_split split: if_splits)
qed

lemma of_hex_digit: "d < 16 \<Longrightarrow> of_char (hex_digit d) = (if d < 10 then 48 + d else 87 + d)"
  by (simp add: hex_digit_def)

lemma hex_digit_inject: "d < 16 \<Longrightarrow> e < 16 \<Longrightarrow> hex_digit d = hex_digit e \<Longrightarrow> d = e"
  by (drule arg_cong [of _ _ "of_char :: char \<Rightarrow> nat"]) (simp add: of_hex_digit split: if_splits)

lemma escape_split: "escape c @ x = escape d @ y \<Longrightarrow> c = d \<and> x = y"
proof -
  assume e: "escape c @ x = escape d @ y"
  have hex: "c = d" if "hex_digit (of_char c div 16) = hex_digit (of_char d div 16)"
      "hex_digit (of_char c mod 16) = hex_digit (of_char d mod 16)" "(of_char c :: nat) < 32" "(of_char d :: nat) < 32"
  proof -
    have "(of_char c :: nat) div 16 = of_char d div 16" "(of_char c :: nat) mod 16 = of_char d mod 16"
      using that by (auto intro!: hex_digit_inject)
    then have "(of_char c :: nat) = of_char d" by (metis div_mult_mod_eq)
    then show ?thesis by simp
  qed
  show ?thesis using e by (simp add: escape_def split: if_splits) (use hex in auto)
qed

lemma escape_hd: "\<exists>h t. escape c = h # t \<and> h \<noteq> CHR 0x22"
  by (simp add: escape_def)

lemma escape_not_quote: "escape c @ x \<noteq> CHR 0x22 # y"
  using escape_hd [of c] by auto

lemma escapes_split:
  "concat (map escape s) @ CHR 0x22 # r = concat (map escape t) @ CHR 0x22 # r' \<Longrightarrow> s = t \<and> r = r'"
proof (induction s arbitrary: t)
  case Nil
  then show ?case using escape_not_quote by (cases t) (auto, metis)
next
  case (Cons c s)
  show ?case
  proof (cases t)
    case Nil
    with Cons.prems show ?thesis using escape_not_quote by simp
  next
    case (Cons d t')
    with Cons.prems have "escape c @ concat (map escape s) @ CHR 0x22 # r = escape d @ concat (map escape t') @ CHR 0x22 # r'"
      by simp
    from escape_split [OF this] Cons.IH Cons show ?thesis by blast
  qed
qed

lemma quote_split: "quote s @ r = quote t @ r' \<Longrightarrow> s = t \<and> r = r'"
  by (rule escapes_split) (simp only: quote_def append_Cons append_assoc append_Nil list.inject)

lemma quote_hd: "\<exists>t. quote s = CHR 0x22 # t"
  by (simp add: quote_def)

lemma join_comma_Cons: "join_comma (s # ss) = s @ concat (map (\<lambda>s. CHR '','' # s) ss)"
  by (induction ss arbitrary: s) simp_all

text \<open>
  A list in brackets: the texts of the elements can be split off, none starts with the closing
  character, and neither it nor the comma is a digit.
\<close>

definition splits :: "('a \<Rightarrow> string) \<Rightarrow> ('a \<Rightarrow> bool) \<Rightarrow> 'a \<Rightarrow> bool" where
  "splits T P v \<longleftrightarrow> (\<forall>w r r'. P w \<longrightarrow> ends r \<longrightarrow> ends r' \<longrightarrow> T v @ r = T w @ r' \<longrightarrow> v = w \<and> r = r')"

lemma splitsD:
  "splits T P v \<Longrightarrow> T v @ r = T w @ r' \<Longrightarrow> P w \<Longrightarrow> ends r \<Longrightarrow> ends r' \<Longrightarrow> v = w \<and> r = r'"
  unfolding splits_def by blast

lemma comma_not_digit [simp]: "\<not> is_digit CHR '',''" "\<not> is_digit CHR '']''" "\<not> is_digit CHR ''}''"
  by (simp_all add: is_digit_def)

lemma tail_split:
  assumes "\<And>v. v \<in> set vs \<Longrightarrow> splits T P v" and "list_all P ws" and "c \<noteq> CHR '',''" and "\<not> is_digit c"
    and "concat (map (\<lambda>v. CHR '','' # T v) vs) @ c # r = concat (map (\<lambda>v. CHR '','' # T v) ws) @ c # r'"
  shows "vs = ws \<and> r = r'"
  using assms
proof (induction vs arbitrary: ws)
  case Nil
  then show ?case by (cases ws) auto
next
  case (Cons v vs)
  show ?case
  proof (cases ws)
    case Nil
    with Cons.prems(3,5) show ?thesis by simp
  next
    case (Cons w ws')
    let ?t = "\<lambda>xs s. concat (map (\<lambda>v. CHR '','' # T v) xs) @ c # s"
    have e: "ends (?t xs s)" for xs s using Cons.prems(4) by (cases xs) simp_all
    from Cons Cons.prems(5) have "T v @ ?t vs r = T w @ ?t ws' r'" by simp
    from splitsD [OF Cons.prems(1) this] Cons Cons.prems(2) e have "v = w" "?t vs r = ?t ws' r'" by auto
    with Cons.IH [of ws'] Cons.prems Cons show ?thesis by simp
  qed
qed

lemma join_split:
  assumes "\<And>v. v \<in> set vs \<Longrightarrow> splits T P v" and "list_all P ws" and "c \<noteq> CHR '',''" and "\<not> is_digit c"
    and "\<And>v. \<exists>d t. T v = d # t \<and> d \<noteq> c"
    and "join_comma (map T vs) @ c # r = join_comma (map T ws) @ c # r'"
  shows "vs = ws \<and> r = r'"
proof -
  have ne: "T v @ s \<noteq> c # t" for v s t using assms(5) [of v] by auto
  show ?thesis
  proof (cases vs; cases ws)
    fix v vs' w ws' assume l: "vs = v # vs'" "ws = w # ws'"
    with assms(6) have "concat (map (\<lambda>v. CHR '','' # T v) vs) @ c # r = concat (map (\<lambda>v. CHR '','' # T v) ws) @ c # r'"
      by (simp add: join_comma_Cons comp_def)
    from tail_split [OF _ assms(2-4) this] assms(1) show ?thesis by blast
  qed (use assms(6) ne ne [symmetric] in \<open>auto simp: join_comma_Cons\<close>)
qed

text \<open>The first character of a text tells the constructor.\<close>

fun starter :: "js_value \<Rightarrow> char \<Rightarrow> bool" where
  "starter JNull c = (c = CHR ''n'')"
| "starter (JBool True) c = (c = CHR ''t'')"
| "starter (JBool False) c = (c = CHR ''f'')"
| "starter (JNum i) c = (c = CHR ''-'' \<or> is_digit c)"
| "starter (JBig i) c = (c = CHR 0x22)"
| "starter (JStr s) c = (c = CHR 0x22)"
| "starter (JArr vs) c = (c = CHR ''['')"
| "starter (JObj fs) c = (c = CHR ''{'')"

lemma js_value_cases:
  obtains "v = JNull" | "v = JBool True" | "v = JBool False" | i where "v = JNum i" | i where "v = JBig i"
  | s where "v = JStr s" | vs where "v = JArr vs" | fs where "v = JObj fs"
  by (cases v rule: js_value.exhaust) (metis (full_types))+

lemma json_text_hd: "\<exists>c t. json_text v = c # t \<and> starter v c"
  using quote_hd show_nat_hd by (cases v rule: js_value_cases) (auto simp: show_int_def, metis+)

lemma json_text_not_close: "\<exists>d t. json_text v = d # t \<and> d \<noteq> CHR '']''"
  using json_text_hd [of v] by (cases v rule: js_value_cases) (auto simp: is_digit_def)

lemma same_starter:
  assumes "json_text v @ r = json_text w @ r'"
  shows "\<exists>c. starter v c \<and> starter w c"
  using assms json_text_hd [of v] json_text_hd [of w] by auto

lemma splits_scalar:
  assumes "\<not> has_bigint v" and "\<And>vs. v \<noteq> JArr vs" and "\<And>fs. v \<noteq> JObj fs"
  shows "splits json_text (\<lambda>w. \<not> has_bigint w) v"
  unfolding splits_def
proof (intro allI impI)
  fix w r r' assume w: "\<not> has_bigint w" "ends r" "ends r'" and e: "json_text v @ r = json_text w @ r'"
  from same_starter [OF e] obtain c where "starter v c" "starter w c" by blast
  then show "v = w \<and> r = r'" using assms w e
    by (cases v rule: js_value_cases; cases w rule: js_value_cases)
       (auto simp: is_digit_def dest: show_int_split quote_split)
qed

lemma json_text_splits: "\<not> has_bigint v \<Longrightarrow> splits json_text (\<lambda>w. \<not> has_bigint w) v"
proof (induction v rule: json_text.induct)
  case (6 vs)
  have IH: "splits json_text (\<lambda>w. \<not> has_bigint w) v" if "v \<in> set vs" for v
    using 6 that by (auto simp: list_ex_iff)
  show ?case unfolding splits_def
  proof (intro allI impI)
    fix w r r' assume w: "\<not> has_bigint w" and e: "json_text (JArr vs) @ r = json_text w @ r'"
    from same_starter [OF e] obtain ws where ws: "w = JArr ws" by (cases w rule: js_value_cases) (auto simp: is_digit_def)
    with w have "list_all (\<lambda>w. \<not> has_bigint w) ws" by (auto simp: list_all_iff list_ex_iff)
    from join_split [OF IH this _ _ json_text_not_close, where r = r and r' = r'] e ws show "JArr vs = w \<and> r = r'" by simp
  qed
next
  case (7 fs)
  let ?T = "\<lambda>(k, v). quote k @ CHR '':'' # json_text v" and ?P = "\<lambda>(k, v). \<not> has_bigint v"
  have IH: "splits ?T ?P p" if "p \<in> set fs" for p
  proof -
    obtain k v where p: "p = (k, v)" by force
    with 7 that have v: "splits json_text (\<lambda>w. \<not> has_bigint w) v" by (force simp: list_ex_iff)
    show ?thesis unfolding splits_def
    proof (intro allI impI)
      fix q r r' assume a: "?P q" "ends r" "ends r'" "?T p @ r = ?T q @ r'"
      obtain k' v' where q: "q = (k', v')" by force
      with a(4) p have "quote k @ CHR '':'' # json_text v @ r = quote k' @ CHR '':'' # json_text v' @ r'" by simp
      from quote_split [OF this] v a(1-3) p q show "p = q \<and> r = r'" by (auto simp: splits_def)
    qed
  qed
  have hd: "\<exists>d t. ?T p = d # t \<and> d \<noteq> CHR ''}''" for p using quote_hd [of "fst p"] by (cases p) auto
  show ?case unfolding splits_def
  proof (intro allI impI)
    fix w r r' assume w: "\<not> has_bigint w" and e: "json_text (JObj fs) @ r = json_text w @ r'"
    from same_starter [OF e] obtain ws where ws: "w = JObj ws" by (cases w rule: js_value_cases) (auto simp: is_digit_def)
    with w have "list_all ?P ws" by (auto simp: list_all_iff list_ex_iff)
    from join_split [OF IH this _ _ hd, where r = r and r' = r'] e ws show "JObj fs = w \<and> r = r'" by simp
  qed
qed (auto intro!: splits_scalar)

lemma json_text_inject:
  "\<not> has_bigint v \<Longrightarrow> \<not> has_bigint w \<Longrightarrow> json_text v = json_text w \<longleftrightarrow> v = w"
  using splitsD [OF json_text_splits, of v "[]" w "[]"] by auto

subsection \<open>JSON texts as keys\<close>

text \<open>
  The interface of a key: different values have different keys. The users of \<open>JSON.stringify\<close> as
  a key rely on it; it is interpreted on each of their keys.
\<close>

locale injective_key =
  fixes key :: "'a \<Rightarrow> 'k"
  assumes key_inject: "key x = key y \<longleftrightarrow> x = y"
begin

lemma uniqBy_key: "uniqBy key xs = uniq xs"
  by (induction xs) (auto simp: key_inject removeAll_filter_not_eq intro!: filter_cong)

lemma key_update: "(cache(key x \<mapsto> v)) (key y) = (if x = y then Some v else cache (key y))"
  by (simp add: key_inject)

end

text \<open>A key made of the text of a value that determines its argument and has no \<open>bigint\<close>.\<close>

lemma json_key:
  assumes "\<And>x y. f x = f y \<longleftrightarrow> x = y" and "\<And>x. \<not> has_bigint (f x)"
  shows "injective_key (\<lambda>x. json_text (f x))"
  using assms by unfold_locales (simp add: json_text_inject)

lemma optional_field_keys [simp]: "k \<in> fst ` set (optional_field k' f x) \<longleftrightarrow> k = k' \<and> x \<noteq> None"
  by (auto simp: optional_field_def split: option.splits)

lemma optional_field_inject:
  assumes "\<And>x y. f x = f y \<longleftrightarrow> x = y" and "k \<notin> fst ` set fs" and "k \<notin> fst ` set fs'"
  shows "optional_field k f x @ fs = optional_field k f y @ fs' \<longleftrightarrow> x = y \<and> fs = fs'"
proof (cases x; cases y)
  fix a assume "x = None" "y = Some a"
  with assms(2) show ?thesis by (force simp: optional_field_def)
next
  fix a assume "x = Some a" "y = None"
  with assms(3) show ?thesis by (force simp: optional_field_def)
qed (use assms(1) in \<open>auto simp: optional_field_def\<close>)

lemmas optional_field_inject_single = optional_field_inject [of _ _ "[]" "[]", simplified]

lemma nullable_inject:
  "(\<And>x y. f x = f y \<longleftrightarrow> x = y) \<Longrightarrow> (\<And>x. f x \<noteq> JNull) \<Longrightarrow> nullable f x = nullable f y \<longleftrightarrow> x = y"
  by (cases x; cases y) (auto simp: nullable_def, metis)

lemma strings_json_inject [simp]: "strings_json ss = strings_json ts \<longleftrightarrow> ss = ts"
  by (simp add: strings_json_def inj_def)

lemma strings_json_simps [simp]: "strings_json ss \<noteq> JNull" "\<not> has_bigint (strings_json ss)"
  by (simp_all add: strings_json_def list_ex_iff)

lemma has_bigint_optional [simp]:
  "list_ex (\<lambda>(k, v). has_bigint v) (optional_field k f x) \<longleftrightarrow> (\<exists>y. x = Some y \<and> has_bigint (f y))"
  by (auto simp: optional_field_def split: option.splits)

lemma has_bigint_nullable [simp]: "has_bigint (nullable f x) \<longleftrightarrow> (\<exists>y. x = Some y \<and> has_bigint (f y))"
  by (auto simp: nullable_def split: option.splits)

end
