(* ===== verification/SolanaTypes.thy ===== *)
theory SolanaTypes
  imports Json
begin

section \<open>Blocks, transactions, instructions, logs and headers\<close>

text \<open>
  The data of \<open>packages/types/src/solana.ts\<close> as records. The raw shapes are those of
  the RPC response (\<open>TransactionForFullJson\<close>), the wrapped ones those handed to the
  handlers. \<open>'i tx_message\<close> is shared by both: \<open>'i\<close> is the instruction type.
  \<open>Header\<close> is the record of \<open>@subql/node-core\<close> with the fields the code builds.
\<close>

record header =
  blockHeight :: int
  blockHash :: string
  parentHash :: "string option"
  timestamp :: int

record base_block =
  bb_blockHeight :: int
  bb_blockTime :: int
  bb_blockhash :: string
  bb_parentSlot :: int
  bb_previousBlockhash :: string
  bb_rest :: js_fields

record raw_instruction =
  accounts :: "nat list"
  data :: string
  programIdIndex :: nat
  stackHeight :: "nat option"

record 'i tx_message =
  accountKeys :: "string list"
  instructions :: "'i list"
  message_rest :: js_fields

record 'i tx_body =
  message :: "'i tx_message"
  signatures :: "string list"

record 'i inner_instructions =
  ii_index :: nat
  ii_instructions :: "'i list"

record loaded_addresses =
  writable :: "string list"
  readonly :: "string list"

text \<open>
  The fields of a block that only the response has (its rewards) are \<open>bb_rest\<close>. The fields of \<open>meta\<close> common to the raw and the wrapped transaction; those only copied
  (balances, rewards, status, return data and compute units) are \<open>meta_rest\<close>, as the
  message's header, recent blockhash and lookups are \<open>message_rest\<close>.
\<close>

record tx_meta =
  err :: "js_value option"
  fee :: int
  loadedAddresses :: loaded_addresses
  meta_rest :: js_fields

datatype log_kind = LogLog | LogData | LogOther

text \<open>A log line as the dictionary returns it (\<open>block.solana.ts\<close>, \<open>DictionaryLog\<close>).\<close>

record dictionary_log =
  dl_message :: string
  dl_logIndex :: nat
  dl_programId :: string
  dl_kind :: log_kind

record raw_meta = tx_meta +
  raw_innerInstructions :: "raw_instruction inner_instructions list option"
  logMessages :: "string list option"
  dictionaryLogs :: "dictionary_log list option"

record ('i, 'm) tx =
  transaction :: "'i tx_body"
  meta :: "'m tx_meta_scheme option"
  version :: js_value

type_synonym raw_tx = "(raw_instruction, unit raw_meta_ext) tx"

record raw_block = base_block +
  raw_transactions :: "raw_tx list"

text \<open>Decoded data has a name and an arbitrary JavaScript value, which the code only passes on.\<close>

record decoded_data =
  dd_name :: string
  dd_data :: js_value

text \<open>
  A wrapped instruction keeps the raw transaction and the base block; \<open>pendingDecode\<close> is
  the closure variable of \<open>wrapInstruction\<close> behind the getter \<open>decodedData\<close>:
  \<open>None\<close> until the first access.
\<close>

record sol_instruction = raw_instruction +
  index :: "nat list"
  inst_transaction :: raw_tx
  inst_block :: base_block
  pendingDecode :: "decoded_data option option"

text \<open>\<open>programId\<close> of a log is \<open>undefined\<close> when no instruction is on the stack.\<close>

record log_message =
  log_text :: string
  log_programId :: "string option"
  logIndex :: nat
  log_type :: log_kind
  log_pendingDecode :: "decoded_data option option"

text \<open>
  The spread of the raw \<open>meta\<close> keeps its \<open>logMessages\<close>: absent in a block of the dictionary,
  an array or \<open>null\<close> in one of the endpoint.
\<close>

record sol_meta = tx_meta +
  kept_logMessages :: "string list option option"
  innerInstructions :: "sol_instruction inner_instructions list"
  logs :: "log_message list option"

record sol_tx = "(sol_instruction, unit sol_meta_ext) tx" +
  tx_block :: base_block

record sol_block = base_block +
  transactions :: "sol_tx list"

text \<open>\<open>xs\<close> of the filters: all fields optional, as in the interfaces.\<close>

record block_filter =
  modulo :: "int option"
  filter_timestamp :: "string option"

record transaction_filter =
  signerAccountKey :: "string option"

record instruction_filter =
  if_programId :: "string option"
  discriminator :: "string option"
  if_accounts :: "string list option list option"
  includeFailed :: "bool option"

record log_filter =
  lf_programId :: "string option"

end
