(* ===== verification/BlockTransform.thy ===== *)
theory BlockTransform
  imports SolanaTypes
begin

section \<open>From raw blocks to the blocks handed to handlers\<close>

text \<open>
  \<open>packages/node/src/solana/block.solana.ts\<close>: \<open>wrapInstruction\<close>, \<open>wrapLogs\<close>,
  \<open>wrapDictionaryLogs\<close>, \<open>transformBlock\<close>, \<open>formatBlockUtil\<close> and
  \<open>solanaBlockToHeader\<close>, with the lazy getters \<open>decodedData\<close> and
  \<open>decodedMessage\<close>.
\<close>

subsection \<open>Instructions\<close>

definition wrapInstruction ::
  "nat list \<Rightarrow> raw_instruction \<Rightarrow> raw_tx \<Rightarrow> base_block \<Rightarrow> sol_instruction" where
  "wrapInstruction idx instruction tx block =
     \<lparr>accounts = accounts instruction, data = data instruction,
      programIdIndex = programIdIndex instruction, stackHeight = stackHeight instruction,
      index = idx, inst_transaction = tx, inst_block = block, pendingDecode = None\<rparr>"

text \<open>
  The getter: \<open>pendingDecode ??= decoder.decodeInstruction(this)\<close>. The first access
  decodes and stores the promise, later ones return the stored one.
\<close>

definition get_decodedData ::
  "(sol_instruction \<Rightarrow> decoded_data option) \<Rightarrow> sol_instruction
     \<Rightarrow> decoded_data option \<times> sol_instruction" where
  "get_decodedData decodeInstruction inst =
     (case pendingDecode inst of
        Some d \<Rightarrow> (d, inst)
      | None \<Rightarrow> (let d = decodeInstruction inst in (d, inst\<lparr>pendingDecode := Some d\<rparr>)))"

subsection \<open>Logs\<close>

definition mk_log :: "string \<Rightarrow> string list \<Rightarrow> nat \<Rightarrow> log_kind \<Rightarrow> log_message" where
  "mk_log msg instructionPath idx kind =
     \<lparr>log_text = msg, log_programId = last_opt instructionPath, logIndex = idx,
      log_type = kind, log_pendingDecode = None\<rparr>"

text \<open>
  The \<open>switch (mode)\<close> on a line \<open>Program <address> <mode> ...\<close>; a line with fewer
  than three words has \<open>mode === undefined\<close>.
\<close>

definition unknown_mode :: "string \<Rightarrow> string \<Rightarrow> js_error" where
  "unknown_mode mode log = Error (''Unknown log mode: '' @ mode @ '', log: '' @ log)"

definition program_line :: "string list \<Rightarrow> string \<Rightarrow> string list result" where
  "program_line instructionPath log =
     (case split_at CHR '' '' log of
        _ # programAddress # mode # rest \<Rightarrow>
          (if mode = ''invoke'' then Inr (instructionPath @ [programAddress])
           else if mode = ''success'' then Inr (butlast instructionPath)
           else if mode = ''consumed'' then Inr instructionPath
           else if mode = ''failed:'' then Inr (butlast instructionPath)
           else Inl (unknown_mode mode log))
      | _ \<Rightarrow> Inl (unknown_mode ''undefined'' log))"

text \<open>One iteration of the loop: the new stack and the message pushed, if any.\<close>

definition wrapLogs_line ::
  "string list \<Rightarrow> nat \<Rightarrow> string \<Rightarrow> (string list \<times> log_message list) result" where
  "wrapLogs_line instructionPath idx log =
     (if startsWith log ''Program log:'' then
        Inr (instructionPath, [mk_log log instructionPath idx LogLog])
      else if startsWith log ''Program data:'' then
        Inr (instructionPath, [mk_log log instructionPath idx LogData])
      else if startsWith log ''Program return:'' then
        Inr (instructionPath, [mk_log log instructionPath idx LogOther])
      else if startsWith log ''Program consumption:'' then Inr (instructionPath, [])
      else if startsWith log ''Program'' then
        (case program_line instructionPath log of
           Inl e \<Rightarrow> Inl e
         | Inr path \<Rightarrow> Inr (path, []))
      else Inr (instructionPath, []))"

fun wrapLogs_loop ::
  "string list \<Rightarrow> nat \<Rightarrow> log_message list \<Rightarrow> string list \<Rightarrow> (string list \<times> log_message list) result" where
  "wrapLogs_loop instructionPath idx res [] = Inr (instructionPath, res)"
| "wrapLogs_loop instructionPath idx res (log # lines) =
     (case wrapLogs_line instructionPath idx log of
        Inl e \<Rightarrow> Inl e
      | Inr (path, out) \<Rightarrow> wrapLogs_loop path (Suc idx) (res @ out) lines)"

definition wrapLogs :: "string list option \<Rightarrow> log_message list option result" where
  "wrapLogs logLines =
     (case logLines of
        None \<Rightarrow> Inr None
      | Some ls \<Rightarrow> (case wrapLogs_loop [] 0 [] ls of
                     Inl e \<Rightarrow> Inl e
                   | Inr (path, res) \<Rightarrow> Inr (Some res)))"

definition wrapDictionaryLogs :: "dictionary_log list \<Rightarrow> log_message list" where
  "wrapDictionaryLogs ls =
     map (\<lambda>l. \<lparr>log_text = dl_message l, log_programId = Some (dl_programId l),
               logIndex = dl_logIndex l, log_type = dl_kind l, log_pendingDecode = None\<rparr>) ls"

text \<open>The getter \<open>decodedMessage\<close>: \<open>null\<close> for a plain log, memoised otherwise.\<close>

definition get_decodedMessage ::
  "(log_message \<Rightarrow> decoded_data option) \<Rightarrow> log_message \<Rightarrow> decoded_data option \<times> log_message" where
  "get_decodedMessage decodeLog l =
     (if log_type l = LogLog then (None, l)
      else case log_pendingDecode l of
        Some d \<Rightarrow> (d, l)
      | None \<Rightarrow> (let d = decodeLog l in (d, l\<lparr>log_pendingDecode := Some d\<rparr>)))"

subsection \<open>Transactions and blocks\<close>

definition transformMeta :: "raw_tx \<Rightarrow> base_block \<Rightarrow> unit raw_meta_ext tx_meta_scheme \<Rightarrow> sol_meta result" where
  "transformMeta tx baseBlock m =
     (case (case dictionaryLogs m of
              Some ls \<Rightarrow> Inr (Some (wrapDictionaryLogs ls))
            | None \<Rightarrow> wrapLogs (logMessages m)) of
        Inl e \<Rightarrow> Inl e
      | Inr wrapped \<Rightarrow> Inr
          \<lparr>err = err m, fee = fee m, loadedAddresses = loadedAddresses m,
           meta_rest = meta_rest m, kept_logMessages = (if dictionaryLogs m = None then Some (logMessages m) else map_option Some (logMessages m)),
           innerInstructions =
             map (\<lambda>inner. \<lparr>ii_index = ii_index inner,
                           ii_instructions =
                             mapi (\<lambda>innerIndex instruction.
                                     wrapInstruction [ii_index inner, innerIndex] instruction tx baseBlock)
                                  (ii_instructions inner)\<rparr>)
                 (case raw_innerInstructions m of None \<Rightarrow> [] | Some inners \<Rightarrow> inners),
           logs = wrapped\<rparr>)"

definition transformTx :: "base_block \<Rightarrow> raw_tx \<Rightarrow> sol_tx result" where
  "transformTx baseBlock tx =
     (let body = transaction tx;
          body' = \<lparr>message = \<lparr>accountKeys = accountKeys (message body),
                              instructions = mapi (\<lambda>i instruction. wrapInstruction [i] instruction tx baseBlock)
                                               (instructions (message body)),
                              message_rest = message_rest (message body)\<rparr>,
                   signatures = signatures body\<rparr>
      in case (case meta tx of
                 None \<Rightarrow> Inr None
               | Some m \<Rightarrow> (case transformMeta tx baseBlock m of Inl e \<Rightarrow> Inl e | Inr m' \<Rightarrow> Inr (Some m'))) of
           Inl e \<Rightarrow> Inl (ErrorCause (''Failed to transform transaction: '' @
                      (case signatures body of s # _ \<Rightarrow> s | [] \<Rightarrow> ''undefined'')) e)
         | Inr m' \<Rightarrow> Inr \<lparr>transaction = body', meta = m', version = version tx, tx_block = baseBlock\<rparr>)"

definition transformBlock :: "raw_block \<Rightarrow> sol_block result" where
  "transformBlock block =
     (let baseBlock = base_block.truncate block
      in case traverse (transformTx baseBlock) (raw_transactions block) of
           Inl e \<Rightarrow> Inl e
         | Inr txs \<Rightarrow> Inr (base_block.extend baseBlock (sol_block.fields txs)))"

subsection \<open>Headers\<close>

definition solanaBlockToHeader :: "'z base_block_scheme \<Rightarrow> int option \<Rightarrow> header" where
  "solanaBlockToHeader block slot =
     \<lparr>blockHeight = (case slot of Some s \<Rightarrow> s | None \<Rightarrow> bb_parentSlot block + 1),
      blockHash = bb_blockhash block,
      parentHash = Some (bb_previousBlockhash block),
      timestamp = bb_blockTime block * 1000\<rparr>"

text \<open>\<open>IBlock\<close>: the block and the value of its \<open>getHeader\<close> (a pure closure).\<close>

record iblock =
  ib_block :: sol_block
  getHeader :: header

definition formatBlockUtil :: "sol_block \<Rightarrow> int option \<Rightarrow> iblock" where
  "formatBlockUtil block slot =
     \<lparr>ib_block = block, getHeader = solanaBlockToHeader block slot\<rparr>"

lemma solanaBlockToHeader_simps [simp]:
  "blockHeight (solanaBlockToHeader b (Some s)) = s"
  "blockHeight (solanaBlockToHeader b None) = bb_parentSlot b + 1"
  "blockHash (solanaBlockToHeader b slot) = bb_blockhash b"
  "parentHash (solanaBlockToHeader b slot) = Some (bb_previousBlockhash b)"
  "timestamp (solanaBlockToHeader b slot) = bb_blockTime b * 1000"
  by (simp_all add: solanaBlockToHeader_def)

lemma formatBlockUtil_simps [simp]:
  "ib_block (formatBlockUtil b slot) = b"
  "getHeader (formatBlockUtil b slot) = solanaBlockToHeader b slot"
  by (simp_all add: formatBlockUtil_def)

end
