(* ===== verification/RpcApi.thy ===== *)
theory RpcApi
  imports BlockTransform
begin

section \<open>The RPC client: headers, blocks and their errors\<close>

text \<open>
  \<open>packages/node/src/solana/api.solana.ts\<close>, \<open>api.connection.ts\<close>,
  \<open>api.service.solana.ts\<close> and \<open>configure/NodeConfig.ts\<close>. The JSON-RPC client of
  \<open>@solana/rpc\<close> is a record of functions (\<open>rpc_client\<close>), a parameter of the model:
  each field is one request, answered or rejected. The interface \<open>header_source\<close> is
  what the unfinalized-blocks service needs of \<open>getHeaderByHeight\<close>; it is interpreted
  here on the model of the code.
\<close>

subsection \<open>The client and the API object\<close>

record rpc_client =
  rpc_getGenesisHash :: "string result"
  rpc_getSlot :: "string \<Rightarrow> int result"
  rpc_getBlockHeader :: "int \<Rightarrow> base_block option result"
  rpc_getBlock :: "int \<Rightarrow> raw_block option result"

record solana_api =
  api_client :: rpc_client
  api_genesisBlockHash :: string
  api_endpoint :: string
  api_requestTimeout :: int
  api_treatLongTermStorageSkipAsSkipped :: bool

definition REQUEST_TIMEOUT :: int where
  "REQUEST_TIMEOUT = 30000"

fun isSkippedSlotError :: "js_error \<Rightarrow> bool \<Rightarrow> bool" where
  "isSkippedSlotError (SolanaError SERVER_ERROR_SLOT_SKIPPED m st) treatLongTermStorageSkipAsSkipped = True"
| "isSkippedSlotError (SolanaError SERVER_ERROR_LONG_TERM_STORAGE_SLOT_SKIPPED m st)
     treatLongTermStorageSkipAsSkipped = treatLongTermStorageSkipAsSkipped"
| "isSkippedSlotError e treatLongTermStorageSkipAsSkipped = False"

text \<open>
  \<open>SolanaApi.create\<close>: optional configuration, default arguments of the constructor.
  \<open>createSolanaRpc\<close> of \<open>@solana/rpc\<close> is the first parameter.
\<close>

definition create_api ::
  "(string \<Rightarrow> rpc_client result) \<Rightarrow> string \<Rightarrow> int option \<Rightarrow> bool option \<Rightarrow> solana_api result" where
  "create_api createSolanaRpc endpoint requestTimeout treatLongTermStorageSkipAsSkipped =
     (case createSolanaRpc endpoint of
        Inl e \<Rightarrow> Inl e
      | Inr client \<Rightarrow>
          (case rpc_getGenesisHash client of
             Inl e \<Rightarrow> Inl (ErrorCause ''Failed to get genesis hash'' e)
           | Inr genesisBlockHash \<Rightarrow> Inr
               \<lparr>api_client = client, api_genesisBlockHash = genesisBlockHash,
                api_endpoint = endpoint,
                api_requestTimeout = (case requestTimeout of None \<Rightarrow> REQUEST_TIMEOUT | Some t \<Rightarrow> t),
                api_treatLongTermStorageSkipAsSkipped =
                  (case treatLongTermStorageSkipAsSkipped of None \<Rightarrow> True | Some b \<Rightarrow> b)\<rparr>))"

text \<open>\<open>SolanaNodeConfig.treatLongTermStorageSkipAsSkipped\<close>: \<open>?? true\<close>.\<close>

definition node_config_treatSkip :: "bool option \<Rightarrow> bool" where
  "node_config_treatSkip configured = (case configured of None \<Rightarrow> True | Some b \<Rightarrow> b)"

subsection \<open>Heights, headers, blocks\<close>

definition getFinalizedBlockHeight :: "solana_api \<Rightarrow> int result" where
  "getFinalizedBlockHeight api =
     (case rpc_getSlot (api_client api) ''finalized'' of
        Inl e \<Rightarrow> Inl (ErrorCause ''Failed to get finalized height'' e)
      | Inr s \<Rightarrow> Inr s)"

definition getBestBlockHeight :: "solana_api \<Rightarrow> int result" where
  "getBestBlockHeight api =
     (case rpc_getSlot (api_client api) ''confirmed'' of
        Inl e \<Rightarrow> Inl (ErrorCause ''Failed to get best height'' e)
      | Inr s \<Rightarrow> Inr s)"

definition getHeaderByHeight :: "solana_api \<Rightarrow> int \<Rightarrow> header result" where
  "getHeaderByHeight api height =
     (case rpc_getBlockHeader (api_client api) height of
        Inl e \<Rightarrow> (if isSkippedSlotError e (api_treatLongTermStorageSkipAsSkipped api)
                  then Inl BlockUnavailableError else Inl e)
      | Inr None \<Rightarrow> Inl BlockUnavailableError
      | Inr (Some block) \<Rightarrow> Inr (solanaBlockToHeader block (Some height)))"

text \<open>
  \<open>backoffRetry\<close> of \<open>@subql/node-core\<close> is a parameter that turns the attempts
  (the n-th call of its argument) into one outcome.
\<close>

definition getFinalizedBlockHeader ::
  "((nat \<Rightarrow> header result) \<Rightarrow> header result) \<Rightarrow> solana_api \<Rightarrow> header result" where
  "getFinalizedBlockHeader backoffRetry api =
     (case (case getFinalizedBlockHeight api of
              Inl e \<Rightarrow> Inl e
            | Inr height \<Rightarrow> backoffRetry (\<lambda>attempt. getHeaderByHeight api height)) of
        Inl e \<Rightarrow> Inl (ErrorCause ''Failed to get finalized header'' e)
      | Inr h \<Rightarrow> Inr h)"

fun context_statusCode :: "js_error \<Rightarrow> int option" where
  "context_statusCode (SolanaError c m st) = st"
| "context_statusCode e = None"

text \<open>\<open>new URL(endpoint).hostname\<close>, or a \<open>TypeError\<close>, is the parameter \<open>hostname\<close>.\<close>

definition handleError :: "(string \<Rightarrow> string result) \<Rightarrow> solana_api \<Rightarrow> js_error \<Rightarrow> js_error" where
  "handleError hostname api e =
     (if context_statusCode e = Some 429
      then (case hostname (api_endpoint api) of
              Inl e' \<Rightarrow> e'
            | Inr h \<Rightarrow> Error (''Rate Limited at endpoint: '' @ h))
      else e)"

text \<open>
  \<open>fetchBlock\<close>: the body of the \<open>try\<close>, then the \<open>catch\<close>. The
  \<open>BlockUnavailableError\<close> thrown for an empty answer goes through the same \<open>catch\<close>.
\<close>

definition fetchBlock_try :: "solana_api \<Rightarrow> int \<Rightarrow> iblock result" where
  "fetchBlock_try api blockNumber =
     (case rpc_getBlock (api_client api) blockNumber of
        Inl e \<Rightarrow> Inl e
      | Inr None \<Rightarrow> Inl BlockUnavailableError
      | Inr (Some rawBlock) \<Rightarrow>
          (case transformBlock rawBlock of
             Inl e \<Rightarrow> Inl e
           | Inr block \<Rightarrow> Inr (formatBlockUtil block (Some blockNumber))))"

definition fetchBlock :: "(string \<Rightarrow> string result) \<Rightarrow> solana_api \<Rightarrow> int \<Rightarrow> iblock result" where
  "fetchBlock hostname api blockNumber =
     (case fetchBlock_try api blockNumber of
        Inl e \<Rightarrow> (if isSkippedSlotError e (api_treatLongTermStorageSkipAsSkipped api)
                  then Inl BlockUnavailableError else Inl (handleError hostname api e))
      | Inr b \<Rightarrow> Inr b)"

text \<open>
  \<open>Promise.all\<close>: all requests are made; one rejection rejects the whole. The model
  reports the first in list order.
\<close>

definition fetchBlocks :: "(string \<Rightarrow> string result) \<Rightarrow> solana_api \<Rightarrow> int list \<Rightarrow> iblock list result" where
  "fetchBlocks hostname api bufferBlocks = traverse (fetchBlock hostname api) bufferBlocks"

definition getRuntimeChain :: "solana_api \<Rightarrow> string" where
  "getRuntimeChain api =
     (if api_genesisBlockHash api = ''5eykt4UsFv8P8NJdTREpY1vzqKqZKvdpKuc147dw2N9d'' then ''mainnet''
      else if api_genesisBlockHash api = ''EKLxEB4xoEDq9AAn5HhFiP5WqdhNVc4An2HvJyzHzx7u'' then ''testnet;''
      else if api_genesisBlockHash api = ''EtWTRABZaYq6iMfeYKouRu166VU2xqa1wcaWoxPkrZBG'' then ''devnet''
      else ''unknown'')"

subsection \<open>The connection\<close>

record network_meta =
  nm_chain :: string
  nm_specName :: string
  nm_genesisHash :: string

definition getGenesisHash :: "solana_api \<Rightarrow> string" where
  "getGenesisHash api = api_genesisBlockHash api"

definition getSpecName :: string where
  "getSpecName = ''solana''"

definition networkMeta :: "solana_api \<Rightarrow> network_meta" where
  "networkMeta api =
     \<lparr>nm_chain = getGenesisHash api, nm_specName = getSpecName, nm_genesisHash = getGenesisHash api\<rparr>"

text \<open>
  \<open>SolanaApiConnection.handleError\<close> looks at the message only; the messages of errors
  whose class is defined elsewhere are the parameter \<open>messageOf\<close>.
\<close>

datatype connection_error =
    TimeoutError js_error
  | RateLimitError js_error
  | ApiConnectionError js_error

fun error_message :: "(js_error \<Rightarrow> string) \<Rightarrow> js_error \<Rightarrow> string" where
  "error_message messageOf (Error m) = m"
| "error_message messageOf (ErrorCause m e) = m"
| "error_message messageOf (SolanaError c m st) = m"
| "error_message messageOf e = messageOf e"

definition connection_handleError :: "(js_error \<Rightarrow> string) \<Rightarrow> js_error \<Rightarrow> connection_error" where
  "connection_handleError messageOf e =
     (if startsWith (error_message messageOf e) ''The operation was aborted due to timeout''
      then TimeoutError e
      else if startsWith (error_message messageOf e) ''Rate Limited at endpoint''
      then RateLimitError e
      else ApiConnectionError e)"

text \<open>
  \<open>SolanaApiConnection.fetchBlocks\<close> through \<open>fetchBlocksBatches\<close>, which is
  \<open>SolanaApiService.fetchFullBlocksBatch\<close> once \<open>updateBlockFetching\<close> has run and an
  assertion failure before. The profiler wrapper does not change the result.
\<close>

type_synonym fetch_func = "solana_api \<Rightarrow> int list \<Rightarrow> iblock list result"

definition fetchFullBlocksBatch :: "(string \<Rightarrow> string result) \<Rightarrow> fetch_func" where
  "fetchFullBlocksBatch hostname api batch = fetchBlocks hostname api batch"

definition fetchBlocksBatches :: "fetch_func option \<Rightarrow> fetch_func result" where
  "fetchBlocksBatches fetchBlocksFunction =
     (case fetchBlocksFunction of
        None \<Rightarrow> Inl (AssertionError ''Fetch blocks function is not defined'')
      | Some f \<Rightarrow> Inr f)"

definition connection_fetchBlocks :: "fetch_func option \<Rightarrow> fetch_func" where
  "connection_fetchBlocks fetchBlocksFunction api heights =
     (case fetchBlocksBatches fetchBlocksFunction of
        Inl e \<Rightarrow> Inl e
      | Inr f \<Rightarrow> f api heights)"

subsection \<open>The interface of a header source\<close>

text \<open>
  What the unfinalized-blocks service relies on when it asks for the header of a slot: a
  header it gets is the header of that slot, and it names its parent.
\<close>

locale header_source =
  fixes getHeaderForHeight :: "int \<Rightarrow> header result"
  assumes header_height: "getHeaderForHeight height = Inr h \<Longrightarrow> blockHeight h = height"
    and header_parent: "getHeaderForHeight height = Inr h \<Longrightarrow> parentHash h \<noteq> None"

lemma getHeaderByHeight_Inr:
  "getHeaderByHeight api height = Inr h \<longleftrightarrow>
     (\<exists>b. rpc_getBlockHeader (api_client api) height = Inr (Some b) \<and>
          h = solanaBlockToHeader b (Some height))"
  by (auto simp: getHeaderByHeight_def split: sum.splits option.splits if_splits)

interpretation rpc: header_source "getHeaderByHeight api" for api
  by unfold_locales (auto simp: getHeaderByHeight_Inr)

lemma getHeaderByHeight_unavailable:
  "getHeaderByHeight api height = Inl BlockUnavailableError \<longleftrightarrow>
     (case rpc_getBlockHeader (api_client api) height of
        Inl e \<Rightarrow> isSkippedSlotError e (api_treatLongTermStorageSkipAsSkipped api) \<or> e = BlockUnavailableError
      | Inr r \<Rightarrow> r = None)"
  by (auto simp: getHeaderByHeight_def split: sum.splits option.splits)

lemma fetchBlock_Inr:
  "fetchBlock hostname api n = Inr b \<longleftrightarrow>
     (\<exists>raw block. rpc_getBlock (api_client api) n = Inr (Some raw) \<and> transformBlock raw = Inr block \<and>
                  b = formatBlockUtil block (Some n))"
  by (auto simp: fetchBlock_def fetchBlock_try_def split: sum.splits option.splits if_splits)

end
