(* ===== verification/Unfinalized.thy ===== *)
theory Unfinalized
  imports RpcApi
begin

section \<open>The unfinalized-blocks service: definitions\<close>

text \<open>
  \<open>packages/node/src/indexer/unfinalizedBlocks.service.ts\<close>. The state is the record
  \<open>ub_state\<close>: the three private fields of the class and the metadata table it writes
  to. A method that changes state returns its result and the new state, and an exception
  leaves the changes made before it. The two walks towards older slots have no bound in
  the code, so they are \<open>partial_function (option)\<close>s and \<open>None\<close> means that the
  method does not return. \<open>blockchainService.getHeaderForHeight\<close> is the argument
  \<open>get\<close>.
\<close>

subsection \<open>State\<close>

text \<open>
  \<open>lastFinalizedVerifiedHeight\<close> comes back from the metadata as a number, as
  \<open>undefined\<close> when it was never stored, or as the \<open>null\<close> that
  \<open>resetLastFinalizedVerifiedHeight\<close> stores.
\<close>

datatype nullable_number = Undefined | Null | Number int

text \<open>\<open>x < n\<close> of JavaScript, where \<open>null\<close> counts as 0, and the truthiness of \<open>x\<close>.\<close>

fun js_less :: "nullable_number \<Rightarrow> int \<Rightarrow> bool" where
  "js_less Undefined n = False"
| "js_less Null n = (0 < n)"
| "js_less (Number k) n = (k < n)"

fun js_truthy :: "nullable_number \<Rightarrow> bool" where
  "js_truthy (Number k) = (k \<noteq> 0)"
| "js_truthy x = False"

text \<open>
  A metadata value: the text \<open>JSON.stringify(unfinalizedBlocks)\<close>, represented by the
  header list it parses back to, or a nullable number.
\<close>

datatype metadata_value = JsonHeaders "header list" | MetaNumber nullable_number

type_synonym metadata = "string \<Rightarrow> metadata_value option"

record ub_state =
  ub_unfinalizedBlocks :: "header list option"
  ub_finalizedHeader :: "header option"
  ub_lastCheckedBlockHeight :: nullable_number
  ub_metadata :: metadata

definition METADATA_UNFINALIZED_BLOCKS_KEY :: string where
  "METADATA_UNFINALIZED_BLOCKS_KEY = ''unfinalizedBlocks''"

definition METADATA_LAST_FINALIZED_PROCESSED_KEY :: string where
  "METADATA_LAST_FINALIZED_PROCESSED_KEY = ''lastFinalizedVerifiedHeight''"

definition UNFINALIZED_THRESHOLD :: int where
  "UNFINALIZED_THRESHOLD = 200"

definition not_initialized :: js_error where
  "not_initialized = Error ''Unfinalized blocks service has not been initialized''"

definition unfinalizedBlocks :: "ub_state \<Rightarrow> header list result" where
  "unfinalizedBlocks s =
     (case ub_unfinalizedBlocks s of None \<Rightarrow> Inl not_initialized | Some ubs \<Rightarrow> Inr ubs)"

definition finalizedHeader :: "ub_state \<Rightarrow> header result" where
  "finalizedHeader s =
     (case ub_finalizedHeader s of None \<Rightarrow> Inl not_initialized | Some f \<Rightarrow> Inr f)"

definition finalizedBlockNumber :: "ub_state \<Rightarrow> int result" where
  "finalizedBlockNumber s =
     (case finalizedHeader s of Inl e \<Rightarrow> Inl e | Inr header \<Rightarrow> Inr (blockHeight header))"

declare unfinalizedBlocks_def [ub_defs] finalizedHeader_def [ub_defs] finalizedBlockNumber_def [ub_defs]

subsection \<open>Metadata\<close>

definition saveUnfinalizedBlocks :: "header list \<Rightarrow> ub_state \<Rightarrow> ub_state" where
  "saveUnfinalizedBlocks ubs s =
     s\<lparr>ub_metadata := (ub_metadata s)(METADATA_UNFINALIZED_BLOCKS_KEY \<mapsto> JsonHeaders ubs)\<rparr>"

definition saveLastFinalizedVerifiedHeight :: "int \<Rightarrow> ub_state \<Rightarrow> ub_state" where
  "saveLastFinalizedVerifiedHeight height s =
     s\<lparr>ub_metadata := (ub_metadata s)(METADATA_LAST_FINALIZED_PROCESSED_KEY \<mapsto> MetaNumber (Number height))\<rparr>"

definition resetUnfinalizedBlocks :: "ub_state \<Rightarrow> ub_state" where
  "resetUnfinalizedBlocks s =
     s\<lparr>ub_metadata := (ub_metadata s)(METADATA_UNFINALIZED_BLOCKS_KEY \<mapsto> JsonHeaders []),
       ub_unfinalizedBlocks := Some []\<rparr>"

definition resetLastFinalizedVerifiedHeight :: "ub_state \<Rightarrow> ub_state" where
  "resetLastFinalizedVerifiedHeight s =
     s\<lparr>ub_metadata := (ub_metadata s)(METADATA_LAST_FINALIZED_PROCESSED_KEY \<mapsto> MetaNumber Null)\<rparr>"

definition getMetadataUnfinalizedBlocks :: "ub_state \<Rightarrow> header list" where
  "getMetadataUnfinalizedBlocks s =
     (case ub_metadata s METADATA_UNFINALIZED_BLOCKS_KEY of
        Some (JsonHeaders ubs) \<Rightarrow> ubs
      | _ \<Rightarrow> [])"

definition getLastFinalizedVerifiedHeight :: "ub_state \<Rightarrow> nullable_number" where
  "getLastFinalizedVerifiedHeight s =
     (case ub_metadata s METADATA_LAST_FINALIZED_PROCESSED_KEY of
        Some (MetaNumber n) \<Rightarrow> n
      | _ \<Rightarrow> Undefined)"

subsection \<open>Registering headers\<close>

definition registerFinalizedBlock :: "header \<Rightarrow> ub_state \<Rightarrow> unit result \<times> ub_state" where
  "registerFinalizedBlock header s =
     (case finalizedHeader s of
        Inl e \<Rightarrow> (Inl e, s)
      | Inr f \<Rightarrow>
          (if blockHeight f \<ge> blockHeight header then (Inr (), s)
           else (Inr (), s\<lparr>ub_finalizedHeader := Some header\<rparr>)))"

text \<open>
  The loop of \<open>backfillSkippedSlots\<close> on the list it pushes to: \<open>Inr None\<close> is the end
  of the loop, \<open>Inr (Some h)\<close> the fork it returns early with.
\<close>

function backfillSkippedSlots ::
  "(int \<Rightarrow> header result) \<Rightarrow> int \<Rightarrow> int \<Rightarrow> header list \<Rightarrow> header option result \<times> header list" where
  "backfillSkippedSlots get height endHeight ubs =
     (if height \<le> endHeight then
        (case get height of
           Inl e \<Rightarrow>
             (if e = BlockUnavailableError
              then backfillSkippedSlots get (height + 1) endHeight ubs
              else (Inl e, ubs))
         | Inr header \<Rightarrow>
             (if (case last_opt ubs of
                    Some previousHeader \<Rightarrow> parentHash header \<noteq> Some (blockHash previousHeader)
                  | None \<Rightarrow> False)
              then (Inr (Some header), ubs)
              else backfillSkippedSlots get (height + 1) endHeight (ubs @ [header])))
      else (Inr None, ubs))"
  by pat_completeness auto
termination
  by (relation "measure (\<lambda>(get, height, endHeight, ubs). nat (endHeight + 1 - height))") auto

declare backfillSkippedSlots.simps [simp del]

text \<open>\<open>push\<close> and \<open>saveUnfinalizedBlocks\<close>.\<close>

definition push_and_save :: "header \<Rightarrow> header list \<Rightarrow> ub_state \<Rightarrow> ub_state" where
  "push_and_save header ubs s =
     saveUnfinalizedBlocks (ubs @ [header]) (s\<lparr>ub_unfinalizedBlocks := Some (ubs @ [header])\<rparr>)"

definition not_sequential :: "int \<Rightarrow> int \<Rightarrow> js_error" where
  "not_sequential lastUnfinalizedHeight newHeight = ProcessExit ''Unfinalized block is not sequential''"

definition registerUnfinalizedBlock ::
  "(int \<Rightarrow> header result) \<Rightarrow> header \<Rightarrow> ub_state \<Rightarrow> header option result \<times> ub_state" where
  "registerUnfinalizedBlock get header s =
     (case finalizedBlockNumber s of
        Inl e \<Rightarrow> (Inl e, s)
      | Inr n \<Rightarrow>
     (if blockHeight header \<le> n then (Inr None, s)
      else case unfinalizedBlocks s of
        Inl e \<Rightarrow> (Inl e, s)
      | Inr ubs \<Rightarrow>
     (case last_opt ubs of
        None \<Rightarrow> (Inr None, push_and_save header ubs s)
      | Some lastUnfinalized \<Rightarrow>
          (if blockHeight lastUnfinalized \<ge> blockHeight header
           then (Inl (not_sequential (blockHeight lastUnfinalized) (blockHeight header)), s)
           else
             (let (r, ubs') =
                (if blockHeight lastUnfinalized + 1 \<noteq> blockHeight header
                 then backfillSkippedSlots get (blockHeight lastUnfinalized + 1) (blockHeight header - 1) ubs
                 else (Inr None, ubs));
                  s' = s\<lparr>ub_unfinalizedBlocks := Some ubs'\<rparr>
              in case r of
                   Inl e \<Rightarrow> (Inl e, s')
                 | Inr (Some forkedHeader) \<Rightarrow> (Inr (Some forkedHeader), s')
                 | Inr None \<Rightarrow>
                     (if (case last_opt ubs' of
                            Some latestUnfinalized \<Rightarrow> parentHash header \<noteq> Some (blockHash latestUnfinalized)
                          | None \<Rightarrow> False)
                      then (Inr (Some header), s')
                      else (Inr None, push_and_save header ubs' s')))))))"

subsection \<open>Verification against the finalized chain\<close>

definition removeFinalized :: "int \<Rightarrow> header list \<Rightarrow> header list" where
  "removeFinalized height ubs = filter (\<lambda>h. blockHeight h > height) ubs"

definition deleteFinalizedBlock :: "ub_state \<Rightarrow> unit result \<times> ub_state" where
  "deleteFinalizedBlock s =
     (case finalizedBlockNumber s of
        Inl e \<Rightarrow> (Inl e, s)
      | Inr n \<Rightarrow>
     (if ub_lastCheckedBlockHeight s \<noteq> Undefined \<and> js_less (ub_lastCheckedBlockHeight s) n
      then (case unfinalizedBlocks s of
              Inl e \<Rightarrow> (Inl e, s)
            | Inr ubs \<Rightarrow>
                (let ubs' = removeFinalized n ubs;
                     s1 = s\<lparr>ub_unfinalizedBlocks := Some ubs'\<rparr>;
                     s2 = saveLastFinalizedVerifiedHeight n s1;
                     s3 = saveUnfinalizedBlocks ubs' s2
                 in (Inr (), s3\<lparr>ub_lastCheckedBlockHeight := Number n\<rparr>)))
      else (Inr (), s\<lparr>ub_lastCheckedBlockHeight := Number n\<rparr>)))"

definition getClosestRecord :: "int \<Rightarrow> header list \<Rightarrow> header option" where
  "getClosestRecord height ubs = find (\<lambda>h. blockHeight h \<le> height) (rev ubs)"

text \<open>The recursion towards older slots while the chain reports no block.\<close>

partial_function (option) getParentHeaderByHeight ::
  "(int \<Rightarrow> header result) \<Rightarrow> int \<Rightarrow> header result option" where
  "getParentHeaderByHeight get height =
     (case get height of
        Inr h \<Rightarrow> Some (Inr h)
      | Inl e \<Rightarrow>
          (if e = BlockUnavailableError then getParentHeaderByHeight get (height - 1)
           else Some (Inl e)))"

text \<open>The \<open>while\<close> loop of \<open>hasForked\<close>: back from \<open>header\<close> until the heights agree.\<close>

partial_function (option) walkBack ::
  "(int \<Rightarrow> header result) \<Rightarrow> int \<Rightarrow> header \<Rightarrow> header result option" where
  "walkBack get targetHeight header =
     (if targetHeight = blockHeight header then Some (Inr header)
      else if \<not> truthy (parentHash header)
      then Some (Inl (AssertionError ''When iterate back parent hashes to find matching height, we expect parentHash to be exist''))
      else (case getParentHeaderByHeight get (blockHeight header - 1) of
              None \<Rightarrow> None
            | Some (Inl e) \<Rightarrow> Some (Inl e)
            | Some (Inr h) \<Rightarrow> walkBack get targetHeight h))"

definition hasForked :: "(int \<Rightarrow> header result) \<Rightarrow> ub_state \<Rightarrow> header option result option" where
  "hasForked get s =
     (case finalizedHeader s of
        Inl e \<Rightarrow> Some (Inl e)
      | Inr f \<Rightarrow>
     (case unfinalizedBlocks s of
        Inl e \<Rightarrow> Some (Inl e)
      | Inr ubs \<Rightarrow>
     (case getClosestRecord (blockHeight f) ubs of
        None \<Rightarrow> Some (Inr None)
      | Some lastVerifiableBlock \<Rightarrow>
          (if blockHeight lastVerifiableBlock = blockHeight f
           then Some (Inr (if blockHash lastVerifiableBlock \<noteq> blockHash f then Some f else None))
           else
             (case (if blockHeight f - blockHeight lastVerifiableBlock > UNFINALIZED_THRESHOLD
                    then Some (get (blockHeight lastVerifiableBlock))
                    else walkBack get (blockHeight lastVerifiableBlock) f) of
                None \<Rightarrow> None
              | Some (Inl e) \<Rightarrow> Some (Inl e)
              | Some (Inr header) \<Rightarrow>
                  Some (Inr (if blockHash header \<noteq> blockHash lastVerifiableBlock
                             then Some header else None)))))))"

text \<open>
  The loop of \<open>getLastCorrectFinalizedBlock\<close> over the verifiable records, newest first;
  \<open>Inr None\<close> is the end of the loop without a match.
\<close>

fun lastCorrectLoop ::
  "(int \<Rightarrow> header result) \<Rightarrow> header \<Rightarrow> header list \<Rightarrow> header option result option" where
  "lastCorrectLoop get checkingHeader [] = Some (Inr None)"
| "lastCorrectLoop get checkingHeader (bestHeader # bests) =
     (if blockHash bestHeader = blockHash checkingHeader
         \<or> Some (blockHash bestHeader) = parentHash checkingHeader
      then Some (Inr (Some bestHeader))
      else if \<not> truthy (parentHash checkingHeader)
      then Some (Inl (AssertionError ''Expect checking header parentHash to be exist''))
      else (case getParentHeaderByHeight get (blockHeight checkingHeader - 1) of
              None \<Rightarrow> None
            | Some (Inl e) \<Rightarrow> Some (Inl e)
            | Some (Inr h) \<Rightarrow> lastCorrectLoop get h bests))"

text \<open>The filter reads the finalized height once per record, so not at all when there is none.\<close>

definition getLastCorrectFinalizedBlock ::
  "(int \<Rightarrow> header result) \<Rightarrow> header \<Rightarrow> ub_state \<Rightarrow> header option result option" where
  "getLastCorrectFinalizedBlock get forkedHeader s =
     (case unfinalizedBlocks s of
        Inl e \<Rightarrow> Some (Inl e)
      | Inr ubs \<Rightarrow>
     (case (if ubs = [] then Inr []
            else case finalizedHeader s of
              Inl e \<Rightarrow> Inl e
            | Inr f \<Rightarrow> Inr (filter (\<lambda>h. blockHeight h \<le> blockHeight f) ubs)) of
        Inl e \<Rightarrow> Some (Inl e)
      | Inr bestVerifiableBlocks \<Rightarrow>
     (case lastCorrectLoop get forkedHeader (rev bestVerifiableBlocks) of
        None \<Rightarrow> None
      | Some (Inl e) \<Rightarrow> Some (Inl e)
      | Some (Inr (Some bestHeader)) \<Rightarrow> Some (Inr (Some bestHeader))
      | Some (Inr None) \<Rightarrow>
          (case ub_lastCheckedBlockHeight s of
             Number n \<Rightarrow>
               (if n = 0 then Some (Inr None)
                else Some (case get n of Inl e \<Rightarrow> Inl e | Inr h \<Rightarrow> Inr (Some h)))
           | _ \<Rightarrow> Some (Inr None)))))"

subsection \<open>The two entry points\<close>

definition register_optional ::
  "(int \<Rightarrow> header result) \<Rightarrow> header option \<Rightarrow> ub_state \<Rightarrow> header option result \<times> ub_state" where
  "register_optional get header s =
     (case header of
        None \<Rightarrow> (Inr None, s)
      | Some h \<Rightarrow> registerUnfinalizedBlock get h s)"

text \<open>\<open>forkedHeader ??= await this.hasForked()\<close>.\<close>

definition detect_fork ::
  "(int \<Rightarrow> header result) \<Rightarrow> header option \<Rightarrow> ub_state \<Rightarrow> header option result option" where
  "detect_fork get forkedHeader s =
     (case forkedHeader of
        Some f \<Rightarrow> Some (Inr (Some f))
      | None \<Rightarrow> hasForked get s)"

definition processUnfinalizedBlockHeader ::
  "(int \<Rightarrow> header result) \<Rightarrow> header option \<Rightarrow> ub_state \<Rightarrow> (header option result \<times> ub_state) option" where
  "processUnfinalizedBlockHeader get header s =
     (case register_optional get header s of
        (Inl e, s1) \<Rightarrow> Some (Inl e, s1)
      | (Inr registered, s1) \<Rightarrow>
          (case detect_fork get registered s1 of
             None \<Rightarrow> None
           | Some (Inl e) \<Rightarrow> Some (Inl e, s1)
           | Some (Inr None) \<Rightarrow>
               Some (case deleteFinalizedBlock s1 of
                       (Inl e, s2) \<Rightarrow> (Inl e, s2)
                     | (Inr u, s2) \<Rightarrow> (Inr None, s2))
           | Some (Inr (Some forkedHeader)) \<Rightarrow>
               (case getLastCorrectFinalizedBlock get forkedHeader s1 of
                  None \<Rightarrow> None
                | Some res \<Rightarrow> Some (res, s1))))"

definition blockToHeader :: "iblock \<Rightarrow> header" where
  "blockToHeader block = getHeader block"

definition processUnfinalizedBlocks ::
  "(int \<Rightarrow> header result) \<Rightarrow> iblock option \<Rightarrow> ub_state \<Rightarrow> (header option result \<times> ub_state) option" where
  "processUnfinalizedBlocks get block s =
     processUnfinalizedBlockHeader get (map_option blockToHeader block) s"

declare blockToHeader_def [simp]

definition init_service ::
  "(int \<Rightarrow> header result) \<Rightarrow> header result \<Rightarrow> (header \<Rightarrow> ub_state \<Rightarrow> unit result \<times> ub_state)
     \<Rightarrow> ub_state \<Rightarrow> (header option result \<times> ub_state) option" where
  "init_service get getFinalizedHeader reindex s =
     (let s1 = s\<lparr>ub_unfinalizedBlocks := Some (getMetadataUnfinalizedBlocks s)\<rparr>;
          s2 = s1\<lparr>ub_lastCheckedBlockHeight := getLastFinalizedVerifiedHeight s1\<rparr>
      in case getFinalizedHeader of
           Inl e \<Rightarrow> Some (Inl e, s2)
         | Inr f \<Rightarrow>
             (let s3 = s2\<lparr>ub_finalizedHeader := Some f\<rparr>
              in if getMetadataUnfinalizedBlocks s \<noteq> [] then
                   (case processUnfinalizedBlocks get None s3 of
                      None \<Rightarrow> None
                    | Some (Inl e, s4) \<Rightarrow> Some (Inl e, s4)
                    | Some (Inr (Some rewindHeight), s4) \<Rightarrow>
                        Some (case reindex rewindHeight s4 of
                                (Inl e, s5) \<Rightarrow> (Inl e, s5)
                              | (Inr u, s5) \<Rightarrow> (Inr (Some rewindHeight), s5))
                    | Some (Inr None, s4) \<Rightarrow>
                        Some (Inr None, resetLastFinalizedVerifiedHeight (resetUnfinalizedBlocks s4)))
                 else Some (Inr None, s3)))"

subsection \<open>Proof of index\<close>

text \<open>
  \<open>findFinalizedUsingPOI\<close>: the POI table and the encoding of a chain header's hash by
  \<open>PoiBlock.create\<close> are parameters. \<open>poi\<close> is \<open>None\<close> when POI is disabled.
\<close>

record proof_of_index =
  poi_id :: int
  poi_chainBlockHash :: "8 word list"
  poi_projectId :: "string option"

fun poi_scan ::
  "(int \<Rightarrow> header result) \<Rightarrow> (header \<Rightarrow> string \<Rightarrow> 8 word list) \<Rightarrow> proof_of_index list \<Rightarrow> header option result" where
  "poi_scan get chainBlockHashOf [] = Inr None"
| "poi_scan get chainBlockHashOf (indexedBlock # rest) =
     (case get (poi_id indexedBlock) of
        Inl e \<Rightarrow> Inl e
      | Inr chainHeader \<Rightarrow>
          (if chainBlockHashOf chainHeader (case poi_projectId indexedBlock of None \<Rightarrow> '''' | Some p \<Rightarrow> p)
              = poi_chainBlockHash indexedBlock
           then Inr (Some chainHeader)
           else poi_scan get chainBlockHashOf rest))"

partial_function (option) poi_pages ::
  "(int \<Rightarrow> header result) \<Rightarrow> (header \<Rightarrow> string \<Rightarrow> 8 word list) \<Rightarrow> (int \<Rightarrow> proof_of_index list)
     \<Rightarrow> int \<Rightarrow> header result option" where
  "poi_pages get chainBlockHashOf getPoiBlocksBefore lastHeight =
     (if getPoiBlocksBefore lastHeight = []
      then Some (Inl (Error ''Unable to find a POI block with matching block hash''))
      else (case poi_scan get chainBlockHashOf (getPoiBlocksBefore lastHeight) of
              Inl e \<Rightarrow> Some (Inl e)
            | Inr (Some h) \<Rightarrow> Some (Inr h)
            | Inr None \<Rightarrow> poi_pages get chainBlockHashOf getPoiBlocksBefore
                            (poi_id (last (getPoiBlocksBefore lastHeight)) - 1)))"

definition POI_NOT_ENABLED_ERROR_MESSAGE :: string where
  "POI_NOT_ENABLED_ERROR_MESSAGE = ''Poi is not enabled, unable to check for last finalized block''"

definition findFinalizedUsingPOI ::
  "(int \<Rightarrow> header result) \<Rightarrow> (header \<Rightarrow> string \<Rightarrow> 8 word list)
     \<Rightarrow> (int \<Rightarrow> proof_of_index list) option \<Rightarrow> header \<Rightarrow> header result option" where
  "findFinalizedUsingPOI get chainBlockHashOf poi header =
     (case poi of
        None \<Rightarrow> Some (Inl (Error POI_NOT_ENABLED_ERROR_MESSAGE))
      | Some getPoiBlocksBefore \<Rightarrow>
          poi_pages get chainBlockHashOf getPoiBlocksBefore (blockHeight header))"

end
