(* ===== verification/UnfinalizedProps.thy ===== *)
theory UnfinalizedProps
  imports Unfinalized
begin

section \<open>The unfinalized-blocks service: correctness\<close>

text \<open>
  The lemmas about \<open>Unfinalized\<close>: the invariant of the record list (each record is the
  parent of the next), the exact effect of the backfill, what a detected and an undetected
  fork mean, the reachable states with restarts, and when the backward walks return. The
  lemmas that rely on the chain giving the header of the slot asked for are in the locale
  \<open>header_source\<close>, which \<open>RpcApi\<close> interprets on \<open>getHeaderByHeight\<close>.
\<close>

subsection \<open>Linked chains of records\<close>

definition links :: "header \<Rightarrow> header \<Rightarrow> bool" where
  "links a b \<longleftrightarrow> blockHeight a < blockHeight b \<and> parentHash b = Some (blockHash a)"

definition chain_linked :: "header list \<Rightarrow> bool" where
  "chain_linked = successively links"

lemma chain_linked_simps [simp]:
  "chain_linked []" "chain_linked [h]"
  "chain_linked (a # b # hs) \<longleftrightarrow> links a b \<and> chain_linked (b # hs)"
  by (simp_all add: chain_linked_def)

lemma chain_linked_append:
  "chain_linked (xs @ ys) \<longleftrightarrow>
     chain_linked xs \<and> chain_linked ys \<and> (xs = [] \<or> ys = [] \<or> links (last xs) (hd ys))"
  by (auto simp: chain_linked_def successively_append_iff)

lemma chain_linked_snoc:
  "chain_linked (xs @ [h]) \<longleftrightarrow> chain_linked xs \<and> (\<forall>p. last_opt xs = Some p \<longrightarrow> links p h)"
  by (auto simp: chain_linked_append last_opt_def)

lemma chain_linked_sorted: "chain_linked xs \<Longrightarrow> sorted_wrt (\<lambda>a b. blockHeight a < blockHeight b) xs"
  unfolding chain_linked_def
  by (rule successively_conv_sorted_wrt [THEN iffD1])
    (auto simp: links_def transp_def elim!: successively_mono)

lemma chain_linked_prefix: "prefix xs ys \<Longrightarrow> chain_linked ys \<Longrightarrow> chain_linked xs"
  by (auto simp: prefix_def chain_linked_append)

text \<open>Dropping the records up to a height leaves a suffix of a linked chain.\<close>

lemma removeFinalized_dropWhile:
  assumes "sorted_wrt (\<lambda>a b. blockHeight a < blockHeight b) xs"
  shows "removeFinalized n xs = dropWhile (\<lambda>h. blockHeight h \<le> n) xs"
  using assms
proof (induction xs)
  case (Cons a xs)
  then show ?case
    by (cases "blockHeight a \<le> n"; cases xs) (auto simp: removeFinalized_def filter_id_conv)
qed (simp add: removeFinalized_def)

lemma chain_linked_removeFinalized:
  assumes "chain_linked xs"
  shows "chain_linked (removeFinalized n xs)"
proof -
  have "removeFinalized n xs = dropWhile (\<lambda>h. blockHeight h \<le> n) xs"
    using assms by (simp add: removeFinalized_dropWhile chain_linked_sorted)
  moreover have "chain_linked (takeWhile (\<lambda>h. blockHeight h \<le> n) xs @ dropWhile (\<lambda>h. blockHeight h \<le> n) xs)"
    using assms by simp
  ultimately show ?thesis by (simp only: chain_linked_append)
qed

subsection \<open>Backfill\<close>

text \<open>The headers the chain has in a range of slots.\<close>

definition available_headers :: "(int \<Rightarrow> header result) \<Rightarrow> int \<Rightarrow> int \<Rightarrow> header list" where
  "available_headers get a b =
     List.map_filter (\<lambda>i. case get i of Inr h \<Rightarrow> Some h | Inl e \<Rightarrow> None) [a..b]"

lemma available_headers_step:
  "available_headers get a b =
     (if a \<le> b then (case get a of Inr h \<Rightarrow> [h] | Inl e \<Rightarrow> []) @ available_headers get (a + 1) b else [])"
  unfolding available_headers_def
  by (subst upto.simps) (auto split: sum.splits)

definition only_skipped :: "(int \<Rightarrow> header result) \<Rightarrow> int \<Rightarrow> int \<Rightarrow> bool" where
  "only_skipped get a b \<longleftrightarrow> (\<forall>i \<in> {a..b}. \<forall>e. get i = Inl e \<longrightarrow> e = BlockUnavailableError)"

lemma only_skipped_step:
  assumes "a \<le> b"
  shows "only_skipped get a b \<longleftrightarrow>
     ((case get a of Inl e \<Rightarrow> e = BlockUnavailableError | Inr h \<Rightarrow> True) \<and> only_skipped get (a + 1) b)"
proof -
  have "{a..b} = insert a {a + 1..b}"
    using assms by auto
  then show ?thesis
    unfolding only_skipped_def by (auto split: sum.splits)
qed

lemma only_skipped_empty: "b < a \<Longrightarrow> only_skipped get a b"
  by (auto simp: only_skipped_def)

text \<open>Every header continues the one before it.\<close>

definition continues :: "header list \<Rightarrow> header \<Rightarrow> bool" where
  "continues ubs h \<longleftrightarrow> (\<forall>p. last_opt ubs = Some p \<longrightarrow> parentHash h = Some (blockHash p))"

fun parents_ok :: "header list \<Rightarrow> header list \<Rightarrow> bool" where
  "parents_ok ubs [] = True"
| "parents_ok ubs (h # hs) = (continues ubs h \<and> parents_ok (ubs @ [h]) hs)"

lemma not_continues:
  "(case last_opt ubs of Some q \<Rightarrow> parentHash h \<noteq> Some (blockHash q) | None \<Rightarrow> False) \<longleftrightarrow> \<not> continues ubs h"
  by (auto simp: continues_def split: option.splits)

text \<open>The five ways an iteration of the backfill goes, and the induction they give.\<close>

lemma backfill_stop: "b < a \<Longrightarrow> backfillSkippedSlots get a b ubs = (Inr None, ubs)"
  by (subst backfillSkippedSlots.simps) simp

lemma backfill_skip:
  "a \<le> b \<Longrightarrow> get a = Inl BlockUnavailableError \<Longrightarrow>
     backfillSkippedSlots get a b ubs = backfillSkippedSlots get (a + 1) b ubs"
  by (subst backfillSkippedSlots.simps) simp

lemma backfill_error:
  "a \<le> b \<Longrightarrow> get a = Inl e \<Longrightarrow> e \<noteq> BlockUnavailableError \<Longrightarrow>
     backfillSkippedSlots get a b ubs = (Inl e, ubs)"
  by (subst backfillSkippedSlots.simps) simp

lemma backfill_fork_step:
  "a \<le> b \<Longrightarrow> get a = Inr h \<Longrightarrow> \<not> continues ubs h \<Longrightarrow>
     backfillSkippedSlots get a b ubs = (Inr (Some h), ubs)"
  by (subst backfillSkippedSlots.simps) (simp add: not_continues)

lemma backfill_push:
  "a \<le> b \<Longrightarrow> get a = Inr h \<Longrightarrow> continues ubs h \<Longrightarrow>
     backfillSkippedSlots get a b ubs = backfillSkippedSlots get (a + 1) b (ubs @ [h])"
  by (subst backfillSkippedSlots.simps) (simp add: not_continues)

lemmas backfill_steps = backfill_stop backfill_skip backfill_error backfill_fork_step backfill_push

lemma backfill_induct [case_names stop skip error fork push]:
  fixes b :: int
  assumes "\<And>a ubs. b < a \<Longrightarrow> P a ubs"
    and "\<And>a ubs. a \<le> b \<Longrightarrow> get a = Inl BlockUnavailableError \<Longrightarrow> P (a + 1) ubs \<Longrightarrow> P a ubs"
    and "\<And>a ubs e. a \<le> b \<Longrightarrow> get a = Inl e \<Longrightarrow> e \<noteq> BlockUnavailableError \<Longrightarrow> P a ubs"
    and "\<And>a ubs h. a \<le> b \<Longrightarrow> get a = Inr h \<Longrightarrow> \<not> continues ubs h \<Longrightarrow> P a ubs"
    and "\<And>a ubs h. a \<le> b \<Longrightarrow> get a = Inr h \<Longrightarrow> continues ubs h \<Longrightarrow> P (a + 1) (ubs @ [h]) \<Longrightarrow> P a ubs"
  shows "P a ubs"
proof (induction "nat (b + 1 - a)" arbitrary: a ubs rule: less_induct)
  case less
  show ?case
  proof (cases "a \<le> b")
    case False
    then show ?thesis by (intro assms(1)) simp
  next
    case True
    then have IH: "P (a + 1) xs" for xs
      by (intro less) simp
    show ?thesis
      by (cases "get a") (use IH True assms(2-5) in blast)+
  qed
qed

text \<open>
  The backfill runs to its end exactly when every slot of the range is a block or a
  reported skip and the blocks continue the list; then they are all appended, in order.
\<close>

lemma backfill_complete_iff:
  "backfillSkippedSlots get a b ubs = (Inr None, ubs') \<longleftrightarrow>
     only_skipped get a b \<and> parents_ok ubs (available_headers get a b) \<and>
     ubs' = ubs @ available_headers get a b"
  by (induction a ubs rule: backfill_induct [where get = get and b = b])
    (auto simp: backfill_steps only_skipped_empty only_skipped_step available_headers_step [of get _ b])

text \<open>A fork found by the backfill is the first block that does not continue the list.\<close>

lemma backfill_fork:
  "backfillSkippedSlots get a b ubs = (Inr (Some h), ubs') \<Longrightarrow>
     \<exists>i \<in> {a..b}. get i = Inr h \<and> \<not> continues ubs' h \<and>
         ubs' = ubs @ available_headers get a (i - 1)"
proof (induction a ubs rule: backfill_induct [where get = get and b = b])
  case (skip a ubs)
  then obtain i where i: "i \<in> {a + 1..b}" "get i = Inr h" "\<not> continues ubs' h"
      "ubs' = ubs @ available_headers get (a + 1) (i - 1)"
    by (auto simp: backfill_skip)
  with skip(2) have "ubs' = ubs @ available_headers get a (i - 1)"
    by (subst available_headers_step) simp
  with i show ?case by (intro bexI [of _ i]) auto
next
  case (push a ubs k)
  then obtain i where i: "i \<in> {a + 1..b}" "get i = Inr h" "\<not> continues ubs' h"
      "ubs' = (ubs @ [k]) @ available_headers get (a + 1) (i - 1)"
    by (auto simp: backfill_push)
  with push(2) have "ubs' = ubs @ available_headers get a (i - 1)"
    by (subst available_headers_step) simp
  with i show ?case by (intro bexI [of _ i]) auto
next
  case (fork a ubs k)
  have "available_headers get a (a - 1) = []"
    by (subst available_headers_step) simp
  with fork show ?case
    by (intro bexI [of _ a]) (auto simp: backfill_fork_step)
qed (auto simp: backfill_stop backfill_error)

text \<open>Whatever the outcome, the list only grows, and by blocks that continue it.\<close>

lemma backfill_grows:
  "backfillSkippedSlots get a b ubs = (r, ubs') \<Longrightarrow>
     \<exists>new. ubs' = ubs @ new \<and> parents_ok ubs new \<and> (\<forall>h \<in> set new. \<exists>i \<in> {a..b}. get i = Inr h)"
proof (induction a ubs rule: backfill_induct [where get = get and b = b])
  case (skip a ubs)
  then obtain new where new: "ubs' = ubs @ new" "parents_ok ubs new"
      "\<forall>h \<in> set new. \<exists>i \<in> {a + 1..b}. get i = Inr h"
    by (auto simp: backfill_skip)
  then have "\<forall>h \<in> set new. \<exists>i \<in> {a..b}. get i = Inr h"
    by fastforce
  with new show ?case by blast
next
  case (push a ubs k)
  then obtain new where new: "ubs' = (ubs @ [k]) @ new" "parents_ok (ubs @ [k]) new"
      "\<forall>h \<in> set new. \<exists>i \<in> {a + 1..b}. get i = Inr h"
    by (auto simp: backfill_push)
  then have "\<forall>h \<in> set new. \<exists>i \<in> {a..b}. get i = Inr h"
    by fastforce
  moreover have "\<exists>i \<in> {a..b}. get i = Inr k"
    using push(1,2) by auto
  ultimately show ?case
    using new push(3) by (intro exI [of _ "k # new"]) simp
qed (auto simp: backfill_stop backfill_error backfill_fork_step)

text \<open>What is appended is the beginning of the blocks of the range.\<close>

lemma backfill_prefix:
  "backfillSkippedSlots get a b ubs = (r, ubs') \<Longrightarrow>
     \<exists>new. ubs' = ubs @ new \<and> parents_ok ubs new \<and> prefix new (available_headers get a b)"
proof (induction a ubs rule: backfill_induct [where get = get and b = b])
  case (skip a ubs)
  then show ?case by (simp add: backfill_skip available_headers_step [of get a b])
next
  case (push a ubs k)
  then obtain new where "ubs' = (ubs @ [k]) @ new" "parents_ok (ubs @ [k]) new" "prefix new (available_headers get (a + 1) b)"
    by (auto simp: backfill_push)
  with push(1-3) show ?case
    by (intro exI [of _ "k # new"]) (simp add: available_headers_step [of get a b])
qed (auto simp: backfill_stop backfill_error backfill_fork_step)

subsection \<open>The invariant of the service\<close>

text \<open>
  Once initialised, the records are linked and the list in the metadata is a prefix of the
  list in memory (a backfill that ends in a fork or an error has pushed without saving).
  Before, there is no finalized header and the stored list is linked.
\<close>

definition ub_inv :: "ub_state \<Rightarrow> bool" where
  "ub_inv s \<longleftrightarrow>
     (case ub_unfinalizedBlocks s of
        None \<Rightarrow> ub_finalizedHeader s = None \<and> chain_linked (getMetadataUnfinalizedBlocks s)
      | Some ubs \<Rightarrow> chain_linked ubs \<and> prefix (getMetadataUnfinalizedBlocks s) ubs)"

lemma metadata_keys [simp]:
  "METADATA_UNFINALIZED_BLOCKS_KEY \<noteq> METADATA_LAST_FINALIZED_PROCESSED_KEY"
  "METADATA_LAST_FINALIZED_PROCESSED_KEY \<noteq> METADATA_UNFINALIZED_BLOCKS_KEY"
  by (simp_all add: METADATA_UNFINALIZED_BLOCKS_KEY_def METADATA_LAST_FINALIZED_PROCESSED_KEY_def)

lemma metadata_frame [simp]:
  "getMetadataUnfinalizedBlocks (s\<lparr>ub_unfinalizedBlocks := u\<rparr>) = getMetadataUnfinalizedBlocks s"
  "getMetadataUnfinalizedBlocks (s\<lparr>ub_finalizedHeader := f\<rparr>) = getMetadataUnfinalizedBlocks s"
  "getMetadataUnfinalizedBlocks (s\<lparr>ub_lastCheckedBlockHeight := n\<rparr>) = getMetadataUnfinalizedBlocks s"
  "getMetadataUnfinalizedBlocks (saveUnfinalizedBlocks ubs s) = ubs"
  "getMetadataUnfinalizedBlocks (saveLastFinalizedVerifiedHeight k s) = getMetadataUnfinalizedBlocks s"
  "getMetadataUnfinalizedBlocks (resetUnfinalizedBlocks s) = []"
  "getMetadataUnfinalizedBlocks (resetLastFinalizedVerifiedHeight s) = getMetadataUnfinalizedBlocks s"
  by (simp_all add: getMetadataUnfinalizedBlocks_def saveUnfinalizedBlocks_def
      saveLastFinalizedVerifiedHeight_def resetUnfinalizedBlocks_def resetLastFinalizedVerifiedHeight_def)

lemma height_frame [simp]:
  "getLastFinalizedVerifiedHeight (s\<lparr>ub_unfinalizedBlocks := u\<rparr>) = getLastFinalizedVerifiedHeight s"
  "getLastFinalizedVerifiedHeight (s\<lparr>ub_lastCheckedBlockHeight := x\<rparr>) = getLastFinalizedVerifiedHeight s"
  "getLastFinalizedVerifiedHeight (saveUnfinalizedBlocks ubs s) = getLastFinalizedVerifiedHeight s"
  "getLastFinalizedVerifiedHeight (saveLastFinalizedVerifiedHeight k s) = Number k"
  "getLastFinalizedVerifiedHeight (resetLastFinalizedVerifiedHeight s) = Null"
  by (simp_all add: getLastFinalizedVerifiedHeight_def saveUnfinalizedBlocks_def
      saveLastFinalizedVerifiedHeight_def resetLastFinalizedVerifiedHeight_def)

lemma fields_frame [simp]:
  "ub_unfinalizedBlocks (saveUnfinalizedBlocks ubs s) = ub_unfinalizedBlocks s"
  "ub_finalizedHeader (saveUnfinalizedBlocks ubs s) = ub_finalizedHeader s"
  "ub_lastCheckedBlockHeight (saveUnfinalizedBlocks ubs s) = ub_lastCheckedBlockHeight s"
  "ub_unfinalizedBlocks (saveLastFinalizedVerifiedHeight k s) = ub_unfinalizedBlocks s"
  "ub_finalizedHeader (saveLastFinalizedVerifiedHeight k s) = ub_finalizedHeader s"
  "ub_unfinalizedBlocks (push_and_save h ubs s) = Some (ubs @ [h])"
  "ub_finalizedHeader (push_and_save h ubs s) = ub_finalizedHeader s"
  "ub_lastCheckedBlockHeight (push_and_save h ubs s) = ub_lastCheckedBlockHeight s"
  "getMetadataUnfinalizedBlocks (push_and_save h ubs s) = ubs @ [h]"
  "ub_unfinalizedBlocks (resetUnfinalizedBlocks s) = Some []"
  "ub_finalizedHeader (resetUnfinalizedBlocks s) = ub_finalizedHeader s"
  "ub_unfinalizedBlocks (resetLastFinalizedVerifiedHeight s) = ub_unfinalizedBlocks s"
  "ub_finalizedHeader (resetLastFinalizedVerifiedHeight s) = ub_finalizedHeader s"
  by (simp_all add: saveUnfinalizedBlocks_def saveLastFinalizedVerifiedHeight_def push_and_save_def
      resetUnfinalizedBlocks_def resetLastFinalizedVerifiedHeight_def getMetadataUnfinalizedBlocks_def)

lemma ub_inv_initialised:
  "ub_unfinalizedBlocks s = Some ubs \<Longrightarrow>
     ub_inv s \<longleftrightarrow> chain_linked ubs \<and> prefix (getMetadataUnfinalizedBlocks s) ubs"
  by (simp add: ub_inv_def)

subsection \<open>What registering a header does\<close>

text \<open>
  On an initialised service and a header above the finalized one that is not out of order:
  the gap is filled, then the header is pushed and saved, or a fork or an error is reported.
\<close>

definition gap_fill ::
  "(int \<Rightarrow> header result) \<Rightarrow> header list \<Rightarrow> header \<Rightarrow> header option result \<times> header list" where
  "gap_fill get ubs h =
     (case last_opt ubs of
        None \<Rightarrow> (Inr None, ubs)
      | Some l \<Rightarrow> backfillSkippedSlots get (blockHeight l + 1) (blockHeight h - 1) ubs)"

lemma gap_fill_adjacent: "blockHeight l + 1 = blockHeight h \<Longrightarrow> last_opt ubs = Some l \<Longrightarrow> gap_fill get ubs h = (Inr None, ubs)"
  by (simp add: gap_fill_def backfill_stop)

lemma registerUnfinalizedBlock_eq:
  assumes "ub_finalizedHeader s = Some f" and "ub_unfinalizedBlocks s = Some ubs"
  shows "registerUnfinalizedBlock get h s =
     (if blockHeight h \<le> blockHeight f then (Inr None, s)
      else if \<exists>l. last_opt ubs = Some l \<and> blockHeight h \<le> blockHeight l
      then (Inl (ProcessExit ''Unfinalized block is not sequential''), s)
      else (case gap_fill get ubs h of
              (Inl e, ubs') \<Rightarrow> (Inl e, s\<lparr>ub_unfinalizedBlocks := Some ubs'\<rparr>)
            | (Inr (Some k), ubs') \<Rightarrow> (Inr (Some k), s\<lparr>ub_unfinalizedBlocks := Some ubs'\<rparr>)
            | (Inr None, ubs') \<Rightarrow>
                (if continues ubs' h then (Inr None, push_and_save h ubs' s)
                 else (Inr (Some h), s\<lparr>ub_unfinalizedBlocks := Some ubs'\<rparr>))))"
proof (cases "last_opt ubs")
  case None
  then show ?thesis
    using assms
    by (simp add: registerUnfinalizedBlock_def ub_defs gap_fill_def
        continues_def)
next
  case (Some l)
  have s: "s\<lparr>ub_unfinalizedBlocks := Some ubs\<rparr> = s"
    using assms(2) by simp
  have save: "push_and_save h ubs' (s\<lparr>ub_unfinalizedBlocks := Some ubs'\<rparr>) = push_and_save h ubs' s" for ubs'
    by (simp add: push_and_save_def)
  obtain r ubs' where b: "gap_fill get ubs h = (r, ubs')"
    by fastforce
  have guarded: "(if blockHeight l + 1 \<noteq> blockHeight h
      then backfillSkippedSlots get (blockHeight l + 1) (blockHeight h - 1) ubs
      else (Inr None, ubs)) = (r, ubs')"
    using b Some gap_fill_adjacent [of l h ubs get] by (auto simp: gap_fill_def)
  consider (err) e where "r = Inl e" | (fork) k where "r = Inr (Some k)" | (complete) "r = Inr None"
    by (metis obj_sumE option.exhaust)
  then show ?thesis
    unfolding registerUnfinalizedBlock_def ub_defs
    by cases (use assms Some in \<open>simp_all add: guarded b not_sequential_def not_continues save s\<close>)
qed

text \<open>
  Registering a header never removes a record, and the records it adds are blocks the chain
  served or the header itself.
\<close>

lemma gap_fill_new:
  "gap_fill get ubs h = (q, ubs') \<Longrightarrow> \<exists>new. ubs' = ubs @ new \<and> (\<forall>x \<in> set new. \<exists>i. get i = Inr x)"
  by (auto simp: gap_fill_def split: option.splits dest!: backfill_grows) blast

lemma registerUnfinalizedBlock_new:
  assumes "registerUnfinalizedBlock get h s = (r, s')" and "ub_finalizedHeader s = Some f"
    and "ub_unfinalizedBlocks s = Some ubs" and "ub_unfinalizedBlocks s' = Some ubs'"
  shows "\<exists>new. ubs' = ubs @ new \<and> (\<forall>x \<in> set new. (\<exists>i. get i = Inr x) \<or> x = h \<and> blockHeight f < blockHeight h)"
proof -
  obtain q us where g: "gap_fill get ubs h = (q, us)"
    by fastforce
  obtain new where new: "us = ubs @ new" "\<forall>x \<in> set new. \<exists>i. get i = Inr x"
    using gap_fill_new [OF g] by blast
  have "ubs' = ubs \<or> ubs' = us \<or> ubs' = us @ [h] \<and> blockHeight f < blockHeight h"
    using assms g
    by (auto simp: registerUnfinalizedBlock_eq split: sum.splits option.splits if_splits)
  with new show ?thesis by auto
qed

lemma register_optional_new:
  assumes "register_optional get header s = (r, s')" and "ub_finalizedHeader s = Some f"
    and "ub_unfinalizedBlocks s = Some ubs" and "ub_unfinalizedBlocks s' = Some ubs'"
  shows "\<exists>new. ubs' = ubs @ new \<and> (\<forall>x \<in> set new. (\<exists>i. get i = Inr x) \<or> blockHeight f < blockHeight x)"
  using assms registerUnfinalizedBlock_new [of get _ s r s' f ubs ubs']
  by (cases header) (fastforce simp: register_optional_def)+

subsection \<open>Every operation keeps the invariant\<close>

context header_source begin

text \<open>The blocks the backfill appends have their own slots as heights, so they are linked.\<close>

lemma backfill_chain_linked:
  assumes "backfillSkippedSlots getHeaderForHeight a b ubs = (r, ubs')"
    and "chain_linked ubs" and "\<And>l. last_opt ubs = Some l \<Longrightarrow> blockHeight l < a"
  shows "chain_linked ubs' \<and> (\<forall>l. last_opt ubs' = Some l \<longrightarrow> blockHeight l < max a (b + 1))"
  using assms
proof (induction a ubs rule: backfill_induct [where get = getHeaderForHeight and b = b])
  case (skip a ubs)
  then show ?case by (fastforce simp: backfill_skip)
next
  case (push a ubs k)
  have k: "blockHeight k = a"
    using push(2) by (rule header_height)
  have "chain_linked (ubs @ [k])"
    using push(3,6,7) k by (auto simp: chain_linked_snoc continues_def links_def)
  moreover have "blockHeight l < a + 1" if "last_opt (ubs @ [k]) = Some l" for l
    using that k by simp
  ultimately show ?case
    using push(1,2,3,4,5) by (fastforce simp: backfill_push)
qed (fastforce simp: backfill_stop backfill_error backfill_fork_step)+

lemma gap_fill_linked:
  assumes "gap_fill getHeaderForHeight ubs h = (r, ubs')"
    and "chain_linked ubs" and "\<And>l. last_opt ubs = Some l \<Longrightarrow> blockHeight l < blockHeight h"
  shows "chain_linked ubs'" and "\<And>l. last_opt ubs' = Some l \<Longrightarrow> blockHeight l < blockHeight h"
    and "prefix ubs ubs'"
proof -
  have *: "chain_linked ubs' \<and> (\<forall>l. last_opt ubs' = Some l \<longrightarrow> blockHeight l < blockHeight h) \<and> prefix ubs ubs'"
  proof (cases "last_opt ubs")
    case None
    with assms show ?thesis by (simp add: gap_fill_def)
  next
    case (Some l)
    with assms(1) have b: "backfillSkippedSlots getHeaderForHeight (blockHeight l + 1) (blockHeight h - 1) ubs = (r, ubs')"
      by (simp add: gap_fill_def)
    have "chain_linked ubs' \<and> (\<forall>k. last_opt ubs' = Some k \<longrightarrow>
        blockHeight k < max (blockHeight l + 1) (blockHeight h - 1 + 1))"
      by (rule backfill_chain_linked [OF b assms(2)]) (use Some in simp)
    moreover have "max (blockHeight l + 1) (blockHeight h - 1 + 1) = blockHeight h"
      using assms(3) [OF Some] by simp
    moreover have "prefix ubs ubs'"
      using backfill_grows [OF b] by auto
    ultimately show ?thesis by simp
  qed
  from * show "chain_linked ubs'" and "\<And>l. last_opt ubs' = Some l \<Longrightarrow> blockHeight l < blockHeight h"
    and "prefix ubs ubs'" by auto
qed

lemma registerUnfinalizedBlock_inv:
  assumes "registerUnfinalizedBlock getHeaderForHeight h s = (r, s')" and "ub_inv s"
  shows "ub_inv s' \<and> ub_finalizedHeader s' = ub_finalizedHeader s \<and>
         ub_lastCheckedBlockHeight s' = ub_lastCheckedBlockHeight s"
proof (cases "ub_finalizedHeader s")
  case None
  with assms show ?thesis
    by (auto simp: registerUnfinalizedBlock_def finalizedHeader_def finalizedBlockNumber_def)
next
  case (Some f)
  with assms(2) obtain ubs where ubs: "ub_unfinalizedBlocks s = Some ubs"
    by (auto simp: ub_inv_def split: option.splits)
  have inv: "chain_linked ubs" "prefix (getMetadataUnfinalizedBlocks s) ubs"
    using assms(2) ubs by (simp_all add: ub_inv_def)
  show ?thesis
  proof (cases "blockHeight h \<le> blockHeight f \<or> (\<exists>l. last_opt ubs = Some l \<and> blockHeight h \<le> blockHeight l)")
    case True
    with assms Some ubs show ?thesis
      by (auto simp: registerUnfinalizedBlock_eq split: if_splits)
  next
    case False
    obtain q ubs' where g: "gap_fill getHeaderForHeight ubs h = (q, ubs')"
      by fastforce
    have "\<And>l. last_opt ubs = Some l \<Longrightarrow> blockHeight l < blockHeight h"
      using False by force
    note linked = gap_fill_linked [OF g inv(1) this]
    have keep: "ub_inv (s\<lparr>ub_unfinalizedBlocks := Some ubs'\<rparr>)"
      using linked inv(2) by (auto simp: ub_inv_def intro: prefix_order.trans)
    have pushed: "ub_inv (push_and_save h ubs' s)" if "continues ubs' h"
      using that linked by (auto simp: ub_inv_def chain_linked_snoc continues_def links_def)
    show ?thesis
      using assms(1) False Some ubs keep pushed
      by (auto simp: registerUnfinalizedBlock_eq g split: sum.splits option.splits if_splits)
  qed
qed

end

lemma deleteFinalizedBlock_inv:
  assumes "deleteFinalizedBlock s = (r, s')" and "ub_inv s"
  shows "ub_inv s' \<and> ub_finalizedHeader s' = ub_finalizedHeader s"
proof (cases "ub_finalizedHeader s")
  case None
  with assms show ?thesis by (auto simp: deleteFinalizedBlock_def finalizedHeader_def finalizedBlockNumber_def)
next
  case (Some f)
  with assms(2) obtain ubs where "ub_unfinalizedBlocks s = Some ubs"
    by (auto simp: ub_inv_def split: option.splits)
  with assms Some show ?thesis
    by (auto simp: deleteFinalizedBlock_def ub_defs Let_def
        ub_inv_def chain_linked_removeFinalized split: if_splits)
qed

lemma hasForked_initialised:
  "hasForked get s = Some (Inr r) \<Longrightarrow> \<exists>f ubs. ub_finalizedHeader s = Some f \<and> ub_unfinalizedBlocks s = Some ubs"
  by (auto simp: hasForked_def ub_defs split: option.splits)

lemma deleteFinalizedBlock_eq:
  assumes "ub_finalizedHeader s = Some f" and "ub_unfinalizedBlocks s = Some ubs"
  shows "deleteFinalizedBlock s = (Inr (),
     (if ub_lastCheckedBlockHeight s \<noteq> Undefined \<and> js_less (ub_lastCheckedBlockHeight s) (blockHeight f)
      then (saveUnfinalizedBlocks (removeFinalized (blockHeight f) ubs)
              (saveLastFinalizedVerifiedHeight (blockHeight f)
                 (s\<lparr>ub_unfinalizedBlocks := Some (removeFinalized (blockHeight f) ubs)\<rparr>)))
           \<lparr>ub_lastCheckedBlockHeight := Number (blockHeight f)\<rparr>
      else s\<lparr>ub_lastCheckedBlockHeight := Number (blockHeight f)\<rparr>))"
  using assms
  by (simp add: deleteFinalizedBlock_def ub_defs Let_def)

text \<open>The branches of \<open>processUnfinalizedBlockHeader\<close>, one per way it returns.\<close>

lemma process_cases [consumes 1, case_names register_error check_error rewind no_fork]:
  assumes "processUnfinalizedBlockHeader get header s = Some (r, s')"
  obtains e where "register_optional get header s = (Inl e, s')" "r = Inl e"
  | e where "register_optional get header s = (Inr None, s')" "hasForked get s' = Some (Inl e)" "r = Inl e"
  | reg f where "register_optional get header s = (Inr reg, s')"
      "detect_fork get reg s' = Some (Inr (Some f))" "getLastCorrectFinalizedBlock get f s' = Some r"
  | s1 where "register_optional get header s = (Inr None, s1)" "hasForked get s1 = Some (Inr None)"
      "deleteFinalizedBlock s1 = (Inr (), s')" "r = Inr None"
proof -
  obtain q s1 where q: "register_optional get header s = (q, s1)"
    by fastforce
  note unf = assms [unfolded processUnfinalizedBlockHeader_def q split]
  show thesis
  proof (cases q)
    case (Inl e)
    with unf q that(1) show thesis by auto
  next
    case (Inr reg)
    note q = q [unfolded Inr] and unf = unf [unfolded Inr sum.case]
    consider (none) "detect_fork get reg s1 = None"
      | (err) e where "detect_fork get reg s1 = Some (Inl e)"
      | (ok) "detect_fork get reg s1 = Some (Inr None)"
      | (fork) f where "detect_fork get reg s1 = Some (Inr (Some f))"
      by (metis not_None_eq obj_sumE)
    then show thesis
    proof cases
      case none
      with unf show thesis by simp
    next
      case (err e)
      with unf have "r = Inl e" "s' = s1" by simp_all
      moreover from err have "reg = None" "hasForked get s1 = Some (Inl e)"
        by (simp_all add: detect_fork_def split: option.splits)
      ultimately show thesis using q that(2) by simp
    next
      case ok
      then have h: "reg = None" "hasForked get s1 = Some (Inr None)"
        by (simp_all add: detect_fork_def split: option.splits)
      then obtain f ubs where "ub_finalizedHeader s1 = Some f" "ub_unfinalizedBlocks s1 = Some ubs"
        using hasForked_initialised by blast
      note d = deleteFinalizedBlock_eq [OF this]
      from unf ok have "r = Inr None" "deleteFinalizedBlock s1 = (Inr (), s')"
        by (simp_all add: d)
      with q h that(4) show thesis by simp
    next
      case (fork f)
      with unf q that(3) show thesis by (auto split: option.splits)
    qed
  qed
qed

context header_source begin

lemma register_optional_inv:
  assumes "register_optional getHeaderForHeight header s = (r, s')" and "ub_inv s"
  shows "ub_inv s' \<and> ub_finalizedHeader s' = ub_finalizedHeader s \<and>
         ub_lastCheckedBlockHeight s' = ub_lastCheckedBlockHeight s"
  using assms
  by (cases header) (auto simp: register_optional_def dest: registerUnfinalizedBlock_inv)

lemma process_inv:
  assumes "processUnfinalizedBlockHeader getHeaderForHeight header s = Some (r, s')" and "ub_inv s"
  shows "ub_inv s' \<and> ub_finalizedHeader s' = ub_finalizedHeader s"
  using assms(1)
proof (cases rule: process_cases)
  case (no_fork s1)
  with register_optional_inv [OF no_fork(1) assms(2)] deleteFinalizedBlock_inv [OF no_fork(3)]
  show ?thesis by simp
qed (auto dest: register_optional_inv [OF _ assms(2)])

end

lemma registerFinalizedBlock_inv:
  assumes "registerFinalizedBlock h s = (r, s')" and "ub_inv s"
  shows "ub_inv s'"
  using assms
  by (auto simp: registerFinalizedBlock_def finalizedHeader_def finalizedBlockNumber_def ub_inv_def split: option.splits if_splits)

subsection \<open>Reachable states: blocks, finalized headers, rewinds and restarts\<close>

text \<open>
  A run of the service: \<open>init\<close>, then any sequence of finalized headers, processed
  headers (whatever they end in, exceptions included), resets by a rewind, and crashes
  after which a new process starts from the metadata the old one left. A start may end in an
  exception or a rewind, too; the rewind resets the service or fails. The chain may answer
  differently at every step; it only has to be a \<open>header_source\<close>.
\<close>

definition fresh_state :: "metadata \<Rightarrow> ub_state" where
  "fresh_state m = \<lparr>ub_unfinalizedBlocks = None, ub_finalizedHeader = None,
     ub_lastCheckedBlockHeight = Undefined, ub_metadata = m\<rparr>"

definition reset_both :: "ub_state \<Rightarrow> ub_state" where
  "reset_both s = resetLastFinalizedVerifiedHeight (resetUnfinalizedBlocks s)"

definition rewinds :: "(header \<Rightarrow> ub_state \<Rightarrow> unit result \<times> ub_state) \<Rightarrow> bool" where
  "rewinds reindex = (\<forall>h s. snd (reindex h s) \<in> {s, reset_both s})"

inductive ub_step :: "ub_state \<Rightarrow> ub_state \<Rightarrow> bool" where
  finalized: "registerFinalizedBlock h s = (r, s') \<Longrightarrow> ub_step s s'"
| process: "header_source get \<Longrightarrow> processUnfinalizedBlockHeader get header s = Some (r, s') \<Longrightarrow> ub_step s s'"
| reset: "ub_step s (reset_both s)"
| restart: "header_source get \<Longrightarrow> rewinds reindex \<Longrightarrow>
     init_service get finalized reindex (fresh_state (ub_metadata s)) = Some (r, s') \<Longrightarrow> ub_step s s'"

inductive ub_reachable :: "ub_state \<Rightarrow> bool" where
  start: "ub_reachable (fresh_state Map.empty)"
| step: "ub_reachable s \<Longrightarrow> ub_step s s' \<Longrightarrow> ub_reachable s'"

lemma reset_both_inv [simp]: "ub_inv (reset_both s)"
  by (simp add: ub_inv_def reset_both_def)

inductive_cases ub_stepE: "ub_step s s'"

lemma ub_inv_metadata_linked: "ub_inv s \<Longrightarrow> chain_linked (getMetadataUnfinalizedBlocks s)"
  by (auto simp: ub_inv_def split: option.splits dest: chain_linked_prefix)

lemma getMetadata_fresh [simp]:
  "getMetadataUnfinalizedBlocks (fresh_state (ub_metadata s)) = getMetadataUnfinalizedBlocks s"
  by (simp add: fresh_state_def getMetadataUnfinalizedBlocks_def)

lemma init_service_inv:
  assumes "header_source get" and "rewinds reindex" and "chain_linked (getMetadataUnfinalizedBlocks s)"
    and "ub_finalizedHeader s = None" and "init_service get finalized reindex s = Some (r, s')"
  shows "ub_inv s'"
proof (cases finalized)
  case (Inl e)
  with assms(3-5) show ?thesis by (auto simp: init_service_def Let_def ub_inv_def)
next
  case (Inr f)
  let ?s3 = "s\<lparr>ub_unfinalizedBlocks := Some (getMetadataUnfinalizedBlocks s),
    ub_lastCheckedBlockHeight := getLastFinalizedVerifiedHeight s, ub_finalizedHeader := Some f\<rparr>"
  have s3: "ub_inv ?s3"
    using assms(3) by (simp add: ub_inv_def)
  show ?thesis
  proof (cases "getMetadataUnfinalizedBlocks s = []")
    case True
    with assms(5) Inr s3 show ?thesis by (auto simp: init_service_def Let_def)
  next
    case False
    with assms(5) Inr obtain q s4 where q: "processUnfinalizedBlockHeader get None ?s3 = Some (q, s4)"
      by (auto simp: init_service_def processUnfinalizedBlocks_def Let_def split: option.splits)
    then have s4: "ub_inv s4" using header_source.process_inv [OF assms(1) _ s3] by blast
    have end_states: "s' \<in> {s4, reset_both s4}"
    proof (cases q)
      case (Inl e)
      with assms(5) \<open>finalized = Inr f\<close> False q show ?thesis
        by (simp add: init_service_def processUnfinalizedBlocks_def Let_def)
    next
      case q': (Inr target)
      show ?thesis
      proof (cases target)
        case None
        with assms(5) \<open>finalized = Inr f\<close> False q q' show ?thesis
          by (simp add: init_service_def processUnfinalizedBlocks_def Let_def reset_both_def)
      next
        case (Some h)
        with assms(5) \<open>finalized = Inr f\<close> False q q' have "s' = snd (reindex h s4)"
          by (auto simp: init_service_def processUnfinalizedBlocks_def Let_def split: prod.splits sum.splits)
        with assms(2) show ?thesis by (auto simp: rewinds_def)
      qed
    qed
    then show ?thesis using s4 by auto
  qed
qed

lemma ub_step_inv: "ub_step s s' \<Longrightarrow> ub_inv s \<Longrightarrow> ub_inv s'"
proof (induction rule: ub_step.induct)
  case (process get header s r s')
  then show ?case using header_source.process_inv by blast
next
  case (restart get reindex finalized s r s')
  then have "chain_linked (getMetadataUnfinalizedBlocks (fresh_state (ub_metadata s)))"
    by (simp add: ub_inv_metadata_linked)
  with init_service_inv [OF restart(1,2) this _ restart(3)] show ?case by (simp add: fresh_state_def)
qed (auto intro: registerFinalizedBlock_inv)

lemma ub_reachable_inv: "ub_reachable s \<Longrightarrow> ub_inv s"
proof (induction rule: ub_reachable.induct)
  case start
  show ?case by (simp add: ub_inv_def fresh_state_def getMetadataUnfinalizedBlocks_def)
next
  case (step s s')
  then show ?case by (blast intro: ub_step_inv)
qed

subsection \<open>The backward walks\<close>

lemma getParent_available: "get n = Inr h \<Longrightarrow> getParentHeaderByHeight get n = Some (Inr h)"
  by (simp add: getParentHeaderByHeight.simps)

lemma getParent_error:
  "get n = Inl e \<Longrightarrow> e \<noteq> BlockUnavailableError \<Longrightarrow> getParentHeaderByHeight get n = Some (Inl e)"
  by (simp add: getParentHeaderByHeight.simps)

lemma getParent_skip:
  "get n = Inl BlockUnavailableError \<Longrightarrow> getParentHeaderByHeight get n = getParentHeaderByHeight get (n - 1)"
  by (subst getParentHeaderByHeight.simps) simp

text \<open>
  When it returns, it returns the newest block at or below the slot, or the first error;
  and it returns as soon as some slot at or below gives an answer other than a skip.
\<close>

lemma getParent_Some:
  assumes "getParentHeaderByHeight get n = Some r"
  shows "\<exists>k \<le> n. get k = r \<and> r \<noteq> Inl BlockUnavailableError \<and>
     (\<forall>j. k < j \<and> j \<le> n \<longrightarrow> get j = Inl BlockUnavailableError)"
proof (rule getParentHeaderByHeight.raw_induct [where P = "\<lambda>get n r. \<exists>k \<le> n. get k = r \<and>
     r \<noteq> Inl BlockUnavailableError \<and> (\<forall>j. k < j \<and> j \<le> n \<longrightarrow> get j = Inl BlockUnavailableError)", OF _ assms])
  fix f and get :: "int \<Rightarrow> header result" and n r
  assume IH: "\<And>get n r. f get n = Some r \<Longrightarrow> \<exists>k \<le> n. get k = r \<and>
       r \<noteq> Inl BlockUnavailableError \<and> (\<forall>j. k < j \<and> j \<le> n \<longrightarrow> get j = Inl BlockUnavailableError)"
    and eq: "(case get n of Inl e \<Rightarrow> if e = BlockUnavailableError then f get (n - 1) else Some (Inl e)
       | Inr h \<Rightarrow> Some (Inr h)) = Some r"
  show "\<exists>k \<le> n. get k = r \<and> r \<noteq> Inl BlockUnavailableError \<and>
       (\<forall>j. k < j \<and> j \<le> n \<longrightarrow> get j = Inl BlockUnavailableError)"
  proof (cases "get n = Inl BlockUnavailableError")
    case True
    with eq have "f get (n - 1) = Some r" by simp
    from IH [OF this] obtain k where k: "k \<le> n - 1" "get k = r" "r \<noteq> Inl BlockUnavailableError"
        "\<forall>j. k < j \<and> j \<le> n - 1 \<longrightarrow> get j = Inl BlockUnavailableError"
      by blast
    have "get j = Inl BlockUnavailableError" if "k < j \<and> j \<le> n" for j
      using that True k(4) by (cases "j = n") auto
    with k show ?thesis by (intro exI [of _ k]) auto
  next
    case False
    with eq have "get n = r" by (cases "get n") (auto split: if_splits)
    with False show ?thesis by (intro exI [of _ n]) auto
  qed
qed

lemma getParent_returns:
  assumes "k \<le> n" and "get k \<noteq> Inl BlockUnavailableError"
  shows "\<exists>r. getParentHeaderByHeight get n = Some r"
  using assms
proof (induction "nat (n - k)" arbitrary: n rule: less_induct)
  case less
  show ?case
  proof (cases "get n = Inl BlockUnavailableError")
    case True
    with less.prems have "k < n" by (cases "k = n") auto
    with less True show ?thesis by (simp add: getParent_skip)
  next
    case False
    then show ?thesis by (subst getParentHeaderByHeight.simps) (auto split: sum.splits)
  qed
qed

lemma walkBack_stop: "blockHeight h = t \<Longrightarrow> walkBack get t h = Some (Inr h)"
  by (simp add: walkBack.simps)

lemma walkBack_step:
  "blockHeight h \<noteq> t \<Longrightarrow> truthy (parentHash h) \<Longrightarrow>
     getParentHeaderByHeight get (blockHeight h - 1) = Some (Inr k) \<Longrightarrow> walkBack get t h = walkBack get t k"
  by (subst walkBack.simps) simp

text \<open>A walk that ends well ends at the slot it was sent to, with the header the chain has there.\<close>

lemma walkBack_Some:
  assumes "walkBack get t h = Some q"
  shows "header_source get \<longrightarrow> (\<forall>r. q = Inr r \<longrightarrow> blockHeight r = t \<and> (r = h \<or> get t = Inr r))"
proof (rule walkBack.raw_induct [where P = "\<lambda>get t h q. header_source get \<longrightarrow>
    (\<forall>r. q = Inr r \<longrightarrow> blockHeight r = t \<and> (r = h \<or> get t = Inr r))", OF _ assms])
  fix f and get :: "int \<Rightarrow> header result" and t h q
  assume IH: "\<And>get t h q. f get t h = Some q \<Longrightarrow> header_source get \<longrightarrow>
       (\<forall>r. q = Inr r \<longrightarrow> blockHeight r = t \<and> (r = h \<or> get t = Inr r))"
    and eq: "(if t = blockHeight h then Some (Inr h)
       else if \<not> truthy (parentHash h)
       then Some (Inl (AssertionError ''When iterate back parent hashes to find matching height, we expect parentHash to be exist''))
       else (case getParentHeaderByHeight get (blockHeight h - 1) of
               None \<Rightarrow> None | Some (Inl e) \<Rightarrow> Some (Inl e) | Some (Inr k) \<Rightarrow> f get t k)) = Some q"
  show "header_source get \<longrightarrow> (\<forall>r. q = Inr r \<longrightarrow> blockHeight r = t \<and> (r = h \<or> get t = Inr r))"
  proof (intro impI allI)
    fix r assume src: "header_source get" and q: "q = Inr r"
    show "blockHeight r = t \<and> (r = h \<or> get t = Inr r)"
    proof (cases "t = blockHeight h")
      case True
      with eq q show ?thesis by simp
    next
      case False
      with eq q obtain k where k: "getParentHeaderByHeight get (blockHeight h - 1) = Some (Inr k)"
          "f get t k = Some (Inr r)"
        by (auto split: if_splits option.splits sum.splits)
      from IH [OF k(2)] src have "blockHeight r = t \<and> (r = k \<or> get t = Inr r)"
        by simp
      moreover have "get (blockHeight k) = Inr k"
        using getParent_Some [OF k(1)] header_source.header_height [OF src] by auto
      ultimately show ?thesis by auto
    qed
  qed
qed

context header_source begin

lemma walkBack_result:
  assumes "walkBack getHeaderForHeight t h = Some (Inr r)"
  shows "blockHeight r = t" and "r = h \<or> getHeaderForHeight t = Inr r"
  using walkBack_Some [OF assms] by (simp_all add: header_source_axioms)

text \<open>
  It ends well when the slot has a block, no slot in between answers with an error, and the
  headers name their parents.
\<close>

lemma walkBack_returns:
  assumes "getHeaderForHeight t = Inr r" and "t \<le> blockHeight h"
    and "\<And>k. t \<le> k \<Longrightarrow> k < blockHeight h \<Longrightarrow> \<not> isl (getHeaderForHeight k) \<or> getHeaderForHeight k = Inl BlockUnavailableError"
    and "truthy (parentHash h)"
    and "\<And>k g. t \<le> k \<Longrightarrow> getHeaderForHeight k = Inr g \<Longrightarrow> truthy (parentHash g)"
  shows "walkBack getHeaderForHeight t h = Some (Inr (if blockHeight h = t then h else r))"
  using assms(2-4)
proof (induction "nat (blockHeight h - t)" arbitrary: h rule: less_induct)
  case less
  show ?case
  proof (cases "blockHeight h = t")
    case True
    then show ?thesis by (simp add: walkBack_stop)
  next
    case False
    with less.prems(1) have lt: "t \<le> blockHeight h - 1" by simp
    obtain q where q: "getParentHeaderByHeight getHeaderForHeight (blockHeight h - 1) = Some q"
      using getParent_returns [of t "blockHeight h - 1" getHeaderForHeight] lt assms(1) by auto
    from getParent_Some [OF q] obtain k where k: "k \<le> blockHeight h - 1" "getHeaderForHeight k = q"
        "q \<noteq> Inl BlockUnavailableError" "\<forall>j. k < j \<and> j \<le> blockHeight h - 1 \<longrightarrow> getHeaderForHeight j = Inl BlockUnavailableError"
      by blast
    have tk: "t \<le> k"
      using k(4) lt assms(1) by (metis not_le sum.distinct(1))
    with less.prems(2) [of k] k obtain g where g: "q = Inr g"
      by (cases q) auto
    have h: "blockHeight g = k" and p: "truthy (parentHash g)"
      using header_height k(2) g assms(5) [OF tk] by auto
    have "walkBack getHeaderForHeight t g = Some (Inr (if blockHeight g = t then g else r))"
      by (rule less.hyps) (use k h tk p less.prems(2) in auto)
    moreover have "g = r" if "blockHeight g = t"
      using that h k(2) g assms(1) by simp
    ultimately show ?thesis
      using False q g less.prems(3) by (simp add: walkBack_step split: if_splits)
  qed
qed

end

end
