(* ===== verification/ForkDetection.thy ===== *)
theory ForkDetection
  imports UnfinalizedProps
begin

section \<open>Fork detection and the rewind target\<close>

text \<open>
  What the verdicts of \<open>hasForked\<close> and \<open>processUnfinalizedBlockHeader\<close> mean for the
  records: which records an undetected fork certifies, what a rewind target is, and where
  the code gives no verdict.
\<close>

subsection \<open>The closest record\<close>

lemma find_rev: "find P (rev xs) = last_opt (filter P xs)"
  by (induction xs rule: rev_induct) (auto simp: last_opt_def)

lemma getClosestRecord_filter:
  "getClosestRecord n ubs = last_opt (filter (\<lambda>h. blockHeight h \<le> n) ubs)"
  by (simp add: getClosestRecord_def find_rev)

lemma getClosestRecord_Some:
  "getClosestRecord n ubs = Some c \<Longrightarrow> c \<in> set ubs \<and> blockHeight c \<le> n"
proof -
  assume "getClosestRecord n ubs = Some c"
  then obtain ys where "filter (\<lambda>h. blockHeight h \<le> n) ubs = ys @ [c]"
    by (auto simp: getClosestRecord_filter last_opt_Some)
  then have "c \<in> set (filter (\<lambda>h. blockHeight h \<le> n) ubs)"
    by simp
  then show ?thesis by simp
qed

lemma getClosestRecord_None: "getClosestRecord n ubs = None \<longleftrightarrow> (\<forall>h \<in> set ubs. n < blockHeight h)"
  by (auto simp: getClosestRecord_filter filter_empty_conv not_le)

lemma filter_takeWhile:
  "sorted_wrt (\<lambda>a b. blockHeight a < blockHeight b) xs \<Longrightarrow>
     filter (\<lambda>h. blockHeight h \<le> n) xs = takeWhile (\<lambda>h. blockHeight h \<le> n) xs"
proof (induction xs)
  case (Cons a xs)
  then show ?case
    by (cases "blockHeight a \<le> n"; cases xs) (auto simp: filter_empty_conv)
qed simp

lemma getClosestRecord_greatest:
  assumes "chain_linked ubs" and "getClosestRecord n ubs = Some c" and "h \<in> set ubs" and "blockHeight h \<le> n"
  shows "blockHeight h \<le> blockHeight c"
proof -
  let ?xs = "filter (\<lambda>h. blockHeight h \<le> n) ubs"
  have "sorted_wrt (\<lambda>a b. blockHeight a < blockHeight b) ?xs"
    using assms(1) by (intro sorted_wrt_filter chain_linked_sorted)
  moreover obtain ys where "?xs = ys @ [c]"
    using assms(2) by (auto simp: getClosestRecord_filter last_opt_Some)
  moreover have "h \<in> set ?xs"
    using assms(3,4) by simp
  ultimately show ?thesis
    by (auto simp: sorted_wrt_append)
qed

subsection \<open>Certified records\<close>

text \<open>
  \<open>C\<close> is a set of block hashes, closed under the parents of the blocks of \<open>H\<close>, the
  blocks that exist: the hash of a block fixes the hash of its parent, which is what makes a
  comparison of hashes meaningful at all. In a linked list of such blocks, one hash in
  \<open>C\<close> puts the hash of every older record into \<open>C\<close>.
\<close>

definition parent_closed :: "header set \<Rightarrow> string set \<Rightarrow> bool" where
  "parent_closed H C \<longleftrightarrow> (\<forall>h \<in> H. \<forall>p. blockHash h \<in> C \<and> parentHash h = Some p \<longrightarrow> p \<in> C)"

lemma chain_linked_canonical:
  "chain_linked xs \<Longrightarrow> set xs \<subseteq> H \<Longrightarrow> parent_closed H C \<Longrightarrow> last_opt xs = Some c \<Longrightarrow> blockHash c \<in> C \<Longrightarrow>
     \<forall>h \<in> set xs. blockHash h \<in> C"
proof (induction xs arbitrary: c rule: rev_induct)
  case (snoc x xs)
  have x: "blockHash x \<in> C" "x \<in> H"
    using snoc.prems by simp_all
  show ?case
  proof (cases "last_opt xs")
    case None
    with x show ?thesis by simp
  next
    case (Some p)
    with snoc.prems(1) have "chain_linked xs" "parentHash x = Some (blockHash p)"
      by (simp_all add: chain_linked_snoc links_def)
    moreover from this x snoc.prems(3) have "blockHash p \<in> C"
      unfolding parent_closed_def by blast
    ultimately show ?thesis
      using snoc.IH [OF _ _ snoc.prems(3) Some] snoc.prems(2) x by simp
  qed
qed simp

lemma closest_canonical:
  assumes "chain_linked ubs" and "\<forall>h \<in> set ubs. blockHeight h \<le> n \<longrightarrow> h \<in> H" and "parent_closed H C"
    and "getClosestRecord n ubs = Some c" and "blockHash c \<in> C"
    and "h \<in> set ubs" and "blockHeight h \<le> n"
  shows "blockHash h \<in> C"
proof -
  let ?xs = "takeWhile (\<lambda>h. blockHeight h \<le> n) ubs"
  have eq: "filter (\<lambda>h. blockHeight h \<le> n) ubs = ?xs"
    using assms(1) by (simp add: filter_takeWhile chain_linked_sorted)
  have "prefix ?xs ubs"
    by (metis prefixI takeWhile_dropWhile_id)
  then have "chain_linked ?xs"
    using assms(1) by (rule chain_linked_prefix)
  moreover have "set ?xs \<subseteq> H"
    using assms(2) by (auto simp flip: eq)
  moreover have "last_opt ?xs = Some c"
    using assms(4) by (simp add: getClosestRecord_filter eq)
  moreover have "h \<in> set ?xs"
    using assms(6,7) by (simp flip: eq)
  ultimately show ?thesis
    using chain_linked_canonical assms(3,5) by blast
qed

subsection \<open>The verdict of hasForked\<close>

lemma hasForked_initialised_eq:
  assumes "ub_finalizedHeader s = Some f" and "ub_unfinalizedBlocks s = Some ubs"
  shows "hasForked get s =
     (case getClosestRecord (blockHeight f) ubs of
        None \<Rightarrow> Some (Inr None)
      | Some c \<Rightarrow>
          (if blockHeight c = blockHeight f
           then Some (Inr (if blockHash c \<noteq> blockHash f then Some f else None))
           else (case (if blockHeight f - blockHeight c > UNFINALIZED_THRESHOLD
                       then Some (get (blockHeight c))
                       else walkBack get (blockHeight c) f) of
                   None \<Rightarrow> None
                 | Some (Inl e) \<Rightarrow> Some (Inl e)
                 | Some (Inr h) \<Rightarrow> Some (Inr (if blockHash h \<noteq> blockHash c then Some h else None)))))"
  using assms by (simp add: hasForked_def ub_defs)

text \<open>The header of the finalized chain at a slot, as the service sees it.\<close>

definition chain_header :: "(int \<Rightarrow> header result) \<Rightarrow> header \<Rightarrow> int \<Rightarrow> header option" where
  "chain_header get f n =
     (if n = blockHeight f then Some f else case get n of Inr h \<Rightarrow> Some h | Inl e \<Rightarrow> None)"

text \<open>
  \<open>C\<close> holds the hashes of the finalized chain: its head \<open>f\<close>, every block below it
  that the source serves, and the parents of the blocks that exist (\<open>H\<close>).
\<close>

definition finalized_hashes ::
  "(int \<Rightarrow> header result) \<Rightarrow> header \<Rightarrow> header set \<Rightarrow> string set \<Rightarrow> bool" where
  "finalized_hashes get f H C \<longleftrightarrow>
     parent_closed H C \<and> blockHash f \<in> C \<and>
     (\<forall>n h. get n = Inr h \<longrightarrow> h \<in> H \<and> (n < blockHeight f \<longrightarrow> blockHash h \<in> C))"

lemma finalized_hashes_header:
  assumes "finalized_hashes get f H C" and "chain_header get f n = Some h" and "n \<le> blockHeight f"
  shows "blockHash h \<in> C"
proof (cases "n = blockHeight f")
  case True
  with assms show ?thesis by (simp add: chain_header_def finalized_hashes_def)
next
  case False
  with assms(2,3) have "n < blockHeight f" "get n = Inr h"
    by (simp_all add: chain_header_def split: sum.splits)
  with assms(1) show ?thesis unfolding finalized_hashes_def by blast
qed

context header_source begin

lemma hasForked_verdict:
  assumes "ub_finalizedHeader s = Some f" and "ub_unfinalizedBlocks s = Some ubs"
    and "getClosestRecord (blockHeight f) ubs = Some c"
    and "hasForked getHeaderForHeight s = Some (Inr v)"
  shows "\<exists>h. chain_header getHeaderForHeight f (blockHeight c) = Some h \<and> blockHeight h = blockHeight c \<and>
             v = (if blockHash h \<noteq> blockHash c then Some h else None)"
proof (cases "blockHeight c = blockHeight f")
  case True
  with assms show ?thesis
    by (auto simp: hasForked_initialised_eq chain_header_def)
next
  case False
  let ?q = "if blockHeight f - blockHeight c > UNFINALIZED_THRESHOLD
            then Some (getHeaderForHeight (blockHeight c)) else walkBack getHeaderForHeight (blockHeight c) f"
  obtain h where h: "?q = Some (Inr h)" "v = (if blockHash h \<noteq> blockHash c then Some h else None)"
    using assms False
    by (auto simp: hasForked_initialised_eq split: option.splits sum.splits if_splits)
  have "getHeaderForHeight (blockHeight c) = Inr h"
  proof (cases "blockHeight f - blockHeight c > UNFINALIZED_THRESHOLD")
    case True
    with h(1) show ?thesis by simp
  next
    case near: False
    with h(1) have w: "walkBack getHeaderForHeight (blockHeight c) f = Some (Inr h)" by simp
    show ?thesis
      using walkBack_result [OF w] False by auto
  qed
  with h(2) False header_height [OF this] show ?thesis
    by (auto simp: chain_header_def)
qed

lemma hasForked_no_fork_certifies:
  assumes "ub_finalizedHeader s = Some f" and "ub_unfinalizedBlocks s = Some ubs" and "ub_inv s"
    and "hasForked getHeaderForHeight s = Some (Inr None)"
    and "finalized_hashes getHeaderForHeight f H C"
    and "\<forall>h \<in> set ubs. blockHeight h \<le> blockHeight f \<longrightarrow> h \<in> H"
    and "r \<in> set ubs" and "blockHeight r \<le> blockHeight f"
  shows "blockHash r \<in> C"
proof -
  have linked: "chain_linked ubs"
    using assms(2,3) by (simp add: ub_inv_def)
  obtain c where c: "getClosestRecord (blockHeight f) ubs = Some c"
    using assms(7,8) getClosestRecord_None [of "blockHeight f" ubs] by force
  from hasForked_verdict [OF assms(1,2) c assms(4)]
  obtain h where h: "chain_header getHeaderForHeight f (blockHeight c) = Some h" "blockHash h = blockHash c"
    by (auto split: if_splits)
  have "blockHeight c \<le> blockHeight f"
    using getClosestRecord_Some [OF c] by simp
  with finalized_hashes_header [OF assms(5) h(1)] have "blockHash h \<in> C" by simp
  moreover have closed: "parent_closed H C"
    using assms(5) by (simp add: finalized_hashes_def)
  ultimately show ?thesis
    using closest_canonical [OF linked assms(6) closed c _ assms(7,8)] h(2) by simp
qed

text \<open>
  No verdict: when the slot of the closest record has no block on the chain now, neither
  branch of \<open>hasForked\<close> can end with a verdict.
\<close>

lemma hasForked_skipped_slot:
  assumes "ub_finalizedHeader s = Some f" and "ub_unfinalizedBlocks s = Some ubs"
    and "getClosestRecord (blockHeight f) ubs = Some c" and "blockHeight c < blockHeight f"
    and "getHeaderForHeight (blockHeight c) = Inl BlockUnavailableError"
  shows "hasForked getHeaderForHeight s \<noteq> Some (Inr v)"
  using hasForked_verdict [OF assms(1,2,3), of v] assms(4,5)
  by (auto simp: chain_header_def)

end

subsection \<open>The rewind target\<close>

text \<open>The candidate hashes: the forked header, then the headers the loop fetches.\<close>

lemma lastCorrectLoop_match:
  assumes "lastCorrectLoop get k bests = Some (Inr (Some r))"
  shows "r \<in> set bests \<and> (\<exists>h. (h = k \<or> (\<exists>n. get n = Inr h)) \<and>
           (blockHash r = blockHash h \<or> parentHash h = Some (blockHash r)))"
  using assms
proof (induction bests arbitrary: k)
  case (Cons b bests)
  show ?case
  proof (cases "blockHash b = blockHash k \<or> Some (blockHash b) = parentHash k")
    case True
    with Cons.prems have "r = b" by simp
    with True show ?thesis by auto
  next
    case False
    with Cons.prems obtain h where h: "getParentHeaderByHeight get (blockHeight k - 1) = Some (Inr h)"
        "lastCorrectLoop get h bests = Some (Inr (Some r))"
      by (auto split: if_splits option.splits sum.splits)
    obtain n where "get n = Inr h"
      using getParent_Some [OF h(1)] by auto
    with Cons.IH [OF h(2)] show ?thesis by auto
  qed
qed simp

lemma getLastCorrect_eq:
  assumes "ub_finalizedHeader s = Some f" and "ub_unfinalizedBlocks s = Some ubs"
  shows "getLastCorrectFinalizedBlock get k s =
     (case lastCorrectLoop get k (rev (filter (\<lambda>h. blockHeight h \<le> blockHeight f) ubs)) of
        None \<Rightarrow> None
      | Some (Inl e) \<Rightarrow> Some (Inl e)
      | Some (Inr (Some b)) \<Rightarrow> Some (Inr (Some b))
      | Some (Inr None) \<Rightarrow>
          (case ub_lastCheckedBlockHeight s of
             Number n \<Rightarrow> (if n = 0 then Some (Inr None) else Some (map_sum id Some (get n)))
           | _ \<Rightarrow> Some (Inr None)))"
  using assms
  by (cases "ubs = []") (auto simp: getLastCorrectFinalizedBlock_def ub_defs
      split: option.splits sum.splits nullable_number.splits)

text \<open>
  A target is a record at or below the finalized height whose hash the chain confirms, or
  the chain's own header at the height verified last. With such a height, a detected fork
  always ends in a target, in an exception, or in a walk that does not return.
\<close>

lemma getLastCorrect_target:
  assumes "ub_finalizedHeader s = Some f" and "ub_unfinalizedBlocks s = Some ubs"
    and "getLastCorrectFinalizedBlock get k s = Some (Inr (Some r))"
  shows "(r \<in> set ubs \<and> blockHeight r \<le> blockHeight f \<and>
           (\<exists>h. (h = k \<or> (\<exists>n. get n = Inr h)) \<and>
                (blockHash r = blockHash h \<or> parentHash h = Some (blockHash r))))
       \<or> (\<exists>n. ub_lastCheckedBlockHeight s = Number n \<and> n \<noteq> 0 \<and> get n = Inr r)"
proof -
  let ?bests = "rev (filter (\<lambda>h. blockHeight h \<le> blockHeight f) ubs)"
  consider (match) "lastCorrectLoop get k ?bests = Some (Inr (Some r))"
    | (fallback) n where "ub_lastCheckedBlockHeight s = Number n" "n \<noteq> 0" "map_sum id Some (get n) = Inr (Some r)"
    using assms
    by (auto simp: getLastCorrect_eq split: option.splits sum.splits nullable_number.splits if_splits)
  then show ?thesis
  proof cases
    case match
    from lastCorrectLoop_match [OF this] show ?thesis by auto
  next
    case (fallback n)
    then show ?thesis by (cases "get n") auto
  qed
qed

lemma getLastCorrect_lost:
  assumes "ub_finalizedHeader s = Some f" and "ub_unfinalizedBlocks s = Some ubs"
    and "getLastCorrectFinalizedBlock get k s = Some (Inr None)"
  shows "\<not> js_truthy (ub_lastCheckedBlockHeight s)"
proof -
  have "map_sum id Some x \<noteq> Inr None" for x :: "js_error + header"
    by (cases x) auto
  with assms show ?thesis
    by (auto simp: getLastCorrect_eq split: option.splits sum.splits nullable_number.splits if_splits)
qed

text \<open>Where a forked header comes from.\<close>

lemma gap_fill_fork: "gap_fill get ubs h = (Inr (Some k), ubs') \<Longrightarrow> \<exists>n. get n = Inr k"
  by (auto simp: gap_fill_def split: option.splits dest: backfill_fork)

lemma registerUnfinalizedBlock_fork:
  assumes "registerUnfinalizedBlock get h s = (Inr (Some k), s')" and "ub_inv s" and "ub_finalizedHeader s = Some f"
  shows "k = h \<or> (\<exists>n. get n = Inr k)"
proof -
  obtain ubs where ubs: "ub_unfinalizedBlocks s = Some ubs"
    using assms(2,3) by (auto simp: ub_inv_def split: option.splits)
  obtain q us where g: "gap_fill get ubs h = (q, us)"
    by fastforce
  have "k = h \<or> q = Inr (Some k)"
    using assms ubs g by (auto simp: registerUnfinalizedBlock_eq split: sum.splits option.splits if_splits)
  with gap_fill_fork g show ?thesis by blast
qed

context header_source begin

lemma hasForked_source:
  assumes "ub_finalizedHeader s = Some f" and "ub_unfinalizedBlocks s = Some ubs"
    and "hasForked getHeaderForHeight s = Some (Inr (Some k))"
  shows "k = f \<or> (\<exists>n. getHeaderForHeight n = Inr k)"
proof -
  obtain c where c: "getClosestRecord (blockHeight f) ubs = Some c"
    using assms by (auto simp: hasForked_initialised_eq split: option.splits)
  from hasForked_verdict [OF assms(1,2) c assms(3)] show ?thesis
    by (auto simp: chain_header_def split: if_splits sum.splits)
qed

lemma detect_fork_source:
  assumes "ub_finalizedHeader s = Some f" and "ub_inv s"
    and "register_optional getHeaderForHeight header s = (Inr reg, s')"
    and "detect_fork getHeaderForHeight reg s' = Some (Inr (Some k))"
  shows "k = f \<or> header = Some k \<or> (\<exists>n. getHeaderForHeight n = Inr k)"
proof (cases reg)
  case None
  have "ub_inv s'" "ub_finalizedHeader s' = Some f"
    using register_optional_inv [OF assms(3,2)] assms(1) by simp_all
  then obtain us where "ub_unfinalizedBlocks s' = Some us"
    by (auto simp: ub_inv_def split: option.splits)
  with \<open>ub_finalizedHeader s' = Some f\<close> None assms(4) show ?thesis
    using hasForked_source by (auto simp: detect_fork_def)
next
  case (Some g)
  with assms(4) have "g = k" by (simp add: detect_fork_def)
  with Some assms(3) show ?thesis
    using registerUnfinalizedBlock_fork [OF _ assms(2,1)]
    by (cases header) (auto simp: register_optional_def)
qed

end

end
