(* ===== verification/UnfinalizedTheorems.thy ===== *)
theory UnfinalizedTheorems
  imports ForkDetection
begin

section \<open>The properties of the unfinalized-blocks service\<close>

text \<open>
  The service as it runs, with the headers of \<open>SolanaApi.getHeaderByHeight\<close>: the facts
  of the locale \<open>header_source\<close> come in through the interpretation \<open>rpc\<close>.
\<close>

text \<open>C1: in every state a run can reach (blocks, finalized headers, rewinds, exceptions and
  restarts, with or without a rewind, in any order, with a chain that may answer differently each time) the records in
  memory are linked: heights grow and each names its predecessor as its parent. The list in the
  metadata is a prefix of it.\<close>

theorem unfinalized_records_linked:
  assumes "ub_reachable s" and "ub_unfinalizedBlocks s = Some ubs"
  shows "chain_linked ubs \<and> prefix (getMetadataUnfinalizedBlocks s) ubs"
  using ub_reachable_inv [OF assms(1)] assms(2) by (simp add: ub_inv_def)

definition example_header :: "int \<Rightarrow> string \<Rightarrow> string \<Rightarrow> header" where
  "example_header n h p = \<lparr>blockHeight = n, blockHash = h, parentHash = Some p, timestamp = 0\<rparr>"

definition example_chain :: "int \<Rightarrow> header result" where
  "example_chain n =
     (if n = 101 then Inr (example_header 101 ''a'' ''z'')
      else if n = 102 then Inr (example_header 102 ''b'' ''a'')
      else if n = 104 then Inr (example_header 104 ''c'' ''b'')
      else Inl BlockUnavailableError)"

lemma example_chain_source: "header_source example_chain"
  by unfold_locales (auto simp: example_chain_def example_header_def split: if_splits)

definition example_state :: "header list \<Rightarrow> ub_state" where
  "example_state ubs =
     \<lparr>ub_unfinalizedBlocks = Some ubs, ub_finalizedHeader = Some (example_header 100 ''z'' ''y''),
      ub_lastCheckedBlockHeight = Number 100, ub_metadata = [METADATA_UNFINALIZED_BLOCKS_KEY \<mapsto> JsonHeaders ubs]\<rparr>"

lemmas example_simps = example_header_def example_chain_def example_state_def

lemma first_start_reachable:
  "ub_reachable ((fresh_state Map.empty)\<lparr>ub_unfinalizedBlocks := Some [], ub_finalizedHeader := Some (example_header 100 ''z'' ''y'')\<rparr>)"
  (is "ub_reachable ?s1")
proof -
  let ?s0 = "fresh_state Map.empty"
  have "init_service example_chain (Inr (example_header 100 ''z'' ''y'')) (\<lambda>h s. (Inr (), s)) (fresh_state (ub_metadata ?s0)) = Some (Inr None, ?s1)"
    by (simp add: init_service_def fresh_state_def getMetadataUnfinalizedBlocks_def
        getLastFinalizedVerifiedHeight_def)
  moreover have "rewinds (\<lambda>h s. (Inr (), s))" by (simp add: rewinds_def)
  ultimately show ?thesis
    using example_chain_source by (blast intro: ub_reachable.intros ub_step.restart)
qed

theorem unfinalized_records_linked_witness:
  "\<exists>s ubs. ub_reachable s \<and> ub_unfinalizedBlocks s = Some ubs \<and> length ubs = 1 \<and> chain_linked ubs"
proof -
  let ?h = "example_header 101 ''a'' ''z''"
  let ?s1 = "(fresh_state Map.empty)\<lparr>ub_unfinalizedBlocks := Some [], ub_finalizedHeader := Some (example_header 100 ''z'' ''y'')\<rparr>"
  note r1 = first_start_reachable
  obtain s2 where s2: "processUnfinalizedBlockHeader example_chain (Some ?h) ?s1 = Some (Inr None, s2)"
      "ub_unfinalizedBlocks s2 = Some [?h]"
    by (simp add: processUnfinalizedBlockHeader_def register_optional_def registerUnfinalizedBlock_def
        ub_defs detect_fork_def hasForked_def getClosestRecord_def
        deleteFinalizedBlock_def fresh_state_def example_header_def push_and_save_def saveUnfinalizedBlocks_def)
  with r1 example_chain_source have "ub_reachable s2"
    by (blast intro: ub_reachable.step ub_step.process)
  with s2(2) unfinalized_records_linked [OF this s2(2)] show ?thesis by auto
qed

text \<open>C5: a header above the finalized one and above the last record is accepted exactly when
  every slot in the gap before it is a block or a reported skip and the blocks of the gap and the
  header itself each continue the one before; then all of them are recorded, in slot order, and
  saved. Otherwise a fork or an error is reported.\<close>

theorem registerUnfinalizedBlock_fills_gap:
  assumes "ub_finalizedHeader s = Some f" and "ub_unfinalizedBlocks s = Some ubs"
    and "last_opt ubs = Some l" and "blockHeight f < blockHeight h" and "blockHeight l < blockHeight h"
  shows "registerUnfinalizedBlock (getHeaderByHeight api) h s = (Inr None, s') \<longleftrightarrow>
     (let gap = available_headers (getHeaderByHeight api) (blockHeight l + 1) (blockHeight h - 1)
      in only_skipped (getHeaderByHeight api) (blockHeight l + 1) (blockHeight h - 1)
         \<and> parents_ok ubs (gap @ [h])
         \<and> s' = push_and_save h (ubs @ gap) s)"
proof -
  have ok: "parents_ok xs (ys @ [h]) \<longleftrightarrow> parents_ok xs ys \<and> continues (xs @ ys) h" for xs ys
    by (induction ys arbitrary: xs) auto
  obtain q ubs' where g: "gap_fill (getHeaderByHeight api) ubs h = (q, ubs')"
    by fastforce
  then have b: "backfillSkippedSlots (getHeaderByHeight api) (blockHeight l + 1) (blockHeight h - 1) ubs = (q, ubs')"
    using assms(3) by (simp add: gap_fill_def)
  have run: "registerUnfinalizedBlock (getHeaderByHeight api) h s = (Inr None, s') \<longleftrightarrow>
      q = Inr None \<and> continues ubs' h \<and> s' = push_and_save h ubs' s"
  proof (cases q)
    case (Inl e)
    with assms(3-) g show ?thesis by (auto simp: registerUnfinalizedBlock_eq [OF assms(1,2)])
  next
    case (Inr k)
    with assms(3-) g show ?thesis by (cases k) (auto simp: registerUnfinalizedBlock_eq [OF assms(1,2)])
  qed
  note iff = backfill_complete_iff [of "getHeaderByHeight api" "blockHeight l + 1" "blockHeight h - 1" ubs]
  show ?thesis
  proof (cases "q = Inr None")
    case True
    with b iff [of ubs'] show ?thesis by (auto simp: run ok Let_def)
  next
    case False
    with b iff [of "ubs @ available_headers (getHeaderByHeight api) (blockHeight l + 1) (blockHeight h - 1)"]
    show ?thesis by (auto simp: run ok Let_def)
  qed
qed

definition example_base_block :: "header \<Rightarrow> base_block" where
  "example_base_block h =
     \<lparr>bb_blockHeight = 0, bb_blockTime = 0, bb_blockhash = blockHash h, bb_parentSlot = 0,
      bb_previousBlockhash = the (parentHash h), bb_rest = []\<rparr>"

text \<open>An RPC client that serves \<open>example_chain\<close>; slot 103 is a reported skip.\<close>

definition example_client :: rpc_client where
  "example_client =
     \<lparr>rpc_getGenesisHash = Inr ''g'', rpc_getSlot = (\<lambda>c. Inr 104),
      rpc_getBlockHeader = (\<lambda>n. case example_chain n of
         Inr h \<Rightarrow> Inr (Some (example_base_block h))
       | Inl e \<Rightarrow> Inl (SolanaError SERVER_ERROR_SLOT_SKIPPED ''skipped'' None)),
      rpc_getBlock = (\<lambda>n. Inr None)\<rparr>"

definition example_api :: solana_api where
  "example_api =
     \<lparr>api_client = example_client, api_genesisBlockHash = ''g'', api_endpoint = ''http://localhost'',
      api_requestTimeout = REQUEST_TIMEOUT, api_treatLongTermStorageSkipAsSkipped = True\<rparr>"

lemma example_api_chain: "getHeaderByHeight example_api = example_chain"
  by (rule ext)
    (auto simp: getHeaderByHeight_def example_api_def example_client_def example_base_block_def
      solanaBlockToHeader_def example_chain_def example_header_def)

theorem registerUnfinalizedBlock_fills_gap_witness:
  "registerUnfinalizedBlock (getHeaderByHeight example_api) (example_header 104 ''c'' ''b'')
      (example_state [example_header 101 ''a'' ''z'']) =
   (Inr None, push_and_save (example_header 104 ''c'' ''b'')
      [example_header 101 ''a'' ''z'', example_header 102 ''b'' ''a'']
      (example_state [example_header 101 ''a'' ''z'']))"
proof -
  let ?s = "example_state [example_header 101 ''a'' ''z'']"
  have av: "available_headers (getHeaderByHeight example_api) 102 103 = [example_header 102 ''b'' ''a'']"
    by (simp add: example_api_chain available_headers_def example_chain_def upto.simps)
  have sk: "only_skipped (getHeaderByHeight example_api) 102 103"
    by (auto simp: only_skipped_def example_api_chain example_chain_def split: if_splits)
  show ?thesis
    by (subst registerUnfinalizedBlock_fills_gap
        [where f = "example_header 100 ''z'' ''y''" and ubs = "[example_header 101 ''a'' ''z'']"
          and l = "example_header 101 ''a'' ''z''"])
      (use av sk in \<open>auto simp: example_simps last_opt_def continues_def Let_def\<close>)
qed

text \<open>C2: take a service with a verified height that is neither unset nor 0 and lies below the
  finalized height, and an endpoint whose blocks below the finalized height have their hashes in a
  set \<open>C\<close> that is closed under parents and holds the finalized hash (\<open>finalized_hashes\<close>). When a header, or none, is processed without a rewind,
  then every record at or below the finalized height, which is dropped here, is a block of the
  finalized chain, only records above it stay, and the finalized height is the verified one. The
  condition on the verified height is needed: without one, a step can find a fork and report no
  rewind, as it does at the start (see the property on the start below).\<close>

theorem process_without_rewind_certifies:
  assumes "processUnfinalizedBlockHeader (getHeaderByHeight api) header s = Some (Inr None, s')"
    and "ub_inv s" and "ub_finalizedHeader s = Some f" and "ub_lastCheckedBlockHeight s = Number n"
    and "n \<noteq> 0" and "n < blockHeight f" and "ub_unfinalizedBlocks s = Some ubs"
    and "finalized_hashes (getHeaderByHeight api) f H C" and "set ubs \<subseteq> H"
  shows "(\<forall>r \<in> set ubs. blockHeight r \<le> blockHeight f \<longrightarrow> blockHash r \<in> C)
     \<and> (\<exists>ubs'. ub_unfinalizedBlocks s' = Some ubs' \<and> (\<forall>r \<in> set ubs'. blockHeight f < blockHeight r))
     \<and> ub_lastCheckedBlockHeight s' = Number (blockHeight f)"
  using assms(1)
proof (cases rule: process_cases)
  case (rewind reg k)
  have "ub_inv s' \<and> ub_finalizedHeader s' = Some f \<and> ub_lastCheckedBlockHeight s' = Number n"
    using rpc.register_optional_inv [OF rewind(1) assms(2)] assms(3,4) by simp
  then obtain us where "ub_finalizedHeader s' = Some f" "ub_unfinalizedBlocks s' = Some us"
      "ub_lastCheckedBlockHeight s' = Number n"
    by (auto simp: ub_inv_def split: option.splits)
  with getLastCorrect_lost [OF this(1,2) rewind(3)] assms(5) show ?thesis by simp
next
  case (no_fork s1)
  have s1: "ub_inv s1" "ub_finalizedHeader s1 = Some f" "ub_lastCheckedBlockHeight s1 = Number n"
    using rpc.register_optional_inv [OF no_fork(1) assms(2)] assms(3,4) by simp_all
  then obtain us where us: "ub_unfinalizedBlocks s1 = Some us"
    by (auto simp: ub_inv_def split: option.splits)
  obtain new where new: "us = ubs @ new"
      "\<forall>x \<in> set new. (\<exists>i. getHeaderByHeight api i = Inr x) \<or> blockHeight f < blockHeight x"
    using register_optional_new [OF no_fork(1) assms(3,7) us] by blast
  have "\<forall>h \<in> set us. blockHeight h \<le> blockHeight f \<longrightarrow> h \<in> H"
    using new assms(8,9) by (fastforce simp: finalized_hashes_def)
  note certified = rpc.hasForked_no_fork_certifies [OF s1(2) us s1(1) no_fork(2) assms(8) this]
  have "set ubs \<subseteq> set us"
    using new by simp
  moreover have "\<forall>r \<in> set us. blockHeight r \<le> blockHeight f \<longrightarrow> blockHash r \<in> C"
    using certified by blast
  moreover have "js_less (Number n) (blockHeight f)"
    using assms(6) by simp
  ultimately show ?thesis
    using no_fork(3) s1(3) by (auto simp: deleteFinalizedBlock_eq [OF s1(2) us] removeFinalized_def)
qed simp_all

definition example_finalized :: ub_state where
  "example_finalized =
     (example_state [example_header 101 ''a'' ''z'', example_header 102 ''b'' ''a''])
       \<lparr>ub_finalizedHeader := Some (example_header 104 ''c'' ''b'')\<rparr>"

lemma example_finalized_fields [simp]:
  "ub_finalizedHeader example_finalized = Some (example_header 104 ''c'' ''b'')"
  "ub_unfinalizedBlocks example_finalized = Some [example_header 101 ''a'' ''z'', example_header 102 ''b'' ''a'']"
  "ub_lastCheckedBlockHeight example_finalized = Number 100"
  "getMetadataUnfinalizedBlocks example_finalized = [example_header 101 ''a'' ''z'', example_header 102 ''b'' ''a'']"
  by (simp_all add: example_finalized_def example_state_def getMetadataUnfinalizedBlocks_def)

lemma example_header_fields [simp]:
  "blockHeight (example_header n h p) = n" "blockHash (example_header n h p) = h"
  "parentHash (example_header n h p) = Some p"
  by (simp_all add: example_header_def)

lemma example_finalized_inv: "ub_inv example_finalized"
  by (simp add: ub_inv_def links_def)

lemma example_walk: "walkBack example_chain 102 (example_header 104 ''c'' ''b'') = Some (Inr (example_header 102 ''b'' ''a''))"
proof -
  have "getParentHeaderByHeight example_chain 103 = Some (Inr (example_header 102 ''b'' ''a''))"
    by (simp add: getParent_skip getParent_available example_chain_def)
  then show ?thesis
    by (simp add: walkBack_step [where k = "example_header 102 ''b'' ''a''"] walkBack_stop example_header_def)
qed

lemma example_no_fork: "hasForked (getHeaderByHeight example_api) example_finalized = Some (Inr None)"
proof -
  have "getClosestRecord 104 [example_header 101 ''a'' ''z'', example_header 102 ''b'' ''a''] =
      Some (example_header 102 ''b'' ''a'')"
    by (simp add: getClosestRecord_def example_header_def)
  with example_walk show ?thesis
    by (simp add: hasForked_def example_finalized_def example_state_def ub_defs example_api_chain UNFINALIZED_THRESHOLD_def example_header_def)
qed

theorem process_without_rewind_certifies_witness:
  "\<exists>s'. processUnfinalizedBlockHeader (getHeaderByHeight example_api) None example_finalized = Some (Inr None, s')
      \<and> ub_lastCheckedBlockHeight s' = Number 104 \<and> ''b'' \<in> {''a'', ''b'', ''c'', ''z''}"
proof -
  let ?ubs = "[example_header 101 ''a'' ''z'', example_header 102 ''b'' ''a'']"
  let ?f = "example_header 104 ''c'' ''b''" and ?C = "{''a'', ''b'', ''c'', ''z''}"
  let ?H = "insert ?f (set ?ubs)"
  obtain s' where run: "processUnfinalizedBlockHeader (getHeaderByHeight example_api) None example_finalized = Some (Inr None, s')"
    by (simp add: processUnfinalizedBlockHeader_def register_optional_def detect_fork_def
        example_no_fork deleteFinalizedBlock_eq)
  have "finalized_hashes (getHeaderByHeight example_api) ?f ?H ?C"
    by (auto simp: finalized_hashes_def parent_closed_def example_api_chain example_chain_def split: if_splits)
  then have "(\<forall>r \<in> set ?ubs. blockHeight r \<le> blockHeight ?f \<longrightarrow> blockHash r \<in> ?C)
      \<and> (\<exists>ubs'. ub_unfinalizedBlocks s' = Some ubs' \<and> (\<forall>r \<in> set ubs'. blockHeight ?f < blockHeight r))
      \<and> ub_lastCheckedBlockHeight s' = Number (blockHeight ?f)"
    by (intro process_without_rewind_certifies [OF run example_finalized_inv, where n = 100 and H = ?H]) auto
  with run show ?thesis by auto
qed

text \<open>C4: a rewind target is never an unverified record: it is a record at or below the finalized
  height whose hash is the hash of a chain header (or of the parent such a header names; the forked
  header itself counts), or it is the chain's own header at the height verified last.\<close>

theorem rewind_target_verified:
  assumes "processUnfinalizedBlockHeader (getHeaderByHeight api) header s = Some (Inr (Some r), s')"
    and "ub_inv s" and "ub_finalizedHeader s = Some f"
  shows "(\<exists>ubs' k. ub_unfinalizedBlocks s' = Some ubs' \<and> r \<in> set ubs' \<and> blockHeight r \<le> blockHeight f
           \<and> (k = f \<or> header = Some k \<or> (\<exists>n. getHeaderByHeight api n = Inr k))
           \<and> (blockHash r = blockHash k \<or> parentHash k = Some (blockHash r)))
       \<or> (\<exists>n. ub_lastCheckedBlockHeight s = Number n \<and> getHeaderByHeight api n = Inr r \<and> blockHeight r = n)"
  using assms(1)
proof (cases rule: process_cases)
  case (rewind reg k)
  have s': "ub_inv s'" "ub_finalizedHeader s' = Some f"
      "ub_lastCheckedBlockHeight s' = ub_lastCheckedBlockHeight s"
    using rpc.register_optional_inv [OF rewind(1) assms(2)] assms(3) by simp_all
  then obtain us where us: "ub_unfinalizedBlocks s' = Some us"
    by (auto simp: ub_inv_def split: option.splits)
  have k: "k = f \<or> header = Some k \<or> (\<exists>n. getHeaderByHeight api n = Inr k)"
    using rpc.detect_fork_source [OF assms(3,2) rewind(1,2)] .
  show ?thesis
    using getLastCorrect_target [OF s'(2) us rewind(3)]
  proof
    assume "r \<in> set us \<and> blockHeight r \<le> blockHeight f \<and> (\<exists>h. (h = k \<or> (\<exists>n. getHeaderByHeight api n = Inr h)) \<and>
        (blockHash r = blockHash h \<or> parentHash h = Some (blockHash r)))"
    with k us show ?thesis by blast
  next
    assume "\<exists>n. ub_lastCheckedBlockHeight s' = Number n \<and> n \<noteq> 0 \<and> getHeaderByHeight api n = Inr r"
    with s'(3) show ?thesis using rpc.header_height by auto
  qed
qed simp_all

text \<open>The same state with a record of a fork at slot 102.\<close>

definition example_forked :: ub_state where
  "example_forked =
     (example_state [example_header 101 ''a'' ''z'', example_header 102 ''x'' ''a''])
       \<lparr>ub_finalizedHeader := Some (example_header 104 ''c'' ''b'')\<rparr>"

lemma example_forked_fields [simp]:
  "ub_finalizedHeader example_forked = Some (example_header 104 ''c'' ''b'')"
  "ub_unfinalizedBlocks example_forked = Some [example_header 101 ''a'' ''z'', example_header 102 ''x'' ''a'']"
  "ub_lastCheckedBlockHeight example_forked = Number 100"
  "getMetadataUnfinalizedBlocks example_forked = [example_header 101 ''a'' ''z'', example_header 102 ''x'' ''a'']"
  by (simp_all add: example_forked_def example_state_def getMetadataUnfinalizedBlocks_def)

lemma example_forked_inv: "ub_inv example_forked"
  by (simp add: ub_inv_def links_def)

lemma example_fork: "hasForked (getHeaderByHeight example_api) example_forked =
    Some (Inr (Some (example_header 102 ''b'' ''a'')))"
proof -
  have "getClosestRecord 104 [example_header 101 ''a'' ''z'', example_header 102 ''x'' ''a''] =
      Some (example_header 102 ''x'' ''a'')"
    by (simp add: getClosestRecord_def)
  with example_walk show ?thesis
    by (simp add: hasForked_initialised_eq example_api_chain UNFINALIZED_THRESHOLD_def)
qed

lemma example_rewind:
  "processUnfinalizedBlockHeader (getHeaderByHeight example_api) None example_forked =
     Some (Inr (Some (example_header 101 ''a'' ''z'')), example_forked)"
proof -
  have "getParentHeaderByHeight example_chain 101 = Some (Inr (example_header 101 ''a'' ''z''))"
    by (simp add: getParent_available example_chain_def)
  then have "getLastCorrectFinalizedBlock (getHeaderByHeight example_api) (example_header 102 ''b'' ''a'') example_forked =
      Some (Inr (Some (example_header 101 ''a'' ''z'')))"
    by (simp add: getLastCorrect_eq example_api_chain)
  then show ?thesis
    by (simp add: processUnfinalizedBlockHeader_def register_optional_def detect_fork_def example_fork)
qed

theorem rewind_target_verified_witness:
  "\<exists>ubs' k. ub_unfinalizedBlocks example_forked = Some ubs' \<and> example_header 101 ''a'' ''z'' \<in> set ubs'
     \<and> (blockHash (example_header 101 ''a'' ''z'') = blockHash k
        \<or> parentHash k = Some (blockHash (example_header 101 ''a'' ''z'')))
     \<and> (k = example_header 104 ''c'' ''b'' \<or> (\<exists>n. getHeaderByHeight example_api n = Inr k))"
  using rewind_target_verified [OF example_rewind example_forked_inv, of "example_header 104 ''c'' ''b''"]
  by (auto simp: example_api_chain example_chain_def split: if_splits)

lemma register_mismatched:
  assumes "ub_finalizedHeader s = Some f" and "ub_unfinalizedBlocks s = Some (ubs @ [l])" and "blockHeight f < blockHeight h"
    and "\<not> parents_ok (ubs @ [l]) (available_headers get (blockHeight l + 1) (blockHeight h - 1) @ [h])"
    and "registerUnfinalizedBlock get h s = (r, s1)"
  shows "r \<noteq> Inr None \<and> (\<exists>good. prefix good (available_headers get (blockHeight l + 1) (blockHeight h - 1)) \<and>
    parents_ok (ubs @ [l]) good \<and> s1 = s\<lparr>ub_unfinalizedBlocks := Some (ubs @ [l] @ good)\<rparr>)"
proof -
  let ?gap = "available_headers get (blockHeight l + 1) (blockHeight h - 1)"
  have ok: "parents_ok xs (ys @ [h]) \<longleftrightarrow> parents_ok xs ys \<and> continues (xs @ ys) h" for xs ys
    by (induction ys arbitrary: xs) auto
  obtain q us where g: "gap_fill get (ubs @ [l]) h = (q, us)" by fastforce
  then have b: "backfillSkippedSlots get (blockHeight l + 1) (blockHeight h - 1) (ubs @ [l]) = (q, us)"
    by (simp add: gap_fill_def last_opt_def)
  from backfill_prefix [OF b] obtain good where good: "us = (ubs @ [l]) @ good" "parents_ok (ubs @ [l]) good" "prefix good ?gap"
    by blast
  have no: "\<not> continues us h" if "q = Inr None"
    using b that assms(4) unfolding ok by (simp add: backfill_complete_iff)
  have same: "s\<lparr>ub_unfinalizedBlocks := Some (ubs @ [l])\<rparr> = s" using assms(2) by simp
  show ?thesis
  proof (cases "blockHeight h \<le> blockHeight l")
    case True
    then have "registerUnfinalizedBlock get h s = (Inl (ProcessExit ''Unfinalized block is not sequential''), s)"
      using assms(3) by (simp add: registerUnfinalizedBlock_eq [OF assms(1,2)] last_opt_def)
    with assms(5) same show ?thesis by (intro conjI exI [of _ "[]"]) auto
  next
    case False
    have "s1 = s\<lparr>ub_unfinalizedBlocks := Some us\<rparr> \<and> r \<noteq> Inr None"
    proof (cases q)
      case (Inl e)
      with assms(3,5) False g show ?thesis by (simp add: registerUnfinalizedBlock_eq [OF assms(1,2)] last_opt_def) blast
    next
      case (Inr k)
      then show ?thesis
        using assms(3,5) False g no by (cases k) (simp_all add: registerUnfinalizedBlock_eq [OF assms(1,2)] last_opt_def, blast+)
    qed
    with good show ?thesis by (metis append_assoc)
  qed
qed

text \<open>C3: a chain that does not continue the records never slips in. Take a header above the
  finalized height and a non-empty list of records, and the blocks the chain has in the slots
  between the last record and the header. When one of these blocks, or the header itself, does
  not have the one before it as its parent, then at most the blocks that do continue the records
  are added to them in memory, nothing is saved, and, with a height verified before, the header is
  not processed without a rewind: the outcome is a rewind target, an exception or a walk that does
  not return.\<close>

theorem mismatched_parent_never_accepted:
  assumes "ub_finalizedHeader s = Some f" and "ub_unfinalizedBlocks s = Some (ubs @ [l])" and "blockHeight f < blockHeight h"
    and "\<not> parents_ok (ubs @ [l]) (available_headers (getHeaderByHeight api) (blockHeight l + 1) (blockHeight h - 1) @ [h])"
  shows "case processUnfinalizedBlockHeader (getHeaderByHeight api) (Some h) s of
           None \<Rightarrow> True
         | Some (r, s') \<Rightarrow>
             (\<exists>good. prefix good (available_headers (getHeaderByHeight api) (blockHeight l + 1) (blockHeight h - 1)) \<and>
                parents_ok (ubs @ [l]) good \<and> ub_unfinalizedBlocks s' = Some (ubs @ [l] @ good)) \<and>
             ub_metadata s' = ub_metadata s \<and>
             (js_truthy (ub_lastCheckedBlockHeight s) \<longrightarrow> r \<noteq> Inr None)"
proof -
  let ?get = "getHeaderByHeight api"
  obtain q s1 where reg: "registerUnfinalizedBlock ?get h s = (q, s1)" by fastforce
  from register_mismatched [OF assms reg] obtain good where q: "q \<noteq> Inr None"
    and good: "prefix good (available_headers ?get (blockHeight l + 1) (blockHeight h - 1))" "parents_ok (ubs @ [l]) good"
    and s1: "s1 = s\<lparr>ub_unfinalizedBlocks := Some (ubs @ [l] @ good)\<rparr>" by blast
  have "getLastCorrectFinalizedBlock ?get k s1 \<noteq> Some (Inr None)" if "js_truthy (ub_lastCheckedBlockHeight s)" for k
    using getLastCorrect_lost [of s1 f "ubs @ [l] @ good" ?get k] that assms(1) s1 by auto
  moreover have "register_optional ?get (Some h) s = (q, s1)" using reg by (simp add: register_optional_def)
  ultimately show ?thesis using q good s1
    by (auto simp: processUnfinalizedBlockHeader_def detect_fork_def split: option.splits sum.splits)
qed

theorem mismatched_parent_never_accepted_witness:
  "case processUnfinalizedBlockHeader (getHeaderByHeight example_api) (Some (example_header 105 ''q'' ''c''))
      (example_state [example_header 102 ''x'' ''a'']) of
     None \<Rightarrow> True
   | Some (r, s') \<Rightarrow> r \<noteq> Inr None \<and> ub_unfinalizedBlocks s' = Some [example_header 102 ''x'' ''a'']"
proof -
  have gap: "available_headers (getHeaderByHeight example_api) 103 104 = [example_header 104 ''c'' ''b'']"
    by (simp add: available_headers_step example_api_chain example_chain_def)
  have "\<not> parents_ok ([] @ [example_header 102 ''x'' ''a''])
      (available_headers (getHeaderByHeight example_api) 103 104 @ [example_header 105 ''q'' ''c''])"
    by (simp add: gap continues_def last_opt_def example_header_def)
  with mismatched_parent_never_accepted [of "example_state [example_header 102 ''x'' ''a'']" "example_header 100 ''z'' ''y''" "[]"
      "example_header 102 ''x'' ''a''" "example_header 105 ''q'' ''c''" example_api]
  show ?thesis
    by (auto simp: gap example_state_def example_header_def continues_def last_opt_def prefix_Cons split: option.splits)
qed

text \<open>C6: \<open>hasForked\<close> decides. When the slot of the closest record has a block on the chain, no
  slot from there to the finalized one answers with an error other than a skip, and the headers
  name their parents, it returns, and it reports a fork exactly when the hashes differ, with the
  chain's header at that slot (whether it walks back or, past the threshold, asks directly).\<close>

theorem hasForked_decides:
  assumes "ub_finalizedHeader s = Some f" and "ub_unfinalizedBlocks s = Some ubs"
    and "getClosestRecord (blockHeight f) ubs = Some c" and "blockHeight c < blockHeight f"
    and "getHeaderByHeight api (blockHeight c) = Inr r"
    and "\<And>k. blockHeight c \<le> k \<Longrightarrow> k < blockHeight f \<Longrightarrow>
           \<not> isl (getHeaderByHeight api k) \<or> getHeaderByHeight api k = Inl BlockUnavailableError"
    and "truthy (parentHash f)"
    and "\<And>k h. blockHeight c \<le> k \<Longrightarrow> getHeaderByHeight api k = Inr h \<Longrightarrow> truthy (parentHash h)"
  shows "hasForked (getHeaderByHeight api) s =
     Some (Inr (if blockHash r \<noteq> blockHash c then Some r else None))"
proof (cases "blockHeight f - blockHeight c > UNFINALIZED_THRESHOLD")
  case True
  with assms(3-5) show ?thesis
    by (simp add: hasForked_initialised_eq [OF assms(1,2)])
next
  case False
  have "walkBack (getHeaderByHeight api) (blockHeight c) f =
      Some (Inr (if blockHeight f = blockHeight c then f else r))"
    by (rule rpc.walkBack_returns) (use assms in auto)
  with False assms(3-5) show ?thesis
    by (simp add: hasForked_initialised_eq [OF assms(1,2)])
qed

theorem hasForked_decides_witness:
  "hasForked (getHeaderByHeight example_api) example_forked = Some (Inr (Some (example_header 102 ''b'' ''a'')))"
proof -
  have c: "getClosestRecord 104 [example_header 101 ''a'' ''z'', example_header 102 ''x'' ''a''] =
      Some (example_header 102 ''x'' ''a'')"
    by (simp add: getClosestRecord_def)
  have r: "getHeaderByHeight example_api 102 = Inr (example_header 102 ''b'' ''a'')"
    by (simp add: example_api_chain example_chain_def)
  have all: "\<not> isl (example_chain k) \<or> example_chain k = Inl BlockUnavailableError"
      "example_chain k = Inr h \<Longrightarrow> truthy (parentHash h)" for k h
    by (auto simp: example_chain_def split: if_splits)
  have "hasForked (getHeaderByHeight example_api) example_forked =
      Some (Inr (if blockHash (example_header 102 ''b'' ''a'') \<noteq> blockHash (example_header 102 ''x'' ''a'')
                 then Some (example_header 102 ''b'' ''a'') else None))"
    by (rule hasForked_decides
        [where f = "example_header 104 ''c'' ''b''"
          and ubs = "[example_header 101 ''a'' ''z'', example_header 102 ''x'' ''a'']"])
      (use c r all in \<open>simp_all add: example_api_chain\<close>)
  then show ?thesis by simp
qed

text \<open>C26: a fork that skipped the slot of the closest record is never resolved. When the chain has
  no block at that slot (the record was made on the abandoned fork), \<open>hasForked\<close> gives no
  verdict, so a start of the node with such records never succeeds and never rewinds: \<open>init\<close>
  ends in an exception or does not return.\<close>

theorem skipped_slot_fork_unresolved:
  assumes "getMetadataUnfinalizedBlocks s = ubs"
    and "getClosestRecord (blockHeight f) ubs = Some c" and "blockHeight c < blockHeight f"
    and "getHeaderByHeight api (blockHeight c) = Inl BlockUnavailableError"
  shows "case init_service (getHeaderByHeight api) (Inr f) reindex s of
           None \<Rightarrow> True
         | Some (r, s') \<Rightarrow> isl r \<and> ub_unfinalizedBlocks s' = Some ubs"
proof -
  let ?s3 = "s\<lparr>ub_unfinalizedBlocks := Some ubs, ub_lastCheckedBlockHeight := getLastFinalizedVerifiedHeight s,
    ub_finalizedHeader := Some f\<rparr>"
  have "ubs \<noteq> []"
    using getClosestRecord_Some [OF assms(2)] by auto
  have "hasForked (getHeaderByHeight api) ?s3 \<noteq> Some (Inr v)" for v
    by (rule rpc.hasForked_skipped_slot [where f = f and c = c]) (use assms in auto)
  then have "case processUnfinalizedBlockHeader (getHeaderByHeight api) None ?s3 of
      None \<Rightarrow> True | Some (r, s') \<Rightarrow> isl r \<and> s' = ?s3"
    by (auto simp: processUnfinalizedBlockHeader_def register_optional_def detect_fork_def
        split: option.splits sum.splits)
  with \<open>ubs \<noteq> []\<close> show ?thesis
    by (auto simp: init_service_def processUnfinalizedBlocks_def assms(1) Let_def split: option.splits sum.splits)
qed

definition stored_state :: "header list \<Rightarrow> ub_state" where
  "stored_state ubs = fresh_state [METADATA_UNFINALIZED_BLOCKS_KEY \<mapsto> JsonHeaders ubs]"

lemma stored_state_metadata [simp]:
  "getMetadataUnfinalizedBlocks (stored_state ubs) = ubs" "getLastFinalizedVerifiedHeight (stored_state ubs) = Undefined"
  by (simp_all add: stored_state_def fresh_state_def getMetadataUnfinalizedBlocks_def getLastFinalizedVerifiedHeight_def)

theorem skipped_slot_fork_unresolved_witness:
  "case init_service (getHeaderByHeight example_api) (Inr (example_header 104 ''c'' ''b'')) (\<lambda>h s. (Inr (), s))
      (stored_state [example_header 103 ''x'' ''b'']) of
     None \<Rightarrow> True
   | Some (r, s') \<Rightarrow> isl r \<and> ub_unfinalizedBlocks s' = Some [example_header 103 ''x'' ''b'']"
  by (rule skipped_slot_fork_unresolved [where c = "example_header 103 ''x'' ''b''"])
    (simp_all add: getClosestRecord_def example_api_chain example_chain_def)

text \<open>C27: at a start without a verified height in the metadata (it was never stored, or reset to
  \<open>null\<close>), a detected fork none of whose records match the chain is dropped: \<open>init\<close>
  reports no rewind and empties the records.\<close>

theorem init_drops_fork:
  assumes "getMetadataUnfinalizedBlocks s = ubs" and "ubs \<noteq> []"
    and "\<not> js_truthy (getLastFinalizedVerifiedHeight s)"
    and "hasForked get (s\<lparr>ub_unfinalizedBlocks := Some ubs, ub_lastCheckedBlockHeight := getLastFinalizedVerifiedHeight s,
           ub_finalizedHeader := Some f\<rparr>) = Some (Inr (Some k))"
    and "lastCorrectLoop get k (rev (filter (\<lambda>h. blockHeight h \<le> blockHeight f) ubs)) = Some (Inr None)"
  shows "\<exists>s'. init_service get (Inr f) reindex s = Some (Inr None, s') \<and> ub_unfinalizedBlocks s' = Some []"
proof -
  let ?s3 = "s\<lparr>ub_unfinalizedBlocks := Some ubs, ub_lastCheckedBlockHeight := getLastFinalizedVerifiedHeight s,
    ub_finalizedHeader := Some f\<rparr>"
  have "getLastCorrectFinalizedBlock get k ?s3 = Some (Inr None)"
    using assms(3,5) by (cases "getLastFinalizedVerifiedHeight s") (simp_all add: getLastCorrect_eq)
  then have "processUnfinalizedBlockHeader get None ?s3 = Some (Inr None, ?s3)"
    using assms(4) by (simp add: processUnfinalizedBlockHeader_def register_optional_def detect_fork_def)
  with assms(1,2) show ?thesis
    by (simp add: init_service_def processUnfinalizedBlocks_def Let_def)
qed

theorem init_drops_fork_witness:
  "\<exists>s'. init_service example_chain (Inr (example_header 102 ''b'' ''a'')) (\<lambda>h s. (Inr (), s))
      (stored_state [example_header 102 ''x'' ''w'']) = Some (Inr None, s') \<and> ub_unfinalizedBlocks s' = Some []"
proof (rule init_drops_fork [where k = "example_header 102 ''b'' ''a''"])
  have "getParentHeaderByHeight example_chain 101 = Some (Inr (example_header 101 ''a'' ''z''))"
    by (simp add: getParent_available example_chain_def)
  then show "lastCorrectLoop example_chain (example_header 102 ''b'' ''a'')
      (rev (filter (\<lambda>h. blockHeight h \<le> blockHeight (example_header 102 ''b'' ''a'')) [example_header 102 ''x'' ''w''])) =
      Some (Inr None)"
    by simp
qed (simp_all add: hasForked_initialised_eq getClosestRecord_def)

text \<open>The finalized header never moves back: a header is taken exactly when it is above the
  one held, so that after a run of finalized headers the height held is their maximum; before
  \<open>init\<close> the call throws.\<close>

theorem registerFinalizedBlock_monotone:
  "registerFinalizedBlock h s =
     (case ub_finalizedHeader s of
        None \<Rightarrow> (Inl not_initialized, s)
      | Some f \<Rightarrow> (Inr (), s\<lparr>ub_finalizedHeader := Some (if blockHeight h \<le> blockHeight f then f else h)\<rparr>))
   \<and> map_option blockHeight (ub_finalizedHeader (fold (\<lambda>h s. snd (registerFinalizedBlock h s)) hs s)) =
       map_option (\<lambda>f. foldl max (blockHeight f) (map blockHeight hs)) (ub_finalizedHeader s)"
proof
  show "registerFinalizedBlock h s =
     (case ub_finalizedHeader s of
        None \<Rightarrow> (Inl not_initialized, s)
      | Some f \<Rightarrow> (Inr (), s\<lparr>ub_finalizedHeader := Some (if blockHeight h \<le> blockHeight f then f else h)\<rparr>))"
    by (cases "ub_finalizedHeader s") (simp_all add: registerFinalizedBlock_def finalizedHeader_def finalizedBlockNumber_def)
  show "map_option blockHeight (ub_finalizedHeader (fold (\<lambda>h s. snd (registerFinalizedBlock h s)) hs s)) =
       map_option (\<lambda>f. foldl max (blockHeight f) (map blockHeight hs)) (ub_finalizedHeader s)"
  proof (induction hs arbitrary: s)
    case (Cons h hs)
    have "ub_finalizedHeader (snd (registerFinalizedBlock h s)) =
        map_option (\<lambda>f. if blockHeight h \<le> blockHeight f then f else h) (ub_finalizedHeader s)"
      by (cases "ub_finalizedHeader s") (simp_all add: registerFinalizedBlock_def finalizedHeader_def finalizedBlockNumber_def)
    with Cons.IH [of "snd (registerFinalizedBlock h s)"] show ?case
      by (cases "ub_finalizedHeader s") (simp_all add: if_distrib [of blockHeight] max_def [symmetric] max.commute cong: if_cong)
  qed (simp add: option.map_comp comp_def)
qed

lemma poi_scan_match:
  assumes "poi_scan get enc ps = Inr (Some c)"
  shows "\<exists>p \<in> set ps. get (poi_id p) = Inr c \<and>
    enc c (case poi_projectId p of None \<Rightarrow> '''' | Some q \<Rightarrow> q) = poi_chainBlockHash p"
  using assms by (induction ps) (auto split: sum.splits if_splits)

text \<open>C28: the search through the proof of index ends whatever the chain answers, when each
  page holds only blocks at or below the height asked for; and a header it returns is the chain's
  answer for an indexed block whose stored hash is the encoding of it.\<close>

theorem findFinalizedUsingPOI_terminates:
  assumes "\<And>n p. p \<in> set (pages n) \<Longrightarrow> 0 \<le> poi_id p \<and> poi_id p \<le> n"
  shows "\<exists>r. findFinalizedUsingPOI get enc (Some pages) h = Some r \<and>
    (\<forall>c. r = Inr c \<longrightarrow> (\<exists>n p. p \<in> set (pages n) \<and> poi_id p \<le> blockHeight h \<and> get (poi_id p) = Inr c \<and>
        enc c (case poi_projectId p of None \<Rightarrow> '''' | Some q \<Rightarrow> q) = poi_chainBlockHash p))"
proof -
  let ?ok = "\<lambda>m c. \<exists>n p. p \<in> set (pages n) \<and> poi_id p \<le> m \<and> get (poi_id p) = Inr c \<and>
        enc c (case poi_projectId p of None \<Rightarrow> '''' | Some q \<Rightarrow> q) = poi_chainBlockHash p"
  have "\<exists>r. poi_pages get enc pages m = Some r \<and> (\<forall>c. r = Inr c \<longrightarrow> ?ok m c)" for m
  proof (induction "nat (m + 1)" arbitrary: m rule: less_induct)
    case less
    show ?case
    proof (cases "pages m = []")
      case True
      then show ?thesis by (simp add: poi_pages.simps [of get enc pages m])
    next
      case False
      let ?l = "poi_id (last (pages m))"
      have l: "0 \<le> ?l" "?l \<le> m" using assms [OF last_in_set [OF False]] by auto
      consider e where "poi_scan get enc (pages m) = Inl e"
        | c where "poi_scan get enc (pages m) = Inr (Some c)"
        | "poi_scan get enc (pages m) = Inr None"
        by (metis obj_sumE option.exhaust)
      then show ?thesis
      proof cases
        case (2 c)
        then have "poi_pages get enc pages m = Some (Inr c)"
          by (simp add: poi_pages.simps [of get enc pages m] False)
        moreover have "?ok m c" using poi_scan_match [OF 2] assms by blast
        ultimately show ?thesis by blast
      next
        case 3
        have "nat (?l - 1 + 1) < nat (m + 1)" using l by simp
        from less [OF this] obtain r where "poi_pages get enc pages (?l - 1) = Some r"
          "\<forall>c. r = Inr c \<longrightarrow> ?ok (?l - 1) c" by blast
        moreover have "?ok (?l - 1) c \<Longrightarrow> ?ok m c" for c
          using l(2) by (elim exE conjE, intro exI conjI) (assumption | linarith)+
        ultimately show ?thesis using 3 False by (simp add: poi_pages.simps [of get enc pages m])
      qed (simp add: poi_pages.simps [of get enc pages m] False)
    qed
  qed
  then show ?thesis by (simp add: findFinalizedUsingPOI_def)
qed

definition example_pages :: "int \<Rightarrow> proof_of_index list" where
  "example_pages n = (if n < 101 then [] else [\<lparr>poi_id = 101, poi_chainBlockHash = [7], poi_projectId = None\<rparr>])"

theorem findFinalizedUsingPOI_terminates_witness:
  "\<exists>r. findFinalizedUsingPOI example_chain (\<lambda>c p. [7]) (Some example_pages) (example_header 102 ''b'' ''a'') = Some r \<and>
    (\<forall>c. r = Inr c \<longrightarrow> (\<exists>n p. p \<in> set (example_pages n) \<and> poi_id p \<le> 102 \<and> example_chain (poi_id p) = Inr c))"
  using findFinalizedUsingPOI_terminates [of example_pages example_chain "\<lambda>c p. [7]" "example_header 102 ''b'' ''a''"]
  by (fastforce simp: example_pages_def example_header_def split: if_splits)

subsection \<open>How many records there are\<close>

text \<open>Heights that grow by at least one from above a bound leave room for no more records than that.\<close>

lemma length_bounded:
  assumes "sorted_wrt (\<lambda>a b. blockHeight a < blockHeight b) ubs" and "\<forall>h \<in> set ubs. n < blockHeight h" and "ubs \<noteq> []"
  shows "int (length ubs) \<le> blockHeight (last ubs) - n"
  using assms
proof (induction ubs arbitrary: n)
  case (Cons h ubs)
  show ?case
  proof (cases "ubs = []")
    case False
    with Cons.prems Cons.IH [of "blockHeight h"] have "int (length ubs) \<le> blockHeight (last ubs) - blockHeight h" by simp
    with Cons.prems(2) False show ?thesis by simp
  qed (use Cons.prems in simp)
qed simp

text \<open>C7: when the finalized chain has advanced since the last check, a processing step that reports
  no rewind leaves only records above the finalized height, in memory and in the metadata
  alike, and no more of them than there are slots between it and the last record; the finalized
  height is stored as the one checked last.\<close>

theorem records_bounded:
  assumes "ub_reachable s" and "header_source get" and "ub_finalizedHeader s = Some f"
    and "ub_lastCheckedBlockHeight s = Number c" and "0 < c" and "c < blockHeight f"
    and "processUnfinalizedBlockHeader get header s = Some (Inr None, s')"
  shows "\<exists>ubs. ub_unfinalizedBlocks s' = Some ubs \<and> getMetadataUnfinalizedBlocks s' = ubs \<and>
    ub_lastCheckedBlockHeight s' = Number (blockHeight f) \<and> getLastFinalizedVerifiedHeight s' = Number (blockHeight f) \<and>
    list_all (\<lambda>h. blockHeight f < blockHeight h) ubs \<and>
    (case last_opt ubs of None \<Rightarrow> True | Some l \<Rightarrow> int (length ubs) \<le> blockHeight l - blockHeight f)"
  using assms(7)
proof (cases rule: process_cases)
  case (rewind reg k)
  have inv: "ub_inv s'" and s1: "ub_finalizedHeader s' = Some f" "ub_lastCheckedBlockHeight s' = Number c"
    using header_source.register_optional_inv [OF assms(2) rewind(1) ub_reachable_inv [OF assms(1)]] assms(3,4) by simp_all
  then obtain ubs where "ub_unfinalizedBlocks s' = Some ubs" by (auto simp: ub_inv_def split: option.splits)
  from getLastCorrect_lost [OF s1(1) this rewind(3)] s1(2) assms(5) show ?thesis by simp
next
  case (no_fork s1)
  have s1: "ub_inv s1" "ub_finalizedHeader s1 = Some f" "ub_lastCheckedBlockHeight s1 = Number c"
    using header_source.register_optional_inv [OF assms(2) no_fork(1) ub_reachable_inv [OF assms(1)]] assms(3,4) by simp_all
  then obtain ubs where ubs: "ub_unfinalizedBlocks s1 = Some ubs" "chain_linked ubs"
    by (auto simp: ub_inv_def split: option.splits)
  let ?kept = "removeFinalized (blockHeight f) ubs"
  from deleteFinalizedBlock_eq [OF s1(2) ubs(1)] s1(3) assms(6) no_fork(3)
  have s': "s' = (saveUnfinalizedBlocks ?kept (saveLastFinalizedVerifiedHeight (blockHeight f)
      (s1\<lparr>ub_unfinalizedBlocks := Some ?kept\<rparr>))) \<lparr>ub_lastCheckedBlockHeight := Number (blockHeight f)\<rparr>"
    by simp
  have above: "\<forall>h \<in> set ?kept. blockHeight f < blockHeight h" by (simp add: removeFinalized_def)
  have "sorted_wrt (\<lambda>a b. blockHeight a < blockHeight b) ?kept"
    using chain_linked_sorted [OF ubs(2)] by (simp add: removeFinalized_def sorted_wrt_filter)
  with length_bounded above have "?kept \<noteq> [] \<Longrightarrow> int (length ?kept) \<le> blockHeight (last ?kept) - blockHeight f" by blast
  then show ?thesis
    using above by (auto simp: s' list_all_iff last_opt_def saveUnfinalizedBlocks_def saveLastFinalizedVerifiedHeight_def
        getMetadataUnfinalizedBlocks_def getLastFinalizedVerifiedHeight_def)
qed simp_all

theorem records_bounded_witness:
  "\<exists>s s' ubs. ub_reachable s \<and> ub_unfinalizedBlocks s = Some [example_header 101 ''a'' ''z''] \<and>
     processUnfinalizedBlockHeader example_chain None s = Some (Inr None, s') \<and> ub_unfinalizedBlocks s' = Some []"
proof -
  let ?f = "example_header 100 ''z'' ''y''" and ?h = "example_header 101 ''a'' ''z''"
  let ?s1 = "(fresh_state Map.empty)\<lparr>ub_unfinalizedBlocks := Some [], ub_finalizedHeader := Some ?f\<rparr>"
  have r1: "ub_reachable ?s1" by (rule first_start_reachable)
  note defs = processUnfinalizedBlockHeader_def register_optional_def registerUnfinalizedBlock_def
    ub_defs detect_fork_def hasForked_def getClosestRecord_def deleteFinalizedBlock_def fresh_state_def example_header_def
    push_and_save_def saveUnfinalizedBlocks_def Let_def
  obtain s2 where s2: "processUnfinalizedBlockHeader example_chain (Some ?h) ?s1 = Some (Inr None, s2)"
      "ub_unfinalizedBlocks s2 = Some [?h]" "ub_finalizedHeader s2 = Some ?f" "ub_lastCheckedBlockHeight s2 = Number 100"
    by (simp add: defs)
  with r1 example_chain_source have r2: "ub_reachable s2"
    by (blast intro: ub_reachable.step ub_step.process)
  let ?s3 = "s2\<lparr>ub_finalizedHeader := Some ?h\<rparr>"
  have "registerFinalizedBlock ?h s2 = (Inr (), ?s3)"
    using s2(3) by (simp add: registerFinalizedBlock_def finalizedHeader_def example_header_def)
  with r2 have r3: "ub_reachable ?s3" by (blast intro: ub_reachable.step ub_step.finalized)
  obtain s4 where s4: "processUnfinalizedBlockHeader example_chain None ?s3 = Some (Inr None, s4)"
    using s2(2,4) by (simp add: defs)
  from records_bounded [OF r3 example_chain_source _ _ _ _ s4, of ?h 100] s2(4)
  have "\<exists>ubs. ub_unfinalizedBlocks s4 = Some ubs \<and> list_all (\<lambda>h. 101 < blockHeight h) ubs"
    by (auto simp: example_header_def)
  moreover have "ub_unfinalizedBlocks s4 = Some []"
    using s4 s2(2,4) by (auto simp: defs removeFinalized_def)
  ultimately show ?thesis using r3 s4 s2(2) by auto
qed

end
