(* ===== verification/Codec.thy ===== *)
theory Codec
  imports Prelude
begin

section \<open>Byte buffers and their text encodings\<close>

text \<open>
  Node's \<open>Buffer\<close> as far as the decoder and the dictionary use it: a list of bytes,
  \<open>indexOf\<close>, and the encodings \<open>hex\<close> and \<open>base64\<close> of \<open>Buffer.from\<close> and
  \<open>toString\<close>. Decoding is lenient as in Node: hex stops at the first pair that is not
  hexadecimal, base64 skips what is not in its alphabets and drops an incomplete rest. The
  interface \<open>byte_codec\<close> is what the decoder relies on when it prints bytes and reads
  them back; both encodings satisfy it.
\<close>

type_synonym bytes = "8 word list"

text \<open>A number stored into a buffer keeps its low eight bits.\<close>

definition byte :: "nat \<Rightarrow> 8 word" where
  "byte n = word_of_nat n"

lemma unat_byte_less: "unat (b :: 8 word) < 256"
  using unsigned_less [of b] by simp

lemma byte_eqI: "n mod 256 = unat b \<Longrightarrow> byte n = b"
  by (rule unsigned_word_eqI) (simp add: byte_def unsigned_of_nat take_bit_eq_mod)

subsection \<open>Searching\<close>

fun indexOf_from :: "int \<Rightarrow> 'a list \<Rightarrow> 'a list \<Rightarrow> int" where
  "indexOf_from i [] pat = (if pat = [] then i else -1)"
| "indexOf_from i (x # xs) pat =
     (if take (length pat) (x # xs) = pat then i else indexOf_from (i + 1) xs pat)"

definition buffer_indexOf :: "bytes \<Rightarrow> bytes \<Rightarrow> int" where
  "buffer_indexOf buf pat = indexOf_from 0 buf pat"

lemma indexOf_from_ge: "indexOf_from i xs pat = -1 \<or> i \<le> indexOf_from i xs pat"
proof (induction xs arbitrary: i)
  case (Cons x xs)
  from Cons.IH [of "i + 1"] show ?case by auto
qed simp

lemma indexOf_zero_iff: "buffer_indexOf buf pat = 0 \<longleftrightarrow> prefix pat buf"
proof (cases buf)
  case Nil
  then show ?thesis by (simp add: buffer_indexOf_def)
next
  case (Cons x xs)
  have "take (length pat) (x # xs) = pat \<longleftrightarrow> prefix pat (x # xs)"
    by (metis take_is_prefix prefix_def append_eq_conv_conj)
  with indexOf_from_ge [of 1 xs pat] Cons show ?thesis
    by (auto simp: buffer_indexOf_def)
qed

subsection \<open>Hexadecimal\<close>

definition hex_alphabet :: string where
  "hex_alphabet = ''0123456789abcdef''"

fun position_in :: "'a list \<Rightarrow> 'a \<Rightarrow> nat option" where
  "position_in [] c = None"
| "position_in (x # xs) c = (if x = c then Some 0 else map_option Suc (position_in xs c))"

definition hex_value :: "char \<Rightarrow> nat option" where
  "hex_value c =
     (case position_in hex_alphabet c of
        Some n \<Rightarrow> Some n
      | None \<Rightarrow> map_option (\<lambda>n. n + 10) (position_in ''ABCDEF'' c))"

fun hex_encode :: "bytes \<Rightarrow> string" where
  "hex_encode [] = []"
| "hex_encode (b # bs) = hex_alphabet ! (unat b div 16) # hex_alphabet ! (unat b mod 16) # hex_encode bs"

fun hex_decode :: "string \<Rightarrow> bytes" where
  "hex_decode (c # d # cs) =
     (case (hex_value c, hex_value d) of
        (Some m, Some n) \<Rightarrow> byte (m * 16 + n) # hex_decode cs
      | _ \<Rightarrow> [])"
| "hex_decode cs = []"

lemma position_in_nth: "distinct xs \<Longrightarrow> i < length xs \<Longrightarrow> position_in xs (xs ! i) = Some i"
  by (induction xs arbitrary: i) (auto simp: nth_Cons' gr0_conv_Suc)

lemma hex_value_nth: "i < 16 \<Longrightarrow> hex_value (hex_alphabet ! i) = Some i"
  by (simp add: hex_value_def position_in_nth hex_alphabet_def del: position_in.simps)

lemma hex_roundtrip: "hex_decode (hex_encode bs) = bs"
proof (induction bs)
  case (Cons b bs)
  have "unat b div 16 < 16" using unat_byte_less [of b] by linarith
  moreover have "byte (unat b div 16 * 16 + unat b mod 16) = b"
    using unat_byte_less [of b] by (intro byte_eqI) simp
  ultimately show ?case using Cons by (simp add: hex_value_nth)
qed simp

subsection \<open>Base64\<close>

definition base64_alphabet :: string where
  "base64_alphabet = ''ABCDEFGHIJKLMNOPQRSTUVWXYZabcdefghijklmnopqrstuvwxyz0123456789+/''"

text \<open>The URL-safe characters count as \<open>+\<close> and \<open>/\<close>.\<close>

definition base64_value :: "char \<Rightarrow> nat option" where
  "base64_value c =
     (case position_in base64_alphabet c of
        Some n \<Rightarrow> Some n
      | None \<Rightarrow> (if c = CHR ''-'' then Some 62 else if c = CHR ''_'' then Some 63 else None))"

definition base64_char :: "nat \<Rightarrow> char" where
  "base64_char n = base64_alphabet ! (n mod 64)"

fun base64_encode :: "bytes \<Rightarrow> string" where
  "base64_encode [] = []"
| "base64_encode [a] =
     [base64_char (unat a div 4), base64_char (unat a * 16), CHR ''='', CHR ''='']"
| "base64_encode [a, b] =
     [base64_char (unat a div 4), base64_char (unat a * 16 + unat b div 16), base64_char (unat b * 4), CHR ''='']"
| "base64_encode (a # b # c # bs) =
     base64_char (unat a div 4) # base64_char (unat a * 16 + unat b div 16) #
     base64_char (unat b * 4 + unat c div 64) # base64_char (unat c) # base64_encode bs"

fun sextets_to_bytes :: "nat list \<Rightarrow> bytes" where
  "sextets_to_bytes (p # q # r # s # ns) =
     byte (p * 4 + q div 16) # byte (q * 16 + r div 4) # byte (r * 64 + s)
       # sextets_to_bytes ns"
| "sextets_to_bytes [p, q, r] = [byte (p * 4 + q div 16), byte (q * 16 + r div 4)]"
| "sextets_to_bytes [p, q] = [byte (p * 4 + q div 16)]"
| "sextets_to_bytes ns = []"

definition base64_decode :: "string \<Rightarrow> bytes" where
  "base64_decode s = sextets_to_bytes (List.map_filter base64_value s)"

lemma base64_alphabet_props: "distinct base64_alphabet" "length base64_alphabet = 64"
  by (simp_all add: base64_alphabet_def)

lemma base64_value_char [simp]: "base64_value (base64_char n) = Some (n mod 64)"
  by (simp add: base64_value_def base64_char_def position_in_nth base64_alphabet_props)

lemma base64_value_pad [simp]: "base64_value CHR ''='' = None"
  by (simp add: base64_value_def base64_alphabet_def)

lemma shift_mod:
  fixes a d k m :: nat
  assumes "d < k"
  shows "(a * k + d) mod (k * m) = a mod m * k + d"
proof -
  have "(a * k + d) div k = a" "(a * k + d) mod k = d"
    using assms by (simp_all add: div_add1_eq)
  then show ?thesis by (simp add: mod_mult2_eq)
qed

lemma sextet_mods:
  fixes a d :: nat
  shows "d < 16 \<Longrightarrow> (a * 16 + d) mod 64 = a mod 4 * 16 + d" "d < 4 \<Longrightarrow> (a * 4 + d) mod 64 = a mod 16 * 4 + d"
  using shift_mod [of d 16 a 4] shift_mod [of d 4 a 16] by simp_all

lemma byte_first:
  assumes "d < 16"
  shows "byte (unat a div 4 mod 64 * 4 + (unat a * 16 + d) mod 64 div 16) = a"
proof (rule byte_eqI)
  have "unat a div 4 < 64" using unat_byte_less [of a] by linarith
  moreover have "(unat a * 16 + d) mod 64 div 16 = unat a mod 4"
    using assms by (simp add: sextet_mods)
  ultimately show "(unat a div 4 mod 64 * 4 + (unat a * 16 + d) mod 64 div 16) mod 256 = unat a"
    using unat_byte_less [of a] by simp
qed

lemma byte_second:
  assumes "e < 4"
  shows "byte ((unat a * 16 + unat b div 16) mod 64 * 16 + (unat b * 4 + e) mod 64 div 4) = b"
proof (rule byte_eqI)
  have "unat b div 16 < 16" using unat_byte_less [of b] by linarith
  then have "(unat a * 16 + unat b div 16) mod 64 * 16 + (unat b * 4 + e) mod 64 div 4 =
      256 * (unat a mod 4) + (unat b div 16 * 16 + unat b mod 16)"
    using assms by (simp add: sextet_mods)
  also have "\<dots> = 256 * (unat a mod 4) + unat b" by simp
  finally show "((unat a * 16 + unat b div 16) mod 64 * 16 + (unat b * 4 + e) mod 64 div 4) mod 256 = unat b"
    using unat_byte_less [of b] by simp
qed

lemma byte_third: "byte ((unat b * 4 + unat c div 64) mod 64 * 64 + unat c mod 64) = (c :: 8 word)" for b :: "8 word"
proof (rule byte_eqI)
  have "unat c div 64 < 4" using unat_byte_less [of c] by linarith
  then have "(unat b * 4 + unat c div 64) mod 64 * 64 + unat c mod 64 =
      256 * (unat b mod 16) + (unat c div 64 * 64 + unat c mod 64)"
    by (simp add: sextet_mods)
  also have "\<dots> = 256 * (unat b mod 16) + unat c" by simp
  finally show "((unat b * 4 + unat c div 64) mod 64 * 64 + unat c mod 64) mod 256 = unat c"
    using unat_byte_less [of c] by simp
qed

lemma base64_roundtrip: "base64_decode (base64_encode bs) = bs"
proof -
  have "sextets_to_bytes (List.map_filter base64_value (base64_encode bs)) = bs"
  proof (induction bs rule: base64_encode.induct)
    case (2 a)
    show ?case using byte_first [of 0 a] by simp
  next
    case (3 a b)
    have "unat b div 16 < 16" using unat_byte_less [of b] by linarith
    then show ?case
      using byte_first [of "unat b div 16" a] byte_second [of 0 a b] by simp
  next
    case (4 a b c bs)
    have "unat b div 16 < 16" "unat c div 64 < 4"
      using unat_byte_less [of b] unat_byte_less [of c] by linarith+
    then show ?case
      using 4 by (simp add: byte_first byte_second byte_third)
  qed simp
  then show ?thesis by (simp add: base64_decode_def)
qed

subsection \<open>The interface\<close>

locale byte_codec =
  fixes encode :: "bytes \<Rightarrow> string" and decode :: "string \<Rightarrow> bytes"
  assumes decode_encode: "decode (encode bs) = bs"
begin

lemma encode_inject: "encode bs = encode cs \<longleftrightarrow> bs = cs"
  by (metis decode_encode)

lemma reprint: "encode (decode (encode bs)) = encode bs"
  by (simp add: decode_encode)

end

interpretation hex: byte_codec hex_encode hex_decode
  by unfold_locales (rule hex_roundtrip)

interpretation base64: byte_codec base64_encode base64_decode
  by unfold_locales (rule base64_roundtrip)

end
