(* ===== verification/Idl.thy ===== *)
theory Idl
  imports Codec SolanaTypes
begin

section \<open>IDLs: parsing and discriminators\<close>

text \<open>
  \<open>packages/common-solana/src/codegen/idl.ts\<close>. An IDL is a JSON file that is either an
  Anchor IDL or a Codama root node. What Codama, the string codecs of \<open>@solana/codecs\<close>,
  \<open>bs58\<close>, \<open>isHex\<close> and SHA-256 compute is the record \<open>idl_lib\<close>, a parameter.
\<close>

subsection \<open>Nodes\<close>

datatype byte_encoding = Utf8 | Base16 | Base58 | Base64 | UnknownEncoding string

record bytes_value_node =
  bv_encoding :: byte_encoding
  bv_data :: string

datatype default_value =
    NumberValueNode int
  | BytesValueNode bytes_value_node
  | OtherValueNode string

record argument_node =
  arg_name :: string
  defaultValue :: "default_value option"

record instruction_node =
  in_name :: string
  arguments :: "argument_node list"

record defined_type_node =
  dt_name :: string
  dt_type :: js_value

record program_node =
  pn_name :: string
  publicKey :: string
  pn_instructions :: "instruction_node list"
  definedTypes :: "defined_type_node list"

text \<open>A root node; a file cast to one may have no \<open>program\<close>.\<close>

record root_node =
  rn_program :: "program_node option"

record idl_event =
  ev_name :: string
  ev_discriminator :: bytes

text \<open>
  The JSON file: the parts of either kind that the code reads, and the rest. \<open>idl_spec\<close>
  is \<open>metadata.spec\<close>; older Anchor IDLs have no \<open>metadata\<close>.
\<close>

record idl =
  idl_root :: root_node
  idl_metadata :: "string option option"
  idl_events :: "idl_event list option"
  idl_rest :: js_value

record idl_lib =
  rootNodeFromAnchor :: "idl \<Rightarrow> root_node result"
  createFromRoot :: "root_node \<Rightarrow> root_node result"
  getUtf8Encoder :: "string \<Rightarrow> bytes result"
  getBase16Encoder :: "string \<Rightarrow> bytes result"
  getBase58Encoder :: "string \<Rightarrow> bytes result"
  getBase64Encoder :: "string \<Rightarrow> bytes result"
  camelCase :: "string \<Rightarrow> string"
  pascalCase :: "string \<Rightarrow> string"
  sha256 :: "string \<Rightarrow> bytes"
  bs58_decode :: "string \<Rightarrow> bytes result"
  isHex :: "string \<Rightarrow> bool"
  decodeNode :: "root_node \<Rightarrow> instruction_node + defined_type_node \<Rightarrow> bytes \<Rightarrow> js_fields result"

subsection \<open>Kinds of IDL\<close>

definition isRootNode :: "idl \<Rightarrow> bool" where
  "isRootNode i = (case rn_program (idl_root i) of None \<Rightarrow> False | Some p \<Rightarrow> publicKey p \<noteq> [])"

definition isAnchorIdl :: "idl \<Rightarrow> bool" where
  "isAnchorIdl i = (\<not> isRootNode i)"

definition isAnchorIdlV01 :: "idl \<Rightarrow> bool result" where
  "isAnchorIdlV01 i =
     (if \<not> isAnchorIdl i then Inr False
      else case idl_metadata i of
        None \<Rightarrow> Inl (TypeError ''Cannot read properties of undefined (reading 'spec')'')
      | Some spec \<Rightarrow> Inr (spec = Some ''0.1.0''))"

definition get_program :: "root_node \<Rightarrow> program_node result" where
  "get_program root =
     (case rn_program root of
        None \<Rightarrow> Inl (TypeError ''Cannot read properties of undefined'')
      | Some p \<Rightarrow> Inr p)"

text \<open>The \<open>Codama\<close> object is represented by the root node that its \<open>getRoot\<close> returns.\<close>

definition parseIdl :: "idl_lib \<Rightarrow> idl \<Rightarrow> root_node result" where
  "parseIdl lib i =
     (case rootNodeFromAnchor lib i of
        Inl e \<Rightarrow> Inl e
      | Inr r \<Rightarrow>
     (case createFromRoot lib r of
        Inl e \<Rightarrow> Inl e
      | Inr codama \<Rightarrow>
     (case get_program codama of
        Inl e \<Rightarrow> Inl e
      | Inr p \<Rightarrow>
          (if publicKey p = '''' then createFromRoot lib (idl_root i) else Inr codama))))"

definition parseIdlFromFile :: "idl_lib \<Rightarrow> (string \<Rightarrow> string result) \<Rightarrow> (string \<Rightarrow> idl result) \<Rightarrow> string \<Rightarrow> root_node result" where
  "parseIdlFromFile lib readFile parseJson path =
     (case readFile path of
        Inl e \<Rightarrow> Inl e
      | Inr idlStr \<Rightarrow>
          (case parseJson idlStr of
             Inl e \<Rightarrow> Inl e
           | Inr idlJSON \<Rightarrow> parseIdl lib idlJSON))"

subsection \<open>Discriminators\<close>

fun getBytesFromBytesValueNode :: "idl_lib \<Rightarrow> bytes_value_node \<Rightarrow> bytes result" where
  "getBytesFromBytesValueNode lib node =
     (case bv_encoding node of
        Utf8 \<Rightarrow> getUtf8Encoder lib (bv_data node)
      | Base16 \<Rightarrow> getBase16Encoder lib (bv_data node)
      | Base58 \<Rightarrow> getBase58Encoder lib (bv_data node)
      | Base64 \<Rightarrow> getBase64Encoder lib (bv_data node)
      | UnknownEncoding e \<Rightarrow> getBase64Encoder lib (bv_data node))"

definition getInstructionDiscriminatorBytes :: "idl_lib \<Rightarrow> instruction_node \<Rightarrow> bytes result" where
  "getInstructionDiscriminatorBytes lib node =
     (case find (\<lambda>arg. arg_name arg = ''discriminator'') (arguments node) of
        None \<Rightarrow> Inl (Error (''Instruction '' @ in_name node @ '' does not have a discriminator''))
      | Some discArg \<Rightarrow>
          (case defaultValue discArg of
             Some (NumberValueNode n) \<Rightarrow> Inr [word_of_int n]
           | Some (BytesValueNode v) \<Rightarrow> getBytesFromBytesValueNode lib v
           | None \<Rightarrow> Inl (Error (''Unable to find discriminator for instruction '' @ in_name node))
           | Some (OtherValueNode kind) \<Rightarrow> Inl (Error (''Unable to handle unknown discriminator type '' @ kind))))"

definition findInstructionDiscriminatorByName :: "idl_lib \<Rightarrow> root_node \<Rightarrow> string \<Rightarrow> bytes option result" where
  "findInstructionDiscriminatorByName lib root name =
     (case get_program root of
        Inl e \<Rightarrow> Inl e
      | Inr p \<Rightarrow>
          (case find (\<lambda>inst. in_name inst = name \<or> in_name inst = camelCase lib name) (pn_instructions p) of
             None \<Rightarrow> Inr None
           | Some inst \<Rightarrow>
               (case getInstructionDiscriminatorBytes lib inst of
                  Inl e \<Rightarrow> Inr None
                | Inr bs \<Rightarrow> Inr (Some bs))))"

definition getDiscriminator :: "idl_lib \<Rightarrow> string \<Rightarrow> bytes" where
  "getDiscriminator lib name = take 8 (sha256 lib (''event:'' @ name))"

end
