(* ===== verification/Project.thy ===== *)
theory Project
  imports SolanaTypes
begin

section \<open>Data sources and handlers\<close>

text \<open>
  \<open>packages/types/src/project.ts\<close> and \<open>packages/common-solana/src/project/utils.ts\<close>: the
  kinds, handlers, mappings and data sources, and the predicates that tell them apart. A
  handler is one constructor per kind with its function name and its optional filter; a kind
  the enumeration does not have is \<open>CustomHandler\<close>.
\<close>

definition SolanaDatasourceKind_Runtime :: string where
  "SolanaDatasourceKind_Runtime = ''solana/Runtime''"

datatype SolanaHandlerKind = Block | Transaction | Instruction | Log

fun kind_string :: "SolanaHandlerKind \<Rightarrow> string" where
  "kind_string Block = ''solana/BlockHandler''"
| "kind_string Transaction = ''solana/TransactionHandler''"
| "kind_string Instruction = ''solana/InstructionHandler''"
| "kind_string Log = ''solana/LogHandler''"

definition all_kinds :: "SolanaHandlerKind list" where
  "all_kinds = [Block, Transaction, Instruction, Log]"

lemma all_kinds_complete [simp]: "k \<in> set all_kinds"
  by (cases k) (simp_all add: all_kinds_def)

lemma kind_string_inject [simp]: "kind_string k = kind_string k' \<longleftrightarrow> k = k'"
  by (cases k; cases k') simp_all

datatype handler =
    BlockHandler string "block_filter option"
  | TransactionHandler string "transaction_filter option"
  | InstructionHandler string "instruction_filter option"
  | LogHandler string "log_filter option"
  | CustomHandler string string "js_fields option"

fun handler_kind :: "handler \<Rightarrow> string" where
  "handler_kind (BlockHandler h f) = kind_string Block"
| "handler_kind (TransactionHandler h f) = kind_string Transaction"
| "handler_kind (InstructionHandler h f) = kind_string Instruction"
| "handler_kind (LogHandler h f) = kind_string Log"
| "handler_kind (CustomHandler k h f) = k"

fun has_filter :: "handler \<Rightarrow> bool" where
  "has_filter (BlockHandler h f) = (f \<noteq> None)"
| "has_filter (TransactionHandler h f) = (f \<noteq> None)"
| "has_filter (InstructionHandler h f) = (f \<noteq> None)"
| "has_filter (LogHandler h f) = (f \<noteq> None)"
| "has_filter (CustomHandler k h f) = (f \<noteq> None)"

record mapping =
  handlers :: "handler list"
  mapping_file :: string

record processor =
  processor_file :: string
  processor_options :: js_fields

text \<open>\<open>assets\<close>: the program addresses with their IDL files, in the order of the map.\<close>

record datasource =
  ds_kind :: string
  ds_mapping :: mapping
  assets :: "(string \<times> string) list option"
  ds_processor :: "processor option"

definition isCustomDs :: "datasource \<Rightarrow> bool" where
  "isCustomDs ds = (ds_kind ds \<noteq> SolanaDatasourceKind_Runtime \<and> ds_processor ds \<noteq> None)"

definition isRuntimeDs :: "datasource \<Rightarrow> bool" where
  "isRuntimeDs ds = (ds_kind ds = SolanaDatasourceKind_Runtime)"

text \<open>\<open>hp.baseHandlerKind === SolanaHandlerKind.X\<close>.\<close>

definition isBlockHandlerProcessor :: "string \<Rightarrow> bool" where
  "isBlockHandlerProcessor baseHandlerKind = (baseHandlerKind = kind_string Block)"

definition isTransactionHandlerProcessor :: "string \<Rightarrow> bool" where
  "isTransactionHandlerProcessor baseHandlerKind = (baseHandlerKind = kind_string Transaction)"

definition isInstructionHandlerProcessor :: "string \<Rightarrow> bool" where
  "isInstructionHandlerProcessor baseHandlerKind = (baseHandlerKind = kind_string Instruction)"

definition isLogHandlerProcessor :: "string \<Rightarrow> bool" where
  "isLogHandlerProcessor baseHandlerKind = (baseHandlerKind = kind_string Log)"

text \<open>\<open>packages/node/src/utils/project.ts\<close>.\<close>

definition isBaseHandler :: "handler \<Rightarrow> bool" where
  "isBaseHandler h = (handler_kind h \<in> set (map kind_string all_kinds))"

definition isCustomHandler :: "handler \<Rightarrow> bool" where
  "isCustomHandler h = (\<not> isBaseHandler h)"

lemma ds_kinds_exclusive: "\<not> (isCustomDs ds \<and> isRuntimeDs ds)"
  by (auto simp: isCustomDs_def isRuntimeDs_def)

lemma isBaseHandler_simps [simp]:
  "isBaseHandler (BlockHandler h bf)" "isBaseHandler (TransactionHandler h tf)"
  "isBaseHandler (InstructionHandler h nf)" "isBaseHandler (LogHandler h lf)"
  by (simp_all add: isBaseHandler_def all_kinds_def)

end
