(* ===== verification/Decoder.thy ===== *)
theory Decoder
  imports Idl Project BlockTransform
begin

section \<open>The decoder\<close>

text \<open>
  \<open>packages/node/src/solana/decoder.ts\<close> and \<open>utils/decorators.ts\<close>: decoding of
  instruction data and logs with an IDL, the loaded IDLs and the memoised
  \<open>parseDiscriminator\<close>. The state of a \<open>SolanaDecoder\<close> is the record \<open>decoder\<close>:
  its IDLs by program and the cache of the decorator, keyed by the JSON text of the arguments. The
  cache belongs to the class; a node has one decoder, so that it is part of that decoder's state
  here. \<open>SharedCache\<close> has the processes with several.
\<close>

subsection \<open>Decoding with one IDL\<close>

definition findInstructionForData :: "idl_lib \<Rightarrow> root_node \<Rightarrow> bytes \<Rightarrow> instruction_node option result" where
  "findInstructionForData lib rootNode buf =
     (case get_program rootNode of
        Inl e \<Rightarrow> Inl e
      | Inr p \<Rightarrow> Inr (find (\<lambda>inst. case getInstructionDiscriminatorBytes lib inst of
                                    Inl e \<Rightarrow> False
                                  | Inr bs \<Rightarrow> buffer_indexOf buf bs = 0) (pn_instructions p)))"

text \<open>\<open>basedToBuffer\<close>: base58 when that decodes, else base64.\<close>

definition basedToBuffer :: "idl_lib \<Rightarrow> string \<Rightarrow> bytes" where
  "basedToBuffer lib input =
     (case bs58_decode lib input of
        Inl e \<Rightarrow> base64_decode input
      | Inr bs \<Rightarrow> bs)"

type_synonym encodable_node = "instruction_node + defined_type_node"

fun node_name :: "encodable_node \<Rightarrow> string" where
  "node_name (Inl i) = in_name i"
| "node_name (Inr t) = dt_name t"

definition decodeData ::
  "idl_lib \<Rightarrow> idl \<Rightarrow> string \<Rightarrow> (root_node \<Rightarrow> bytes \<Rightarrow> encodable_node option result) \<Rightarrow> decoded_data option result" where
  "decodeData lib i txt getEncodableNode =
     (case parseIdl lib i of
        Inl e \<Rightarrow> Inl e
      | Inr root \<Rightarrow>
     (let buffer = basedToBuffer lib txt in
      case getEncodableNode root buffer of
        Inl e \<Rightarrow> Inl e
      | Inr None \<Rightarrow> Inr None
      | Inr (Some node) \<Rightarrow>
          (case decodeNode lib root node buffer of
             Inl e \<Rightarrow> Inr None
           | Inr decodedFields \<Rightarrow>
               Inr (Some \<lparr>dd_name = node_name node,
                         dd_data = JObj (filter (\<lambda>(k, v). k \<noteq> ''discriminator'') decodedFields)\<rparr>))))"

definition decodeInstruction_idl :: "idl_lib \<Rightarrow> idl \<Rightarrow> string \<Rightarrow> decoded_data option result" where
  "decodeInstruction_idl lib i txt =
     decodeData lib i txt (\<lambda>root buf.
       case findInstructionForData lib root buf of
         Inl e \<Rightarrow> Inl e
       | Inr node \<Rightarrow> Inr (map_option Inl node))"

definition find_type :: "(string \<Rightarrow> bool) \<Rightarrow> root_node \<Rightarrow> bytes \<Rightarrow> encodable_node option result" where
  "find_type P root buf =
     (case get_program root of
        Inl e \<Rightarrow> Inl e
      | Inr p \<Rightarrow> Inr (map_option Inr (find (\<lambda>t. P (dt_name t)) (definedTypes p))))"

definition decodeLog_idl :: "idl_lib \<Rightarrow> idl \<Rightarrow> string \<Rightarrow> decoded_data option result" where
  "decodeLog_idl lib i msg =
     (let msgData = remove_first ''Program data: '' msg;
          msgBuffer = basedToBuffer lib msgData
      in if \<not> isAnchorIdl i then
           (if length msgBuffer < 8 then Inr None
            else (let logDisc = take 8 msgBuffer; rest = drop 8 msgBuffer in
              decodeData lib i (base64_encode rest)
                (find_type (\<lambda>n. buffer_indexOf logDisc (getDiscriminator lib n) = 0
                              \<or> buffer_indexOf logDisc (getDiscriminator lib (pascalCase lib n)) = 0))))
         else (case isAnchorIdlV01 i of
             Inl e \<Rightarrow> Inl e
           | Inr False \<Rightarrow> Inl (Error ''Only Anchor IDL v0.1.0 is supported for decoding logs'')
           | Inr True \<Rightarrow>
               (case find (\<lambda>e. buffer_indexOf msgBuffer (ev_discriminator e) = 0)
                          (case idl_events i of None \<Rightarrow> [] | Some es \<Rightarrow> es) of
                  None \<Rightarrow> Inl (Error ''Unable to find event for log data'')
                | Some event \<Rightarrow>
                    decodeData lib i (base64_encode (drop (length (ev_discriminator event)) msgBuffer))
                      (find_type (\<lambda>n. n = ev_name event \<or> n = camelCase lib (ev_name event))))))"

subsection \<open>Memoize\<close>

text \<open>The cache is a \<open>Map\<close> from the JSON text of the arguments, \<open>undefined\<close> printed as \<open>null\<close>. It is
  filled by a call that returns, not by one that throws.\<close>

definition memo_key :: "string \<times> string option \<Rightarrow> string" where
  "memo_key args = json_text (JArr [JStr (fst args), nullable JStr (snd args)])"

definition Memoize ::
  "('a \<Rightarrow> string) \<Rightarrow> ('a \<Rightarrow> 'v result) \<Rightarrow> (string \<Rightarrow> 'v option) \<Rightarrow> 'a \<Rightarrow> 'v result \<times> (string \<Rightarrow> 'v option)" where
  "Memoize stringify originalMethod cache args =
     (let key = stringify args in
      case cache key of
        Some v \<Rightarrow> (Inr v, cache)
      | None \<Rightarrow> (case originalMethod args of
                   Inl e \<Rightarrow> (Inl e, cache)
                 | Inr v \<Rightarrow> (Inr v, cache(key \<mapsto> v))))"

interpretation memo: injective_key memo_key
  unfolding memo_key_def by (rule json_key) (auto simp: nullable_def split: option.splits)

subsection \<open>The decoder object\<close>

text \<open>\<open>idls\<close>: absent, \<open>null\<close>, or an IDL.\<close>

record decoder =
  idls :: "string \<Rightarrow> idl option option"
  disc_cache :: "string \<Rightarrow> bytes option"

definition new_SolanaDecoder :: decoder where
  "new_SolanaDecoder = \<lparr>idls = (\<lambda>p. None), disc_cache = (\<lambda>k. None)\<rparr>"

text \<open>\<open>this.idls[programId]\<close> with \<open>programId\<close> possibly \<open>undefined\<close>.\<close>

definition lookup_idl :: "decoder \<Rightarrow> string option \<Rightarrow> idl option option" where
  "lookup_idl d programId = idls d (case programId of None \<Rightarrow> ''undefined'' | Some p \<Rightarrow> p)"

fun load_assets ::
  "(string \<Rightarrow> string result) \<Rightarrow> (string \<Rightarrow> idl option result) \<Rightarrow> (string \<times> string) list \<Rightarrow> decoder \<Rightarrow> unit result \<times> decoder" where
  "load_assets readFile parseJson [] d = (Inr (), d)"
| "load_assets readFile parseJson ((name, file) # rest) d =
     (case idls d name of
        Some (Some loaded) \<Rightarrow> load_assets readFile parseJson rest d
      | _ \<Rightarrow>
          (case (case readFile file of Inl e \<Rightarrow> Inl e | Inr raw \<Rightarrow> parseJson raw) of
             Inl e \<Rightarrow> (Inl (Error (''Failed to load datasource IDL '' @ name @ '':'' @ file)), d)
           | Inr parsed \<Rightarrow>
               load_assets readFile parseJson rest (d\<lparr>idls := (idls d)(name \<mapsto> parsed)\<rparr>)))"

definition loadIdls ::
  "(string \<Rightarrow> string result) \<Rightarrow> (string \<Rightarrow> idl option result) \<Rightarrow> datasource \<Rightarrow> decoder \<Rightarrow> unit result \<times> decoder" where
  "loadIdls readFile parseJson ds d =
     (case assets ds of
        None \<Rightarrow> (Inr (), d)
      | Some entries \<Rightarrow> load_assets readFile parseJson entries d)"

definition getIdlFromChain :: "string option \<Rightarrow> idl option result" where
  "getIdlFromChain programId = Inl (Error ''Not implemented: getIdlFromChain'')"

definition parseDiscriminator_body :: "idl_lib \<Rightarrow> decoder \<Rightarrow> string \<times> string option \<Rightarrow> bytes result" where
  "parseDiscriminator_body lib d args =
     (case args of (input, programId) \<Rightarrow>
       (if isHex lib input then Inr (hex_decode (remove_first ''0x'' input))
        else case lookup_idl d programId of
          Some (Some i) \<Rightarrow>
            (case parseIdl lib i of
               Inl e \<Rightarrow> Inl e
             | Inr root \<Rightarrow>
                 (case findInstructionDiscriminatorByName lib root input of
                    Inl e \<Rightarrow> Inl e
                  | Inr None \<Rightarrow> bs58_decode lib input
                  | Inr (Some disc) \<Rightarrow> Inr disc))
        | _ \<Rightarrow> Inl (Error (''Unable to find IDL for program '' @
                 (case programId of None \<Rightarrow> ''undefined'' | Some p \<Rightarrow> p)))))"

definition parseDiscriminator :: "idl_lib \<Rightarrow> string \<Rightarrow> string option \<Rightarrow> decoder \<Rightarrow> bytes result \<times> decoder" where
  "parseDiscriminator lib input programId d =
     (case Memoize memo_key (parseDiscriminator_body lib d) (disc_cache d) (input, programId) of
        (r, cache) \<Rightarrow> (r, d\<lparr>disc_cache := cache\<rparr>))"

text \<open>\<open>this.idls[programId] ?? (await this.getIdlFromChain(programId))\<close>.\<close>

definition idl_or_chain :: "decoder \<Rightarrow> string option \<Rightarrow> idl option result" where
  "idl_or_chain d programId =
     (case lookup_idl d programId of
        Some (Some i) \<Rightarrow> Inr (Some i)
      | _ \<Rightarrow> getIdlFromChain programId)"

text \<open>\<open>allAccounts\<close> and \<open>getProgramId\<close> of \<open>utils.solana.ts\<close>.\<close>

definition allAccounts :: "('i, 'm, 'z) tx_scheme \<Rightarrow> string list" where
  "allAccounts tx =
     accountKeys (message (transaction tx))
       @ (case meta tx of None \<Rightarrow> [] | Some m \<Rightarrow> writable (loadedAddresses m))
       @ (case meta tx of None \<Rightarrow> [] | Some m \<Rightarrow> readonly (loadedAddresses m))"

definition getAccountByIndex :: "sol_instruction \<Rightarrow> nat \<Rightarrow> string option" where
  "getAccountByIndex instruction idx = nth_opt (allAccounts (inst_transaction instruction)) idx"

definition getProgramId :: "sol_instruction \<Rightarrow> string option" where
  "getProgramId instruction = getAccountByIndex instruction (programIdIndex instruction)"

text \<open>The methods catch every error and answer \<open>null\<close>.\<close>

definition decodeInstructionRaw :: "idl_lib \<Rightarrow> decoder \<Rightarrow> 'z raw_instruction_scheme \<Rightarrow> raw_tx \<Rightarrow> decoded_data option" where
  "decodeInstructionRaw lib d instruction tx =
     (case (case idl_or_chain d (nth_opt (allAccounts tx) (programIdIndex instruction)) of
              Inl e \<Rightarrow> Inl e
            | Inr None \<Rightarrow> Inr None
            | Inr (Some i) \<Rightarrow> decodeInstruction_idl lib i (data instruction)) of
        Inl e \<Rightarrow> None
      | Inr r \<Rightarrow> r)"

definition decodeInstruction :: "idl_lib \<Rightarrow> decoder \<Rightarrow> sol_instruction \<Rightarrow> decoded_data option" where
  "decodeInstruction lib d instruction = decodeInstructionRaw lib d instruction (inst_transaction instruction)"

definition decodeLog :: "idl_lib \<Rightarrow> decoder \<Rightarrow> log_message \<Rightarrow> decoded_data option" where
  "decodeLog lib d l =
     (case (case idl_or_chain d (log_programId l) of
              Inl e \<Rightarrow> Inl e
            | Inr None \<Rightarrow> Inr None
            | Inr (Some i) \<Rightarrow> decodeLog_idl lib i (log_text l)) of
        Inl e \<Rightarrow> None
      | Inr r \<Rightarrow> r)"

end
