(* ===== verification/LogTree.thy ===== *)
theory LogTree
  imports BlockTransform
begin

section \<open>Program logs as trees of invocations\<close>

text \<open>
  The specification of \<open>wrapLogs\<close>. The runtime prints the log of a transaction by
  walking the tree of program invocations: \<open>log_node\<close> is that tree, \<open>render\<close> its
  printed lines, and \<open>owners\<close> gives for each printed line the innermost program around
  it. The stack machine of \<open>wrapLogs\<close> recovers the owners from the lines.
\<close>

subsection \<open>Trees, lines and owners\<close>

datatype outcome = Succeeded | Failed string

datatype log_node =
    Message log_kind string
  | Remark string
  | Consumed string string
  | Invocation string string "log_node list" outcome

fun kind_prefix :: "log_kind \<Rightarrow> string" where
  "kind_prefix LogLog = ''Program log:''"
| "kind_prefix LogData = ''Program data:''"
| "kind_prefix LogOther = ''Program return:''"

fun outcome_text :: "outcome \<Rightarrow> string" where
  "outcome_text Succeeded = ''success''"
| "outcome_text (Failed m) = ''failed:'' @ m"

definition status_line :: "string \<Rightarrow> string \<Rightarrow> string" where
  "status_line program txt = ''Program '' @ program @ '' '' @ txt"

fun render :: "log_node \<Rightarrow> string list" where
  "render (Message k t) = [kind_prefix k @ t]"
| "render (Remark l) = [l]"
| "render (Consumed p t) = [status_line p (''consumed'' @ t)]"
| "render (Invocation p t nodes res) =
     status_line p (''invoke'' @ t) # concat (map render nodes) @ [status_line p (outcome_text res)]"

fun owners :: "string option \<Rightarrow> log_node \<Rightarrow> (string option \<times> log_kind) option list" where
  "owners p (Message k t) = [Some (p, k)]"
| "owners p (Remark l) = [None]"
| "owners p (Consumed q t) = [None]"
| "owners p (Invocation q t nodes res) = None # concat (map (owners (Some q)) nodes) @ [None]"

text \<open>
  A program address has no space or colon; what follows a mode is separated by a space; a
  remark is a line of the runtime that is not about a program.
\<close>

definition address_ok :: "string \<Rightarrow> bool" where
  "address_ok p = (CHR '' '' \<notin> set p \<and> CHR '':'' \<notin> set p)"

definition suffix_ok :: "string \<Rightarrow> bool" where
  "suffix_ok t = (case t of [] \<Rightarrow> True | c # _ \<Rightarrow> c = CHR '' '')"

definition remark_ok :: "string \<Rightarrow> bool" where
  "remark_ok l = (\<not> startsWith l ''Program'' \<or> startsWith l ''Program consumption:'')"

fun outcome_ok :: "outcome \<Rightarrow> bool" where
  "outcome_ok Succeeded = True"
| "outcome_ok (Failed m) = suffix_ok m"

fun node_ok :: "log_node \<Rightarrow> bool" where
  "node_ok (Message k t) = True"
| "node_ok (Remark l) = remark_ok l"
| "node_ok (Consumed p t) = (address_ok p \<and> suffix_ok t)"
| "node_ok (Invocation p t nodes res) =
     (address_ok p \<and> suffix_ok t \<and> outcome_ok res \<and> list_all node_ok nodes)"

text \<open>The messages that lines and owners call for, from index \<open>i\<close> on.\<close>

fun owned_messages :: "nat \<Rightarrow> string list \<Rightarrow> (string option \<times> log_kind) option list \<Rightarrow> log_message list" where
  "owned_messages i (l # ls) (Some (p, k) # os) =
     \<lparr>log_text = l, log_programId = p, logIndex = i, log_type = k, log_pendingDecode = None\<rparr>
       # owned_messages (Suc i) ls os"
| "owned_messages i (l # ls) (None # os) = owned_messages (Suc i) ls os"
| "owned_messages i ls os = []"

subsection \<open>One line\<close>

lemma length_owners [simp]: "length (owners p n) = length (render n)"
proof (induction n arbitrary: p)
  case (Invocation q t nodes res)
  then have "map (length \<circ> owners (Some q)) nodes = map (length \<circ> render) nodes" by simp
  then have "sum_list (map (length \<circ> owners (Some q)) nodes) = sum_list (map (length \<circ> render) nodes)"
    by (rule arg_cong)
  then show ?case by (simp add: length_concat)
qed simp_all

lemma length_owners_forest [simp]:
  "length (concat (map (owners p) ns)) = length (concat (map render ns))"
  by (induction ns) auto

lemma startsWith_status_line:
  assumes "address_ok p" and "CHR '' '' \<notin> set w" and "CHR '':'' \<in> set w"
  shows "\<not> startsWith (status_line p txt) (''Program '' @ w)"
proof
  assume "startsWith (status_line p txt) (''Program '' @ w)"
  then obtain r where "p @ CHR '' '' # txt = w @ r"
    by (auto simp: startsWith_iff status_line_def)
  then obtain us where "p = w @ us \<or> (w = p @ us \<and> CHR '' '' # txt = us @ r)"
    unfolding append_eq_append_conv2 by blast
  then show False
  proof
    assume "p = w @ us"
    then show False using assms by (simp add: address_ok_def)
  next
    assume "w = p @ us \<and> CHR '' '' # txt = us @ r"
    then show False using assms by (cases us) (auto simp: address_ok_def)
  qed
qed

lemma status_line_prefixes:
  assumes "address_ok p"
  shows "\<not> startsWith (status_line p txt) ''Program log:''"
    "\<not> startsWith (status_line p txt) ''Program data:''"
    "\<not> startsWith (status_line p txt) ''Program return:''"
    "\<not> startsWith (status_line p txt) ''Program consumption:''"
    "startsWith (status_line p txt) ''Program''"
  using startsWith_status_line [OF assms, of "''log:''"] startsWith_status_line [OF assms, of "''data:''"]
    startsWith_status_line [OF assms, of "''return:''"] startsWith_status_line [OF assms, of "''consumption:''"]
  by (simp_all add: status_line_def startsWith_def)

lemma split_mode:
  assumes "CHR '' '' \<notin> set mode" and "suffix_ok t"
  shows "\<exists>ws. split_at CHR '' '' (mode @ t) = mode # ws"
proof (cases t)
  case Nil
  with assms show ?thesis by (simp add: split_at_word)
next
  case (Cons c t')
  with assms show ?thesis by (auto simp: suffix_ok_def split_at_append)
qed

lemma split_status_line:
  assumes "address_ok p" and "CHR '' '' \<notin> set mode" and "suffix_ok t"
  shows "\<exists>ws. split_at CHR '' '' (status_line p (mode @ t)) = ''Program'' # p # mode # ws"
proof -
  obtain ws where "split_at CHR '' '' (mode @ t) = mode # ws"
    using split_mode [OF assms(2,3)] by blast
  moreover have "split_at CHR '' '' (p @ CHR '' '' # (mode @ t)) = p # split_at CHR '' '' (mode @ t)"
    using assms(1) by (intro split_at_append) (simp add: address_ok_def)
  ultimately show ?thesis by (simp add: status_line_def)
qed

lemma wrapLogs_line_status:
  assumes "address_ok p" and "suffix_ok t"
  shows "wrapLogs_line path i (status_line p (''invoke'' @ t)) = Inr (path @ [p], [])"
    "wrapLogs_line path i (status_line p (''consumed'' @ t)) = Inr (path, [])"
    "wrapLogs_line path i (status_line p (''failed:'' @ t)) = Inr (butlast path, [])"
    "wrapLogs_line path i (status_line p ''success'') = Inr (butlast path, [])"
proof -
  have sp: "\<exists>ws. split_at CHR '' '' (status_line p (mode @ u)) = ''Program'' # p # mode # ws"
    if "CHR '' '' \<notin> set mode" "suffix_ok u" for mode u
    using split_status_line [OF assms(1) that] .
  show "wrapLogs_line path i (status_line p (''invoke'' @ t)) = Inr (path @ [p], [])"
    using sp [of "''invoke''" t] assms(2)
    by (auto simp: wrapLogs_line_def status_line_prefixes [OF assms(1)] program_line_def)
  show "wrapLogs_line path i (status_line p (''consumed'' @ t)) = Inr (path, [])"
    using sp [of "''consumed''" t] assms(2)
    by (auto simp: wrapLogs_line_def status_line_prefixes [OF assms(1)] program_line_def)
  show "wrapLogs_line path i (status_line p (''failed:'' @ t)) = Inr (butlast path, [])"
    using sp [of "''failed:''" t] assms(2)
    by (auto simp: wrapLogs_line_def status_line_prefixes [OF assms(1)] program_line_def)
  show "wrapLogs_line path i (status_line p ''success'') = Inr (butlast path, [])"
    using sp [of "''success''" "[]"]
    by (auto simp: wrapLogs_line_def status_line_prefixes [OF assms(1)] program_line_def suffix_ok_def)
qed

lemmas wrapLogs_line_status_simps = wrapLogs_line_status [simplified]

lemma wrapLogs_line_outcome:
  "address_ok p \<Longrightarrow> outcome_ok res \<Longrightarrow>
     wrapLogs_line path i (status_line p (outcome_text res)) = Inr (butlast path, [])"
  using wrapLogs_line_status(4) [of p "[]" path i] wrapLogs_line_status(3) [of p _ path i]
  by (cases res) (simp_all add: suffix_ok_def)

lemma wrapLogs_line_message:
  "wrapLogs_line path i (kind_prefix k @ t) = Inr (path, [mk_log (kind_prefix k @ t) path i k])"
  by (cases k) (simp_all add: wrapLogs_line_def startsWith_def)

lemma wrapLogs_line_remark: "remark_ok l \<Longrightarrow> wrapLogs_line path i l = Inr (path, [])"
proof -
  assume "remark_ok l"
  then consider "\<not> startsWith l ''Program''" | r where "l = ''Program consumption:'' @ r"
    by (auto simp: remark_ok_def startsWith_iff)
  then show ?thesis
  proof cases
    case 1
    then have "\<not> startsWith l (''Program'' @ w)" for w by (auto simp: startsWith_iff)
    from this [of "'' log:''"] this [of "'' data:''"] this [of "'' return:''"] 1
    show ?thesis by (simp add: wrapLogs_line_def)
  qed (simp add: wrapLogs_line_def startsWith_def)
qed

subsection \<open>The loop\<close>

lemma wrapLogs_loop_append:
  "wrapLogs_loop path i res (xs @ ys) =
     (case wrapLogs_loop path i res xs of
        Inl e \<Rightarrow> Inl e
      | Inr (path', res') \<Rightarrow> wrapLogs_loop path' (i + length xs) res' ys)"
  by (induction xs arbitrary: path i res) (auto split: sum.splits)

lemma owned_messages_append:
  "length ls = length os \<Longrightarrow>
     owned_messages i (ls @ ls') (os @ os') = owned_messages i ls os @ owned_messages (i + length ls) ls' os'"
proof (induction ls os arbitrary: i rule: list_induct2)
  case (Cons l ls o1 os)
  then show ?case by (cases o1) auto
qed simp

lemma last_opt_snoc_path: "last_opt (path @ [p]) = Some p"
  by simp

text \<open>The loop over a rendered node returns to its stack, with the node's messages appended.\<close>

lemma wrapLogs_loop_node:
  "node_ok n \<Longrightarrow> wrapLogs_loop path i res (render n) =
     Inr (path, res @ owned_messages i (render n) (owners (last_opt path) n))"
proof (induction n arbitrary: path i res)
  case (Invocation p t nodes o1)
  have forest: "list_all node_ok ns \<Longrightarrow> set ns \<subseteq> set nodes \<Longrightarrow>
      wrapLogs_loop path' j res' (concat (map render ns)) =
        Inr (path', res' @ owned_messages j (concat (map render ns)) (concat (map (owners (last_opt path')) ns)))"
    for ns path' j res'
  proof (induction ns arbitrary: j res')
    case (Cons n ns)
    with Invocation.IH [of n path' j res'] show ?case
      by (simp add: wrapLogs_loop_append owned_messages_append)
  qed simp
  from Invocation.prems forest [of nodes "path @ [p]" "Suc i" res] show ?case
    by (simp add: wrapLogs_loop_append wrapLogs_line_status_simps wrapLogs_line_outcome owned_messages_append)
qed (simp_all add: wrapLogs_line_message wrapLogs_line_remark wrapLogs_line_status_simps mk_log_def)

lemma wrapLogs_loop_forest:
  "list_all node_ok ns \<Longrightarrow> wrapLogs_loop path i res (concat (map render ns)) =
     Inr (path, res @ owned_messages i (concat (map render ns)) (concat (map (owners (last_opt path)) ns)))"
proof (induction ns arbitrary: i res)
  case (Cons n ns)
  then show ?case
    by (simp add: wrapLogs_loop_append wrapLogs_loop_node owned_messages_append)
qed simp

subsection \<open>Lines of any shape\<close>

definition is_message :: "string \<Rightarrow> bool" where
  "is_message l = (\<exists>k \<in> {LogLog, LogData, LogOther}. startsWith l (kind_prefix k))"

lemma is_message_iff: "is_message l \<longleftrightarrow> (\<exists>k t. l = kind_prefix k @ t)"
proof -
  have "k \<in> {LogLog, LogData, LogOther}" for k by (cases k) simp_all
  then show ?thesis unfolding is_message_def startsWith_iff by blast
qed

text \<open>A line that stops the parse: about a program, with a mode the switch does not know.\<close>

definition unparsable :: "string \<Rightarrow> bool" where
  "unparsable l =
     (\<not> is_message l \<and> \<not> remark_ok l \<and>
      (case split_at CHR '' '' l of
         _ # _ # mode # _ \<Rightarrow> mode \<notin> {''invoke'', ''success'', ''consumed'', ''failed:''}
       | _ \<Rightarrow> True))"

lemma wrapLogs_line_cases:
  "(unparsable l \<and> isl (wrapLogs_line path i l)) \<or>
   (\<not> unparsable l \<and> is_message l \<and> (\<exists>k. wrapLogs_line path i l = Inr (path, [mk_log l path i k]) \<and> startsWith l (kind_prefix k))) \<or>
   (\<not> unparsable l \<and> \<not> is_message l \<and> (\<exists>path'. wrapLogs_line path i l = Inr (path', [])))"
proof (cases "is_message l")
  case True
  then obtain k t where "l = kind_prefix k @ t"
    by (auto simp: is_message_iff)
  with True show ?thesis
    by (auto simp: wrapLogs_line_message unparsable_def)
next
  case nm: False
  then have p: "\<not> startsWith l ''Program log:''" "\<not> startsWith l ''Program data:''"
      "\<not> startsWith l ''Program return:''"
    by (auto simp: is_message_def)
  show ?thesis
  proof (cases "remark_ok l")
    case True
    with nm show ?thesis by (simp add: wrapLogs_line_remark unparsable_def)
  next
    case False
    then have "wrapLogs_line path i l =
        (case program_line path l of Inl e \<Rightarrow> Inl e | Inr path' \<Rightarrow> Inr (path', []))"
      by (simp add: wrapLogs_line_def p remark_ok_def)
    with nm False show ?thesis
      by (auto simp: unparsable_def program_line_def split: list.splits)
  qed
qed

lemma wrapLogs_loop_shape:
  "wrapLogs_loop path i res ls = Inr (path', ms) \<Longrightarrow>
     \<exists>new. ms = res @ new \<and> list_all (\<lambda>l. \<not> unparsable l) ls \<and>
       map (\<lambda>m. (logIndex m, log_text m)) new = filter (\<lambda>(j, l). is_message l) (enumerate i ls) \<and>
       list_all (\<lambda>m. startsWith (log_text m) (kind_prefix (log_type m))) new"
proof (induction ls arbitrary: path i res)
  case (Cons l ls)
  from wrapLogs_line_cases [of l path i] show ?case
  proof (elim disjE conjE exE)
    assume "isl (wrapLogs_line path i l)"
    with Cons.prems show ?thesis by (auto simp: isl_def)
  next
    fix k assume a: "\<not> unparsable l" "is_message l" "startsWith l (kind_prefix k)"
      and "wrapLogs_line path i l = Inr (path, [mk_log l path i k])"
    with Cons.prems Cons.IH [of path "Suc i" "res @ [mk_log l path i k]"] show ?thesis
      by (force simp: mk_log_def)
  next
    fix path'' assume "\<not> unparsable l" "\<not> is_message l" "wrapLogs_line path i l = Inr (path'', [])"
    with Cons.prems Cons.IH [of path'' "Suc i" res] show ?thesis by simp
  qed
qed simp

lemma wrapLogs_loop_total:
  "list_all (\<lambda>l. \<not> unparsable l) ls \<Longrightarrow> \<exists>r. wrapLogs_loop path i res ls = Inr r"
proof (induction ls arbitrary: path i res)
  case (Cons l ls)
  with wrapLogs_line_cases [of l path i] show ?case by auto
qed simp

lemma wrapLogs_Inr_iff: "(\<exists>r. wrapLogs (Some ls) = Inr r) \<longleftrightarrow> list_all (\<lambda>l. \<not> unparsable l) ls"
proof
  assume "\<exists>r. wrapLogs (Some ls) = Inr r"
  then obtain path' ms where "wrapLogs_loop [] 0 [] ls = Inr (path', ms)"
    by (auto simp: wrapLogs_def split: sum.splits)
  from wrapLogs_loop_shape [OF this] show "list_all (\<lambda>l. \<not> unparsable l) ls" by blast
next
  assume "list_all (\<lambda>l. \<not> unparsable l) ls"
  from wrapLogs_loop_total [OF this, of "[]" 0 "[]"] show "\<exists>r. wrapLogs (Some ls) = Inr r"
    by (auto simp: wrapLogs_def)
qed

end
