(* ===== verification/BlockTheorems.thy ===== *)
theory BlockTheorems
  imports LogTree RpcApi
begin

section \<open>The properties of the block transformation\<close>

text \<open>
  \<open>transformBlock\<close> keeps every transaction and instruction, numbers the instructions and
  attributes each log message to a program; and the one way it can fail.
\<close>

subsection \<open>Log attribution\<close>

text \<open>C11: on the printed form of any forest of program invocations, successful or failed and
  nested to any depth, \<open>wrapLogs\<close> returns one message per \<open>log\<close>, \<open>data\<close> and \<open>return\<close>
  line, in order, with its line as text, its line number as \<open>logIndex\<close>, its kind, and the
  innermost program invocation around it as \<open>programId\<close>.\<close>

theorem wrapLogs_attributes_innermost:
  assumes "list_all node_ok forest"
  shows "wrapLogs (Some (concat (map render forest))) =
    Inr (Some (owned_messages 0 (concat (map render forest)) (concat (map (owners None) forest))))"
  using wrapLogs_loop_forest [OF assms, of "[]" 0 "[]"] by (simp add: wrapLogs_def)

definition example_forest :: "log_node list" where
  "example_forest =
     [Invocation ''A'' '' [1]'' [Message LogLog '' x'', Invocation ''B'' '' [2]'' [Message LogData '' y''] (Failed '' custom''),
        Consumed ''A'' '' 5 of 6'', Message LogOther '' A z''] Succeeded]"

theorem wrapLogs_attributes_innermost_witness:
  "list_all node_ok example_forest \<and>
   (\<exists>ms. wrapLogs (Some (concat (map render example_forest))) = Inr (Some ms) \<and>
     map (\<lambda>m. (log_text m, log_programId m, logIndex m)) ms =
       [(''Program log: x'', Some ''A'', 1), (''Program data: y'', Some ''B'', 3), (''Program return: A z'', Some ''A'', 6)])"
proof -
  have ok: "list_all node_ok example_forest"
    by (simp add: example_forest_def address_ok_def suffix_ok_def)
  from ok wrapLogs_attributes_innermost [OF ok] show ?thesis
    by (simp add: example_forest_def)
qed

text \<open>On any log at all, when \<open>wrapLogs\<close> returns, its messages are exactly the
  \<open>log\<close>, \<open>data\<close> and \<open>return\<close> lines with their line numbers, so the indices grow strictly and
  the text at an index is the raw line there; the kind of a message is the one of its prefix.\<close>

theorem wrapLogs_messages:
  assumes "wrapLogs (Some ls) = Inr (Some ms)"
  shows "map (\<lambda>m. (logIndex m, log_text m)) ms = filter (\<lambda>(i, l). is_message l) (enumerate 0 ls)
    \<and> sorted_wrt (<) (map logIndex ms)
    \<and> list_all (\<lambda>m. nth_opt ls (logIndex m) = Some (log_text m) \<and>
         startsWith (log_text m) (kind_prefix (log_type m))) ms"
proof -
  from assms obtain path where "wrapLogs_loop [] 0 [] ls = Inr (path, ms)"
    by (auto simp: wrapLogs_def split: sum.splits)
  from wrapLogs_loop_shape [OF this]
  have eq: "map (\<lambda>m. (logIndex m, log_text m)) ms = filter (\<lambda>(i, l). is_message l) (enumerate 0 ls)"
    and kind: "list_all (\<lambda>m. startsWith (log_text m) (kind_prefix (log_type m))) ms"
    by auto
  have "sorted_wrt (<) (map fst (filter (\<lambda>(i, l). is_message l) (enumerate 0 ls)))"
    by (rule sorted_wrt_map_filter_fst)
  then have "sorted_wrt (<) (map logIndex ms)"
    unfolding eq [symmetric] by (simp add: comp_def)
  moreover have "nth_opt ls (logIndex m) = Some (log_text m)" if "m \<in> set ms" for m
  proof -
    have "(logIndex m, log_text m) \<in> set (enumerate 0 ls)"
      using arg_cong [OF eq, of set] that by auto
    then show ?thesis by (auto simp: in_set_enumerate_eq nth_opt_Some)
  qed
  ultimately show ?thesis using eq kind by (simp add: list_all_iff)
qed

theorem wrapLogs_messages_witness:
  "\<exists>ms. wrapLogs (Some [''Program A invoke [1]'', ''Program log: x'', ''Transfer'', ''Program data: y'']) = Inr (Some ms)
     \<and> sorted_wrt (<) (map logIndex ms) \<and> length ms = 2"
proof -
  let ?ls = "[''Program A invoke [1]'', ''Program log: x'', ''Transfer'', ''Program data: y'']"
  obtain ms where ms: "wrapLogs (Some ?ls) = Inr (Some ms)" "length ms = 2"
    by (simp add: wrapLogs_def wrapLogs_line_def startsWith_def program_line_def)
  with wrapLogs_messages [OF ms(1)] show ?thesis by blast
qed

subsection \<open>Blocks that do and do not transform\<close>

definition logs_parse :: "unit raw_meta_ext tx_meta_scheme \<Rightarrow> bool" where
  "logs_parse m =
     (dictionaryLogs m \<noteq> None \<or>
      (case logMessages m of None \<Rightarrow> True | Some ls \<Rightarrow> list_all (\<lambda>l. \<not> unparsable l) ls))"

definition tx_parses :: "raw_tx \<Rightarrow> bool" where
  "tx_parses tx = (case meta tx of None \<Rightarrow> True | Some m \<Rightarrow> logs_parse m)"

lemma transformMeta_total: "(\<exists>m'. transformMeta tx b m = Inr m') \<longleftrightarrow> logs_parse m"
proof (cases "dictionaryLogs m")
  case None
  note dict = None
  show ?thesis
  proof (cases "logMessages m")
    case None
    with dict show ?thesis by (simp add: transformMeta_def logs_parse_def wrapLogs_def)
  next
    case (Some ls)
    with dict wrapLogs_Inr_iff [of ls] show ?thesis
      by (cases "wrapLogs (Some ls)") (simp_all add: transformMeta_def logs_parse_def)
  qed
qed (simp add: transformMeta_def logs_parse_def)

lemma transformTx_total: "(\<exists>t. transformTx b tx = Inr t) \<longleftrightarrow> tx_parses tx"
proof (cases "meta tx")
  case (Some m)
  with transformMeta_total [of tx b m] show ?thesis
    by (cases "transformMeta tx b m") (simp_all add: transformTx_def tx_parses_def Let_def)
qed (simp add: transformTx_def tx_parses_def Let_def)

lemma transformTx_error: "transformTx b tx = Inl e \<Longrightarrow> \<exists>m c. e = ErrorCause m c"
  by (auto simp: transformTx_def Let_def split: sum.splits)

lemma transformBlock_total:
  "(\<exists>b. transformBlock raw = Inr b) \<longleftrightarrow> list_all tx_parses (raw_transactions raw)"
proof -
  have "(\<exists>b. transformBlock raw = Inr b) \<longleftrightarrow>
      (\<exists>ts. traverse (transformTx (base_block.truncate raw)) (raw_transactions raw) = Inr ts)"
    by (auto simp: transformBlock_def Let_def split: sum.splits)
  also have "\<dots> \<longleftrightarrow> list_all tx_parses (raw_transactions raw)"
    by (simp add: traverse_total transformTx_total list_all_iff)
  finally show ?thesis .
qed

lemma transformBlock_error: "transformBlock raw = Inl e \<Longrightarrow> \<exists>m c. e = ErrorCause m c"
  by (auto simp: transformBlock_def Let_def split: sum.splits dest!: traverse_Inl dest: transformTx_error)

text \<open>C22: a block the endpoint returns is delivered exactly when the log of each of its
  transactions parses, which a single \<open>Program ...\<close> line with an unknown mode prevents; then the
  fetch fails with \<open>Failed to transform transaction\<close>, which is not a skipped slot, so that the
  slot is neither indexed nor passed over.\<close>

theorem fetchBlock_delivers_iff_logs_parse:
  assumes "rpc_getBlock (api_client api) n = Inr (Some raw)"
  shows "((\<exists>b. fetchBlock hostname api n = Inr b) \<longleftrightarrow> list_all tx_parses (raw_transactions raw)) \<and>
    (\<not> list_all tx_parses (raw_transactions raw) \<longrightarrow> (\<exists>m c. fetchBlock hostname api n = Inl (ErrorCause m c)))"
proof -
  have "fetchBlock hostname api n =
      (case transformBlock raw of Inl e \<Rightarrow> Inl e | Inr b \<Rightarrow> Inr (formatBlockUtil b (Some n)))"
  proof (cases "transformBlock raw")
    case (Inl e)
    with transformBlock_error [OF this] assms show ?thesis
      by (auto simp: fetchBlock_def fetchBlock_try_def handleError_def)
  qed (simp add: fetchBlock_def fetchBlock_try_def assms)
  moreover have "\<exists>e. transformBlock raw = Inl e \<and> (\<exists>m c. e = ErrorCause m c)"
    if "\<not> list_all tx_parses (raw_transactions raw)"
    using that transformBlock_total [of raw] transformBlock_error by (metis obj_sumE)
  ultimately show ?thesis
    using transformBlock_total [of raw] by (auto split: sum.splits)
qed

definition example_raw_tx :: "string list option \<Rightarrow> raw_tx" where
  "example_raw_tx lines =
     \<lparr>transaction = \<lparr>message = \<lparr>accountKeys = [''S'', ''A''],
          instructions = [\<lparr>accounts = [0], data = ''2'', programIdIndex = 1, stackHeight = None\<rparr>],
          message_rest = []\<rparr>, signatures = [''sig'']\<rparr>,
      meta = Some \<lparr>err = None, fee = 5000, loadedAddresses = \<lparr>writable = [''W''], readonly = [''R'']\<rparr>, meta_rest = [],
          raw_innerInstructions = Some [\<lparr>ii_index = 0, ii_instructions =
            [\<lparr>accounts = [0, 2], data = ''3'', programIdIndex = 3, stackHeight = Some 2\<rparr>]\<rparr>],
          logMessages = lines, dictionaryLogs = None\<rparr>,
      version = JStr ''legacy''\<rparr>"

definition example_raw_block :: "string list option \<Rightarrow> raw_block" where
  "example_raw_block lines =
     \<lparr>bb_blockHeight = 95, bb_blockTime = 1700000000, bb_blockhash = ''h'', bb_parentSlot = 98,
      bb_previousBlockhash = ''g'', bb_rest = [], raw_transactions = [example_raw_tx lines]\<rparr>"

definition block_api :: "(int \<Rightarrow> raw_block option result) \<Rightarrow> solana_api" where
  "block_api blocks =
     \<lparr>api_client = \<lparr>rpc_getGenesisHash = Inr ''g'', rpc_getSlot = (\<lambda>c. Inr 100),
          rpc_getBlockHeader = (\<lambda>n. case blocks n of Inl e \<Rightarrow> Inl e
            | Inr r \<Rightarrow> Inr (map_option base_block.truncate r)), rpc_getBlock = blocks\<rparr>,
      api_genesisBlockHash = ''g'', api_endpoint = ''http://x'', api_requestTimeout = 30000,
      api_treatLongTermStorageSkipAsSkipped = True\<rparr>"

theorem fetchBlock_delivers_iff_logs_parse_witness:
  "\<exists>m c. fetchBlock Inr (block_api (\<lambda>n. Inr (Some (example_raw_block
     (Some [''Program A invoke [1]'', ''Program failed to complete: exceeded CUs meter'', ''Program A failed: x'']))))) 100
       = Inl (ErrorCause m c)"
proof -
  let ?raw = "example_raw_block
     (Some [''Program A invoke [1]'', ''Program failed to complete: exceeded CUs meter'', ''Program A failed: x''])"
  have api: "rpc_getBlock (api_client (block_api (\<lambda>n. Inr (Some ?raw)))) 100 = Inr (Some ?raw)"
    by (simp add: block_api_def)
  have "\<not> list_all tx_parses (raw_transactions ?raw)"
    by (simp add: example_raw_block_def example_raw_tx_def tx_parses_def logs_parse_def unparsable_def
        is_message_def remark_ok_def startsWith_def)
  with fetchBlock_delivers_iff_logs_parse [OF api, of Inr] show ?thesis by blast
qed

subsection \<open>What a transformed block contains\<close>

text \<open>
  \<open>wrapped_all\<close>: a list of wrapped instructions is the raw list with the prefix and the
  position as indices, each linked to its transaction and block; \<open>wrapped_tx\<close>: the same for
  a transaction, its inner instructions included.
\<close>

definition wrapped_all :: "base_block \<Rightarrow> raw_tx \<Rightarrow> nat list \<Rightarrow> raw_instruction list \<Rightarrow> sol_instruction list \<Rightarrow> bool" where
  "wrapped_all base tx outer raws insts =
     (map raw_instruction.truncate insts = raws \<and>
      map index insts = map (\<lambda>j. outer @ [j]) [0..<length raws] \<and>
      list_all (\<lambda>x. inst_transaction x = tx \<and> inst_block x = base \<and> pendingDecode x = None) insts)"

definition wrapped_meta :: "base_block \<Rightarrow> raw_tx \<Rightarrow> unit raw_meta_ext tx_meta_scheme \<Rightarrow> unit sol_meta_ext tx_meta_scheme \<Rightarrow> bool" where
  "wrapped_meta base tx m m' =
     (tx_meta.truncate m' = tx_meta.truncate m \<and> (case kept_logMessages m' of None \<Rightarrow> logMessages m = None | Some ls \<Rightarrow> ls = logMessages m) \<and>
      (case dictionaryLogs m of
         Some ls \<Rightarrow> logs m' = Some (wrapDictionaryLogs ls)
       | None \<Rightarrow> wrapLogs (logMessages m) = Inr (logs m')) \<and>
      list_all2 (\<lambda>raws insts. ii_index insts = ii_index raws \<and>
          wrapped_all base tx [ii_index raws] (ii_instructions raws) (ii_instructions insts))
        (case raw_innerInstructions m of None \<Rightarrow> [] | Some inners \<Rightarrow> inners) (innerInstructions m'))"

definition wrapped_tx :: "base_block \<Rightarrow> raw_tx \<Rightarrow> sol_tx \<Rightarrow> bool" where
  "wrapped_tx base tx t =
     (tx_block t = base \<and> version t = version tx \<and>
      signatures (transaction t) = signatures (transaction tx) \<and>
      accountKeys (message (transaction t)) = accountKeys (message (transaction tx)) \<and>
      message_rest (message (transaction t)) = message_rest (message (transaction tx)) \<and>
      wrapped_all base tx [] (instructions (message (transaction tx))) (instructions (message (transaction t))) \<and>
      rel_option (wrapped_meta base tx) (meta tx) (meta t))"

lemma wrapped_all_mapi:
  "wrapped_all base tx outer raws (mapi (\<lambda>j r. wrapInstruction (outer @ [j]) r tx base) raws)"
  by (auto simp: wrapped_all_def map_mapi wrapInstruction_def raw_instruction.defs mapi_index list_all_length
      intro!: nth_equalityI)

lemma transformMeta_wrapped: "transformMeta tx base m = Inr m' \<Longrightarrow> wrapped_meta base tx m m'"
  using wrapped_all_mapi [of base tx "[k]" for k]
  by (auto simp: transformMeta_def wrapped_meta_def tx_meta.defs list_all2_map2 list_all2_same split: sum.splits option.splits)

lemma transformTx_wrapped: "transformTx base tx = Inr t \<Longrightarrow> wrapped_tx base tx t"
  using wrapped_all_mapi [of base tx "[]"]
  by (auto simp: transformTx_def wrapped_tx_def Let_def transformMeta_wrapped split: sum.splits option.splits)

lemma transformBlock_wrapped:
  assumes "transformBlock raw = Inr b"
  shows "base_block.truncate b = base_block.truncate raw \<and>
    list_all2 (wrapped_tx (base_block.truncate raw)) (raw_transactions raw) (transactions b)"
  using assms
  by (auto simp: transformBlock_def Let_def base_block.defs sol_block.defs traverse_Inr_iff
      intro: list_all2_mono [OF _ transformTx_wrapped] split: sum.splits)

text \<open>C19: a transformed block has the block fields and, transaction by transaction and
  instruction by instruction, the raw data of the response, with the logs wrapped; instruction \<open>j\<close> has index \<open>[j]\<close>, the
  \<open>j\<close>-th inner instruction of \<open>i\<close> has index \<open>[i, j]\<close>, each refers to its raw transaction and
  its block, and none is decoded yet.\<close>

theorem transformBlock_faithful:
  assumes "transformBlock raw = Inr b"
  shows "base_block.truncate b = base_block.truncate raw \<and>
    list_all2 (wrapped_tx (base_block.truncate raw)) (raw_transactions raw) (transactions b)"
  using assms by (rule transformBlock_wrapped)

theorem transformBlock_faithful_witness:
  "\<exists>b t m. transformBlock (example_raw_block None) = Inr b \<and> transactions b = [t] \<and> meta t = Some m \<and>
     map index (instructions (message (transaction t))) = [[0]] \<and>
     map (map index \<circ> ii_instructions) (innerInstructions m) = [[[0, 0]]]"
proof -
  have "\<exists>b. transformBlock (example_raw_block None) = Inr b"
    unfolding transformBlock_total by (simp add: example_raw_block_def example_raw_tx_def tx_parses_def logs_parse_def)
  then obtain b where b: "transformBlock (example_raw_block None) = Inr b" ..
  with transformBlock_faithful [OF b] show ?thesis
    by (auto simp: example_raw_block_def example_raw_tx_def list_all2_Cons1 wrapped_tx_def wrapped_all_def
        wrapped_meta_def option_rel_Some1)
qed

end
