(* ===== verification/DecoderTheorems.thy ===== *)
theory DecoderTheorems
  imports Decoder BlockTheorems
begin

section \<open>The properties of the decoder\<close>

text \<open>
  The decoder as a state machine of IDL loads and discriminator lookups: the cache of
  \<open>parseDiscriminator\<close> always agrees with the loaded IDLs, because a loaded IDL is never
  replaced and a failed lookup is not cached. Then what decoding an instruction and an event
  log gives.
\<close>

subsection \<open>Loading and looking up\<close>

text \<open>Every state holds at least the IDLs of \<open>d\<close>.\<close>

definition idls_kept :: "decoder \<Rightarrow> decoder \<Rightarrow> bool" where
  "idls_kept d d' = (\<forall>p i. idls d p = Some (Some i) \<longrightarrow> idls d' p = Some (Some i))"

lemma idls_kept_refl [simp]: "idls_kept d d"
  by (simp add: idls_kept_def)

lemma idls_kept_trans: "idls_kept d d' \<Longrightarrow> idls_kept d' d'' \<Longrightarrow> idls_kept d d''"
  by (simp add: idls_kept_def)

lemma load_assets_kept:
  "load_assets readFile parseJson entries d = (r, d') \<Longrightarrow> idls_kept d d' \<and> disc_cache d' = disc_cache d"
proof (induction readFile parseJson entries d arbitrary: r d' rule: load_assets.induct)
  case (2 readFile parseJson name path rest d)
  show ?case
  proof (cases "\<exists>i. idls d name = Some (Some i)")
    case True
    with 2 show ?thesis by auto
  next
    case False
    then have lk: "load_assets readFile parseJson ((name, path) # rest) d =
        (case (case readFile path of Inl e \<Rightarrow> Inl e | Inr raw \<Rightarrow> parseJson raw) of
             Inl e \<Rightarrow> (Inl (Error (''Failed to load datasource IDL '' @ name @ '':'' @ path)), d)
           | Inr parsed \<Rightarrow> load_assets readFile parseJson rest (d\<lparr>idls := (idls d)(name \<mapsto> parsed)\<rparr>))"
      by (auto split: option.splits)
    show ?thesis
    proof (cases "case readFile path of Inl e \<Rightarrow> Inl e | Inr raw \<Rightarrow> parseJson raw")
      case (Inl e)
      with lk 2(4) show ?thesis by simp
    next
      case (Inr parsed)
      let ?d1 = "d\<lparr>idls := (idls d)(name \<mapsto> parsed)\<rparr>"
      have k1: "idls_kept d ?d1" using False by (auto simp: idls_kept_def)
      have rest: "load_assets readFile parseJson rest ?d1 = (r, d')" using lk 2(4) Inr by simp
      have "idls_kept ?d1 d' \<and> disc_cache d' = disc_cache ?d1"
      proof (cases "idls d name")
        case None
        then show ?thesis by (rule 2(1) [OF _ Inr rest])
      next
        case (Some x)
        have "x = None" using Some False by (cases x) simp_all
        from 2(2) [OF Some this Inr rest] show ?thesis .
      qed
      with k1 show ?thesis by (auto intro: idls_kept_trans)
    qed
  qed
qed simp

lemma loadIdls_kept:
  "loadIdls readFile parseJson ds d = (r, d') \<Longrightarrow> idls_kept d d' \<and> disc_cache d' = disc_cache d"
  by (auto simp: loadIdls_def load_assets_kept split: option.splits)

text \<open>A lookup that answers needs no more than the IDL of its program.\<close>

lemma parseDiscriminator_body_mono:
  assumes "parseDiscriminator_body lib d (input, pid) = Inr bs" and "idls_kept d d'"
  shows "parseDiscriminator_body lib d' (input, pid) = Inr bs"
proof (cases "isHex lib input")
  case True
  with assms(1) show ?thesis by (simp add: parseDiscriminator_body_def)
next
  case False
  with assms(1) obtain i where "lookup_idl d pid = Some (Some i)"
    by (auto simp: parseDiscriminator_body_def split: option.splits)
  with assms(2) have "lookup_idl d' pid = lookup_idl d pid"
    by (auto simp: idls_kept_def lookup_idl_def)
  with assms(1) False show ?thesis by (simp add: parseDiscriminator_body_def)
qed

definition cache_ok :: "idl_lib \<Rightarrow> decoder \<Rightarrow> bool" where
  "cache_ok lib d = (\<forall>k bs. disc_cache d (memo_key k) = Some bs \<longrightarrow> parseDiscriminator_body lib d k = Inr bs)"

lemma cache_ok_kept:
  "cache_ok lib d \<Longrightarrow> idls_kept d d' \<Longrightarrow> disc_cache d' = disc_cache d \<Longrightarrow> cache_ok lib d'"
  by (auto simp: cache_ok_def intro: parseDiscriminator_body_mono)

lemma parseDiscriminator_body_idls:
  "idls d = idls d' \<Longrightarrow> parseDiscriminator_body lib d = parseDiscriminator_body lib d'"
  by (simp add: parseDiscriminator_body_def lookup_idl_def fun_eq_iff)

lemma parseDiscriminator_idls [simp]: "idls (snd (parseDiscriminator lib input pid d)) = idls d"
  by (simp add: parseDiscriminator_def split_def)

lemma parseDiscriminator_ok:
  assumes "cache_ok lib d"
  shows "fst (parseDiscriminator lib input pid d) = parseDiscriminator_body lib d (input, pid) \<and>
    cache_ok lib (snd (parseDiscriminator lib input pid d))"
proof -
  note body = parseDiscriminator_body_idls [OF parseDiscriminator_idls, of lib lib input pid d]
  have "fst (parseDiscriminator lib input pid d) = parseDiscriminator_body lib d (input, pid)"
    using assms by (auto simp: parseDiscriminator_def Memoize_def cache_ok_def Let_def split: option.splits sum.splits)
  moreover have "parseDiscriminator_body lib d k = Inr bs"
    if "disc_cache (snd (parseDiscriminator lib input pid d)) (memo_key k) = Some bs" for k bs
    using assms that
    by (cases k) (auto simp: parseDiscriminator_def Memoize_def cache_ok_def Let_def memo.key_inject split: option.splits sum.splits if_splits)
  ultimately show ?thesis by (simp add: cache_ok_def body)
qed

text \<open>The state machine of a decoder.\<close>

inductive decoder_step :: "idl_lib \<Rightarrow> decoder \<Rightarrow> decoder \<Rightarrow> bool" for lib where
  load: "loadIdls readFile parseJson ds d = (r, d') \<Longrightarrow> decoder_step lib d d'"
| lookup: "parseDiscriminator lib input pid d = (r, d') \<Longrightarrow> decoder_step lib d d'"

definition decoder_reaches :: "idl_lib \<Rightarrow> decoder \<Rightarrow> decoder \<Rightarrow> bool" where
  "decoder_reaches lib = (decoder_step lib)\<^sup>*\<^sup>*"

lemma decoder_step_kept: "decoder_step lib d d' \<Longrightarrow> idls_kept d d'"
proof (induction rule: decoder_step.induct)
  case (lookup input pid d r d')
  then show ?case using parseDiscriminator_idls [of lib input pid d] by (simp add: idls_kept_def)
qed (simp add: loadIdls_kept)

lemma decoder_reaches_kept: "decoder_reaches lib d d' \<Longrightarrow> idls_kept d d'"
  unfolding decoder_reaches_def
  by (induction rule: rtranclp_induct) (auto intro: idls_kept_trans decoder_step_kept)

lemma decoder_step_ok: "decoder_step lib d d' \<Longrightarrow> cache_ok lib d \<Longrightarrow> cache_ok lib d'"
proof (induction rule: decoder_step.induct)
  case (load readFile parseJson ds d r d')
  then show ?case using loadIdls_kept cache_ok_kept by blast
next
  case (lookup input pid d r d')
  then show ?case using parseDiscriminator_ok [of lib d input pid] by simp
qed

lemma decoder_reaches_ok: "decoder_reaches lib d d' \<Longrightarrow> cache_ok lib d \<Longrightarrow> cache_ok lib d'"
  unfolding decoder_reaches_def
  by (induction rule: rtranclp_induct) (auto intro: decoder_step_ok)

lemma new_decoder_ok [simp]: "cache_ok lib new_SolanaDecoder"
  by (simp add: cache_ok_def new_SolanaDecoder_def)

subsection \<open>Examples\<close>

definition example_lib :: idl_lib where
  "example_lib =
     \<lparr>rootNodeFromAnchor = (\<lambda>i. Inr (idl_root i)), createFromRoot = Inr,
      getUtf8Encoder = (\<lambda>s. Inr (map (\<lambda>c. byte (of_char c)) s)), getBase16Encoder = (\<lambda>s. Inr (hex_decode s)),
      getBase58Encoder = (\<lambda>s. Inl (Error ''base58'')), getBase64Encoder = (\<lambda>s. Inr (base64_decode s)),
      camelCase = (\<lambda>s. s), pascalCase = (\<lambda>s. s), sha256 = (\<lambda>s. replicate 32 (byte (length s))),
      bs58_decode = (\<lambda>s. if s = ''25'' then Inr [64, 7] else Inl (Error ''Non-base58 character'')),
      isHex = (\<lambda>s. s \<noteq> [] \<and> list_all (\<lambda>c. hex_value c \<noteq> None) s),
      decodeNode = (\<lambda>root node buf. Inr [(''discriminator'', JNull), (''size'', JNum (int (length buf)))])\<rparr>"

definition example_program :: program_node where
  "example_program =
     \<lparr>pn_name = ''swap'', publicKey = ''A'',
      pn_instructions =
        [\<lparr>in_name = ''noDisc'', arguments = []\<rparr>,
         \<lparr>in_name = ''route'', arguments = [\<lparr>arg_name = ''discriminator'', defaultValue = Some (NumberValueNode 64)\<rparr>]\<rparr>],
      definedTypes = [\<lparr>dt_name = ''Swapped'', dt_type = JNull\<rparr>]\<rparr>"

definition example_idl :: idl where
  "example_idl =
     \<lparr>idl_root = \<lparr>rn_program = Some (example_program\<lparr>publicKey := ''''\<rparr>)\<rparr>, idl_metadata = Some (Some ''0.1.0''),
      idl_events = Some [\<lparr>ev_name = ''Swapped'', ev_discriminator = [64, 1]\<rparr>], idl_rest = JNull\<rparr>"

definition example_decoder :: decoder where
  "example_decoder = new_SolanaDecoder\<lparr>idls := [''A'' \<mapsto> Some example_idl]\<rparr>"

definition example_ds :: "handler list \<Rightarrow> datasource" where
  "example_ds hs =
     \<lparr>ds_kind = ''solana/Runtime'', ds_mapping = \<lparr>handlers = hs, mapping_file = ''index.js''\<rparr>,
      assets = Some [(''A'', ''a.json'')], ds_processor = None\<rparr>"

lemma example_load:
  "loadIdls (\<lambda>f. Inr ''{}'') (\<lambda>s. Inr (Some example_idl)) (example_ds hs) new_SolanaDecoder = (Inr (), example_decoder)"
  by (simp add: loadIdls_def example_ds_def new_SolanaDecoder_def example_decoder_def)

lemma example_decoder_reached: "decoder_reaches lib new_SolanaDecoder example_decoder"
  unfolding decoder_reaches_def by (rule r_into_rtranclp) (rule decoder_step.load [OF example_load])

lemma example_idl_parse:
  "parseIdl example_lib example_idl = Inr (idl_root example_idl)"
  "get_program (idl_root example_idl) = Inr (example_program\<lparr>publicKey := ''''\<rparr>)"
  by (simp_all add: parseIdl_def get_program_def example_lib_def example_idl_def)

lemma example_lib_camelCase [simp]: "camelCase example_lib s = s"
  by (simp add: example_lib_def)

lemma example_isHex: "\<not> isHex example_lib ''route''"
  by (simp add: example_lib_def hex_value_def hex_alphabet_def)

lemma example_lookup: "lookup_idl example_decoder (Some ''A'') = Some (Some example_idl)"
  by (simp add: lookup_idl_def example_decoder_def)

subsection \<open>Properties\<close>

text \<open>C16: in every state a decoder can reach by loading IDLs and resolving discriminators in any
  order, the memoised \<open>parseDiscriminator\<close> answers what the method computes from the IDLs
  loaded now; and an answer once given is given in every later state, whatever is loaded then.\<close>

theorem parseDiscriminator_coherent:
  assumes "decoder_reaches lib new_SolanaDecoder d"
  shows "fst (parseDiscriminator lib input pid d) = parseDiscriminator_body lib d (input, pid) \<and>
    (\<forall>d' bs. decoder_reaches lib d d' \<and> fst (parseDiscriminator lib input pid d) = Inr bs \<longrightarrow>
       fst (parseDiscriminator lib input pid d') = Inr bs)"
proof -
  have ok: "cache_ok lib d" using decoder_reaches_ok [OF assms] by simp
  have "fst (parseDiscriminator lib input pid d') = Inr bs"
    if r: "decoder_reaches lib d d'" and "fst (parseDiscriminator lib input pid d) = Inr bs" for d' bs
  proof -
    have "parseDiscriminator_body lib d (input, pid) = Inr bs"
      using that(2) parseDiscriminator_ok [OF ok, of input pid] by simp
    from parseDiscriminator_body_mono [OF this decoder_reaches_kept [OF r]] show ?thesis
      using parseDiscriminator_ok [OF decoder_reaches_ok [OF r ok], of input pid] by simp
  qed
  with parseDiscriminator_ok [OF ok] show ?thesis by blast
qed

theorem parseDiscriminator_coherent_witness:
  "fst (parseDiscriminator example_lib ''route'' (Some ''A'') example_decoder) = Inr [64]"
proof -
  have "findInstructionDiscriminatorByName example_lib (idl_root example_idl) ''route'' = Inr (Some [64])"
    by (simp add: findInstructionDiscriminatorByName_def example_idl_parse example_program_def
        getInstructionDiscriminatorBytes_def)
  then have "parseDiscriminator_body example_lib example_decoder (''route'', Some ''A'') = Inr [64]"
    by (simp add: parseDiscriminator_body_def example_lookup example_idl_parse(1) example_isHex)
  with parseDiscriminator_coherent [OF example_decoder_reached, of example_lib "''route''" "Some ''A''"]
  show ?thesis by simp
qed

definition read_idl :: "(string \<Rightarrow> string result) \<Rightarrow> (string \<Rightarrow> idl option result) \<Rightarrow> string \<Rightarrow> idl option result" where
  "read_idl readFile parseJson path = (case readFile path of Inl e \<Rightarrow> Inl e | Inr raw \<Rightarrow> parseJson raw)"

definition loaded :: "decoder \<Rightarrow> string \<Rightarrow> bool" where
  "loaded d name = (\<exists>i. idls d name = Some (Some i))"

lemma load_assets_cons:
  "load_assets readFile parseJson ((name, path) # rest) d =
     (if loaded d name then load_assets readFile parseJson rest d
      else case read_idl readFile parseJson path of
        Inl e \<Rightarrow> (Inl (Error (''Failed to load datasource IDL '' @ name @ '':'' @ path)), d)
      | Inr parsed \<Rightarrow> load_assets readFile parseJson rest (d\<lparr>idls := (idls d)(name \<mapsto> parsed)\<rparr>))"
  by (auto simp: loaded_def read_idl_def split: option.splits)

declare load_assets.simps(2) [simp del]

lemma load_assets_result:
  assumes "distinct (map fst entries)"
  shows "case load_assets readFile parseJson entries d of
      (Inr u, d') \<Rightarrow>
        (\<forall>name. loaded d name \<or> name \<notin> fst ` set entries \<longrightarrow> idls d' name = idls d name) \<and>
        (\<forall>(name, path) \<in> set entries. \<not> loaded d name \<longrightarrow>
           (\<exists>v. read_idl readFile parseJson path = Inr v \<and> idls d' name = Some v))
    | (Inl e, d') \<Rightarrow>
        (\<exists>(name, path) \<in> set entries. \<not> loaded d name \<and> isl (read_idl readFile parseJson path) \<and>
           e = Error (''Failed to load datasource IDL '' @ name @ '':'' @ path))"
  using assms
proof (induction entries arbitrary: d)
  case (Cons entry rest)
  obtain name path where e: "entry = (name, path)" by force
  show ?case
  proof (cases "loaded d name")
    case True
    obtain r d' where run: "load_assets readFile parseJson rest d = (r, d')" by force
    have "distinct (map fst rest)" using Cons.prems by simp
    note IH = Cons.IH [OF this, of d, unfolded run]
    have step: "load_assets readFile parseJson (entry # rest) d = (r, d')"
      using True run e by (simp add: load_assets_cons)
    show ?thesis
    proof (cases r)
      case (Inl err)
      with IH step e show ?thesis by auto
    next
      case (Inr u)
      with IH step e True show ?thesis by auto
    qed
  next
    case False
    note unloaded = False
    show ?thesis
    proof (cases "read_idl readFile parseJson path")
      case (Inl err)
      with False e show ?thesis by (simp add: load_assets_cons)
    next
      case (Inr v)
      let ?d1 = "d\<lparr>idls := (idls d)(name \<mapsto> v)\<rparr>"
      have other: "loaded ?d1 n = loaded d n" if "n \<noteq> name" for n using that by (simp add: loaded_def)
      have fresh: "name \<notin> fst ` set rest" "distinct (map fst rest)" using Cons.prems e by auto
      have step: "load_assets readFile parseJson (entry # rest) d = load_assets readFile parseJson rest ?d1"
        using False Inr e by (simp add: load_assets_cons)
      obtain r d' where run: "load_assets readFile parseJson rest ?d1 = (r, d')" by force
      note IH = Cons.IH [OF fresh(2), of ?d1, unfolded run]
      show ?thesis
      proof (cases r)
        case (Inl err)
        with IH obtain n p where n: "(n, p) \<in> set rest" "\<not> loaded ?d1 n"
            "isl (read_idl readFile parseJson p)" "err = Error (''Failed to load datasource IDL '' @ n @ '':'' @ p)"
          by auto
        then have "\<not> loaded d n" using fresh(1) other [of n] by force
        with n have "\<exists>(name, path) \<in> set (entry # rest). \<not> loaded d name \<and> isl (read_idl readFile parseJson path) \<and>
            err = Error (''Failed to load datasource IDL '' @ name @ '':'' @ path)"
          by (intro bexI [of _ "(n, p)"]) simp_all
        then show ?thesis by (simp add: step run Inl)
      next
        case r: (Inr u)
        from IH r have kept: "\<And>n. loaded ?d1 n \<or> n \<notin> fst ` set rest \<Longrightarrow> idls d' n = idls ?d1 n"
          and new: "\<And>n p. (n, p) \<in> set rest \<Longrightarrow> \<not> loaded ?d1 n \<Longrightarrow>
            \<exists>v. read_idl readFile parseJson p = Inr v \<and> idls d' n = Some v" by auto
        have "idls d' name = Some v" using kept [of name] fresh(1) by simp
        moreover have "idls d' n = idls d n" if "loaded d n \<or> n \<notin> fst ` set (entry # rest)" for n
          using kept [of n] other [of n] that e unloaded by (cases "n = name") auto
        moreover have "\<exists>v. read_idl readFile parseJson p = Inr v \<and> idls d' n = Some v"
          if "(n, p) \<in> set rest" "\<not> loaded d n" for n p
          using new [OF that(1)] other [of n] that fresh(1) by force
        ultimately show ?thesis using r step run e Inr by auto
      qed
    qed
  qed
qed simp

text \<open>\<open>loadIdls\<close> of a data source keeps every IDL already loaded, reads the file of each
  other asset, and either stores the parsed file under each such program and touches nothing
  else, or stops with \<open>Failed to load datasource IDL\<close> naming an asset that was not loaded and
  whose file could not be read or parsed.\<close>

theorem loadIdls_loads_missing:
  assumes "assets ds = Some entries" and "distinct (map fst entries)"
  shows "case loadIdls readFile parseJson ds d of
      (Inr u, d') \<Rightarrow>
        (\<forall>name. loaded d name \<or> name \<notin> fst ` set entries \<longrightarrow> idls d' name = idls d name) \<and>
        (\<forall>(name, path) \<in> set entries. \<not> loaded d name \<longrightarrow>
           (\<exists>v. read_idl readFile parseJson path = Inr v \<and> idls d' name = Some v))
    | (Inl e, d') \<Rightarrow>
        idls_kept d d' \<and>
        (\<exists>(name, path) \<in> set entries. \<not> loaded d name \<and> isl (read_idl readFile parseJson path) \<and>
           e = Error (''Failed to load datasource IDL '' @ name @ '':'' @ path))"
proof -
  obtain r d' where run: "load_assets readFile parseJson entries d = (r, d')" by force
  with load_assets_result [OF assms(2), where readFile = readFile and parseJson = parseJson and d = d] load_assets_kept [OF run] assms(1)
  show ?thesis by (auto simp: loadIdls_def split: sum.splits)
qed

theorem loadIdls_loads_missing_witness:
  "\<exists>name path. (name, path) \<in> {(''A'', ''a.json'')} \<and>
     fst (loadIdls (\<lambda>f. Inl (Error ''ENOENT'')) (\<lambda>s. Inr None) (example_ds []) new_SolanaDecoder) =
       Inl (Error (''Failed to load datasource IDL '' @ name @ '':'' @ path))"
proof -
  have a: "assets (example_ds []) = Some [(''A'', ''a.json'')]" by (simp add: example_ds_def)
  obtain r d' where run: "loadIdls (\<lambda>f. Inl (Error ''ENOENT'')) (\<lambda>s. Inr None) (example_ds []) new_SolanaDecoder = (r, d')"
    by force
  from loadIdls_loads_missing [OF a, where readFile = "\<lambda>f. Inl (Error ''ENOENT'')" and parseJson = "\<lambda>s. Inr None" and d = new_SolanaDecoder] run
  show ?thesis
    by (cases r) (auto simp: loaded_def new_SolanaDecoder_def read_idl_def)
qed

subsection \<open>What decoding returns\<close>

definition stripped :: "string \<Rightarrow> js_fields \<Rightarrow> decoded_data" where
  "stripped name decodedFields =
     \<lparr>dd_name = name, dd_data = JObj (filter (\<lambda>(k, v). k \<noteq> ''discriminator'') decodedFields)\<rparr>"

definition has_prefix_discriminator :: "idl_lib \<Rightarrow> bytes \<Rightarrow> instruction_node \<Rightarrow> bool" where
  "has_prefix_discriminator lib buf n =
     (case getInstructionDiscriminatorBytes lib n of Inl e \<Rightarrow> False | Inr bs \<Rightarrow> prefix bs buf)"

lemma findInstructionForData_eq:
  "get_program root = Inr p \<Longrightarrow>
     findInstructionForData lib root buf = Inr (find (has_prefix_discriminator lib buf) (pn_instructions p))"
  by (simp add: findInstructionForData_def has_prefix_discriminator_def [abs_def] indexOf_zero_iff cong: sum.case_cong)

text \<open>C23: decoding an instruction of a program with a loaded IDL uses the first instruction of
  the IDL whose discriminator can be read and is a prefix of the instruction's data, decodes all
  of the data with it and drops the discriminator field; with no such instruction, a codec that
  fails or a program without an IDL the answer is \<open>null\<close>.\<close>

theorem decodeInstructionRaw_first_match:
  assumes "nth_opt (allAccounts tx) (programIdIndex inst) = Some pid"
  shows "(\<forall>i root p buf. idls d pid = Some (Some i) \<and> parseIdl lib i = Inr root \<and> get_program root = Inr p \<and>
       bs58_decode lib (data inst) = Inr buf \<longrightarrow>
       decodeInstructionRaw lib d inst tx =
         (case find (has_prefix_discriminator lib buf) (pn_instructions p) of
            None \<Rightarrow> None
          | Some n \<Rightarrow> (case decodeNode lib root (Inl n) buf of
                         Inl e \<Rightarrow> None
                       | Inr fs \<Rightarrow> Some (stripped (in_name n) fs)))) \<and>
    (\<not> loaded d pid \<longrightarrow> decodeInstructionRaw lib d inst tx = None)"
proof (intro conjI allI impI)
  fix i root p buf
  assume a: "idls d pid = Some (Some i) \<and> parseIdl lib i = Inr root \<and> get_program root = Inr p \<and>
       bs58_decode lib (data inst) = Inr buf"
  then have p: "findInstructionForData lib root buf = Inr (find (has_prefix_discriminator lib buf) (pn_instructions p))"
    by (simp add: findInstructionForData_eq)
  have idl: "idl_or_chain d (nth_opt (allAccounts tx) (programIdIndex inst)) = Inr (Some i)"
    using a assms by (simp add: idl_or_chain_def lookup_idl_def)
  have buf: "basedToBuffer lib (data inst) = buf" using a by (simp add: basedToBuffer_def)
  show "decodeInstructionRaw lib d inst tx =
         (case find (has_prefix_discriminator lib buf) (pn_instructions p) of
            None \<Rightarrow> None
          | Some n \<Rightarrow> (case decodeNode lib root (Inl n) buf of
                         Inl e \<Rightarrow> None
                       | Inr fs \<Rightarrow> Some (stripped (in_name n) fs)))"
    using a unfolding decodeInstructionRaw_def idl decodeInstruction_idl_def decodeData_def
    by (simp add: buf p stripped_def split: option.split sum.split)
next
  assume "\<not> loaded d pid"
  then have "isl (idl_or_chain d (Some pid))"
    by (auto simp: idl_or_chain_def lookup_idl_def loaded_def getIdlFromChain_def split: option.split)
  with assms show "decodeInstructionRaw lib d inst tx = None"
    by (auto simp: decodeInstructionRaw_def split: sum.split)
qed

definition example_route :: "string \<Rightarrow> raw_instruction" where
  "example_route txt = \<lparr>accounts = [0], data = txt, programIdIndex = 1, stackHeight = None\<rparr>"

lemma example_has_prefix:
  "find (has_prefix_discriminator example_lib [64, 7]) (pn_instructions example_program) = Some (pn_instructions example_program ! 1)"
  by (simp add: example_program_def has_prefix_discriminator_def getInstructionDiscriminatorBytes_def)

theorem decodeInstructionRaw_first_match_witness:
  "decodeInstructionRaw example_lib example_decoder (example_route ''25'') (example_raw_tx None) =
     Some \<lparr>dd_name = ''route'', dd_data = JObj [(''size'', JNum 2)]\<rparr>"
proof -
  have acc: "nth_opt (allAccounts (example_raw_tx None)) (programIdIndex (example_route ''25'')) = Some ''A''"
    by (simp add: example_raw_tx_def example_route_def allAccounts_def nth_opt_def)
  have b: "bs58_decode example_lib (data (example_route ''25'')) = Inr [64, 7]"
    by (simp add: example_lib_def example_route_def)
  have i: "idls example_decoder ''A'' = Some (Some example_idl)" by (simp add: example_decoder_def)
  from decodeInstructionRaw_first_match [OF acc, of example_decoder example_lib] i b
  have "decodeInstructionRaw example_lib example_decoder (example_route ''25'') (example_raw_tx None) =
      (case find (has_prefix_discriminator example_lib [64, 7]) (pn_instructions (example_program\<lparr>publicKey := ''''\<rparr>)) of
            None \<Rightarrow> None
          | Some n \<Rightarrow> (case decodeNode example_lib (idl_root example_idl) (Inl n) [64, 7] of
                         Inl e \<Rightarrow> None
                       | Inr fs \<Rightarrow> Some (stripped (in_name n) fs)))"
    using example_idl_parse by blast
  then show ?thesis
    by (simp add: example_has_prefix) (simp add: example_lib_def example_program_def stripped_def)
qed

text \<open>C24: a data log that carries an event of a loaded Anchor IDL, printed as base64 after
  \<open>Program data: \<close>, is decoded with the type of the first event whose discriminator starts
  the data, from exactly the bytes after the discriminator, provided that neither base64 text
  happens to be valid base58. When the second text is valid base58, the codec is given those
  other bytes instead.\<close>

theorem decodeLog_event_bytes:
  assumes "lookup_idl d (log_programId l) = Some (Some i)" and "isAnchorIdl i"
    and "idl_metadata i = Some (Some ''0.1.0'')" and "idl_events i = Some evs"
    and "log_text l = ''Program data: '' @ base64_encode (ev_discriminator ev @ payload)"
    and "find (\<lambda>e. prefix (ev_discriminator e) (ev_discriminator ev @ payload)) evs = Some ev"
    and "parseIdl lib i = Inr root" and "get_program root = Inr p"
    and "find (\<lambda>t. dt_name t = ev_name ev \<or> dt_name t = camelCase lib (ev_name ev)) (definedTypes p) = Some t"
    and "bs58_decode lib (base64_encode (ev_discriminator ev @ payload)) = Inl e1"
  shows "decodeLog lib d l =
    (let read = (case bs58_decode lib (base64_encode payload) of Inl e2 \<Rightarrow> payload | Inr other \<Rightarrow> other)
     in case decodeNode lib root (Inr t) read of
          Inl e \<Rightarrow> None
        | Inr fs \<Rightarrow> Some (stripped (dt_name t) fs))"
proof -
  let ?all = "ev_discriminator ev @ payload"
  have "remove_first ''Program data: '' (log_text l) = base64_encode ?all"
    unfolding assms(5) by (rule remove_first_prefix) simp
  then have buf: "basedToBuffer lib (remove_first ''Program data: '' (log_text l)) = ?all"
    using assms(10) by (simp add: basedToBuffer_def base64.decode_encode)
  have rd: "basedToBuffer lib (base64_encode payload) =
      (case bs58_decode lib (base64_encode payload) of Inl e2 \<Rightarrow> payload | Inr other \<Rightarrow> other)"
    by (simp add: basedToBuffer_def base64.decode_encode split: sum.split)
  have ty: "find_type (\<lambda>n. n = ev_name ev \<or> n = camelCase lib (ev_name ev)) root b = Inr (Some (Inr t))" for b
    using assms(8,9) by (simp add: find_type_def)
  have v: "isAnchorIdlV01 i = Inr True" using assms(2,3) by (simp add: isAnchorIdlV01_def)
  have "decodeLog_idl lib i (log_text l) =
      decodeData lib i (base64_encode payload) (find_type (\<lambda>n. n = ev_name ev \<or> n = camelCase lib (ev_name ev)))"
    unfolding decodeLog_idl_def buf Let_def
    using assms(2,4,6) v by (simp add: indexOf_zero_iff)
  then show ?thesis
    using assms(1,7) unfolding decodeData_def rd
    by (simp add: decodeLog_def idl_or_chain_def ty Let_def stripped_def split: sum.split)
qed

definition example_event_log :: "bytes \<Rightarrow> log_message" where
  "example_event_log payload =
     \<lparr>log_text = ''Program data: '' @ base64_encode ([64, 1] @ payload), log_programId = Some ''A'', logIndex = 1,
      log_type = LogData, log_pendingDecode = None\<rparr>"

theorem decodeLog_event_bytes_witness:
  "decodeLog example_lib example_decoder (example_event_log [9, 9, 9]) =
     Some \<lparr>dd_name = ''Swapped'', dd_data = JObj [(''size'', JNum 3)]\<rparr>"
proof -
  have "decodeLog example_lib example_decoder (example_event_log [9, 9, 9]) =
    (let read = (case bs58_decode example_lib (base64_encode [9, 9, 9]) of Inl e2 \<Rightarrow> [9, 9, 9] | Inr other \<Rightarrow> other)
     in case decodeNode example_lib (idl_root example_idl) (Inr \<lparr>dt_name = ''Swapped'', dt_type = JNull\<rparr>) read of
          Inl e \<Rightarrow> None
        | Inr fs \<Rightarrow> Some (stripped (dt_name \<lparr>dt_name = ''Swapped'', dt_type = JNull\<rparr>) fs))"
  proof (rule decodeLog_event_bytes [where ev = "\<lparr>ev_name = ''Swapped'', ev_discriminator = [64, 1]\<rparr>"
        and evs = "[\<lparr>ev_name = ''Swapped'', ev_discriminator = [64, 1]\<rparr>]" and i = example_idl
        and p = "example_program\<lparr>publicKey := ''''\<rparr>"])
    show "lookup_idl example_decoder (log_programId (example_event_log [9, 9, 9])) = Some (Some example_idl)"
      by (simp add: example_event_log_def example_lookup)
    show "bs58_decode example_lib (base64_encode (ev_discriminator \<lparr>ev_name = ''Swapped'', ev_discriminator = [64, 1]\<rparr> @ [9, 9, 9])) =
        Inl (Error ''Non-base58 character'')"
      by (simp add: example_lib_def)
  qed (simp_all add: example_idl_parse, simp_all add: example_idl_def isAnchorIdl_def isRootNode_def
      example_program_def example_event_log_def)
  then show ?thesis by (simp add: example_lib_def stripped_def)
qed

end
