(* ===== verification/Filters.thy ===== *)
theory Filters
  imports DecoderTheorems
begin

section \<open>Filters\<close>

text \<open>
  The filter processors of \<open>packages/node/src/solana/utils.solana.ts\<close>, which decide
  whether a handler sees a block, transaction, instruction or log. Every field of a filter is
  optional and an empty string counts as absent. \<open>filterBlockTimestamp\<close> of
  \<open>@subql/node-core\<close> is a parameter; the instruction filter goes through the memoised
  discriminator lookup and so returns the new decoder. The theorems state each filter as the
  conjunction of its fields.
\<close>

subsection \<open>The processors\<close>

definition filterBlocksProcessor ::
  "(int \<Rightarrow> block_filter option \<Rightarrow> bool) \<Rightarrow> 'z base_block_scheme \<Rightarrow> block_filter option \<Rightarrow> bool" where
  "filterBlocksProcessor filterBlockTimestamp block flt =
     (case (case flt of None \<Rightarrow> None | Some f \<Rightarrow> modulo f) of
        Some m \<Rightarrow>
          (if m \<noteq> 0 \<and> bb_blockHeight block mod m \<noteq> 0 then False
           else filterBlockTimestamp (bb_blockTime block * 1000) flt)
      | None \<Rightarrow> filterBlockTimestamp (bb_blockTime block * 1000) flt)"

definition filterTransactionsProcessor :: "('i, 'm, 'z) tx_scheme \<Rightarrow> transaction_filter option \<Rightarrow> bool" where
  "filterTransactionsProcessor tx flt =
     (case flt of
        None \<Rightarrow> True
      | Some f \<Rightarrow>
          (if truthy (signerAccountKey f)
           then (let sigAccounts = mapi (\<lambda>idx sig. nth_opt (accountKeys (message (transaction tx))) idx)
                                     (signatures (transaction tx))
                 in list_ex (\<lambda>account. account = signerAccountKey f) sigAccounts)
           else True))"

text \<open>
  The loop over \<open>filter.accounts\<close> from position \<open>i\<close> on; an index that the instruction or
  the message does not have gives \<open>undefined\<close>, which no list of addresses includes.
\<close>

fun match_accounts :: "string list \<Rightarrow> nat list \<Rightarrow> nat \<Rightarrow> string list option list \<Rightarrow> bool" where
  "match_accounts keys instAccounts i [] = True"
| "match_accounts keys instAccounts i (None # rest) = match_accounts keys instAccounts (Suc i) rest"
| "match_accounts keys instAccounts i (Some filterAccounts # rest) =
     (case (case nth_opt instAccounts i of None \<Rightarrow> None | Some k \<Rightarrow> nth_opt keys k) of
        None \<Rightarrow> False
      | Some account \<Rightarrow>
          (if account \<notin> set filterAccounts then False
           else match_accounts keys instAccounts (Suc i) rest))"

definition tx_failed :: "raw_tx \<Rightarrow> bool" where
  "tx_failed tx = (case meta tx of None \<Rightarrow> False | Some m \<Rightarrow> err m \<noteq> None)"

definition filterInstructionsProcessor ::
  "idl_lib \<Rightarrow> sol_instruction \<Rightarrow> instruction_filter option \<Rightarrow> decoder \<Rightarrow> bool result \<times> decoder" where
  "filterInstructionsProcessor lib instruction flt d =
     (case flt of
        None \<Rightarrow> (Inr True, d)
      | Some f \<Rightarrow>
     (if includeFailed f \<noteq> Some True \<and> tx_failed (inst_transaction instruction) then (Inr False, d)
      else (let programId = getProgramId instruction in
      if truthy (if_programId f) \<and> if_programId f \<noteq> programId then (Inr False, d)
      else if (case if_accounts f of
                 None \<Rightarrow> False
               | Some accs \<Rightarrow> \<not> match_accounts (accountKeys (message (transaction (inst_transaction instruction))))
                                 (raw_instruction.accounts instruction) 0 accs)
      then (Inr False, d)
      else (case discriminator f of
              None \<Rightarrow> (Inr True, d)
            | Some input \<Rightarrow>
                (if input = [] then (Inr True, d)
                 else (case parseDiscriminator lib input programId d of
                         (Inl e, d') \<Rightarrow> (Inl e, d')
                       | (Inr disc, d') \<Rightarrow>
                           (case bs58_decode lib (data instruction) of
                              Inl e \<Rightarrow> (Inl e, d')
                            | Inr buf \<Rightarrow>
                                (if buffer_indexOf buf disc \<noteq> 0 then (Inr False, d') else (Inr True, d')))))))))"

definition filterLogsProcessor :: "log_message \<Rightarrow> log_filter option \<Rightarrow> bool" where
  "filterLogsProcessor l flt =
     (case flt of
        None \<Rightarrow> True
      | Some f \<Rightarrow> (if truthy (lf_programId f) \<and> lf_programId f \<noteq> log_programId l then False else True))"

subsection \<open>Each field on its own\<close>

definition account_at :: "sol_instruction \<Rightarrow> nat \<Rightarrow> string option" where
  "account_at instruction i =
     (case nth_opt (raw_instruction.accounts instruction) i of
        None \<Rightarrow> None
      | Some k \<Rightarrow> nth_opt (accountKeys (message (transaction (inst_transaction instruction)))) k)"

lemma match_accounts_iff:
  "match_accounts keys inst i flts \<longleftrightarrow>
     (\<forall>j < length flts. \<forall>addresses. flts ! j = Some addresses \<longrightarrow>
        (\<exists>k a. nth_opt inst (i + j) = Some k \<and> nth_opt keys k = Some a \<and> a \<in> set addresses))"
proof (induction flts arbitrary: i)
  case (Cons flt flts)
  have shift: "P (Suc i + j) \<longleftrightarrow> P (i + Suc j)" for P :: "nat \<Rightarrow> bool" and j by simp
  show ?case
  proof (cases flt)
    case None
    then show ?thesis using Cons.IH [of "Suc i"] by (simp add: all_less_Suc_split)
  next
    case (Some addresses)
    then show ?thesis using Cons.IH [of "Suc i"]
      by (auto simp: all_less_Suc_split split: option.splits)
  qed
qed simp

definition accounts_match :: "sol_instruction \<Rightarrow> string list option list \<Rightarrow> bool" where
  "accounts_match instruction flts =
     (\<forall>i < length flts. \<forall>addresses. flts ! i = Some addresses \<longrightarrow>
        (\<exists>a. account_at instruction i = Some a \<and> a \<in> set addresses))"

lemma match_accounts_account_at:
  "match_accounts (accountKeys (message (transaction (inst_transaction instruction))))
     (raw_instruction.accounts instruction) 0 flts \<longleftrightarrow> accounts_match instruction flts"
  by (fastforce simp: match_accounts_iff accounts_match_def account_at_def split: option.splits)

text \<open>All fields but the discriminator.\<close>

definition static_match :: "sol_instruction \<Rightarrow> instruction_filter \<Rightarrow> bool" where
  "static_match instruction f =
     ((includeFailed f = Some True \<or> \<not> tx_failed (inst_transaction instruction)) \<and>
      (truthy (if_programId f) \<longrightarrow> getProgramId instruction = if_programId f) \<and>
      (\<forall>flts. if_accounts f = Some flts \<longrightarrow> accounts_match instruction flts))"

lemma filterInstructions_static:
  "filterInstructionsProcessor lib instruction (Some f) d =
     (if \<not> static_match instruction f then (Inr False, d)
      else if \<not> truthy (discriminator f) then (Inr True, d)
      else case parseDiscriminator lib (the (discriminator f)) (getProgramId instruction) d of
             (Inl e, d') \<Rightarrow> (Inl e, d')
           | (Inr disc, d') \<Rightarrow>
               (case bs58_decode lib (data instruction) of
                  Inl e \<Rightarrow> (Inl e, d')
                | Inr buf \<Rightarrow> (Inr (prefix disc buf), d')))"
proof -
  have acc: "(case if_accounts f of None \<Rightarrow> False
      | Some accs \<Rightarrow> \<not> match_accounts (accountKeys (message (transaction (inst_transaction instruction))))
                          (raw_instruction.accounts instruction) 0 accs) \<longleftrightarrow>
      \<not> (\<forall>flts. if_accounts f = Some flts \<longrightarrow> accounts_match instruction flts)"
    by (simp add: match_accounts_account_at split: option.split)
  show ?thesis
    unfolding filterInstructionsProcessor_def option.case acc Let_def
    by (cases "discriminator f") (auto simp: static_match_def indexOf_zero_iff split: prod.splits sum.splits)
qed

lemma filterTransactions_iff:
  "filterTransactionsProcessor tx flt \<longleftrightarrow>
     (case flt of
        None \<Rightarrow> True
      | Some f \<Rightarrow> \<not> truthy (signerAccountKey f) \<or>
          (\<exists>key. signerAccountKey f = Some key \<and>
             key \<in> set (take (length (signatures (transaction tx))) (accountKeys (message (transaction tx))))))"
proof (cases flt)
  case (Some f)
  let ?keys = "accountKeys (message (transaction tx))" and ?sigs = "signatures (transaction tx)"
  have "list_ex (\<lambda>account. account = Some key) (mapi (\<lambda>idx sig. nth_opt ?keys idx) ?sigs) \<longleftrightarrow>
      key \<in> set (take (length ?sigs) ?keys)" for key
    by (auto simp: list_ex_length in_set_conv_nth nth_opt_Some)
  with Some show ?thesis
    by (cases "signerAccountKey f") (auto simp: filterTransactionsProcessor_def)
qed (simp add: filterTransactionsProcessor_def)

lemma filterInstructions_iff:
  assumes "decoder_reaches lib new_SolanaDecoder d"
  shows "(fst (filterInstructionsProcessor lib inst (Some f) d) = Inr True \<longleftrightarrow>
           static_match inst f \<and>
           (truthy (discriminator f) \<longrightarrow>
             (\<exists>disc buf. parseDiscriminator_body lib d (the (discriminator f), getProgramId inst) = Inr disc \<and>
               bs58_decode lib (data inst) = Inr buf \<and> prefix disc buf))) \<and>
    (isl (fst (filterInstructionsProcessor lib inst (Some f) d)) \<longrightarrow> static_match inst f \<and> truthy (discriminator f)) \<and>
    (let d' = snd (filterInstructionsProcessor lib inst (Some f) d)
     in idls d' = idls d \<and>
        fst (filterInstructionsProcessor lib inst (Some f) d') = fst (filterInstructionsProcessor lib inst (Some f) d))"
proof -
  let ?args = "(the (discriminator f), getProgramId inst)"
  obtain r d1 where p: "parseDiscriminator lib (the (discriminator f)) (getProgramId inst) d = (r, d1)" by force
  have ok: "cache_ok lib d" using decoder_reaches_ok [OF assms] by simp
  with p have r: "r = parseDiscriminator_body lib d ?args" and ok1: "cache_ok lib d1"
    using parseDiscriminator_ok [OF ok, of "the (discriminator f)" "getProgramId inst"] by auto
  have i1: "idls d1 = idls d"
    using parseDiscriminator_idls [of lib "the (discriminator f)" "getProgramId inst" d] p by simp
  then have b1: "parseDiscriminator_body lib d1 = parseDiscriminator_body lib d"
    by (rule parseDiscriminator_body_idls)
  obtain r2 d2 where p2: "parseDiscriminator lib (the (discriminator f)) (getProgramId inst) d1 = (r2, d2)" by force
  with b1 r have r2: "r2 = r"
    using parseDiscriminator_ok [OF ok1, of "the (discriminator f)" "getProgramId inst"] by simp
  have run: "filterInstructionsProcessor lib inst (Some f) d =
     (if \<not> static_match inst f then (Inr False, d)
      else if \<not> truthy (discriminator f) then (Inr True, d)
      else (case r of Inl e \<Rightarrow> Inl e
             | Inr disc \<Rightarrow> (case bs58_decode lib (data inst) of Inl e \<Rightarrow> Inl e | Inr buf \<Rightarrow> Inr (prefix disc buf)), d1))"
    unfolding filterInstructions_static p by (auto split: sum.splits)
  have run2: "static_match inst f \<Longrightarrow> truthy (discriminator f) \<Longrightarrow>
     fst (filterInstructionsProcessor lib inst (Some f) d1) =
       (case r of Inl e \<Rightarrow> Inl e
         | Inr disc \<Rightarrow> (case bs58_decode lib (data inst) of Inl e \<Rightarrow> Inl e | Inr buf \<Rightarrow> Inr (prefix disc buf)))"
    unfolding filterInstructions_static p2 r2 by (auto split: sum.splits)
  show ?thesis
    unfolding Let_def
  proof (intro conjI)
    show "fst (filterInstructionsProcessor lib inst (Some f) d) = Inr True \<longleftrightarrow>
           static_match inst f \<and>
           (truthy (discriminator f) \<longrightarrow>
             (\<exists>disc buf. parseDiscriminator_body lib d ?args = Inr disc \<and>
               bs58_decode lib (data inst) = Inr buf \<and> prefix disc buf))"
      unfolding run r by (auto split: sum.splits)
    show "isl (fst (filterInstructionsProcessor lib inst (Some f) d)) \<longrightarrow> static_match inst f \<and> truthy (discriminator f)"
      unfolding run by simp
    show "idls (snd (filterInstructionsProcessor lib inst (Some f) d)) = idls d"
      unfolding run by (simp add: i1)
    show "fst (filterInstructionsProcessor lib inst (Some f) (snd (filterInstructionsProcessor lib inst (Some f) d))) =
        fst (filterInstructionsProcessor lib inst (Some f) d)"
    proof (cases "static_match inst f \<and> truthy (discriminator f)")
      case True
      with run2 show ?thesis by (simp add: run)
    next
      case False
      then show ?thesis by (simp add: run)
    qed
  qed
qed

end
