(* ===== verification/Dictionary.thy ===== *)
theory Dictionary
  imports Filters RpcApi
begin

section \<open>The dictionary query\<close>

text \<open>
  \<open>packages/node/src/indexer/dictionary/v2\<close> and \<open>dictionary.service.ts\<close>: the conditions
  a project's handlers put to a dictionary, which then returns only the blocks with matching
  data, and the conversion of its answer. The response transformer of \<open>@solana/rpc-transformers\<close>
  is a parameter.
\<close>

subsection \<open>Conditions\<close>

record tx_conditions =
  signerAccountKeys :: "string list option"

record instruction_conditions =
  ic_programIds :: "string list option"
  ic_accounts :: "string list option list option"
  discriminators :: "string list option"
  isCommitted :: "bool option"

record log_conditions =
  lc_programIds :: "string list option"

record query_entry =
  q_logs :: "log_conditions list option"
  q_instructions :: "instruction_conditions list option"
  q_transactions :: "tx_conditions list option"

definition empty_query :: query_entry where
  "empty_query = \<lparr>q_logs = None, q_instructions = None, q_transactions = None\<rparr>"

definition txFilterToDictionaryCondition :: "transaction_filter \<Rightarrow> tx_conditions" where
  "txFilterToDictionaryCondition f =
     \<lparr>signerAccountKeys =
        (case signerAccountKey f of
           Some key \<Rightarrow> (if key \<noteq> [] then Some [key] else None)
         | None \<Rightarrow> None)\<rparr>"

definition programIds_condition :: "string option \<Rightarrow> string list option" where
  "programIds_condition p =
     (case p of Some pid \<Rightarrow> (if pid \<noteq> [] then Some [pid] else None) | None \<Rightarrow> None)"

definition instructionFilterToDictionaryCondition ::
  "idl_lib \<Rightarrow> instruction_filter \<Rightarrow> decoder \<Rightarrow> instruction_conditions result \<times> decoder" where
  "instructionFilterToDictionaryCondition lib f d =
     (let c = \<lparr>ic_programIds = programIds_condition (if_programId f), ic_accounts = if_accounts f,
               discriminators = None, isCommitted = None\<rparr>;
          committed = (\<lambda>c. if includeFailed f \<noteq> Some True then c\<lparr>isCommitted := Some True\<rparr> else c)
      in if truthy (discriminator f) then
           (if \<not> truthy (if_programId f)
            then (Inl (Error ''programId is required to be set when a discriminator is provided''), d)
            else (case parseDiscriminator lib (the (discriminator f)) (if_programId f) d of
                    (Inl e, d') \<Rightarrow> (Inl e, d')
                  | (Inr disc, d') \<Rightarrow>
                      (Inr (committed (c\<lparr>discriminators := Some [''0x'' @ hex_encode disc]\<rparr>)), d')))
         else (Inr (committed c), d))"

definition logFilterToDictionaryCondition :: "log_filter \<Rightarrow> log_conditions" where
  "logFilterToDictionaryCondition f = \<lparr>lc_programIds = programIds_condition (lf_programId f)\<rparr>"

text \<open>
  The objects the conditions are, with their properties in the order of assignment; an absent
  one is not there. \<open>uniqBy\<close> compares their JSON text.
\<close>

definition tx_conditions_json :: "tx_conditions \<Rightarrow> js_value" where
  "tx_conditions_json c = JObj (optional_field ''signerAccountKeys'' strings_json (signerAccountKeys c))"

definition instruction_conditions_json :: "instruction_conditions \<Rightarrow> js_value" where
  "instruction_conditions_json c =
     JObj (optional_field ''accounts'' (\<lambda>fs. JArr (map (nullable strings_json) fs)) (ic_accounts c) @
           optional_field ''programIds'' strings_json (ic_programIds c) @
           optional_field ''discriminators'' strings_json (discriminators c) @
           optional_field ''isCommitted'' JBool (isCommitted c))"

definition log_conditions_json :: "log_conditions \<Rightarrow> js_value" where
  "log_conditions_json c = JObj (optional_field ''programIds'' strings_json (lc_programIds c))"

interpretation tx_key: injective_key "\<lambda>c. json_text (tx_conditions_json c)"
  by (rule json_key) (auto simp: tx_conditions_json_def optional_field_inject_single)

interpretation log_key: injective_key "\<lambda>c. json_text (log_conditions_json c)"
  by (rule json_key) (auto simp: log_conditions_json_def optional_field_inject_single)

lemma nullable_strings_inject [simp]:
  "map (nullable strings_json) fs = map (nullable strings_json) gs \<longleftrightarrow> fs = gs"
  using nullable_inject [of strings_json] by (intro inj_map_eq_map) (auto simp: inj_def)

lemma nullable_strings_bigint [simp]: "\<not> list_ex has_bigint (map (nullable strings_json) fs)"
  by (induction fs) simp_all

lemma instruction_conditions_json_inject:
  "instruction_conditions_json c = instruction_conditions_json c' \<longleftrightarrow> c = c'"
  unfolding instruction_conditions_json_def js_value.inject
  by (subst optional_field_inject, simp_all add: image_Un)+
     (auto simp: optional_field_inject_single intro: instruction_conditions.equality)

interpretation instruction_key: injective_key "\<lambda>c. json_text (instruction_conditions_json c)"
  by (rule json_key) (auto simp: instruction_conditions_json_inject, simp add: instruction_conditions_json_def)

definition sanitise_list :: "('a \<Rightarrow> js_value) \<Rightarrow> 'a list option \<Rightarrow> 'a list option" where
  "sanitise_list json cs =
     (case cs of None \<Rightarrow> None | Some [] \<Rightarrow> None | Some xs \<Rightarrow> Some (uniqBy (\<lambda>c. json_text (json c)) xs))"

definition sanitiseDictionaryConditions :: "query_entry \<Rightarrow> query_entry" where
  "sanitiseDictionaryConditions q =
     \<lparr>q_logs = sanitise_list log_conditions_json (q_logs q),
      q_instructions = sanitise_list instruction_conditions_json (q_instructions q),
      q_transactions = sanitise_list tx_conditions_json (q_transactions q)\<rparr>"

text \<open>\<open>Object.values(filter).filter((v) => v !== undefined).length\<close>.\<close>

definition tx_filter_given :: "transaction_filter \<Rightarrow> bool" where
  "tx_filter_given f = (signerAccountKey f \<noteq> None)"

definition instruction_filter_given :: "instruction_filter \<Rightarrow> bool" where
  "instruction_filter_given f =
     (if_programId f \<noteq> None \<or> discriminator f \<noteq> None \<or> if_accounts f \<noteq> None \<or> includeFailed f \<noteq> None)"

definition log_filter_given :: "log_filter \<Rightarrow> bool" where
  "log_filter_given f = (lf_programId f \<noteq> None)"

definition push :: "'a list option \<Rightarrow> 'a \<Rightarrow> 'a list option" where
  "push cs c = (case cs of None \<Rightarrow> Some [c] | Some xs \<Rightarrow> Some (xs @ [c]))"

text \<open>
  One handler: \<open>None\<close> is the early return of \<open>{}\<close>, \<open>Some\<close> the conditions so far.
\<close>

fun add_handler ::
  "idl_lib \<Rightarrow> handler \<Rightarrow> query_entry \<Rightarrow> decoder \<Rightarrow> query_entry option result \<times> decoder" where
  "add_handler lib (BlockHandler h None) q d = (Inr None, d)"
| "add_handler lib (TransactionHandler h None) q d = (Inr None, d)"
| "add_handler lib (InstructionHandler h None) q d = (Inr None, d)"
| "add_handler lib (LogHandler h None) q d = (Inr None, d)"
| "add_handler lib (CustomHandler k h None) q d = (Inr None, d)"
| "add_handler lib (BlockHandler h (Some f)) q d =
     (if modulo f = None then (Inr None, d) else (Inr (Some q), d))"
| "add_handler lib (TransactionHandler h (Some f)) q d =
     (if tx_filter_given f
      then (Inr (Some (q\<lparr>q_transactions := push (q_transactions q) (txFilterToDictionaryCondition f)\<rparr>)), d)
      else (Inr (Some q), d))"
| "add_handler lib (InstructionHandler h (Some f)) q d =
     (if instruction_filter_given f
      then (case instructionFilterToDictionaryCondition lib f d of
              (Inl e, d') \<Rightarrow> (Inl e, d')
            | (Inr c, d') \<Rightarrow> (Inr (Some (q\<lparr>q_instructions := push (q_instructions q) c\<rparr>)), d'))
      else (Inr (Some q), d))"
| "add_handler lib (LogHandler h (Some f)) q d =
     (if log_filter_given f
      then (Inr (Some (q\<lparr>q_logs := push (q_logs q) (logFilterToDictionaryCondition f)\<rparr>)), d)
      else (Inr (Some q), d))"
| "add_handler lib (CustomHandler k h (Some f)) q d = (Inr (Some q), d)"

text \<open>The two loops visit the handlers of the data sources in order.\<close>

fun add_handlers ::
  "idl_lib \<Rightarrow> handler list \<Rightarrow> query_entry \<Rightarrow> decoder \<Rightarrow> query_entry option result \<times> decoder" where
  "add_handlers lib [] q d = (Inr (Some q), d)"
| "add_handlers lib (h # hs) q d =
     (case add_handler lib h q d of
        (Inl e, d') \<Rightarrow> (Inl e, d')
      | (Inr None, d') \<Rightarrow> (Inr None, d')
      | (Inr (Some q'), d') \<Rightarrow> add_handlers lib hs q' d')"

definition buildDictionaryV2QueryEntry ::
  "idl_lib \<Rightarrow> datasource list \<Rightarrow> decoder \<Rightarrow> query_entry result \<times> decoder" where
  "buildDictionaryV2QueryEntry lib dataSources d =
     (case add_handlers lib (concat (map (\<lambda>ds. handlers (ds_mapping ds)) dataSources))
             \<lparr>q_logs = Some [], q_instructions = None, q_transactions = Some []\<rparr> d of
        (Inl e, d') \<Rightarrow> (Inl e, d')
      | (Inr None, d') \<Rightarrow> (Inr empty_query, d')
      | (Inr (Some q), d') \<Rightarrow> (Inr (sanitiseDictionaryConditions q), d'))"

subsection \<open>The answer\<close>

text \<open>\<open>parseBlock\<close>: the response transformer, then \<open>transformBlock\<close>.\<close>

definition parseBlock :: "('r \<Rightarrow> raw_block result) \<Rightarrow> 'r \<Rightarrow> sol_block result" where
  "parseBlock transformer block =
     (case transformer block of
        Inl e \<Rightarrow> Inl e
      | Inr rpcBlock \<Rightarrow> transformBlock rpcBlock)"

record dictionary_response =
  batchBlocks :: "iblock list"
  lastBufferedHeight :: "int option"

definition convertResponseBlocks ::
  "('r \<Rightarrow> raw_block result) \<Rightarrow> 'r list option \<Rightarrow> dictionary_response result" where
  "convertResponseBlocks transformer blocks_data =
     (case traverse (\<lambda>b. case parseBlock transformer b of
                          Inl e \<Rightarrow> Inl e
                        | Inr block \<Rightarrow> Inr (formatBlockUtil block None))
                   (case blocks_data of None \<Rightarrow> [] | Some bs \<Rightarrow> bs) of
        Inl e \<Rightarrow> Inl e
      | Inr blocks \<Rightarrow>
          (if blocks = [] then Inr \<lparr>batchBlocks = [], lastBufferedHeight = None\<rparr>
           else Inr \<lparr>batchBlocks = blocks,
                     lastBufferedHeight = Some (blockHeight (getHeader (last blocks)))\<rparr>))"

text \<open>\<open>initDictionaries\<close>: an endpoint that is not a dictionary is left out.\<close>

definition initDictionaries :: "('e \<Rightarrow> 'd result) \<Rightarrow> 'e list result \<Rightarrow> 'd list result" where
  "initDictionaries create_dictionary endpoints =
     (case endpoints of
        Inl e \<Rightarrow> Inl e
      | Inr es \<Rightarrow> Inr (List.map_filter (\<lambda>endpoint. case create_dictionary endpoint of
                                                      Inl e \<Rightarrow> None | Inr dict \<Rightarrow> Some dict) es))"

subsection \<open>What conditions admit\<close>

text \<open>
  The meaning of the conditions, as the types document them: an absent field admits anything;
  a list admits its members; discriminators are hexadecimal with \<open>0x\<close> and admit data that
  starts with the bytes; \<open>isCommitted = true\<close> asks for a transaction that did not fail.
\<close>

definition tx_admits :: "tx_conditions \<Rightarrow> ('i, 'm, 'z) tx_scheme \<Rightarrow> bool" where
  "tx_admits c tx =
     (case signerAccountKeys c of
        None \<Rightarrow> True
      | Some keys \<Rightarrow>
          \<exists>key \<in> set keys. key \<in> set (take (length (signatures (transaction tx))) (accountKeys (message (transaction tx)))))"

definition program_admits :: "string list option \<Rightarrow> string option \<Rightarrow> bool" where
  "program_admits pids p = (case pids of None \<Rightarrow> True | Some ps \<Rightarrow> p \<in> Some ` set ps)"

definition discriminator_admits :: "idl_lib \<Rightarrow> string list option \<Rightarrow> string \<Rightarrow> bool" where
  "discriminator_admits lib ds txt =
     (case ds of
        None \<Rightarrow> True
      | Some xs \<Rightarrow> (case bs58_decode lib txt of
                     Inl e \<Rightarrow> False
                   | Inr buf \<Rightarrow> \<exists>x \<in> set xs. prefix (hex_decode (drop 2 x)) buf))"

definition instruction_admits :: "idl_lib \<Rightarrow> instruction_conditions \<Rightarrow> sol_instruction \<Rightarrow> bool" where
  "instruction_admits lib c inst =
     (program_admits (ic_programIds c) (getProgramId inst) \<and>
      (\<forall>flts. ic_accounts c = Some flts \<longrightarrow>
         (\<forall>i < length flts. \<forall>addresses. flts ! i = Some addresses \<longrightarrow>
            (\<exists>k a. nth_opt (raw_instruction.accounts inst) i = Some k \<and> getAccountByIndex inst k = Some a \<and> a \<in> set addresses))) \<and>
      discriminator_admits lib (discriminators c) (data inst) \<and>
      (isCommitted c = Some True \<longrightarrow> \<not> tx_failed (inst_transaction inst)))"

definition log_admits :: "log_conditions \<Rightarrow> log_message \<Rightarrow> bool" where
  "log_admits c l = program_admits (lc_programIds c) (log_programId l)"

end
