(* ===== verification/FilterTheorems.thy ===== *)
theory FilterTheorems
  imports Filters
begin

section \<open>The properties of the filters\<close>

text \<open>
  What each filter accepts, as the conjunction of its fields, and the accounts that the
  instruction filter cannot see.
\<close>

text \<open>C18: in any reachable decoder state the instruction filter accepts exactly when each given
  field holds: the transaction did not fail unless failures are included, the program is the one
  named, every account position with a list holds one of its addresses, and the discriminator
  resolved for the program is a prefix of the decoded data. It throws only when all the other
  fields hold, it leaves the loaded IDLs alone, and asking again gives the same answer.\<close>

theorem filterInstructions_conjunction:
  assumes "decoder_reaches lib new_SolanaDecoder d"
  shows "(fst (filterInstructionsProcessor lib inst (Some f) d) = Inr True \<longleftrightarrow>
           static_match inst f \<and>
           (truthy (discriminator f) \<longrightarrow>
             (\<exists>disc buf. parseDiscriminator_body lib d (the (discriminator f), getProgramId inst) = Inr disc \<and>
               bs58_decode lib (data inst) = Inr buf \<and> prefix disc buf))) \<and>
    (isl (fst (filterInstructionsProcessor lib inst (Some f) d)) \<longrightarrow> static_match inst f \<and> truthy (discriminator f)) \<and>
    (let d' = snd (filterInstructionsProcessor lib inst (Some f) d)
     in idls d' = idls d \<and>
        fst (filterInstructionsProcessor lib inst (Some f) d') = fst (filterInstructionsProcessor lib inst (Some f) d))"
  using assms by (rule filterInstructions_iff)

definition example_inst :: "string \<Rightarrow> nat list \<Rightarrow> sol_instruction" where
  "example_inst txt accs =
     \<lparr>raw_instruction.accounts = accs, data = txt, programIdIndex = 1, stackHeight = None, index = [0],
      inst_transaction = example_raw_tx None,
      inst_block = \<lparr>bb_blockHeight = 95, bb_blockTime = 1, bb_blockhash = ''h'', bb_parentSlot = 98, bb_previousBlockhash = ''g'', bb_rest = []\<rparr>,
      pendingDecode = None\<rparr>"

definition example_filter :: "string list option list option \<Rightarrow> instruction_filter" where
  "example_filter accs =
     \<lparr>if_programId = Some ''A'', discriminator = Some ''route'', if_accounts = accs, includeFailed = None\<rparr>"

lemma example_program_id: "getProgramId (example_inst txt accs) = Some ''A''"
  by (simp add: getProgramId_def getAccountByIndex_def example_inst_def example_raw_tx_def allAccounts_def nth_opt_def)

lemma example_static: "static_match (example_inst ''25'' [0]) (example_filter (Some [Some [''S'', ''T'']]))"
  by (simp add: static_match_def example_program_id accounts_match_def account_at_def)
    (simp add: example_filter_def example_inst_def example_raw_tx_def tx_failed_def)

theorem filterInstructions_conjunction_witness:
  "fst (filterInstructionsProcessor example_lib (example_inst ''25'' [0]) (Some (example_filter (Some [Some [''S'', ''T'']])))
     example_decoder) = Inr True"
proof -
  have "findInstructionDiscriminatorByName example_lib (idl_root example_idl) ''route'' = Inr (Some [64])"
    by (simp add: findInstructionDiscriminatorByName_def example_idl_parse example_program_def
        getInstructionDiscriminatorBytes_def)
  then have "parseDiscriminator_body example_lib example_decoder (''route'', Some ''A'') = Inr [64]"
    by (simp add: parseDiscriminator_body_def example_lookup example_idl_parse(1) example_isHex)
  moreover have "bs58_decode example_lib (data (example_inst ''25'' [0])) = Inr [64, 7]"
    by (simp add: example_lib_def example_inst_def)
  moreover have "discriminator (example_filter (Some [Some [''S'', ''T'']])) = Some ''route''"
    by (simp add: example_filter_def)
  ultimately show ?thesis
    using filterInstructions_conjunction [OF example_decoder_reached, where inst = "example_inst ''25'' [0]"
        and f = "example_filter (Some [Some [''S'', ''T'']])" and lib = example_lib]
    by (simp add: example_static example_program_id)
qed

text \<open>C34: an account that the transaction loads from an address lookup table is invisible to the
  account filter: when position \<open>i\<close> of the instruction refers past the static account keys, a
  filter with addresses at \<open>i\<close> rejects the instruction, even if the account itself is one of
  them.\<close>

theorem lookup_table_account_never_matches:
  assumes "nth_opt (raw_instruction.accounts inst) i = Some k"
    and "length (accountKeys (message (transaction (inst_transaction inst)))) \<le> k"
    and "if_accounts f = Some flts" and "nth_opt flts i = Some (Some addresses)"
  shows "filterInstructionsProcessor lib inst (Some f) d = (Inr False, d)"
proof -
  have "account_at inst i = None" using assms(1,2) by (simp add: account_at_def nth_opt_def)
  with assms(4) have "\<not> accounts_match inst flts"
    by (auto simp: accounts_match_def nth_opt_Some)
  with assms(3) show ?thesis by (simp add: filterInstructions_static static_match_def)
qed

theorem lookup_table_account_never_matches_witness:
  "getAccountByIndex (example_inst ''25'' [2]) 2 = Some ''W'' \<and>
   filterInstructionsProcessor example_lib (example_inst ''25'' [2]) (Some (example_filter (Some [Some [''W'']]))) example_decoder =
     (Inr False, example_decoder)"
proof
  show "getAccountByIndex (example_inst ''25'' [2]) 2 = Some ''W''"
    by (simp add: getAccountByIndex_def example_inst_def example_raw_tx_def allAccounts_def nth_opt_def)
  show "filterInstructionsProcessor example_lib (example_inst ''25'' [2]) (Some (example_filter (Some [Some [''W'']]))) example_decoder =
     (Inr False, example_decoder)"
    by (rule lookup_table_account_never_matches [where i = 0 and k = 2 and addresses = "[''W'']" and flts = "[Some [''W'']]"])
      (simp_all add: example_inst_def example_raw_tx_def example_filter_def)
qed

text \<open>The transaction filter accepts exactly the transactions signed by the account named:
  its address is among the account keys at the positions of the signatures. Without a filter or
  without an account every transaction is accepted.\<close>

theorem filterTransactions_signed_by:
  "filterTransactionsProcessor tx flt \<longleftrightarrow>
     (case flt of
        None \<Rightarrow> True
      | Some f \<Rightarrow> \<not> truthy (signerAccountKey f) \<or>
          (\<exists>key. signerAccountKey f = Some key \<and>
             key \<in> set (take (length (signatures (transaction tx))) (accountKeys (message (transaction tx))))))"
  by (rule filterTransactions_iff)

theorem filterTransactions_signed_by_witness:
  "filterTransactionsProcessor (example_raw_tx None) (Some \<lparr>signerAccountKey = Some ''S''\<rparr>) \<and>
   \<not> filterTransactionsProcessor (example_raw_tx None) (Some \<lparr>signerAccountKey = Some ''A''\<rparr>)"
  unfolding filterTransactions_signed_by by (simp add: example_raw_tx_def)

text \<open>A block passes the block filter exactly when its block height (not its slot) is a
  multiple of a nonzero \<open>modulo\<close>, where one is given, and the timestamp filter accepts its time in
  milliseconds.\<close>

theorem filterBlocks_modulo:
  "filterBlocksProcessor filterBlockTimestamp block flt \<longleftrightarrow>
     (\<forall>f m. flt = Some f \<and> modulo f = Some m \<and> m \<noteq> 0 \<longrightarrow> m dvd bb_blockHeight block) \<and>
     filterBlockTimestamp (bb_blockTime block * 1000) flt"
  by (auto simp: filterBlocksProcessor_def dvd_eq_mod_eq_0 split: option.splits)

theorem filterBlocks_modulo_witness:
  "filterBlocksProcessor (\<lambda>t f. True) (example_raw_block None) (Some \<lparr>modulo = Some 5, filter_timestamp = None\<rparr>)"
  unfolding filterBlocks_modulo by (simp add: example_raw_block_def)

end
