(* ===== verification/RpcTheorems.thy ===== *)
theory RpcTheorems
  imports BlockTheorems
begin

section \<open>The properties of the RPC client\<close>

text \<open>
  Which errors mean a skipped slot, what a fetched block and a fetched header agree on, and
  that a batch is delivered whole and in order. \<open>slot_skipped\<close> is the promise the callers
  rely on: it says which answers of the endpoint stand for a slot without a block.
\<close>

definition slot_skipped :: "bool \<Rightarrow> 'a option result \<Rightarrow> bool" where
  "slot_skipped longTerm r =
     (case r of
        Inr b \<Rightarrow> b = None
      | Inl (SolanaError SERVER_ERROR_SLOT_SKIPPED m st) \<Rightarrow> True
      | Inl (SolanaError SERVER_ERROR_LONG_TERM_STORAGE_SLOT_SKIPPED m st) \<Rightarrow> longTerm
      | Inl e \<Rightarrow> e = BlockUnavailableError)"

lemma isSkippedSlotError_iff:
  "slot_skipped longTerm (Inl e) \<longleftrightarrow> isSkippedSlotError e longTerm \<or> e = BlockUnavailableError"
proof (cases e)
  case (SolanaError c m st)
  then show ?thesis by (cases c) (simp_all add: slot_skipped_def)
qed (simp_all add: slot_skipped_def)

lemma handleError_unavailable [simp]: "handleError hostname api BlockUnavailableError = BlockUnavailableError"
  by (simp add: handleError_def)

lemma handleError_cases:
  "handleError hostname api e = (case (context_statusCode e = Some 429, hostname (api_endpoint api)) of
     (True, Inr h) \<Rightarrow> Error (''Rate Limited at endpoint: '' @ h)
   | (True, Inl e') \<Rightarrow> e'
   | (False, _) \<Rightarrow> e)"
  by (auto simp: handleError_def split: sum.splits bool.splits)

text \<open>C21: the header and the block of a slot are unavailable on the same answers of the endpoint:
  an empty answer, a skipped slot, and a slot skipped in long-term storage unless the
  configuration turns that off; every other error is kept as an error. (The URL of the endpoint
  parses, and the transformation of the block succeeds.)\<close>

theorem unavailable_iff_slot_skipped:
  assumes "hostname (api_endpoint api) = Inr host"
    and "\<And>raw. rpc_getBlock (api_client api) n = Inr (Some raw) \<Longrightarrow> list_all tx_parses (raw_transactions raw)"
  shows "(getHeaderByHeight api n = Inl BlockUnavailableError \<longleftrightarrow>
           slot_skipped (api_treatLongTermStorageSkipAsSkipped api) (rpc_getBlockHeader (api_client api) n)) \<and>
         (fetchBlock hostname api n = Inl BlockUnavailableError \<longleftrightarrow>
           slot_skipped (api_treatLongTermStorageSkipAsSkipped api) (rpc_getBlock (api_client api) n))"
proof
  let ?lt = "api_treatLongTermStorageSkipAsSkipped api"
  show "getHeaderByHeight api n = Inl BlockUnavailableError \<longleftrightarrow> slot_skipped ?lt (rpc_getBlockHeader (api_client api) n)"
    unfolding getHeaderByHeight_unavailable
    by (cases "rpc_getBlockHeader (api_client api) n") (simp_all add: isSkippedSlotError_iff, simp add: slot_skipped_def)
  show "fetchBlock hostname api n = Inl BlockUnavailableError \<longleftrightarrow> slot_skipped ?lt (rpc_getBlock (api_client api) n)"
  proof (cases "rpc_getBlock (api_client api) n")
    case (Inl e)
    then show ?thesis
      using assms(1) by (auto simp: isSkippedSlotError_iff fetchBlock_def fetchBlock_try_def handleError_def)
  next
    case (Inr r)
    show ?thesis
    proof (cases r)
      case (Some raw)
      with assms(2) Inr transformBlock_total [of raw] have "\<exists>b. transformBlock raw = Inr b" by blast
      with Some Inr show ?thesis by (auto simp: fetchBlock_def fetchBlock_try_def slot_skipped_def)
    qed (simp add: Inr fetchBlock_def fetchBlock_try_def slot_skipped_def)
  qed
qed

definition skipping_api :: "bool \<Rightarrow> solana_api" where
  "skipping_api lt =
     (block_api (\<lambda>n. if n = 7 then Inl (SolanaError SERVER_ERROR_LONG_TERM_STORAGE_SLOT_SKIPPED ''gone'' None)
        else if n = 8 then Inl (SolanaError (OTHER_CODE 8100002) ''Too Many Requests'' (Some 429))
        else Inr (Some (example_raw_block None))))\<lparr>api_treatLongTermStorageSkipAsSkipped := lt\<rparr>"

theorem unavailable_iff_slot_skipped_witness:
  "fetchBlock (\<lambda>u. Inr ''x'') (skipping_api True) 7 = Inl BlockUnavailableError \<and>
   fetchBlock (\<lambda>u. Inr ''x'') (skipping_api False) 7 \<noteq> Inl BlockUnavailableError"
proof -
  have "(fetchBlock (\<lambda>u. Inr ''x'') (skipping_api lt) 7 = Inl BlockUnavailableError) = lt" for lt
  proof -
    have "(fetchBlock (\<lambda>u. Inr ''x'') (skipping_api lt) 7 = Inl BlockUnavailableError) =
        slot_skipped (api_treatLongTermStorageSkipAsSkipped (skipping_api lt))
          (rpc_getBlock (api_client (skipping_api lt)) 7)"
      by (rule unavailable_iff_slot_skipped [THEN conjunct2]) (simp_all add: skipping_api_def block_api_def)
    then show ?thesis by (simp add: skipping_api_def block_api_def slot_skipped_def)
  qed
  then show ?thesis by simp
qed

text \<open>A rate-limited request (status code 429) reaches the connection pool as a rate-limit
  error for its endpoint, never as a skipped slot; any other error that is not a skip reaches
  \<open>handleError\<close> of the connection unchanged.\<close>

theorem rate_limit_reported:
  assumes "rpc_getBlock (api_client api) n = Inl e" and "\<not> isSkippedSlotError e (api_treatLongTermStorageSkipAsSkipped api)"
    and "hostname (api_endpoint api) = Inr host"
  shows "(context_statusCode e = Some 429 \<longrightarrow>
      (\<exists>e'. fetchBlock hostname api n = Inl e' \<and> connection_handleError messageOf e' = RateLimitError e' \<and>
        error_message messageOf e' = ''Rate Limited at endpoint: '' @ host)) \<and>
    (context_statusCode e \<noteq> Some 429 \<longrightarrow> fetchBlock hostname api n = Inl e)"
  using assms
  by (auto simp: fetchBlock_def fetchBlock_try_def handleError_def connection_handleError_def startsWith_def)

theorem rate_limit_reported_witness:
  "\<exists>e'. fetchBlock (\<lambda>u. Inr ''x'') (skipping_api True) 8 = Inl e' \<and>
     connection_handleError (\<lambda>e. '''') e' = RateLimitError e'"
proof -
  have e: "rpc_getBlock (api_client (skipping_api True)) 8 = Inl (SolanaError (OTHER_CODE 8100002) ''Too Many Requests'' (Some 429))"
    by (simp add: skipping_api_def block_api_def)
  show ?thesis
    using rate_limit_reported [OF e, of "\<lambda>u. Inr ''x''" "''x''" "\<lambda>e. ''''"] by auto
qed

lemma block_header_eq:
  assumes "fetchBlock hostname api n = Inr b" and "getHeaderByHeight api n = Inr h"
    and "\<And>raw. rpc_getBlock (api_client api) n = Inr (Some raw) \<Longrightarrow>
           rpc_getBlockHeader (api_client api) n = Inr (Some (base_block.truncate raw))"
  shows "getHeader b = h \<and> blockHeight h = n \<and>
    blockHash h = bb_blockhash (ib_block b) \<and> parentHash h = Some (bb_previousBlockhash (ib_block b))"
proof -
  from assms(1) obtain raw block where raw: "rpc_getBlock (api_client api) n = Inr (Some raw)"
    and block: "transformBlock raw = Inr block" and b: "b = formatBlockUtil block (Some n)"
    by (auto simp: fetchBlock_Inr)
  have base: "base_block.truncate block = base_block.truncate raw"
    using block by (auto simp: transformBlock_def Let_def base_block.defs split: sum.splits)
  from assms(2) assms(3) [OF raw] have "h = solanaBlockToHeader (base_block.truncate raw) (Some n)"
    by (auto simp: getHeaderByHeight_Inr)
  with base b show ?thesis
    by (auto simp: solanaBlockToHeader_def base_block.defs)
qed

text \<open>The header carried by a fetched block is the header \<open>getHeaderByHeight\<close> returns for
  the slot, when the endpoint answers both requests from one block: the slot asked for (whatever
  the parent slot), its hash, its parent's hash and its time in milliseconds. So the hashes the
  fork check compares come from the same data on both routes.\<close>

theorem block_header_agrees:
  assumes "fetchBlock hostname api n = Inr b" and "getHeaderByHeight api n = Inr h"
    and "\<And>raw. rpc_getBlock (api_client api) n = Inr (Some raw) \<Longrightarrow>
           rpc_getBlockHeader (api_client api) n = Inr (Some (base_block.truncate raw))"
  shows "getHeader b = h \<and> blockHeight h = n \<and>
    blockHash h = bb_blockhash (ib_block b) \<and> parentHash h = Some (bb_previousBlockhash (ib_block b))"
  using assms by (rule block_header_eq)

theorem block_header_agrees_witness:
  "\<exists>b h. fetchBlock Inr (skipping_api True) 100 = Inr b \<and> getHeaderByHeight (skipping_api True) 100 = Inr h \<and>
     getHeader b = h \<and> blockHeight h = 100"
proof -
  let ?api = "skipping_api True"
  have raw: "rpc_getBlock (api_client ?api) 100 = Inr (Some (example_raw_block None))"
    and header: "rpc_getBlockHeader (api_client ?api) 100 = Inr (Some (base_block.truncate (example_raw_block None)))"
    by (simp_all add: skipping_api_def block_api_def)
  have "\<exists>b. transformBlock (example_raw_block None) = Inr b"
    unfolding transformBlock_total by (simp add: example_raw_block_def example_raw_tx_def tx_parses_def logs_parse_def)
  with raw obtain b where b: "fetchBlock Inr ?api 100 = Inr b" by (auto simp: fetchBlock_Inr)
  from header obtain h where h: "getHeaderByHeight ?api 100 = Inr h" by (auto simp: getHeaderByHeight_Inr)
  from block_header_agrees [OF b h] raw header show ?thesis using b h by auto
qed

text \<open>A batch fetched through the connection is delivered whole, one block per height and in
  the order asked for, or not at all: it fails exactly when one of its heights does, with the
  error of one of them, and before \<open>updateBlockFetching\<close> has run it is an assertion failure.\<close>

theorem connection_fetchBlocks_batch:
  "(case connection_fetchBlocks (Some (fetchFullBlocksBatch hostname)) api heights of
      Inr bs \<Rightarrow> map (\<lambda>b. blockHeight (getHeader b)) bs = heights \<and>
        list_all2 (\<lambda>n b. fetchBlock hostname api n = Inr b) heights bs
    | Inl e \<Rightarrow> \<exists>n \<in> set heights. fetchBlock hostname api n = Inl e) \<and>
   connection_fetchBlocks None api heights = Inl (AssertionError ''Fetch blocks function is not defined'')"
proof
  show "connection_fetchBlocks None api heights = Inl (AssertionError ''Fetch blocks function is not defined'')"
    by (simp add: connection_fetchBlocks_def fetchBlocksBatches_def)
  have eq: "connection_fetchBlocks (Some (fetchFullBlocksBatch hostname)) api heights =
      traverse (fetchBlock hostname api) heights"
    by (simp add: connection_fetchBlocks_def fetchBlocksBatches_def fetchFullBlocksBatch_def fetchBlocks_def)
  show "case connection_fetchBlocks (Some (fetchFullBlocksBatch hostname)) api heights of
      Inr bs \<Rightarrow> map (\<lambda>b. blockHeight (getHeader b)) bs = heights \<and>
        list_all2 (\<lambda>n b. fetchBlock hostname api n = Inr b) heights bs
    | Inl e \<Rightarrow> \<exists>n \<in> set heights. fetchBlock hostname api n = Inl e"
  proof (cases "traverse (fetchBlock hostname api) heights")
    case (Inl e)
    with traverse_Inl [OF this] show ?thesis by (simp add: eq)
  next
    case (Inr bs)
    then have all: "list_all2 (\<lambda>n b. fetchBlock hostname api n = Inr b) heights bs"
      by (simp add: traverse_Inr_iff)
    then have "map (\<lambda>b. blockHeight (getHeader b)) bs = heights"
      by (induction rule: list_all2_induct) (auto simp: fetchBlock_Inr)
    with all Inr show ?thesis by (simp add: eq)
  qed
qed

lemma getRuntimeChain_testnet:
  "api_genesisBlockHash api = ''EKLxEB4xoEDq9AAn5HhFiP5WqdhNVc4An2HvJyzHzx7u'' \<Longrightarrow> getRuntimeChain api = ''testnet;''"
  by (simp add: getRuntimeChain_def)

end
