(* ===== verification/DictionaryTheorems.thy ===== *)
theory DictionaryTheorems
  imports Dictionary FilterTheorems RpcTheorems
begin

section \<open>The properties of the dictionary query\<close>

text \<open>
  A dictionary returns only the blocks with data that some condition admits, so the query has
  to cover the filters: whatever a handler's filter accepts, one of the conditions admits. The
  theorems show it for every handler whose filter has a field, and what happens for one whose
  filter has none.
\<close>

subsection \<open>What the loop collects\<close>

definition elems :: "'a list option \<Rightarrow> 'a set" where
  "elems cs = (case cs of None \<Rightarrow> {} | Some xs \<Rightarrow> set xs)"

lemma elems_simps [simp]:
  "elems None = {}" "elems (Some xs) = set xs" "elems (push cs c) = insert c (elems cs)"
  by (auto simp: elems_def push_def split: option.splits)

lemma sanitise_list_uniq:
  "injective_key (\<lambda>c. json_text (json c)) \<Longrightarrow> sanitise_list json cs =
     (case cs of None \<Rightarrow> None | Some [] \<Rightarrow> None | Some xs \<Rightarrow> Some (uniq xs))"
  by (simp add: sanitise_list_def injective_key.uniqBy_key del: uniqBy.simps split: option.split list.split)

lemmas sanitise_uniq =
  sanitise_list_uniq [OF tx_key.injective_key_axioms] sanitise_list_uniq [OF instruction_key.injective_key_axioms]
  sanitise_list_uniq [OF log_key.injective_key_axioms]

lemma elems_sanitise [simp]:
  "elems (sanitise_list tx_conditions_json ts) = elems ts"
  "elems (sanitise_list instruction_conditions_json ns) = elems ns"
  "elems (sanitise_list log_conditions_json ls) = elems ls"
  by (auto simp: sanitise_uniq elems_def split: option.splits list.splits)

lemma sanitise_list_props:
  assumes "injective_key (\<lambda>c. json_text (json c))"
  shows "sanitise_list json cs \<noteq> Some []" "sanitise_list json cs = Some xs \<Longrightarrow> distinct xs"
  by (auto simp: sanitise_list_uniq [OF assms] distinct_removeAll distinct_uniq split: option.splits list.splits)

lemmas sanitised =
  sanitise_list_props [OF tx_key.injective_key_axioms] sanitise_list_props [OF instruction_key.injective_key_axioms]
  sanitise_list_props [OF log_key.injective_key_axioms]

definition query_le :: "query_entry \<Rightarrow> query_entry \<Rightarrow> bool" where
  "query_le q q' =
     (elems (q_logs q) \<subseteq> elems (q_logs q') \<and> elems (q_instructions q) \<subseteq> elems (q_instructions q') \<and>
      elems (q_transactions q) \<subseteq> elems (q_transactions q'))"

text \<open>The condition for an instruction filter, over the IDLs of a decoder.\<close>

definition condition_for :: "idl_lib \<Rightarrow> decoder \<Rightarrow> instruction_filter \<Rightarrow> instruction_conditions \<Rightarrow> bool" where
  "condition_for lib d f c =
     (ic_programIds c = programIds_condition (if_programId f) \<and> ic_accounts c = if_accounts f \<and>
      isCommitted c = (if includeFailed f \<noteq> Some True then Some True else None) \<and>
      (if truthy (discriminator f) then
         truthy (if_programId f) \<and>
         (\<exists>disc. parseDiscriminator_body lib d (the (discriminator f), if_programId f) = Inr disc \<and>
            discriminators c = Some [''0x'' @ hex_encode disc])
       else discriminators c = None))"

lemma condition_for_kept: "condition_for lib d f c \<Longrightarrow> idls_kept d d' \<Longrightarrow> condition_for lib d' f c"
  by (auto simp: condition_for_def intro: parseDiscriminator_body_mono split: if_splits)

fun covered :: "idl_lib \<Rightarrow> decoder \<Rightarrow> query_entry \<Rightarrow> handler \<Rightarrow> bool" where
  "covered lib d q (TransactionHandler h (Some f)) =
     (tx_filter_given f \<longrightarrow> txFilterToDictionaryCondition f \<in> elems (q_transactions q))"
| "covered lib d q (InstructionHandler h (Some f)) =
     (instruction_filter_given f \<longrightarrow> (\<exists>c \<in> elems (q_instructions q). condition_for lib d f c))"
| "covered lib d q (LogHandler h (Some f)) =
     (log_filter_given f \<longrightarrow> logFilterToDictionaryCondition f \<in> elems (q_logs q))"
| "covered lib d q (BlockHandler h (Some f)) = (modulo f \<noteq> None)"
| "covered lib d q (CustomHandler k h (Some f)) = True"
| "covered lib d q h = False"

lemma covered_mono: "covered lib d q h \<Longrightarrow> idls_kept d d' \<Longrightarrow> query_le q q' \<Longrightarrow> covered lib d' q' h"
  by (induction lib d q h rule: covered.induct) (auto simp: query_le_def intro: condition_for_kept)

text \<open>The invariant the loop keeps: reachability and coherence of the decoder.\<close>

definition runs :: "idl_lib \<Rightarrow> decoder \<Rightarrow> decoder \<Rightarrow> bool" where
  "runs lib d d' = (decoder_reaches lib d d' \<and> idls_kept d d' \<and> (cache_ok lib d \<longrightarrow> cache_ok lib d'))"

lemma runs_refl [simp]: "runs lib d d"
  by (simp add: runs_def decoder_reaches_def)

lemma runs_trans: "runs lib d d' \<Longrightarrow> runs lib d' d'' \<Longrightarrow> runs lib d d''"
  unfolding runs_def decoder_reaches_def by (auto intro: rtranclp_trans idls_kept_trans)

lemma parseDiscriminator_runs: "parseDiscriminator lib input pid d = (r, d') \<Longrightarrow> runs lib d d'"
proof -
  assume "parseDiscriminator lib input pid d = (r, d')"
  then have s: "decoder_step lib d d'" by (rule decoder_step.lookup)
  then show ?thesis
    by (simp add: runs_def decoder_reaches_def r_into_rtranclp decoder_step_kept decoder_step_ok)
qed

lemma instruction_condition:
  assumes "instructionFilterToDictionaryCondition lib f d = (r, d')" and "cache_ok lib d"
  shows "runs lib d d' \<and> (\<forall>c. r = Inr c \<longrightarrow> condition_for lib d' f c)"
proof (cases "truthy (discriminator f) \<and> truthy (if_programId f)")
  case True
  obtain r1 d1 where p: "parseDiscriminator lib (the (discriminator f)) (if_programId f) d = (r1, d1)" by force
  then have k: "runs lib d d1" by (rule parseDiscriminator_runs)
  have "r1 = parseDiscriminator_body lib d (the (discriminator f), if_programId f)"
    using parseDiscriminator_ok [OF assms(2), of "the (discriminator f)" "if_programId f"] p by simp
  moreover have "parseDiscriminator_body lib d1 = parseDiscriminator_body lib d"
    using parseDiscriminator_idls [of lib "the (discriminator f)" "if_programId f" d] p
    by (intro parseDiscriminator_body_idls) simp
  ultimately show ?thesis
    using assms(1) True k p
    by (auto simp: instructionFilterToDictionaryCondition_def Let_def condition_for_def split: sum.splits)
next
  case False
  with assms(1) show ?thesis
    by (auto simp: instructionFilterToDictionaryCondition_def Let_def condition_for_def split: if_splits)
qed

lemma add_handler_covers:
  assumes "add_handler lib h q d = (Inr (Some q'), d')" and "cache_ok lib d"
  shows "covered lib d' q' h \<and> query_le q q' \<and> runs lib d d'"
  using assms
proof (induction lib h q d rule: add_handler.induct)
  case (8 lib h f q d)
  show ?case
  proof (cases "instruction_filter_given f")
    case True
    obtain r d1 where c: "instructionFilterToDictionaryCondition lib f d = (r, d1)" by force
    from 8(1) True c obtain c' where "r = Inr c'" "d1 = d'"
        "q' = q\<lparr>q_instructions := push (q_instructions q) c'\<rparr>"
      by (auto split: sum.splits)
    with instruction_condition [OF c 8(2)] show ?thesis by (auto simp: query_le_def)
  qed (use 8 in \<open>auto simp: query_le_def\<close>)
qed (auto simp: query_le_def split: if_splits)

lemma query_le_trans: "query_le q q' \<Longrightarrow> query_le q' q'' \<Longrightarrow> query_le q q''"
  by (auto simp: query_le_def)

lemma add_handlers_cover:
  "add_handlers lib hs q d = (Inr (Some q'), d') \<Longrightarrow> cache_ok lib d \<Longrightarrow>
     list_all (covered lib d' q') hs \<and> query_le q q' \<and> runs lib d d'"
proof (induction hs arbitrary: q d)
  case (Cons h hs)
  obtain r d1 where h: "add_handler lib h q d = (r, d1)" by force
  with Cons.prems(1) obtain q1 where r: "r = Inr (Some q1)" and rest: "add_handlers lib hs q1 d1 = (Inr (Some q'), d')"
    by (auto split: sum.splits option.splits)
  from add_handler_covers [OF h [unfolded r] Cons.prems(2)]
  have 1: "covered lib d1 q1 h" "query_le q q1" "runs lib d d1" by auto
  then have "cache_ok lib d1" using Cons.prems(2) by (simp add: runs_def)
  from Cons.IH [OF rest this] have 2: "list_all (covered lib d' q') hs" "query_le q1 q'" "runs lib d1 d'" by auto
  have "covered lib d' q' h"
    using covered_mono [OF 1(1) _ 2(2)] 2(3) by (simp add: runs_def)
  with 1 2 show ?case by (auto intro: query_le_trans runs_trans)
qed (simp add: query_le_def)

lemma covered_sanitise: "covered lib d q h \<Longrightarrow> covered lib d (sanitiseDictionaryConditions q) h"
  by (erule covered_mono) (simp_all add: query_le_def sanitiseDictionaryConditions_def)

lemma query_covers:
  assumes "buildDictionaryV2QueryEntry lib dss d = (Inr q, d')" and "cache_ok lib d" and "q \<noteq> empty_query"
    and "ds \<in> set dss" and "h \<in> set (handlers (ds_mapping ds))"
  shows "covered lib d' q h \<and> runs lib d d'"
proof -
  let ?q0 = "\<lparr>q_logs = Some [], q_instructions = None, q_transactions = Some []\<rparr>"
  let ?hs = "concat (map (\<lambda>ds. handlers (ds_mapping ds)) dss)"
  obtain r d1 where run: "add_handlers lib ?hs ?q0 d = (r, d1)" by force
  with assms(1,3) obtain q1 where r: "r = Inr (Some q1)" and q: "q = sanitiseDictionaryConditions q1" "d' = d1"
    by (auto simp: buildDictionaryV2QueryEntry_def split: sum.splits option.splits)
  from add_handlers_cover [OF run [unfolded r] assms(2)] have "list_all (covered lib d1 q1) ?hs" "runs lib d d1" by auto
  moreover have "h \<in> set ?hs" using assms(4,5) by auto
  ultimately show ?thesis using covered_sanitise by (auto simp: list_all_iff q)
qed

subsection \<open>A filter's condition admits what the filter accepts\<close>

lemma program_admits_condition:
  "(truthy p \<longrightarrow> q = p) \<Longrightarrow> program_admits (programIds_condition p) q"
  by (cases p) (auto simp: program_admits_def programIds_condition_def)

lemma account_at_getAccount:
  "account_at inst i = Some a \<Longrightarrow>
     \<exists>k. nth_opt (raw_instruction.accounts inst) i = Some k \<and> getAccountByIndex inst k = Some a"
  by (auto simp: account_at_def getAccountByIndex_def allAccounts_def nth_opt_append nth_opt_Some split: option.splits)

lemma condition_admits:
  assumes "condition_for lib d f c" and "static_match inst f"
    and "truthy (discriminator f) \<longrightarrow>
      (\<exists>disc buf. parseDiscriminator_body lib d (the (discriminator f), getProgramId inst) = Inr disc \<and>
        bs58_decode lib (data inst) = Inr buf \<and> prefix disc buf)"
  shows "instruction_admits lib c inst"
proof -
  have prog: "truthy (if_programId f) \<longrightarrow> getProgramId inst = if_programId f"
    and accs: "\<And>flts. if_accounts f = Some flts \<Longrightarrow> accounts_match inst flts"
    and failed: "includeFailed f = Some True \<or> \<not> tx_failed (inst_transaction inst)"
    using assms(2) by (auto simp: static_match_def)
  have "discriminator_admits lib (discriminators c) (data inst)"
  proof (cases "truthy (discriminator f)")
    case True
    with assms(1,3) prog obtain disc buf where "discriminators c = Some [''0x'' @ hex_encode disc]"
        "bs58_decode lib (data inst) = Inr buf" "prefix disc buf"
      by (auto simp: condition_for_def)
    then show ?thesis by (simp add: discriminator_admits_def hex.decode_encode)
  next
    case False
    with assms(1) show ?thesis by (simp add: condition_for_def discriminator_admits_def)
  qed
  moreover have "\<exists>k a. nth_opt (raw_instruction.accounts inst) i = Some k \<and> getAccountByIndex inst k = Some a \<and> a \<in> set addresses"
    if "ic_accounts c = Some flts" "i < length flts" "flts ! i = Some addresses" for flts i addresses
    using that accs [of flts] assms(1) account_at_getAccount by (fastforce simp: condition_for_def accounts_match_def)
  ultimately show ?thesis
    using assms(1) program_admits_condition [OF prog] failed
    by (auto simp: instruction_admits_def condition_for_def split: if_splits)
qed

subsection \<open>Properties\<close>

text \<open>C9: the dictionary query covers the instruction handlers whose filter sets at least one
  field (\<open>instruction_filter_given\<close>): when the query has conditions at all, every
  instruction that such a filter accepts, now or in a later state of the decoder, is admitted by
  one of the instruction conditions, so that the dictionary does not leave out its block. A filter
  that sets no field adds no condition, and then this fails (see the property on blank
  filters below).\<close>

theorem query_covers_instructions:
  assumes "decoder_reaches lib new_SolanaDecoder d" and "buildDictionaryV2QueryEntry lib dss d = (Inr q, d')"
    and "q \<noteq> empty_query" and "ds \<in> set dss" and "InstructionHandler n (Some f) \<in> set (handlers (ds_mapping ds))"
    and "instruction_filter_given f" and "decoder_reaches lib d' d''"
    and "fst (filterInstructionsProcessor lib inst (Some f) d'') = Inr True"
  shows "\<exists>c \<in> elems (q_instructions q). instruction_admits lib c inst"
proof -
  have ok: "cache_ok lib d" using decoder_reaches_ok [OF assms(1)] by simp
  from query_covers [OF assms(2) ok assms(3-5)] assms(6)
  obtain c where c: "c \<in> elems (q_instructions q)" "condition_for lib d' f c" and run: "runs lib d d'"
    by auto
  have "decoder_reaches lib new_SolanaDecoder d''"
    using assms(1,7) run unfolding runs_def decoder_reaches_def by (meson rtranclp_trans)
  with assms(8) filterInstructions_iff [of lib d'' inst f]
  have "static_match inst f" and "truthy (discriminator f) \<longrightarrow>
      (\<exists>disc buf. parseDiscriminator_body lib d'' (the (discriminator f), getProgramId inst) = Inr disc \<and>
        bs58_decode lib (data inst) = Inr buf \<and> prefix disc buf)"
    by auto
  with condition_admits [OF condition_for_kept [OF c(2) decoder_reaches_kept [OF assms(7)]]] c(1)
  show ?thesis by blast
qed

definition example_handlers :: "handler list" where
  "example_handlers = [InstructionHandler ''route'' (Some (example_filter (Some [Some [''S'', ''T'']])))]"

lemma example_parse_route:
  "parseDiscriminator example_lib ''route'' (Some ''A'') example_decoder =
     (Inr [64], example_decoder\<lparr>disc_cache := [memo_key (''route'', Some ''A'') \<mapsto> [64]]\<rparr>)"
proof -
  have "findInstructionDiscriminatorByName example_lib (idl_root example_idl) ''route'' = Inr (Some [64])"
    by (simp add: findInstructionDiscriminatorByName_def example_idl_parse example_program_def
        getInstructionDiscriminatorBytes_def)
  then have "parseDiscriminator_body example_lib example_decoder (''route'', Some ''A'') = Inr [64]"
    by (simp add: parseDiscriminator_body_def example_lookup example_idl_parse(1) example_isHex)
  moreover have "disc_cache example_decoder = Map.empty"
    by (simp add: example_decoder_def new_SolanaDecoder_def)
  ultimately show ?thesis by (simp add: parseDiscriminator_def Memoize_def Let_def)
qed

definition example_condition :: "string list option list option \<Rightarrow> instruction_conditions" where
  "example_condition accs =
     \<lparr>ic_programIds = Some [''A''], ic_accounts = accs, discriminators = Some [''0x40''], isCommitted = Some True\<rparr>"

lemma hex_encode_64: "hex_encode [64] = ''40''"
  by (simp add: hex_alphabet_def)

lemma example_build:
  "buildDictionaryV2QueryEntry example_lib [example_ds example_handlers] example_decoder =
     (Inr \<lparr>q_logs = None, q_instructions = Some [example_condition (Some [Some [''S'', ''T'']])], q_transactions = None\<rparr>,
      example_decoder\<lparr>disc_cache := [memo_key (''route'', Some ''A'') \<mapsto> [64]]\<rparr>)"
  by (simp add: buildDictionaryV2QueryEntry_def example_ds_def example_handlers_def instruction_filter_given_def
      example_filter_def instructionFilterToDictionaryCondition_def example_parse_route hex_encode_64
      sanitiseDictionaryConditions_def sanitise_list_def push_def programIds_condition_def example_condition_def
      del: hex_encode.simps)

theorem query_covers_instructions_witness:
  "\<exists>c \<in> {example_condition (Some [Some [''S'', ''T'']])}. instruction_admits example_lib c (example_inst ''25'' [0])"
proof -
  let ?d' = "example_decoder\<lparr>disc_cache := [memo_key (''route'', Some ''A'') \<mapsto> [64]]\<rparr>"
  let ?f = "example_filter (Some [Some [''S'', ''T'']])"
  have f: "discriminator ?f = Some ''route''" by (simp add: example_filter_def)
  have b: "bs58_decode example_lib (data (example_inst ''25'' [0])) = Inr [64, 7]"
    by (simp add: example_lib_def example_inst_def)
  have acc: "fst (filterInstructionsProcessor example_lib (example_inst ''25'' [0]) (Some ?f) ?d') = Inr True"
    unfolding filterInstructions_static f
    by (simp add: example_static example_program_id parseDiscriminator_def Memoize_def b)
  have "\<exists>c \<in> elems (Some [example_condition (Some [Some [''S'', ''T'']])]). instruction_admits example_lib c (example_inst ''25'' [0])"
    using query_covers_instructions [OF example_decoder_reached example_build _ _ _ _ _ acc, where ds = "example_ds example_handlers" and n = "''route''"]
    by (simp add: empty_query_def example_ds_def example_handlers_def instruction_filter_given_def example_filter_def
        decoder_reaches_def)
  then show ?thesis by simp
qed

text \<open>C10: the query covers in the same way the transaction handlers whose filter names a signer
  (\<open>tx_filter_given\<close>) and the log handlers whose filter names a program (\<open>log_filter_given\<close>): when
  the query has conditions at all, what such a filter accepts is admitted by one of the
  transaction or log conditions. A handler with a filter object that sets nothing is left out: it
  accepts everything and adds no condition.\<close>

theorem query_covers_transactions_and_logs:
  assumes "decoder_reaches lib new_SolanaDecoder d" and "buildDictionaryV2QueryEntry lib dss d = (Inr q, d')"
    and "q \<noteq> empty_query" and "ds \<in> set dss"
  shows "(\<forall>n f tx. TransactionHandler n (Some f) \<in> set (handlers (ds_mapping ds)) \<and> tx_filter_given f \<and>
            filterTransactionsProcessor (tx :: ('i, 'm, 'z) tx_scheme) (Some f) \<longrightarrow> (\<exists>c \<in> elems (q_transactions q). tx_admits c tx)) \<and>
         (\<forall>n f l. LogHandler n (Some f) \<in> set (handlers (ds_mapping ds)) \<and> log_filter_given f \<and>
            filterLogsProcessor l (Some f) \<longrightarrow> (\<exists>c \<in> elems (q_logs q). log_admits c l))"
proof -
  have ok: "cache_ok lib d" using decoder_reaches_ok [OF assms(1)] by simp
  note cov = query_covers [OF assms(2) ok assms(3,4)]
  have "\<exists>c \<in> elems (q_transactions q). tx_admits c tx"
    if "TransactionHandler n (Some f) \<in> set (handlers (ds_mapping ds))" "tx_filter_given f"
      "filterTransactionsProcessor tx (Some f)" for n f and tx :: "('i, 'm, 'z) tx_scheme"
  proof (intro bexI)
    show "txFilterToDictionaryCondition f \<in> elems (q_transactions q)" using cov [OF that(1)] that(2) by simp
    show "tx_admits (txFilterToDictionaryCondition f) tx"
      using that(3) unfolding filterTransactions_iff
      by (cases "signerAccountKey f") (auto simp: tx_admits_def txFilterToDictionaryCondition_def)
  qed
  moreover have "\<exists>c \<in> elems (q_logs q). log_admits c l"
    if "LogHandler n (Some f) \<in> set (handlers (ds_mapping ds))" "log_filter_given f"
      "filterLogsProcessor l (Some f)" for n f l
  proof (intro bexI)
    show "logFilterToDictionaryCondition f \<in> elems (q_logs q)" using cov [OF that(1)] that(2) by simp
    have "truthy (lf_programId f) \<longrightarrow> log_programId l = lf_programId f"
      using that(3) by (auto simp: filterLogsProcessor_def split: if_splits)
    then show "log_admits (logFilterToDictionaryCondition f) l"
      by (simp add: log_admits_def logFilterToDictionaryCondition_def program_admits_condition)
  qed
  ultimately show ?thesis by blast
qed

theorem query_covers_transactions_and_logs_witness:
  "\<exists>c \<in> {\<lparr>signerAccountKeys = Some [''S'']\<rparr>}. tx_admits c (example_raw_tx None)"
proof -
  let ?f = "\<lparr>signerAccountKey = Some ''S''\<rparr>"
  let ?hs = "[TransactionHandler ''t'' (Some ?f)]"
  let ?q = "\<lparr>q_logs = None, q_instructions = None, q_transactions = Some [\<lparr>signerAccountKeys = Some [''S'']\<rparr>]\<rparr>"
  have build: "buildDictionaryV2QueryEntry example_lib [example_ds ?hs] example_decoder = (Inr ?q, example_decoder)"
    by (simp add: buildDictionaryV2QueryEntry_def example_ds_def tx_filter_given_def txFilterToDictionaryCondition_def
        sanitiseDictionaryConditions_def sanitise_list_def push_def)
  have ne: "?q \<noteq> empty_query" by (simp add: empty_query_def)
  have "filterTransactionsProcessor (example_raw_tx None) (Some ?f)"
    by (simp add: filterTransactionsProcessor_def example_raw_tx_def mapi_def)
  with query_covers_transactions_and_logs [OF example_decoder_reached build ne, of "example_ds ?hs"]
  have "\<exists>c \<in> elems (q_transactions ?q). tx_admits c (example_raw_tx None)"
    by (auto simp: example_ds_def tx_filter_given_def)
  then show ?thesis by simp
qed

text \<open>A handler that needs every block turns the dictionary off: when some handler of the
  project has no filter, or is a block handler without \<open>modulo\<close>, the query is empty or the
  build throws, whatever the other handlers are. A query that is built has no empty list and no
  condition twice, and a discriminator in it always comes with its program.\<close>

theorem query_well_formed:
  assumes "cache_ok lib d" and "buildDictionaryV2QueryEntry lib dss d = (Inr q, d')"
  shows "(\<forall>ds h. ds \<in> set dss \<and> h \<in> set (handlers (ds_mapping ds)) \<and>
             (\<not> has_filter h \<or> (\<exists>n f. h = BlockHandler n (Some f) \<and> modulo f = None)) \<longrightarrow> q = empty_query) \<and>
    q_logs q \<noteq> Some [] \<and> q_instructions q \<noteq> Some [] \<and> q_transactions q \<noteq> Some [] \<and>
    (\<forall>cs. q_logs q = Some cs \<longrightarrow> distinct cs) \<and> (\<forall>cs. q_instructions q = Some cs \<longrightarrow> distinct cs) \<and>
    (\<forall>cs. q_transactions q = Some cs \<longrightarrow> distinct cs) \<and>
    (\<forall>ds n f. q \<noteq> empty_query \<and> ds \<in> set dss \<and> InstructionHandler n (Some f) \<in> set (handlers (ds_mapping ds)) \<longrightarrow>
       truthy (discriminator f) \<longrightarrow> truthy (if_programId f))"
proof -
  have "q = empty_query" if "ds \<in> set dss" "h \<in> set (handlers (ds_mapping ds))"
      "\<not> has_filter h \<or> (\<exists>n f. h = BlockHandler n (Some f) \<and> modulo f = None)" for ds h
  proof (rule ccontr)
    assume "q \<noteq> empty_query"
    from query_covers [OF assms(2,1) this that(1,2)] have "covered lib d' q h" by simp
    with that(3) show False by (cases h) auto
  qed
  moreover have "q_logs q \<noteq> Some [] \<and> q_instructions q \<noteq> Some [] \<and> q_transactions q \<noteq> Some [] \<and>
    (\<forall>cs. q_logs q = Some cs \<longrightarrow> distinct cs) \<and> (\<forall>cs. q_instructions q = Some cs \<longrightarrow> distinct cs) \<and>
    (\<forall>cs. q_transactions q = Some cs \<longrightarrow> distinct cs)"
    using assms(2)
    by (auto simp: buildDictionaryV2QueryEntry_def empty_query_def sanitiseDictionaryConditions_def sanitised
        split: prod.splits sum.splits option.splits)
  moreover have "truthy (if_programId f)"
    if "q \<noteq> empty_query" "ds \<in> set dss" "InstructionHandler n (Some f) \<in> set (handlers (ds_mapping ds))"
      "truthy (discriminator f)" for ds n f
  proof -
    have "instruction_filter_given f" using that(4) by (cases "discriminator f") (auto simp: instruction_filter_given_def)
    with query_covers [OF assms(2,1) that(1-3)] that(4) show ?thesis by (auto simp: condition_for_def)
  qed
  ultimately show ?thesis by blast
qed

theorem query_well_formed_witness:
  "fst (buildDictionaryV2QueryEntry example_lib [example_ds (example_handlers @ [LogHandler ''l'' None])] example_decoder) =
     Inr empty_query"
proof -
  let ?hs = "example_handlers @ [LogHandler ''l'' None]"
  have ok: "cache_ok example_lib example_decoder"
    using decoder_reaches_ok [OF example_decoder_reached] by simp
  obtain q d' where run: "buildDictionaryV2QueryEntry example_lib [example_ds ?hs] example_decoder = (Inr q, d')"
    by (simp add: buildDictionaryV2QueryEntry_def example_ds_def example_handlers_def instruction_filter_given_def
        example_filter_def instructionFilterToDictionaryCondition_def example_parse_route)
  have "LogHandler ''l'' None \<in> set (handlers (ds_mapping (example_ds ?hs)))"
    by (simp add: example_ds_def)
  with query_well_formed [OF ok run] have "q = empty_query"
    by (metis has_filter.simps(4) list.set_intros(1))
  with run show ?thesis by simp
qed

text \<open>C29: a handler whose filter has no field set is forgotten: next to a handler with a program,
  the query asks for that program only, although the other handler's filter accepts the
  committed instructions of every program. The dictionary then leaves out their blocks.\<close>

definition blank_filter :: instruction_filter where
  "blank_filter = \<lparr>if_programId = None, discriminator = None, if_accounts = None, includeFailed = None\<rparr>"

theorem blank_filter_not_covered:
  assumes "if_programId f = Some pid" and "pid \<noteq> []" and "discriminator f = None"
    and "handlers (ds_mapping ds) = [InstructionHandler a (Some f), InstructionHandler b (Some blank_filter)]"
    and "getProgramId inst \<noteq> Some pid" and "\<not> tx_failed (inst_transaction inst)"
  shows "filterInstructionsProcessor lib inst (Some blank_filter) d = (Inr True, d) \<and>
    (\<exists>q. buildDictionaryV2QueryEntry lib [ds] d = (Inr q, d) \<and> q \<noteq> empty_query \<and>
       elems (q_transactions q) = {} \<and> elems (q_logs q) = {} \<and>
       (\<forall>c \<in> elems (q_instructions q). \<not> instruction_admits lib c inst))"
proof
  show "filterInstructionsProcessor lib inst (Some blank_filter) d = (Inr True, d)"
    using assms(6) by (simp add: filterInstructions_static static_match_def blank_filter_def)
  let ?c = "\<lparr>ic_programIds = Some [pid], ic_accounts = if_accounts f, discriminators = None,
     isCommitted = (if includeFailed f \<noteq> Some True then Some True else None)\<rparr>"
  let ?q = "\<lparr>q_logs = None, q_instructions = Some [?c], q_transactions = None\<rparr>"
  have "buildDictionaryV2QueryEntry lib [ds] d = (Inr ?q, d)"
    using assms(1-4)
    by (simp add: buildDictionaryV2QueryEntry_def instruction_filter_given_def blank_filter_def
        instructionFilterToDictionaryCondition_def programIds_condition_def sanitiseDictionaryConditions_def
        sanitise_list_def push_def)
  moreover have "\<not> instruction_admits lib ?c inst"
    using assms(5) by (auto simp: instruction_admits_def program_admits_def)
  ultimately show "\<exists>q. buildDictionaryV2QueryEntry lib [ds] d = (Inr q, d) \<and> q \<noteq> empty_query \<and>
       elems (q_transactions q) = {} \<and> elems (q_logs q) = {} \<and>
       (\<forall>c \<in> elems (q_instructions q). \<not> instruction_admits lib c inst)"
    by (intro exI [of _ ?q]) (simp add: empty_query_def)
qed

theorem blank_filter_not_covered_witness:
  "\<exists>q. buildDictionaryV2QueryEntry example_lib
     [example_ds [InstructionHandler ''a'' (Some (blank_filter\<lparr>if_programId := Some ''B''\<rparr>)), InstructionHandler ''b'' (Some blank_filter)]]
     example_decoder = (Inr q, example_decoder) \<and>
     (\<forall>c \<in> elems (q_instructions q). \<not> instruction_admits example_lib c (example_inst ''25'' [0]))"
proof -
  let ?f = "blank_filter\<lparr>if_programId := Some ''B''\<rparr>"
  have "handlers (ds_mapping (example_ds [InstructionHandler ''a'' (Some ?f), InstructionHandler ''b'' (Some blank_filter)])) =
      [InstructionHandler ''a'' (Some ?f), InstructionHandler ''b'' (Some blank_filter)]"
    by (simp add: example_ds_def)
  moreover have "\<not> tx_failed (inst_transaction (example_inst ''25'' [0]))"
    by (simp add: example_inst_def example_raw_tx_def tx_failed_def)
  ultimately show ?thesis
    using blank_filter_not_covered [where f = ?f and pid = "''B''" and inst = "example_inst ''25'' [0]" and lib = example_lib
        and d = example_decoder and a = "''a''" and b = "''b''"]
    by (fastforce simp: blank_filter_def example_program_id)
qed

text \<open>C30: a block from the dictionary has the same content as the block fetched from the
  endpoint, but its header gives one more than the parent slot as its height. The two headers
  agree exactly when no slot was skipped before the block.\<close>

theorem dictionary_height_agrees_iff:
  assumes "rpc_getBlock (api_client api) n = Inr (Some raw)" and "transformer r = Inr raw"
    and "fetchBlock hostname api n = Inr b" and "convertResponseBlocks transformer (Some [r]) = Inr resp"
  shows "\<exists>b'. batchBlocks resp = [b'] \<and> ib_block b' = ib_block b \<and>
    lastBufferedHeight resp = Some (blockHeight (getHeader b')) \<and>
    (getHeader b' = getHeader b \<longleftrightarrow> bb_parentSlot raw + 1 = n)"
proof -
  from assms(1,3) obtain block where block: "transformBlock raw = Inr block" and b: "b = formatBlockUtil block (Some n)"
    by (auto simp: fetchBlock_Inr)
  have base: "base_block.truncate block = base_block.truncate raw"
    using block by (auto simp: transformBlock_def Let_def base_block.defs split: sum.splits)
  then have "bb_parentSlot block = bb_parentSlot raw" by (simp add: base_block.defs)
  moreover have "resp = \<lparr>batchBlocks = [formatBlockUtil block None],
      lastBufferedHeight = Some (blockHeight (getHeader (formatBlockUtil block None)))\<rparr>"
    using assms(2,4) block by (simp add: convertResponseBlocks_def parseBlock_def)
  ultimately show ?thesis by (simp add: b solanaBlockToHeader_def)
qed

theorem dictionary_height_agrees_iff_witness:
  "\<exists>b b' resp. fetchBlock Inr (skipping_api True) 100 = Inr b \<and>
     convertResponseBlocks Inr (Some [example_raw_block None]) = Inr resp \<and> batchBlocks resp = [b'] \<and>
     ib_block b' = ib_block b \<and> getHeader b' \<noteq> getHeader b"
proof -
  have raw: "rpc_getBlock (api_client (skipping_api True)) 100 = Inr (Some (example_raw_block None))"
    by (simp add: skipping_api_def block_api_def)
  obtain block where block: "transformBlock (example_raw_block None) = Inr block"
    using transformBlock_total [of "example_raw_block None"]
    by (auto simp: example_raw_block_def example_raw_tx_def tx_parses_def logs_parse_def)
  with raw obtain b where b: "fetchBlock Inr (skipping_api True) 100 = Inr b" by (auto simp: fetchBlock_Inr)
  obtain resp where resp: "convertResponseBlocks Inr (Some [example_raw_block None]) = Inr resp"
    using block by (simp add: convertResponseBlocks_def parseBlock_def)
  have "bb_parentSlot (example_raw_block None) + 1 \<noteq> 100" by (simp add: example_raw_block_def)
  with dictionary_height_agrees_iff [OF raw _ b resp] b resp show ?thesis by auto
qed

end
