(* ===== verification/Indexer.thy ===== *)
theory Indexer
  imports Filters
begin

section \<open>Indexing a block\<close>

text \<open>
  \<open>packages/node/src/indexer/indexer.manager.ts\<close>: the order in which the contents of a
  block are offered to the data sources, the filter of each handler kind, and the preparation
  of the data a handler gets. \<open>indexData\<close> of \<open>BaseIndexerManager\<close> (filter the handlers,
  run them in the sandbox) is a parameter that changes a state \<open>'s\<close> and may throw; a loop
  of awaited calls stops at the first throw.
\<close>

datatype item =
    BlockItem sol_block
  | TransactionItem sol_tx
  | InstructionItem sol_instruction
  | LogItem log_message

fun item_kind :: "item \<Rightarrow> SolanaHandlerKind" where
  "item_kind (BlockItem b) = Block"
| "item_kind (TransactionItem t) = Transaction"
| "item_kind (InstructionItem i) = Instruction"
| "item_kind (LogItem l) = Log"

type_synonym 's action = "'s \<Rightarrow> unit result \<times> 's"

type_synonym 's index_data = "SolanaHandlerKind \<Rightarrow> item \<Rightarrow> datasource \<Rightarrow> 's action"

subsection \<open>Loops of awaited calls\<close>

definition skip :: "'s action" where
  "skip s = (Inr (), s)"

definition and_then :: "'s action \<Rightarrow> 's action \<Rightarrow> 's action" where
  "and_then f g s = (case f s of (Inl e, s') \<Rightarrow> (Inl e, s') | (Inr u, s') \<Rightarrow> g s')"

fun for_each :: "'a list \<Rightarrow> ('a \<Rightarrow> 's action) \<Rightarrow> 's action" where
  "for_each [] f = skip"
| "for_each (x # xs) f = and_then (f x) (for_each xs f)"

lemma and_then_skip [simp]: "and_then skip f = f" "and_then f skip = f"
  by (auto simp: and_then_def skip_def fun_eq_iff split: prod.splits sum.splits)

lemma and_then_assoc: "and_then (and_then f g) h = and_then f (and_then g h)"
  by (auto simp: and_then_def fun_eq_iff split: prod.splits sum.splits)

lemma for_each_append: "for_each (xs @ ys) f = and_then (for_each xs f) (for_each ys f)"
  by (induction xs) (simp_all add: and_then_assoc)

lemma for_each_map: "for_each (map g xs) f = for_each xs (\<lambda>x. f (g x))"
  by (induction xs) simp_all

lemma for_each_concat: "for_each (concat xss) f = for_each xss (\<lambda>xs. for_each xs f)"
  by (induction xss) (simp_all add: for_each_append)

lemma for_each_cong: "(\<And>x. x \<in> set xs \<Longrightarrow> f x = g x) \<Longrightarrow> for_each xs f = for_each xs g"
  by (induction xs) simp_all

text \<open>A loop that runs to its end has run each call, in order, from the state of the one before.\<close>

fun completes :: "'a list \<Rightarrow> ('a \<Rightarrow> 's action) \<Rightarrow> 's \<Rightarrow> 's \<Rightarrow> bool" where
  "completes [] f s s' = (s' = s)"
| "completes (x # xs) f s s' = (isl (fst (f x s)) = False \<and> completes xs f (snd (f x s)) s')"

lemma for_each_Inr: "for_each xs f s = (Inr u, s') \<longleftrightarrow> completes xs f s s'"
proof (induction xs arbitrary: s)
  case (Cons x xs)
  show ?case
  proof (cases "f x s")
    case (Pair r s1)
    with Cons.IH [of s1] show ?thesis by (cases r) (simp_all add: and_then_def)
  qed
qed (auto simp: skip_def)

subsection \<open>The handlers of the manager\<close>

definition indexBlockContent :: "'s index_data \<Rightarrow> sol_block \<Rightarrow> datasource list \<Rightarrow> 's action" where
  "indexBlockContent indexData block dataSources =
     for_each dataSources (\<lambda>ds. indexData Block (BlockItem block) ds)"

definition indexTransaction :: "'s index_data \<Rightarrow> sol_tx \<Rightarrow> datasource list \<Rightarrow> 's action" where
  "indexTransaction indexData tx dataSources =
     for_each dataSources (\<lambda>ds. indexData Transaction (TransactionItem tx) ds)"

definition indexInstruction :: "'s index_data \<Rightarrow> sol_instruction \<Rightarrow> datasource list \<Rightarrow> 's action" where
  "indexInstruction indexData instruction dataSources =
     for_each dataSources (\<lambda>ds. indexData Instruction (InstructionItem instruction) ds)"

definition indexLog :: "'s index_data \<Rightarrow> log_message \<Rightarrow> datasource list \<Rightarrow> 's action" where
  "indexLog indexData l dataSources =
     for_each dataSources (\<lambda>ds. indexData Log (LogItem l) ds)"

text \<open>\<open>lodash.groupBy\<close>: the property \<open>k\<close> of the result, absent when no element has that key.\<close>

definition groupBy :: "'a list \<Rightarrow> ('a \<Rightarrow> 'k) \<Rightarrow> 'k \<Rightarrow> 'a list option" where
  "groupBy xs key k = (let g = filter (\<lambda>x. key x = k) xs in if g = [] then None else Some g)"

definition tx_inner :: "sol_tx \<Rightarrow> sol_instruction inner_instructions list" where
  "tx_inner tx = (case meta tx of None \<Rightarrow> [] | Some m \<Rightarrow> innerInstructions m)"

definition tx_logs :: "sol_tx \<Rightarrow> log_message list" where
  "tx_logs tx =
     (case meta tx of
        None \<Rightarrow> []
      | Some m \<Rightarrow> (case logs m of None \<Rightarrow> [] | Some ls \<Rightarrow> ls))"

definition indexBlockData :: "'s index_data \<Rightarrow> sol_block \<Rightarrow> datasource list \<Rightarrow> 's action" where
  "indexBlockData indexData block dataSources =
     and_then (indexBlockContent indexData block dataSources)
       (for_each (transactions block) (\<lambda>tx.
          and_then (indexTransaction indexData tx dataSources)
            (let innerInstrs = groupBy (tx_inner tx) ii_index in
             and_then
               (for_each (enumerate 0 (instructions (message (transaction tx)))) (\<lambda>(idx, instruction).
                  and_then (indexInstruction indexData instruction dataSources)
                    (for_each (case innerInstrs idx of None \<Rightarrow> [] | Some g \<Rightarrow> g) (\<lambda>innerInstrs1.
                       for_each (ii_instructions innerInstrs1) (\<lambda>inner.
                         indexInstruction indexData inner dataSources)))))
               (for_each (tx_logs tx) (\<lambda>l. indexLog indexData l dataSources)))))"

subsection \<open>Filters and data by handler kind\<close>

text \<open>
  \<open>getFilterTypeMap\<close>: the filter for the kind of the handler, on data of that kind;
  \<open>ProcessorTypeMap\<close>: the processor predicate of a kind.
\<close>

fun getFilterTypeMap ::
  "idl_lib \<Rightarrow> (int \<Rightarrow> block_filter option \<Rightarrow> bool) \<Rightarrow> handler \<Rightarrow> item \<Rightarrow> decoder \<Rightarrow> bool result \<times> decoder" where
  "getFilterTypeMap lib fts (BlockHandler h f) (BlockItem b) d = (Inr (filterBlocksProcessor fts b f), d)"
| "getFilterTypeMap lib fts (TransactionHandler h f) (TransactionItem t) d = (Inr (filterTransactionsProcessor t f), d)"
| "getFilterTypeMap lib fts (InstructionHandler h f) (InstructionItem i) d = filterInstructionsProcessor lib i f d"
| "getFilterTypeMap lib fts (LogHandler h f) (LogItem l) d = (Inr (filterLogsProcessor l f), d)"
| "getFilterTypeMap lib fts h x d = (Inl (TypeError ''handler and data differ in kind''), d)"

fun ProcessorTypeMap :: "SolanaHandlerKind \<Rightarrow> string \<Rightarrow> bool" where
  "ProcessorTypeMap Block k = isBlockHandlerProcessor k"
| "ProcessorTypeMap Transaction k = isTransactionHandlerProcessor k"
| "ProcessorTypeMap Instruction k = isInstructionHandlerProcessor k"
| "ProcessorTypeMap Log k = isLogHandlerProcessor k"

text \<open>\<open>DataIDLParser\<close>: instructions and logs get their decoded data before the handler runs.\<close>

fun DataIDLParser :: "idl_lib \<Rightarrow> decoder \<Rightarrow> item \<Rightarrow> item" where
  "DataIDLParser lib d (BlockItem b) = BlockItem b"
| "DataIDLParser lib d (TransactionItem t) = TransactionItem t"
| "DataIDLParser lib d (InstructionItem i) = InstructionItem (snd (get_decodedData (decodeInstruction lib d) i))"
| "DataIDLParser lib d (LogItem l) = LogItem (snd (get_decodedMessage (decodeLog lib d) l))"

definition prepareFilteredData ::
  "idl_lib \<Rightarrow> (string \<Rightarrow> string result) \<Rightarrow> (string \<Rightarrow> idl option result) \<Rightarrow> item \<Rightarrow> datasource \<Rightarrow> decoder
     \<Rightarrow> item result \<times> decoder" where
  "prepareFilteredData lib readFile parseJson x ds d =
     (case loadIdls readFile parseJson ds d of
        (Inl e, d') \<Rightarrow> (Inl e, d')
      | (Inr u, d') \<Rightarrow> (Inr (DataIDLParser lib d' x), d'))"

subsection \<open>The order of the items\<close>

text \<open>
  The specification of the traversal: the flat list of what a block contains, each instruction
  followed by its inner instructions.
\<close>

definition instruction_order :: "sol_tx \<Rightarrow> sol_instruction list" where
  "instruction_order tx =
     concat (map (\<lambda>(i, instruction).
         instruction # concat (map ii_instructions (filter (\<lambda>g. ii_index g = i) (tx_inner tx))))
       (enumerate 0 (instructions (message (transaction tx)))))"

definition tx_items :: "sol_tx \<Rightarrow> item list" where
  "tx_items tx = TransactionItem tx # map InstructionItem (instruction_order tx) @ map LogItem (tx_logs tx)"

definition block_items :: "sol_block \<Rightarrow> item list" where
  "block_items block = BlockItem block # concat (map tx_items (transactions block))"

lemma groupBy_list: "(case groupBy xs key k of None \<Rightarrow> [] | Some g \<Rightarrow> g) = filter (\<lambda>x. key x = k) xs"
  by (simp add: groupBy_def Let_def)

lemma indexBlockData_flat:
  "indexBlockData indexData block dss =
     for_each (block_items block) (\<lambda>x. for_each dss (\<lambda>ds. indexData (item_kind x) x ds))"
proof -
  have order: "for_each (instruction_order tx) (\<lambda>i. for_each dss (indexData Instruction (InstructionItem i))) =
      for_each (enumerate 0 (instructions (message (transaction tx)))) (\<lambda>(idx, instruction).
        and_then (for_each dss (indexData Instruction (InstructionItem instruction)))
          (for_each (filter (\<lambda>g. ii_index g = idx) (tx_inner tx)) (\<lambda>g.
             for_each (ii_instructions g) (\<lambda>inner. for_each dss (indexData Instruction (InstructionItem inner))))))" for tx
    unfolding instruction_order_def for_each_map for_each_concat
    by (rule for_each_cong) (auto simp: for_each_map for_each_concat)
  show ?thesis
    unfolding indexBlockData_def block_items_def groupBy_list Let_def
    by (simp add: for_each_concat for_each_map tx_items_def for_each_append order
        indexBlockContent_def indexTransaction_def indexInstruction_def indexLog_def)
qed

end
