(* ===== verification/IndexerTheorems.thy ===== *)
theory IndexerTheorems
  imports Indexer FilterTheorems
begin

section \<open>The properties of the indexer\<close>

text \<open>
  The nested loops make the calls of a flat list, in which the instructions of a transaction
  stand in the order they were executed.
\<close>

text \<open>C15: indexing a block offers, to each data source in turn, the block, then for each
  transaction the transaction, its instructions each followed by its inner instructions, and
  its logs; it stops at the first call that throws, with the state left by that call.\<close>

theorem indexBlockData_calls:
  "indexBlockData indexData block dss =
     for_each (concat (map (\<lambda>x. map (Pair x) dss) (block_items block)))
       (\<lambda>(x, ds). indexData (item_kind x) x ds)"
  unfolding indexBlockData_flat for_each_concat for_each_map by simp

subsection \<open>Execution order\<close>

definition lex_less :: "nat list \<Rightarrow> nat list \<Rightarrow> bool" where
  "lex_less xs ys \<longleftrightarrow> (xs, ys) \<in> lexord {(a, b). a < b}"

lemma lex_less_simps [simp]:
  "lex_less [i] [k, j] \<longleftrightarrow> i \<le> k" "lex_less [i] [k] \<longleftrightarrow> i < k"
  "lex_less [i, j] [k] \<longleftrightarrow> i < k" "lex_less [i, j] [k, l] \<longleftrightarrow> i < k \<or> i = k \<and> j < l"
  by (auto simp: lex_less_def)

lemma sorted_wrt_concat_upt:
  assumes "\<And>i. i < n \<Longrightarrow> sorted_wrt P (f i)"
    and "\<And>i k x y. i < k \<Longrightarrow> k < n \<Longrightarrow> x \<in> set (f i) \<Longrightarrow> y \<in> set (f k) \<Longrightarrow> P x y"
  shows "sorted_wrt P (concat (map f [0..<n]))"
  using assms
proof (induction n)
  case (Suc n)
  have "sorted_wrt P (concat (map f [0..<n]))" using Suc by simp
  moreover have "sorted_wrt P (f n)" using Suc.prems(1) by simp
  moreover have "P x y" if "x \<in> set (concat (map f [0..<n]))" "y \<in> set (f n)" for x y
    using that Suc.prems(2) by auto
  ultimately show ?case by (simp add: sorted_wrt_append)
qed simp

text \<open>The indices of the inner instructions of \<open>i\<close>, when each group of inner instructions has its own index.\<close>

definition inner_count :: "'a inner_instructions list \<Rightarrow> nat \<Rightarrow> nat" where
  "inner_count gs i = (\<Sum>g \<leftarrow> filter (\<lambda>g. ii_index g = i) gs. length (ii_instructions g))"

lemma distinct_filter_key:
  "distinct (map key xs) \<Longrightarrow> filter (\<lambda>x. key x = k) xs = [] \<or> (\<exists>x. filter (\<lambda>x. key x = k) xs = [x] \<and> key x = k)"
proof (induction xs)
  case (Cons x xs)
  show ?case
  proof (cases "key x = k")
    case True
    with Cons.prems have "filter (\<lambda>x. key x = k) xs = []" by (auto simp: filter_empty_conv image_iff)
    with True show ?thesis by simp
  qed (use Cons in simp)
qed simp

lemma inner_indices:
  assumes "distinct (map ii_index gs)"
    and "\<And>g. g \<in> set gs \<Longrightarrow> map index (ii_instructions g) = map (\<lambda>j. [ii_index g, j]) [0..<length (ii_instructions g)]"
  shows "map index (concat (map ii_instructions (filter (\<lambda>g. ii_index g = i) gs))) = map (\<lambda>j. [i, j]) [0..<inner_count gs i]"
proof -
  from distinct_filter_key [OF assms(1), of i] show ?thesis
  proof (elim disjE exE conjE)
    fix g assume g: "filter (\<lambda>g. ii_index g = i) gs = [g]" "ii_index g = i"
    then have "g \<in> set gs" by (metis filter_is_subset list.set_intros(1) subsetD)
    with g assms(2) [of g] show ?thesis by (simp add: inner_count_def)
  qed (simp add: inner_count_def)
qed

lemma wrapped_tx_indices:
  assumes "wrapped_tx base raw t" and "distinct (map ii_index (tx_inner t))"
  shows "map index (instruction_order t) =
    concat (map (\<lambda>i. [i] # map (\<lambda>j. [i, j]) [0..<inner_count (tx_inner t) i])
      [0..<length (instructions (message (transaction t)))])"
proof -
  let ?insts = "instructions (message (transaction t))"
  have raws: "map raw_instruction.truncate ?insts = instructions (message (transaction raw))"
    and top: "map index ?insts = map (\<lambda>j. [j]) [0..<length (instructions (message (transaction raw)))]"
    using assms(1) by (simp_all add: wrapped_tx_def wrapped_all_def)
  from arg_cong [OF raws, of length] have n: "length (instructions (message (transaction raw))) = length ?insts" by simp
  have inner: "map index (ii_instructions g) = map (\<lambda>j. [ii_index g, j]) [0..<length (ii_instructions g)]"
    if "g \<in> set (tx_inner t)" for g
  proof -
    from that obtain m' where m': "meta t = Some m'" "g \<in> set (innerInstructions m')"
      by (cases "meta t") (simp_all add: tx_inner_def)
    moreover have "rel_option (wrapped_meta base raw) (meta raw) (meta t)"
      using assms(1) by (simp add: wrapped_tx_def)
    ultimately obtain m where "wrapped_meta base raw m m'"
      by (auto simp: option_rel_Some2)
    then have "list_all2 (\<lambda>raws insts. ii_index insts = ii_index raws \<and>
        wrapped_all base raw [ii_index raws] (ii_instructions raws) (ii_instructions insts))
      (case raw_innerInstructions m of None \<Rightarrow> [] | Some inners \<Rightarrow> inners) (innerInstructions m')"
      by (simp add: wrapped_meta_def)
    from list_all2_set_right [OF this m'(2)]
    obtain r :: "raw_instruction inner_instructions" where "ii_index g = ii_index r" "wrapped_all base raw [ii_index r] (ii_instructions r) (ii_instructions g)"
      by blast
    then show ?thesis by (auto simp: wrapped_all_def dest: map_eq_imp_length_eq)
  qed
  have at: "index (?insts ! i) = [i]" if "i < length ?insts" for i
    using arg_cong [OF top, of "\<lambda>xs. xs ! i"] that by (simp add: n)
  have "map index (instruction_order t) =
      concat (map (\<lambda>(i, x). index x # map (\<lambda>j. [i, j]) [0..<inner_count (tx_inner t) i]) (enumerate 0 ?insts))"
    unfolding instruction_order_def map_concat
    by (simp add: comp_def split_def inner_indices [OF assms(2) inner])
  also have "map (\<lambda>(i, x). index x # map (\<lambda>j. [i, j]) [0..<inner_count (tx_inner t) i]) (enumerate 0 ?insts) =
      map (\<lambda>i. [i] # map (\<lambda>j. [i, j]) [0..<inner_count (tx_inner t) i]) [0..<length ?insts]"
    by (rule nth_equalityI) (simp_all add: nth_enumerate_eq at)
  finally show ?thesis .
qed

lemma set_concat_enumerate:
  "set (concat (map (\<lambda>(i, x). x # concat (map f (filter (\<lambda>g. k g = i) gs))) (enumerate 0 xs))) =
     set xs \<union> \<Union> (set (map (set \<circ> f) (filter (\<lambda>g. k g < length xs) gs)))"
proof -
  have e: "set (enumerate 0 xs) = (\<lambda>i. (i, xs ! i)) ` {..<length xs}"
    by (auto simp: in_set_enumerate_eq image_iff)
  have x: "set xs = (!) xs ` {..<length xs}" by (auto simp: set_conv_nth)
  show ?thesis by (simp add: e) (auto simp: x)
qed

text \<open>C12: in a transformed block whose inner instructions are grouped once per instruction, the
  instructions of a transaction are visited in strictly increasing lexicographic order of their
  indices, so each once and each before its inner instructions; and exactly those of the
  message and the inner ones of an instruction of the message are visited.\<close>

theorem instructions_in_execution_order:
  assumes "transformBlock raw = Inr b" and "t \<in> set (transactions b)" and "distinct (map ii_index (tx_inner t))"
  shows "sorted_wrt lex_less (map index (instruction_order t)) \<and>
    set (instruction_order t) = set (instructions (message (transaction t))) \<union>
      \<Union> (set (map (set \<circ> ii_instructions) (filter (\<lambda>g. ii_index g < length (instructions (message (transaction t)))) (tx_inner t))))"
proof
  from transformBlock_wrapped [OF assms(1)] assms(2) obtain r where "wrapped_tx (base_block.truncate raw) r t"
    by (auto simp: list_all2_conv_all_nth in_set_conv_nth)
  from wrapped_tx_indices [OF this assms(3)] show "sorted_wrt lex_less (map index (instruction_order t))"
    by (auto intro!: sorted_wrt_concat_upt simp: sorted_wrt_map)
  show "set (instruction_order t) = set (instructions (message (transaction t))) \<union>
      \<Union> (set (map (set \<circ> ii_instructions) (filter (\<lambda>g. ii_index g < length (instructions (message (transaction t)))) (tx_inner t))))"
    unfolding instruction_order_def by (rule set_concat_enumerate)
qed

theorem instructions_in_execution_order_witness:
  "\<exists>b t. transformBlock (example_raw_block None) = Inr b \<and> t \<in> set (transactions b) \<and>
     length (instruction_order t) = 2 \<and> sorted_wrt lex_less (map index (instruction_order t))"
proof -
  have "\<exists>b. transformBlock (example_raw_block None) = Inr b"
    unfolding transformBlock_total by (simp add: example_raw_block_def example_raw_tx_def tx_parses_def logs_parse_def)
  then obtain b where b: "transformBlock (example_raw_block None) = Inr b" ..
  from transformBlock_wrapped [OF b] obtain t where t: "transactions b = [t]"
      and w: "wrapped_tx (base_block.truncate (example_raw_block None)) (example_raw_tx None) t"
    by (auto simp: example_raw_block_def list_all2_Cons1)
  then obtain m where m: "meta t = Some m" and idx: "map index (instructions (message (transaction t))) = [[0]]"
      "map (map index \<circ> ii_instructions) (innerInstructions m) = [[[0, 0]]]" "map ii_index (innerInstructions m) = [0]"
    by (auto simp: example_raw_tx_def wrapped_tx_def wrapped_all_def wrapped_meta_def option_rel_Some1 list_all2_Cons1)
  have d: "distinct (map ii_index (tx_inner t))" using m idx(3) by (simp add: tx_inner_def)
  have "length (instruction_order t) = 2"
    using m idx by (auto simp: instruction_order_def tx_inner_def map_eq_Cons_conv)
  with instructions_in_execution_order [OF b _ d] t b show ?thesis by auto
qed

text \<open>The instruction a handler receives has been decoded with the IDLs of its data source
  loaded; the decoding happens once, so preparing it again for another data source returns the
  same decoded data whatever is loaded then; and only \<open>data\<close> and \<open>return\<close> logs are decoded.\<close>

theorem prepared_data_decoded_once:
  assumes "prepareFilteredData lib readFile parseJson (InstructionItem i) ds d = (Inr x, d')" and "pendingDecode i = None"
  shows "x = InstructionItem (i\<lparr>pendingDecode := Some (decodeInstruction lib d' i)\<rparr>) \<and>
    loadIdls readFile parseJson ds d = (Inr (), d') \<and>
    (\<forall>ds2 d2 y d3. prepareFilteredData lib readFile parseJson x ds2 d2 = (Inr y, d3) \<longrightarrow> y = x) \<and>
    (\<forall>l. log_type l = LogLog \<longrightarrow> DataIDLParser lib d' (LogItem l) = LogItem l)"
proof -
  have "loadIdls readFile parseJson ds d = (Inr (), d')" "x = DataIDLParser lib d' (InstructionItem i)"
    using assms(1) by (auto simp: prepareFilteredData_def split: prod.splits sum.splits)
  with assms(2) show ?thesis
    by (auto simp: prepareFilteredData_def get_decodedData_def get_decodedMessage_def Let_def split: prod.splits sum.splits)
qed

theorem prepared_data_decoded_once_witness:
  "\<exists>x d'. prepareFilteredData example_lib (\<lambda>f. Inr ''{}'') (\<lambda>s. Inr (Some example_idl))
      (InstructionItem (example_inst ''25'' [0])) (example_ds []) new_SolanaDecoder = (Inr x, d') \<and>
     x = InstructionItem ((example_inst ''25'' [0])\<lparr>pendingDecode := Some (decodeInstruction example_lib d' (example_inst ''25'' [0]))\<rparr>)"
proof -
  let ?prep = "prepareFilteredData example_lib (\<lambda>f. Inr ''{}'') (\<lambda>s. Inr (Some example_idl))
      (InstructionItem (example_inst ''25'' [0])) (example_ds []) new_SolanaDecoder"
  obtain x d' where run: "?prep = (Inr x, d')"
    by (simp add: prepareFilteredData_def example_load)
  have "pendingDecode (example_inst ''25'' [0]) = None" by (simp add: example_inst_def)
  from prepared_data_decoded_once [OF run this] run show ?thesis by blast
qed

end
