(* ===== verification/Services.thy ===== *)
theory Services
  imports Unfinalized DecoderTheorems RpcTheorems
begin

section \<open>The services around the indexer\<close>

text \<open>
  \<open>packages/node/src/blockchain.service.ts\<close>, \<open>indexer/worker/worker.service.ts\<close>,
  and \<open>common-solana/src/codegen/codegen.ts\<close>: what the core asks of
  the chain, the worker's record of the slot a block was fetched for, the loading of IDLs when
  the project changes, and the check of discriminators at code generation.
\<close>

subsection \<open>BlockchainService\<close>

definition service_getHeaderForHeight :: "solana_api \<Rightarrow> int \<Rightarrow> header result" where
  "service_getHeaderForHeight api height = getHeaderByHeight api height"

definition service_getFinalizedHeader ::
  "((nat \<Rightarrow> header result) \<Rightarrow> header result) \<Rightarrow> solana_api \<Rightarrow> header result" where
  "service_getFinalizedHeader backoffRetry api = getFinalizedBlockHeader backoffRetry api"

definition service_getBestHeight :: "solana_api \<Rightarrow> int result" where
  "service_getBestHeight api = getBestBlockHeight api"

definition getChainInterval :: int where
  "getChainInterval = 2000"

definition getHeaderForHash :: "string \<Rightarrow> header result" where
  "getHeaderForHash hash = Inl (Error ''Solana doesnt support getting blocks by hash'')"

definition getBlockTimestamp :: "solana_api \<Rightarrow> int \<Rightarrow> int result" where
  "getBlockTimestamp api height =
     (case service_getHeaderForHeight api height of
        Inl e \<Rightarrow> Inl e
      | Inr h \<Rightarrow> Inr (timestamp h))"

text \<open>The service is the header source of the unfinalized-blocks service.\<close>

interpretation service: header_source "service_getHeaderForHeight api" for api
  by unfold_locales
    (auto simp: service_getHeaderForHeight_def dest: rpc.header_height rpc.header_parent)

text \<open>
  \<open>Promise.all\<close> over \<open>loadIdls\<close>: every load is started; the first rejection is the result.
  The loads are modelled one after another.
\<close>

fun load_all ::
  "(string \<Rightarrow> string result) \<Rightarrow> (string \<Rightarrow> idl option result) \<Rightarrow> datasource list \<Rightarrow> decoder \<Rightarrow> unit result \<times> decoder" where
  "load_all readFile parseJson [] d = (Inr (), d)"
| "load_all readFile parseJson (ds # dss) d =
     (case loadIdls readFile parseJson ds d of
        (r, d1) \<Rightarrow> (case load_all readFile parseJson dss d1 of
           (r2, d2) \<Rightarrow> (case r of Inl e \<Rightarrow> (Inl e, d2) | Inr u \<Rightarrow> (r2, d2))))"

definition onProjectChange ::
  "(string \<Rightarrow> string result) \<Rightarrow> (string \<Rightarrow> idl option result) \<Rightarrow> datasource list \<Rightarrow> datasource list \<Rightarrow> decoder
     \<Rightarrow> unit result \<times> decoder" where
  "onProjectChange readFile parseJson dataSources templates d =
     (case load_all readFile parseJson dataSources d of
        (Inl e, d1) \<Rightarrow> (Inl e, d1)
      | (Inr u, d1) \<Rightarrow> load_all readFile parseJson templates d1)"

subsection \<open>The worker\<close>

text \<open>
  \<open>blockSlots\<close> is a \<open>WeakMap\<close> keyed by the identity of the block object: \<open>w_heap\<close> holds
  the block objects in the order they were created, and a reference is a position in it.
\<close>

record worker_state =
  w_heap :: "sol_block list"
  blockSlots :: "nat \<Rightarrow> int option"

definition fetchChainBlock ::
  "(int list \<Rightarrow> iblock list result) \<Rightarrow> int \<Rightarrow> worker_state \<Rightarrow> (nat \<times> iblock) result \<times> worker_state" where
  "fetchChainBlock fetch height w =
     (case fetch [height] of
        Inl e \<Rightarrow> (Inl e, w)
      | Inr [] \<Rightarrow> (Inl (TypeError ''Cannot read properties of undefined''), w)
      | Inr (b # bs) \<Rightarrow>
          (let ref = length (w_heap w)
           in (Inr (ref, b), w\<lparr>w_heap := w_heap w @ [ib_block b], blockSlots := (blockSlots w)(ref \<mapsto> height)\<rparr>)))"

definition toBlockResponse :: "nat \<Rightarrow> worker_state \<Rightarrow> header option" where
  "toBlockResponse ref w =
     (case nth_opt (w_heap w) ref of
        None \<Rightarrow> None
      | Some block \<Rightarrow> Some (solanaBlockToHeader block (blockSlots w ref)))"

subsection \<open>Code generation\<close>

text \<open>
  The loop over the handlers of one data source: \<open>break\<close> at a handler without a filter,
  \<open>continue\<close> when the program has no asset. \<open>path.join\<close> is a parameter.
\<close>

definition no_idl_issue :: string where
  "no_idl_issue = ''Datasource has a handler with a discriminator but no IDL file reference''"

definition no_match_issue :: "string \<Rightarrow> string" where
  "no_match_issue disc =
     ''Datasource has a handler with a discriminator '' @ disc @ '' but no matching instruction found in IDL''"

fun validate_handlers ::
  "idl_lib \<Rightarrow> (string \<Rightarrow> root_node result) \<Rightarrow> (string \<Rightarrow> string) \<Rightarrow> (string \<times> string) list option \<Rightarrow> handler list
     \<Rightarrow> string list \<Rightarrow> string list result" where
  "validate_handlers lib parseFile joinPath ds_assets [] issues = Inr issues"
| "validate_handlers lib parseFile joinPath ds_assets (h # hs) issues =
     (if \<not> has_filter h then Inr issues
      else case h of
        InstructionHandler n (Some f) \<Rightarrow>
          (if truthy (discriminator f) \<and> truthy (if_programId f) then
             (case (case ds_assets of None \<Rightarrow> None | Some entries \<Rightarrow> map_of entries (the (if_programId f))) of
                None \<Rightarrow> validate_handlers lib parseFile joinPath ds_assets hs (issues @ [no_idl_issue])
              | Some path \<Rightarrow>
                  (case parseFile (joinPath path) of
                     Inl e \<Rightarrow> Inl e
                   | Inr root \<Rightarrow>
                       (case findInstructionDiscriminatorByName lib root (the (discriminator f)) of
                          Inl e \<Rightarrow> Inl e
                        | Inr None \<Rightarrow> validate_handlers lib parseFile joinPath ds_assets hs
                                        (issues @ [no_match_issue (the (discriminator f))])
                        | Inr (Some bs) \<Rightarrow> validate_handlers lib parseFile joinPath ds_assets hs issues)))
           else validate_handlers lib parseFile joinPath ds_assets hs issues)
      | _ \<Rightarrow> validate_handlers lib parseFile joinPath ds_assets hs issues)"

fun validate_datasources ::
  "idl_lib \<Rightarrow> (string \<Rightarrow> root_node result) \<Rightarrow> (string \<Rightarrow> string) \<Rightarrow> datasource list \<Rightarrow> string list \<Rightarrow> string list result" where
  "validate_datasources lib parseFile joinPath [] issues = Inr issues"
| "validate_datasources lib parseFile joinPath (ds # dss) issues =
     (case validate_handlers lib parseFile joinPath (assets ds) (handlers (ds_mapping ds)) issues of
        Inl e \<Rightarrow> Inl e
      | Inr issues' \<Rightarrow> validate_datasources lib parseFile joinPath dss issues')"

definition validateDiscriminators ::
  "idl_lib \<Rightarrow> (string \<Rightarrow> root_node result) \<Rightarrow> (string \<Rightarrow> string) \<Rightarrow> datasource list \<Rightarrow> unit result" where
  "validateDiscriminators lib parseFile joinPath dataSources =
     (case validate_datasources lib parseFile joinPath dataSources [] of
        Inl e \<Rightarrow> Inl e
      | Inr issues \<Rightarrow> (if issues = [] then Inr () else Inl (AssertionError (join_lines issues))))"

end
