(* ===== verification/ServiceTheorems.thy ===== *)
theory ServiceTheorems
  imports Services FilterTheorems
begin

section \<open>The properties of the services\<close>

text \<open>
  The worker answers with the header of the slot it fetched, the IDLs of a project are loaded
  before it runs, and a discriminator that passed code generation resolves at run time.
\<close>

subsection \<open>The worker\<close>

text \<open>Later fetches, in any number and with any outcome.\<close>

inductive worker_steps :: "worker_state \<Rightarrow> worker_state \<Rightarrow> bool" where
  refl: "worker_steps w w"
| step: "worker_steps w w1 \<Longrightarrow> fetchChainBlock fetch height w1 = (r, w2) \<Longrightarrow> worker_steps w w2"

lemma fetchChainBlock_keeps:
  assumes "fetchChainBlock fetch height w = (r, w')" and "ref < length (w_heap w)"
  shows "nth_opt (w_heap w') ref = nth_opt (w_heap w) ref \<and> blockSlots w' ref = blockSlots w ref
    \<and> length (w_heap w) \<le> length (w_heap w')"
  using assms by (auto simp: fetchChainBlock_def Let_def nth_opt_append split: sum.splits list.splits)

lemma worker_steps_keep:
  "worker_steps w w' \<Longrightarrow> ref < length (w_heap w) \<Longrightarrow>
     nth_opt (w_heap w') ref = nth_opt (w_heap w) ref \<and> blockSlots w' ref = blockSlots w ref \<and>
     length (w_heap w) \<le> length (w_heap w')"
proof (induction rule: worker_steps.induct)
  case (step w w1 fetch height r w2)
  then have "ref < length (w_heap w1)" by simp
  from fetchChainBlock_keeps [OF step.hyps(2) this] step show ?case by simp
qed simp

text \<open>C25: the response of a worker for a block it fetched is the header the fetched block
  carries, with the requested slot as its height, whatever the worker fetches in between and
  although the block alone (parent slot plus one) would name another slot.\<close>

theorem worker_response_is_fetched_header:
  assumes "fetchChainBlock (connection_fetchBlocks (Some (fetchFullBlocksBatch hostname)) api) height w = (Inr (ref, b), w1)"
    and "worker_steps w1 w2"
  shows "toBlockResponse ref w2 = Some (getHeader b) \<and> blockHeight (getHeader b) = height"
proof -
  let ?fetch = "connection_fetchBlocks (Some (fetchFullBlocksBatch hostname)) api"
  have f: "?fetch [height] = traverse (fetchBlock hostname api) [height]"
    by (simp add: connection_fetchBlocks_def fetchBlocksBatches_def fetchFullBlocksBatch_def fetchBlocks_def)
  from assms(1) have r: "ref = length (w_heap w)" and fb: "fetchBlock hostname api height = Inr b"
    and w1: "w1 = w\<lparr>w_heap := w_heap w @ [ib_block b], blockSlots := (blockSlots w)(ref \<mapsto> height)\<rparr>"
    unfolding fetchChainBlock_def f by (auto simp: Let_def split: sum.splits)
  from fb have b: "getHeader b = solanaBlockToHeader (ib_block b) (Some height)"
    by (auto simp: fetchBlock_Inr)
  from worker_steps_keep [OF assms(2), of ref] r w1
  have "nth_opt (w_heap w2) ref = Some (ib_block b)" "blockSlots w2 ref = Some height"
    by (auto simp: nth_opt_append)
  with b show ?thesis by (simp add: toBlockResponse_def)
qed

theorem worker_response_is_fetched_header_witness:
  "\<exists>b w1. fetchChainBlock (connection_fetchBlocks (Some (fetchFullBlocksBatch Inr)) (skipping_api True)) 100
       \<lparr>w_heap = [], blockSlots = (\<lambda>r. None)\<rparr> = (Inr (0, b), w1) \<and>
     toBlockResponse 0 w1 = Some (getHeader b) \<and> blockHeight (getHeader b) = 100 \<and> bb_parentSlot (ib_block b) = 98"
proof -
  let ?fetch = "connection_fetchBlocks (Some (fetchFullBlocksBatch Inr)) (skipping_api True)"
  have raw: "rpc_getBlock (api_client (skipping_api True)) 100 = Inr (Some (example_raw_block None))"
    by (simp add: skipping_api_def block_api_def)
  obtain block where block: "transformBlock (example_raw_block None) = Inr block"
    using transformBlock_total [of "example_raw_block None"]
    by (auto simp: example_raw_block_def example_raw_tx_def tx_parses_def logs_parse_def)
  from transformBlock_wrapped [OF block] have parent: "bb_parentSlot block = 98"
    by (simp add: base_block.defs example_raw_block_def)
  let ?b = "formatBlockUtil block (Some 100)"
  have "fetchBlock Inr (skipping_api True) 100 = Inr ?b" using raw block by (auto simp: fetchBlock_Inr)
  then have "?fetch [100] = Inr [?b]"
    by (simp add: connection_fetchBlocks_def fetchBlocksBatches_def fetchFullBlocksBatch_def fetchBlocks_def)
  then obtain w1 where w1: "fetchChainBlock ?fetch 100 \<lparr>w_heap = [], blockSlots = (\<lambda>r. None)\<rparr> = (Inr (0, ?b), w1)"
    by (simp add: fetchChainBlock_def)
  from worker_response_is_fetched_header [OF w1 worker_steps.refl] w1 parent show ?thesis by auto
qed

subsection \<open>Loading the IDLs of a project\<close>

lemma load_assets_present:
  "load_assets readFile parseJson entries d = (r, d') \<Longrightarrow> idls d name \<noteq> None \<Longrightarrow> idls d' name \<noteq> None"
proof (induction entries arbitrary: d)
  case (Cons entry rest)
  obtain n path where e: "entry = (n, path)" by force
  show ?case
  proof (cases "loaded d n")
    case True
    with Cons e show ?thesis by (simp add: load_assets_cons)
  next
    case False
    show ?thesis
    proof (cases "read_idl readFile parseJson path")
      case (Inr v)
      with False Cons.prems(1) e have "load_assets readFile parseJson rest (d\<lparr>idls := (idls d)(n \<mapsto> v)\<rparr>) = (r, d')"
        by (simp add: load_assets_cons)
      from Cons.IH [OF this] Cons.prems(2) show ?thesis by simp
    qed (use False Cons.prems e in \<open>simp add: load_assets_cons\<close>)
  qed
qed simp

lemma loadIdls_present:
  "loadIdls readFile parseJson ds d = (r, d') \<Longrightarrow> idls d name \<noteq> None \<Longrightarrow> idls d' name \<noteq> None"
  using load_assets_present [of readFile parseJson _ d r d' name]
  by (cases "assets ds") (auto simp: loadIdls_def)

lemma load_assets_entries:
  "load_assets readFile parseJson entries d = (Inr u, d') \<Longrightarrow>
     \<forall>name \<in> fst ` set entries. idls d' name \<noteq> None"
proof (induction entries arbitrary: d)
  case (Cons entry rest)
  obtain name path where e: "entry = (name, path)" by force
  show ?case
  proof (cases "loaded d name")
    case True
    then have rest: "load_assets readFile parseJson rest d = (Inr u, d')"
      using Cons.prems e by (simp add: load_assets_cons)
    from True load_assets_kept [OF rest] have "idls d' name \<noteq> None"
      by (auto simp: loaded_def idls_kept_def)
    with Cons.IH [OF rest] e show ?thesis by simp
  next
    case False
    with Cons.prems e obtain v where rest: "load_assets readFile parseJson rest (d\<lparr>idls := (idls d)(name \<mapsto> v)\<rparr>) = (Inr u, d')"
      by (auto simp: load_assets_cons split: sum.splits)
    have "idls d' name \<noteq> None"
      using load_assets_present [OF rest] by simp
    with Cons.IH [OF rest] e show ?thesis by simp
  qed
qed simp

lemma loadIdls_entries:
  "loadIdls readFile parseJson ds d = (Inr u, d') \<Longrightarrow> assets ds = Some entries \<Longrightarrow>
     name \<in> fst ` set entries \<Longrightarrow> idls d' name \<noteq> None"
  by (auto simp: loadIdls_def dest: load_assets_entries)

lemma load_all_result:
  "load_all readFile parseJson dss d = (r, d') \<Longrightarrow>
     decoder_reaches lib d d' \<and> (\<forall>name. idls d name \<noteq> None \<longrightarrow> idls d' name \<noteq> None) \<and>
     (\<forall>u. r = Inr u \<longrightarrow> (\<forall>ds entries. ds \<in> set dss \<longrightarrow> assets ds = Some entries \<longrightarrow>
        (\<forall>name \<in> fst ` set entries. idls d' name \<noteq> None)))"
proof (induction dss arbitrary: d r d')
  case (Cons ds dss)
  obtain r1 d1 where l: "loadIdls readFile parseJson ds d = (r1, d1)" by force
  obtain r2 d2 where rest: "load_all readFile parseJson dss d1 = (r2, d2)" by force
  from Cons.prems l rest have d2: "d' = d2" and r: "r = (case r1 of Inl e \<Rightarrow> Inl e | Inr u \<Rightarrow> r2)"
    by (auto split: sum.splits)
  note IH = Cons.IH [OF rest]
  have "decoder_step lib d d1" by (rule decoder_step.load [OF l])
  then have "decoder_reaches lib d d2"
    using IH unfolding decoder_reaches_def by (simp add: converse_rtranclp_into_rtranclp)
  moreover have p: "idls d name \<noteq> None \<Longrightarrow> idls d1 name \<noteq> None" for name
    using loadIdls_present [OF l] .
  moreover have "idls d2 name \<noteq> None"
    if "r = Inr u" "assets ds = Some entries" "name \<in> fst ` set entries" for u entries name
  proof -
    from that(1) r obtain u1 where "r1 = Inr u1" by (cases r1) auto
    from loadIdls_entries [OF l [unfolded this] that(2,3)] IH show ?thesis by simp
  qed
  ultimately show ?case using IH r by (auto simp: d2 split: sum.splits)
qed (simp add: decoder_reaches_def)

text \<open>When \<open>onProjectChange\<close> returns, every program named by the assets of a data source or
  template of the project has an entry in the decoder, entries loaded before are still there,
  and the new state is one the decoder can reach, so that the discriminator cache is coherent
  with it.\<close>

theorem onProjectChange_loads_all:
  assumes "onProjectChange readFile parseJson dataSources templates d = (Inr u, d')"
  shows "decoder_reaches lib d d' \<and> idls_kept d d' \<and>
    (\<forall>ds entries. ds \<in> set (dataSources @ templates) \<and> assets ds = Some entries \<longrightarrow>
       (\<forall>name \<in> fst ` set entries. idls d' name \<noteq> None))"
proof -
  obtain r1 d1 where l1: "load_all readFile parseJson dataSources d = (r1, d1)" by force
  with assms have r1: "r1 = Inr ()" and l2: "load_all readFile parseJson templates d1 = (Inr u, d')"
    by (auto simp: onProjectChange_def split: sum.splits)
  note 1 = load_all_result [OF l1, of lib] and 2 = load_all_result [OF l2, of lib]
  have reach: "decoder_reaches lib d d'"
    using 1 2 unfolding decoder_reaches_def by (meson rtranclp_trans)
  moreover have "idls d' name \<noteq> None"
    if "ds \<in> set (dataSources @ templates)" "assets ds = Some entries" "name \<in> fst ` set entries" for ds entries name
  proof (cases "ds \<in> set dataSources")
    case True
    with 1 r1 that have "idls d1 name \<noteq> None" by blast
    with 2 show ?thesis by simp
  next
    case False
    with that have "ds \<in> set templates" by simp
    with 2 that show ?thesis by blast
  qed
  ultimately show ?thesis using decoder_reaches_kept [OF reach] by blast
qed

theorem onProjectChange_loads_all_witness:
  "\<exists>d'. onProjectChange (\<lambda>f. Inr ''{}'') (\<lambda>s. Inr (Some example_idl)) [example_ds []] [] new_SolanaDecoder = (Inr (), d') \<and>
     idls d' ''A'' \<noteq> None"
proof -
  have run: "onProjectChange (\<lambda>f. Inr ''{}'') (\<lambda>s. Inr (Some example_idl)) [example_ds []] [] new_SolanaDecoder =
      (Inr (), example_decoder)"
    by (simp add: onProjectChange_def example_load)
  have "assets (example_ds []) = Some [(''A'', ''a.json'')]" by (simp add: example_ds_def)
  with onProjectChange_loads_all [OF run, of example_lib] run show ?thesis by auto
qed

subsection \<open>Validated discriminators\<close>

text \<open>One handler of a data source passes, with the discriminator bytes it names.\<close>

definition discriminator_found ::
  "idl_lib \<Rightarrow> (string \<Rightarrow> root_node result) \<Rightarrow> (string \<Rightarrow> string) \<Rightarrow> (string \<times> string) list option \<Rightarrow> instruction_filter \<Rightarrow> bool" where
  "discriminator_found lib parseFile joinPath ds_assets f =
     (\<exists>entries path root bs. ds_assets = Some entries \<and> map_of entries (the (if_programId f)) = Some path \<and>
        parseFile (joinPath path) = Inr root \<and>
        findInstructionDiscriminatorByName lib root (the (discriminator f)) = Inr (Some bs))"

lemma validate_handlers_step:
  assumes "has_filter h" and "validate_handlers lib parseFile joinPath ds_assets (h # hs) issues = Inr issues'"
  shows "\<exists>issues1. validate_handlers lib parseFile joinPath ds_assets hs issues1 = Inr issues' \<and> prefix issues issues1 \<and>
    (issues1 = [] \<longrightarrow> (\<forall>n f. h = InstructionHandler n (Some f) \<and> truthy (discriminator f) \<and> truthy (if_programId f) \<longrightarrow>
       discriminator_found lib parseFile joinPath ds_assets f))"
proof (cases "\<exists>n f. h = InstructionHandler n (Some f) \<and> truthy (discriminator f) \<and> truthy (if_programId f)")
  case False
  then have "validate_handlers lib parseFile joinPath ds_assets (h # hs) issues =
      validate_handlers lib parseFile joinPath ds_assets hs issues"
    using assms(1) by (auto split: handler.split option.split)
  with assms(2) False show ?thesis by auto
next
  case True
  then obtain n f where h: "h = InstructionHandler n (Some f)" and t: "truthy (discriminator f)" "truthy (if_programId f)"
    by blast
  let ?path = "case ds_assets of None \<Rightarrow> None | Some entries \<Rightarrow> map_of entries (the (if_programId f))"
  show ?thesis
  proof (cases ?path)
    case None
    with assms(2) h t have "validate_handlers lib parseFile joinPath ds_assets hs (issues @ [no_idl_issue]) = Inr issues'" by simp
    then show ?thesis by (intro exI [of _ "issues @ [no_idl_issue]"]) simp
  next
    case (Some path)
    with assms(2) h t obtain root r where root: "parseFile (joinPath path) = Inr root"
        and r: "findInstructionDiscriminatorByName lib root (the (discriminator f)) = Inr r"
      by (auto split: sum.splits)
    show ?thesis
    proof (cases r)
      case None
      with assms(2) h t Some root r have "validate_handlers lib parseFile joinPath ds_assets hs
          (issues @ [no_match_issue (the (discriminator f))]) = Inr issues'" by simp
      then show ?thesis by (intro exI [of _ "issues @ [no_match_issue (the (discriminator f))]"]) simp
    next
      case (Some bs)
      with assms(2) h t \<open>?path = Some path\<close> root r
      have "validate_handlers lib parseFile joinPath ds_assets hs issues = Inr issues'" by simp
      moreover have "discriminator_found lib parseFile joinPath ds_assets f"
        using \<open>?path = Some path\<close> root r Some by (auto simp: discriminator_found_def split: option.splits)
      ultimately show ?thesis using h by (intro exI [of _ issues]) simp
    qed
  qed
qed

lemma validate_handlers_result:
  "validate_handlers lib parseFile joinPath ds_assets hs issues = Inr issues' \<Longrightarrow>
     prefix issues issues' \<and>
     (issues' = [] \<longrightarrow> list_all has_filter hs \<longrightarrow>
        (\<forall>n f. InstructionHandler n (Some f) \<in> set hs \<and> truthy (discriminator f) \<and> truthy (if_programId f) \<longrightarrow>
           discriminator_found lib parseFile joinPath ds_assets f))"
proof (induction hs arbitrary: issues)
  case (Cons h hs)
  show ?case
  proof (cases "has_filter h")
    case True
    from validate_handlers_step [OF True Cons.prems] obtain issues1
      where rest: "validate_handlers lib parseFile joinPath ds_assets hs issues1 = Inr issues'" and p: "prefix issues issues1"
        and ok: "issues1 = [] \<longrightarrow> (\<forall>n f. h = InstructionHandler n (Some f) \<and> truthy (discriminator f) \<and> truthy (if_programId f) \<longrightarrow>
           discriminator_found lib parseFile joinPath ds_assets f)" by blast
    note IH = Cons.IH [OF rest]
    then have "prefix issues issues'" using p by (auto intro: prefix_order.trans)
    moreover have "issues' = [] \<Longrightarrow> issues1 = []" using IH by simp
    ultimately show ?thesis using IH ok by fastforce
  qed (use Cons.prems in simp)
qed simp

lemma validate_datasources_result:
  "validate_datasources lib parseFile joinPath dss issues = Inr issues' \<Longrightarrow>
     prefix issues issues' \<and>
     (issues' = [] \<longrightarrow> (\<forall>ds \<in> set dss. validate_handlers lib parseFile joinPath (assets ds) (handlers (ds_mapping ds)) [] = Inr []))"
proof (induction dss arbitrary: issues)
  case (Cons ds dss)
  then obtain issues1 where h: "validate_handlers lib parseFile joinPath (assets ds) (handlers (ds_mapping ds)) issues = Inr issues1"
    and rest: "validate_datasources lib parseFile joinPath dss issues1 = Inr issues'"
    by (auto split: sum.splits)
  note IH = Cons.IH [OF rest] and p = validate_handlers_result [OF h]
  have "prefix issues issues'" using IH p by (auto intro: prefix_order.trans)
  moreover have "issues' = [] \<Longrightarrow> issues1 = [] \<and> issues = []" using IH p by auto
  ultimately show ?case using IH h by auto
qed simp

lemma validate_passes:
  "validateDiscriminators lib parseFile joinPath dss = Inr () \<Longrightarrow> ds \<in> set dss \<Longrightarrow>
     validate_handlers lib parseFile joinPath (assets ds) (handlers (ds_mapping ds)) [] = Inr []"
  using validate_datasources_result [of lib parseFile joinPath dss "[]"]
  by (auto simp: validateDiscriminators_def split: sum.splits if_splits)

text \<open>C35: when code generation accepts a project, then in each data source whose handlers all
  have filters every instruction discriminator that comes with a program (neither empty) is the
  name of an instruction of the program's IDL whose bytes can be read; and at run time a decoder
  that has loaded that IDL for the program resolves the discriminator to the same bytes, unless
  it reads as hexadecimal. The conditions are needed: the checks of a data source end at its first
  handler without a filter (\<open>validation_stops_without_filter\<close>), and with two files for one
  program the node may load the other IDL (\<open>Loading\<close>, \<open>GenerateTheorems\<close>).\<close>

theorem validated_discriminators_resolve:
  assumes "validateDiscriminators lib parseFile joinPath dss = Inr ()" and "ds \<in> set dss"
    and "list_all has_filter (handlers (ds_mapping ds))"
    and "InstructionHandler n (Some f) \<in> set (handlers (ds_mapping ds))"
    and "discriminator f = Some disc" and "disc \<noteq> []" and "if_programId f = Some pid" and "pid \<noteq> []"
  shows "\<exists>entries path root bs. assets ds = Some entries \<and> map_of entries pid = Some path \<and>
    parseFile (joinPath path) = Inr root \<and> findInstructionDiscriminatorByName lib root disc = Inr (Some bs) \<and>
    (\<forall>d i. idls d pid = Some (Some i) \<and> parseIdl lib i = Inr root \<and> \<not> isHex lib disc \<longrightarrow>
       parseDiscriminator_body lib d (disc, Some pid) = Inr bs)"
proof -
  from validate_handlers_result [OF validate_passes [OF assms(1,2)]] assms(3-8)
  have "discriminator_found lib parseFile joinPath (assets ds) f" by auto
  then show ?thesis
    using assms(5,7) by (fastforce simp: discriminator_found_def parseDiscriminator_body_def lookup_idl_def)
qed

definition disc_handler :: "string \<Rightarrow> handler" where
  "disc_handler disc =
     InstructionHandler ''h'' (Some \<lparr>if_programId = Some ''A'', discriminator = Some disc, if_accounts = None, includeFailed = None\<rparr>)"

lemma example_find_route: "findInstructionDiscriminatorByName example_lib (idl_root example_idl) ''route'' = Inr (Some [64])"
  by (simp add: findInstructionDiscriminatorByName_def example_idl_parse example_program_def getInstructionDiscriminatorBytes_def)

theorem validated_discriminators_resolve_witness:
  "\<exists>bs. findInstructionDiscriminatorByName example_lib (idl_root example_idl) ''route'' = Inr (Some bs) \<and>
     parseDiscriminator_body example_lib example_decoder (''route'', Some ''A'') = Inr bs"
proof -
  let ?ds = "example_ds [disc_handler ''route'']"
  let ?parse = "\<lambda>p. Inr (idl_root example_idl)"
  have ok: "validateDiscriminators example_lib ?parse (\<lambda>p. p) [?ds] = Inr ()"
    by (simp add: validateDiscriminators_def example_ds_def disc_handler_def example_find_route)
  have "idls example_decoder ''A'' = Some (Some example_idl)" by (simp add: example_decoder_def)
  with validated_discriminators_resolve [OF ok, of ?ds "''h''" _ "''route''" "''A''"] example_idl_parse(1) example_isHex
  show ?thesis by (fastforce simp: example_ds_def disc_handler_def)
qed

text \<open>The validation of a data source ends at its first handler without a filter: the handlers
  after it are accepted whatever their discriminators are.\<close>

theorem validation_stops_without_filter:
  assumes "handlers (ds_mapping ds) = h # rest" and "\<not> has_filter h"
  shows "validateDiscriminators lib parseFile joinPath [ds] = Inr ()"
  using assms by (simp add: validateDiscriminators_def)

theorem validation_stops_without_filter_witness:
  "validateDiscriminators example_lib (\<lambda>p. Inr (idl_root example_idl)) (\<lambda>p. p)
     [example_ds [LogHandler ''l'' None, disc_handler ''absent'']] = Inr ()"
  by (rule validation_stops_without_filter [where h = "LogHandler ''l'' None"]) (simp_all add: example_ds_def)

text \<open>A discriminator written in hexadecimal resolves at run time without any IDL, but code
  generation rejects it, unless an instruction of the IDL happens to have that name.\<close>

theorem hex_discriminator_rejected:
  assumes "isHex lib disc" and "disc \<noteq> []"
    and "handlers (ds_mapping ds) = [InstructionHandler n (Some f)]"
    and "discriminator f = Some disc" and "if_programId f = Some pid" and "pid \<noteq> []"
    and "assets ds = Some entries" and "map_of entries pid = Some path" and "parseFile (joinPath path) = Inr root"
    and "findInstructionDiscriminatorByName lib root disc = Inr None"
  shows "parseDiscriminator_body lib d (disc, Some pid) = Inr (hex_decode (remove_first ''0x'' disc)) \<and>
    validateDiscriminators lib parseFile joinPath [ds] = Inl (AssertionError (no_match_issue disc))"
  using assms by (simp add: parseDiscriminator_body_def validateDiscriminators_def)

theorem hex_discriminator_rejected_witness:
  "parseDiscriminator_body example_lib new_SolanaDecoder (''40'', Some ''A'') = Inr [64] \<and>
   validateDiscriminators example_lib (\<lambda>p. Inr (idl_root example_idl)) (\<lambda>p. p) [example_ds [disc_handler ''40'']] =
     Inl (AssertionError (no_match_issue ''40''))"
proof -
  have hex: "isHex example_lib ''40''" by (simp add: example_lib_def hex_value_def hex_alphabet_def)
  have "findInstructionDiscriminatorByName example_lib (idl_root example_idl) ''40'' = Inr None"
    by (simp add: findInstructionDiscriminatorByName_def example_idl_parse example_program_def)
  with hex_discriminator_rejected [OF hex, of "example_ds [disc_handler ''40'']" "''h''" _ "''A''" "[(''A'', ''a.json'')]" "''a.json''"
      "\<lambda>p. Inr (idl_root example_idl)" "\<lambda>p. p" "idl_root example_idl" new_SolanaDecoder]
  have "parseDiscriminator_body example_lib new_SolanaDecoder (''40'', Some ''A'') = Inr (hex_decode (remove_first ''0x'' ''40'')) \<and>
    validateDiscriminators example_lib (\<lambda>p. Inr (idl_root example_idl)) (\<lambda>p. p) [example_ds [disc_handler ''40'']] =
     Inl (AssertionError (no_match_issue ''40''))"
    by (simp add: example_ds_def disc_handler_def del: hex_decode.simps)
  moreover have "hex_decode (remove_first ''0x'' ''40'') = [64]"
    using hex.decode_encode [of "[64]"] by (simp add: hex_alphabet_def del: hex_decode.simps)
  ultimately show ?thesis by simp
qed

end
