(* ===== verification/Manifest.thy ===== *)
theory Manifest
  imports Project
begin

section \<open>The project manifest and dynamic data sources\<close>

text \<open>
  \<open>packages/common-solana/src/project/models.ts\<close>, \<open>versioned/v1_0_0/model.ts\<close>,
  \<open>ProjectManifestVersioned.ts\<close>, and \<open>updateDynamicDs\<close> of \<open>blockchain.service.ts\<close>. The
  decorated classes are tables: each property with its decorators and the class given by
  \<open>@Type\<close>. The libraries that read the decorators, class-validator and class-transformer, are
  parameters; \<open>has_unknown\<close> says where an object has a property that the tables do not have,
  which \<open>forbidNonWhitelisted\<close> is documented to reject.
\<close>

subsection \<open>Classes and decorators\<close>

datatype model_class =
    C_TransactionFilter | C_InstructionFilter | C_LogFilter
  | C_BlockHandler | C_TransactionHandler | C_InstructionHandler | C_LogHandler | C_CustomHandler
  | C_SolanaMapping | C_CustomMapping | C_FileReference
  | C_RuntimeDataSource | C_CustomDataSource | C_RuntimeTemplate | C_CustomTemplate
  | C_RunnerNode | C_RunnerSpecs | C_NetworkDeployment | C_EndpointConfig
  | C_Network | C_Deployment | C_Manifest

text \<open>
  \<open>IsEnum vs g\<close> has the values of the enum and the group; \<open>ValidateIfSet p\<close> is \<open>@ValidateIf((o) => o.p !== undefined)\<close>; \<open>TypeOf\<close> is \<open>@Type\<close> with a
  class of the repository, \<open>TypeOther\<close> one with a class of \<open>@subql/common\<close>, \<open>TypeByKind c r\<close>
  one whose discriminator \<open>kind\<close> selects \<open>r\<close> for \<open>solana/Runtime\<close> and \<open>c\<close> otherwise;
  \<open>HandlersByKind\<close> is the \<open>@Transform\<close> of \<open>SolanaMapping\<close>, \<open>NetworkFromGenesisHash\<close> that of
  \<open>DeploymentV1_0_0.network\<close> (\<open>deployment_network\<close> below).
\<close>

datatype decorator =
    IsOptional | IsString | IsArray | IsBoolean | IsObject | IsPositive | IsNotEmpty | Trim
  | IsDefined string | IsIn string | IsEnum "string set" string | ValidateIfSet string
  | ValidateNested | ValidateNestedEach | TypeOf model_class | TypeOther string
  | TypeByKind model_class model_class | HandlersByKind | NetworkFromGenesisHash | Equals string | IsNetworkEndpoint model_class

type_synonym class_table = "(string \<times> decorator list) list"

definition SOLANA_NODE_NAME :: string where
  "SOLANA_NODE_NAME = ''@subql/node-solana''"

text \<open>The classes of \<open>versioned/v1_0_0/model.ts\<close>, then those of \<open>models.ts\<close>, its
  mappings and data sources before its filters and handlers.\<close>

fun v1_properties :: "model_class \<Rightarrow> class_table" where
  "v1_properties C_RuntimeTemplate = [(''name'', [IsString])]"
| "v1_properties C_CustomTemplate = [(''name'', [IsString])]"
| "v1_properties C_RunnerNode = [(''name'', [IsIn SOLANA_NODE_NAME])]"
| "v1_properties C_RunnerSpecs =
     [(''node'', [IsObject, ValidateNested, TypeOf C_RunnerNode]),
      (''query'', [IsObject, ValidateNested, TypeOther ''RunnerQueryBaseModel''])]"
| "v1_properties C_NetworkDeployment =
     [(''chainId'', [IsNotEmpty, Trim, IsString]), (''bypassBlocks'', [IsOptional, IsArray])]"
| "v1_properties C_EndpointConfig = [(''batchSize'', [IsOptional, IsPositive])]"
| "v1_properties C_Network = [(''endpoint'', [IsOptional, IsNetworkEndpoint C_EndpointConfig])]"
| "v1_properties C_Deployment =
     [(''network'', [NetworkFromGenesisHash, ValidateNested, TypeOf C_NetworkDeployment]),
      (''runner'', [IsObject, ValidateNested, TypeOf C_RunnerSpecs]),
      (''dataSources'', [IsArray, ValidateNested, TypeByKind C_CustomDataSource C_RuntimeDataSource]),
      (''templates'', [IsOptional, IsArray, ValidateNested, TypeByKind C_CustomTemplate C_RuntimeTemplate])]"
| "v1_properties C_Manifest =
     [(''specVersion'', [Equals ''1.0.0'']),
      (''dataSources'', [TypeByKind C_CustomDataSource C_RuntimeDataSource]),
      (''network'', [TypeOf C_Network]),
      (''name'', [IsString]), (''version'', [IsString]),
      (''schema'', [ValidateNested, TypeOther ''FileType'']),
      (''templates'', [IsOptional, IsArray, ValidateNested, TypeByKind C_CustomTemplate C_RuntimeTemplate]),
      (''runner'', [IsObject, ValidateNested, TypeOf C_RunnerSpecs]),
      (''parent'', [IsOptional, IsObject, TypeOther ''ParentProjectModel''])]"
| "v1_properties c = []"

fun datasource_properties :: "model_class \<Rightarrow> class_table" where
  "datasource_properties C_SolanaMapping =
     [(''handlers'', [HandlersByKind, IsArray, ValidateNested]), (''file'', [IsString])]"
| "datasource_properties C_CustomMapping =
     [(''handlers'', [IsArray, TypeOf C_CustomHandler, ValidateNested]), (''file'', [IsString])]"
| "datasource_properties C_FileReference = [(''file'', [IsString])]"
| "datasource_properties C_RuntimeDataSource =
     [(''kind'', [IsEnum {SolanaDatasourceKind_Runtime} SolanaDatasourceKind_Runtime]),
      (''mapping'', [TypeOf C_SolanaMapping, ValidateNested]),
      (''assets'', [TypeOf C_FileReference, ValidateNestedEach, IsOptional])]"
| "datasource_properties C_CustomDataSource =
     [(''kind'', [IsString]),
      (''mapping'', [TypeOf C_CustomMapping, ValidateNested]),
      (''assets'', [TypeOf C_FileReference, ValidateNestedEach]),
      (''processor'', [TypeOf C_FileReference, IsObject])]"
| "datasource_properties c = v1_properties c"

fun own_properties :: "model_class \<Rightarrow> class_table" where
  "own_properties C_TransactionFilter = [(''signerAccountKey'', [IsOptional, IsString])]"
| "own_properties C_InstructionFilter =
     [(''programId'', [ValidateIfSet ''discriminator'', IsDefined ''programId is required if discriminator is set'', IsString]),
      (''discriminator'', [IsOptional, IsString]),
      (''accounts'', [IsOptional, IsArray]),
      (''includeFalied'', [IsOptional, IsBoolean])]"
| "own_properties C_LogFilter = [(''programId'', [IsOptional, IsString])]"
| "own_properties C_BlockHandler =
     [(''filter'', [IsObject, IsOptional, TypeOther ''BlockFilter'']),
      (''kind'', [IsEnum (range kind_string) (kind_string Block)]), (''handler'', [IsString])]"
| "own_properties C_TransactionHandler =
     [(''filter'', [IsOptional, ValidateNested, TypeOf C_TransactionFilter]),
      (''kind'', [IsEnum (range kind_string) (kind_string Transaction)]), (''handler'', [IsString])]"
| "own_properties C_InstructionHandler =
     [(''filter'', [IsOptional, ValidateNested, TypeOf C_InstructionFilter]),
      (''kind'', [IsEnum (range kind_string) (kind_string Instruction)]), (''handler'', [IsString])]"
| "own_properties C_LogHandler =
     [(''filter'', [IsOptional, ValidateNested, TypeOf C_LogFilter]),
      (''kind'', [IsEnum (range kind_string) (kind_string Log)]), (''handler'', [IsString])]"
| "own_properties C_CustomHandler =
     [(''kind'', [IsString]), (''handler'', [IsString]), (''filter'', [IsObject, IsOptional])]"
| "own_properties c = datasource_properties c"

text \<open>A template extends its data source.\<close>

definition class_properties :: "model_class \<Rightarrow> class_table" where
  "class_properties c =
     (if c = C_RuntimeTemplate then own_properties C_RuntimeDataSource @ own_properties c
      else if c = C_CustomTemplate then own_properties C_CustomDataSource @ own_properties c
      else own_properties c)"

text \<open>
  The switch of the \<open>@Transform\<close> on \<open>handlers\<close>, and the class a discriminator selects.
\<close>

definition handler_class :: "string \<Rightarrow> model_class result" where
  "handler_class kind =
     (if kind = kind_string Log then Inr C_LogHandler
      else if kind = kind_string Instruction then Inr C_InstructionHandler
      else if kind = kind_string Transaction then Inr C_TransactionHandler
      else if kind = kind_string Block then Inr C_BlockHandler
      else Inl (Error (''handler '' @ kind @ '' not supported'')))"

text \<open>The \<open>@Transform\<close> itself: it throws at the first handler whose kind is not one of the four.\<close>

definition handler_kind :: "js_value \<Rightarrow> js_value option result" where
  "handler_kind v =
     (case v of
        JNull \<Rightarrow> Inl (TypeError ''Cannot read properties of null (reading 'kind')'')
      | JObj fs \<Rightarrow> Inr (map_of fs ''kind'')
      | _ \<Rightarrow> Inr None)"

text \<open>The string of a value in a template literal.\<close>

fun js_string :: "js_value \<Rightarrow> string" where
  "js_string (JStr s) = s"
| "js_string (JBig i) = show_int i"
| "js_string (JArr vs) = join_comma (map (\<lambda>v. if v = JNull then [] else js_string v) vs)"
| "js_string (JObj fs) = ''[object Object]''"
| "js_string v = json_text v"

definition transform_handler :: "js_value \<Rightarrow> model_class result" where
  "transform_handler v =
     (case handler_kind v of
        Inl e \<Rightarrow> Inl e
      | Inr None \<Rightarrow> handler_class ''undefined''
      | Inr (Some (JStr kind)) \<Rightarrow> handler_class kind
      | Inr (Some w) \<Rightarrow> Inl (Error (''handler '' @ js_string w @ '' not supported'')))"

definition transform_handlers :: "js_value list \<Rightarrow> model_class list result" where
  "transform_handlers hs = traverse transform_handler hs"

definition kind_class :: "model_class \<Rightarrow> model_class \<Rightarrow> string \<Rightarrow> model_class" where
  "kind_class c r kind = (if kind = ''solana/Runtime'' then r else c)"

subsection \<open>Validation\<close>

text \<open>
  \<open>base\<close> gives the properties a class inherits from \<open>@subql/common\<close>. \<open>nested_objects\<close> lists the
  objects that validating an object leads to, each with its class: the object at a property with
  \<open>ValidateNested\<close>, the objects of an array there, and the entries of a map at one with
  \<open>ValidateNestedEach\<close>. An unknown property is one of the object itself or of a nested one.
\<close>

definition known_property :: "(model_class \<Rightarrow> string list) \<Rightarrow> model_class \<Rightarrow> string \<Rightarrow> bool" where
  "known_property base c k = (k \<in> fst ` set (class_properties c) \<or> k \<in> set (base c))"

definition object_kind :: "js_fields \<Rightarrow> string" where
  "object_kind fs = (case map_of fs ''kind'' of Some (JStr kind) \<Rightarrow> kind | _ \<Rightarrow> [])"

text \<open>The class that \<open>@Type\<close> or the \<open>@Transform\<close> of the mapping gives an object.\<close>

fun decorated_class :: "js_fields \<Rightarrow> decorator \<Rightarrow> model_class option" where
  "decorated_class fs (TypeOf c) = Some c"
| "decorated_class fs (TypeByKind c r) = Some (kind_class c r (object_kind fs))"
| "decorated_class fs HandlersByKind = (case handler_class (object_kind fs) of Inl e \<Rightarrow> None | Inr c \<Rightarrow> Some c)"
| "decorated_class fs d = None"

definition nested_values :: "decorator list \<Rightarrow> js_value \<Rightarrow> js_value list" where
  "nested_values ds v =
     (if ValidateNested \<in> set ds then (case v of JArr vs \<Rightarrow> vs | _ \<Rightarrow> [v])
      else if ValidateNestedEach \<in> set ds then (case v of JObj entries \<Rightarrow> map snd entries | JArr vs \<Rightarrow> vs | _ \<Rightarrow> [])
      else [])"

fun classify :: "decorator list \<Rightarrow> js_value \<Rightarrow> (model_class \<times> js_fields) list" where
  "classify ds (JObj fs) = (case List.map_filter (decorated_class fs) ds of [] \<Rightarrow> [] | c # cs \<Rightarrow> [(c, fs)])"
| "classify ds v = []"

definition nested_objects :: "model_class \<Rightarrow> js_fields \<Rightarrow> (model_class \<times> js_fields) list" where
  "nested_objects c fs =
     concat (map (\<lambda>(k, v). case map_of (class_properties c) k of
                     None \<Rightarrow> []
                   | Some ds \<Rightarrow> concat (map (classify ds) (nested_values ds v))) fs)"

inductive has_unknown :: "(model_class \<Rightarrow> string list) \<Rightarrow> model_class \<Rightarrow> js_fields \<Rightarrow> bool" for base where
  here: "(k, v) \<in> set fs \<Longrightarrow> \<not> known_property base c k \<Longrightarrow> has_unknown base c fs"
| nested: "(c', fs') \<in> set (nested_objects c fs) \<Longrightarrow> has_unknown base c' fs' \<Longrightarrow> has_unknown base c fs"

lemma nested_objectsI:
  assumes "(k, v) \<in> set fs" and "map_of (class_properties c) k = Some ds" and "JObj fs' \<in> set (nested_values ds v)"
    and "List.map_filter (decorated_class fs') ds = c' # cs"
  shows "(c', fs') \<in> set (nested_objects c fs)"
proof -
  have "(c', fs') \<in> set (classify ds (JObj fs'))" using assms(4) by simp
  with assms(1-3) show ?thesis by (force simp: nested_objects_def)
qed

text \<open>\<open>validateSync\<close> with its options and the class of the object returns the messages of its errors.\<close>

record validator_options =
  whitelist :: bool
  forbidNonWhitelisted :: bool

type_synonym validator = "validator_options \<Rightarrow> model_class \<Rightarrow> js_value \<Rightarrow> string list"

definition validateObject :: "validator \<Rightarrow> model_class \<Rightarrow> js_value \<Rightarrow> string \<Rightarrow> unit result" where
  "validateObject validateSync c v errorMessage =
     (let errors = validateSync \<lparr>whitelist = True, forbidNonWhitelisted = True\<rparr> c v
      in if errors \<noteq> [] then Inl (Error (errorMessage @ CHR 0x0A # join_lines errors)) else Inr ())"

definition runtime_datasource_validate :: "validator \<Rightarrow> js_value \<Rightarrow> unit result" where
  "runtime_datasource_validate validateSync v =
     validateObject validateSync C_RuntimeDataSource v ''failed to validate runtime datasource.''"

definition custom_datasource_validate :: "validator \<Rightarrow> js_value \<Rightarrow> unit result" where
  "custom_datasource_validate validateSync v =
     validateObject validateSync C_CustomDataSource v ''failed to validate custom datasource.''"

subsection \<open>Objects\<close>

text \<open>\<open>@Transform\<close> of \<open>DeploymentV1_0_0.network\<close>: the genesis hash stands in for a missing chain id.\<close>

definition deployment_network :: "js_fields \<Rightarrow> js_fields" where
  "deployment_network value =
     (case map_of value ''genesisHash'' of
        None \<Rightarrow> value
      | Some hash \<Rightarrow>
          (if value_truthy (Some hash) \<and> \<not> value_truthy (map_of value ''chainId'')
           then set_entry ''chainId'' hash value else value))"

subsection \<open>Versions\<close>

text \<open>The class that the constructor of \<open>ProjectManifestV1_0_0Impl\<close> hands to its base class, for the deployment.\<close>

definition deployment_class :: "model_class \<Rightarrow> model_class option" where
  "deployment_class c = (if c = C_Manifest then Some C_Deployment else None)"

definition SOLANA_SUPPORTED_VERSIONS :: "string list" where
  "SOLANA_SUPPORTED_VERSIONS = [''1.0.0'']"

text \<open>
  The implementation object of a version, made by \<open>plainToClass\<close> of class-transformer; the base
  class of \<open>@subql/common\<close> gives it the deployment and its own validation.
  \<open>SolanaProjectManifestVersioned\<close> wraps it and passes its properties on.
\<close>

record manifest_impl =
  im_specVersion :: string
  im_dataSources :: "datasource list"
  im_schema_file :: string
  im_description :: "string option"
  im_repository :: "string option"
  im_deployment_yaml :: "string result"
  im_validation :: "unit result"

record manifest =
  asImpl :: manifest_impl

definition new_manifest :: "(string \<Rightarrow> js_value \<Rightarrow> manifest_impl result) \<Rightarrow> string \<Rightarrow> js_value \<Rightarrow> manifest result" where
  "new_manifest plainToClass specVersion projectManifest =
     (if specVersion \<notin> set SOLANA_SUPPORTED_VERSIONS
      then Inl (Error ''specVersion not supported for project manifest file'')
      else case plainToClass specVersion projectManifest of
        Inl e \<Rightarrow> Inl e
      | Inr i \<Rightarrow> Inr \<lparr>asImpl = i\<rparr>)"

definition manifest_specVersion :: "manifest \<Rightarrow> string" where
  "manifest_specVersion m = im_specVersion (asImpl m)"

definition manifest_dataSources :: "manifest \<Rightarrow> datasource list" where
  "manifest_dataSources m = im_dataSources (asImpl m)"

definition manifest_schema :: "manifest \<Rightarrow> string" where
  "manifest_schema m = im_schema_file (asImpl m)"

definition manifest_description :: "manifest \<Rightarrow> string option" where
  "manifest_description m = im_description (asImpl m)"

definition manifest_repository :: "manifest \<Rightarrow> string option" where
  "manifest_repository m = im_repository (asImpl m)"

definition isV1_0_0 :: "manifest \<Rightarrow> bool" where
  "isV1_0_0 m = (manifest_specVersion m = ''1.0.0'')"

definition asV1_0_0 :: "manifest \<Rightarrow> manifest_impl" where
  "asV1_0_0 m = asImpl m"

definition toDeployment :: "manifest \<Rightarrow> string result" where
  "toDeployment m = im_deployment_yaml (asImpl m)"

definition manifest_validate :: "manifest \<Rightarrow> unit result" where
  "manifest_validate m = im_validation (asImpl m)"

definition manifestIsV1_0_0 :: "string \<Rightarrow> bool" where
  "manifestIsV1_0_0 specVersion = (specVersion = ''1.0.0'')"

definition parseSolanaProjectManifest ::
  "(string \<Rightarrow> js_value \<Rightarrow> manifest_impl result) \<Rightarrow> string \<Rightarrow> js_value \<Rightarrow> manifest result" where
  "parseSolanaProjectManifest plainToClass specVersion raw =
     (case new_manifest plainToClass specVersion raw of
        Inl e \<Rightarrow> Inl e
      | Inr projectManifest \<Rightarrow>
          (case manifest_validate projectManifest of
             Inl e \<Rightarrow> Inl e
           | Inr u \<Rightarrow> Inr projectManifest))"

subsection \<open>The project\<close>

text \<open>
  \<open>createSubQueryProject\<close> of \<open>packages/node/src/configure/SubqueryProject.ts\<close>: what it hands to
  \<open>BaseSubqueryProject.create\<close> of node-core, a parameter.
\<close>

record ('reader, 'overrides) project_options =
  parseManifest :: "string \<Rightarrow> js_value \<Rightarrow> manifest_impl result"
  po_path :: string
  rawManifest :: js_value
  po_reader :: 'reader
  po_root :: string
  nodeSemver :: string
  po_blockHandlerKind :: string
  networkOverrides :: "'overrides option"
  po_isRuntimeDs :: "datasource \<Rightarrow> bool"
  po_isCustomDs :: "datasource \<Rightarrow> bool"

definition parse_as_V1_0_0 ::
  "(string \<Rightarrow> js_value \<Rightarrow> manifest_impl result) \<Rightarrow> string \<Rightarrow> js_value \<Rightarrow> manifest_impl result" where
  "parse_as_V1_0_0 plainToClass specVersion raw =
     (case parseSolanaProjectManifest plainToClass specVersion raw of Inl e \<Rightarrow> Inl e | Inr m \<Rightarrow> Inr (asV1_0_0 m))"

definition createSubQueryProject ::
  "(string \<Rightarrow> js_value \<Rightarrow> manifest_impl result) \<Rightarrow> string \<Rightarrow> (('reader, 'overrides) project_options \<Rightarrow> 'p result) \<Rightarrow>
   string \<Rightarrow> js_value \<Rightarrow> 'reader \<Rightarrow> string \<Rightarrow> 'overrides option \<Rightarrow> 'p result" where
  "createSubQueryProject plainToClass packageVersion base_create path raw rd rt overrides =
     base_create
       \<lparr>parseManifest = parse_as_V1_0_0 plainToClass, po_path = path, rawManifest = raw, po_reader = rd, po_root = rt,
        nodeSemver = packageVersion, po_blockHandlerKind = kind_string Block, networkOverrides = overrides,
        po_isRuntimeDs = isRuntimeDs, po_isCustomDs = isCustomDs\<rparr>"

text \<open>
  \<open>ConfigureModule.getInstance\<close> of \<open>configure/configure.module.ts\<close>: \<open>registerApp\<close> of node-core is
  given the arguments of the command line, the constructor of the project, the help text and
  the package file.
\<close>

definition getInstance ::
  "('argv \<Rightarrow> (string \<Rightarrow> js_value \<Rightarrow> 'reader \<Rightarrow> string \<Rightarrow> 'overrides option \<Rightarrow> 'p result) \<Rightarrow> 'help \<Rightarrow> js_value \<Rightarrow> ('config \<times> 'p) result) \<Rightarrow>
   (string \<Rightarrow> js_value \<Rightarrow> manifest_impl result) \<Rightarrow> (('reader, 'overrides) project_options \<Rightarrow> 'p result) \<Rightarrow> string \<Rightarrow>
   'argv \<Rightarrow> 'help \<Rightarrow> js_value \<Rightarrow> ('config \<times> 'p) result" where
  "getInstance registerApp plainToClass base_create packageVersion argv showHelp pjson =
     registerApp argv (createSubQueryProject plainToClass packageVersion base_create) showHelp pjson"

subsection \<open>Dynamic data sources\<close>

text \<open>The data source of a template with the filters as plain objects.\<close>

record raw_handler =
  rh_kind :: string
  rh_handler :: string
  rh_filter :: "js_fields option"

record dynamic_ds =
  dy_kind :: string
  dy_handlers :: "raw_handler list"
  dy_file :: string
  dy_processor :: "processor option"

definition merge_filter :: "js_fields option \<Rightarrow> raw_handler \<Rightarrow> raw_handler" where
  "merge_filter args h =
     h\<lparr>rh_filter := Some (set_entries (case rh_filter h of None \<Rightarrow> [] | Some f \<Rightarrow> f)
                               (case args of None \<Rightarrow> [] | Some a \<Rightarrow> a))\<rparr>"

text \<open>
  \<open>updateDynamicDs\<close> changes the object it is given before it validates a copy of it;
  \<open>plainToClass\<close> throws on a handler kind it does not know. \<open>validateDs\<close> is \<open>validateSync\<close>
  on the copy with \<open>forbidNonWhitelisted\<close> off.
\<close>

definition updateDynamicDs ::
  "(dynamic_ds \<Rightarrow> string list) \<Rightarrow> js_fields option \<Rightarrow> dynamic_ds \<Rightarrow> unit result \<times> dynamic_ds" where
  "updateDynamicDs validateDs args ds =
     (if dy_kind ds \<noteq> SolanaDatasourceKind_Runtime \<and> dy_processor ds \<noteq> None then
        (Inr (), ds\<lparr>dy_processor := map_option (\<lambda>p. p\<lparr>processor_options :=
            set_entries (processor_options p) (case args of None \<Rightarrow> [] | Some a \<Rightarrow> a)\<rparr>) (dy_processor ds)\<rparr>)
      else if dy_kind ds = SolanaDatasourceKind_Runtime then
        (let ds' = ds\<lparr>dy_handlers := map (merge_filter args) (dy_handlers ds)\<rparr>
         in case traverse (\<lambda>h. handler_class (rh_kind h)) (dy_handlers ds') of
              Inl e \<Rightarrow> (Inl e, ds')
            | Inr cs \<Rightarrow>
                (if validateDs ds' \<noteq> []
                 then (Inl (Error (''Dynamic ds is invalid'' @ CHR 0x0A # join_lines (validateDs ds'))), ds')
                 else (Inr (), ds')))
      else (Inr (), ds))"

end
