(* ===== verification/ManifestTheorems.thy ===== *)
theory ManifestTheorems
  imports Manifest
begin

section \<open>The properties of the manifest and of dynamic data sources\<close>

text \<open>
  What the tables of properties allow, given that the validator rejects unknown properties as
  documented, and what creating a dynamic data source does to its template.
\<close>

lemma handler_class_cases:
  "handler_class (kind_string Block) = Inr C_BlockHandler"
  "handler_class (kind_string Transaction) = Inr C_TransactionHandler"
  "handler_class (kind_string Instruction) = Inr C_InstructionHandler"
  "handler_class (kind_string Log) = Inr C_LogHandler"
  by (simp_all add: handler_class_def)

lemma handler_class_total: "(\<exists>c. handler_class k = Inr c) \<longleftrightarrow> (\<exists>kind. k = kind_string kind)"
proof
  assume "\<exists>c. handler_class k = Inr c"
  then show "\<exists>kind. k = kind_string kind"
    unfolding handler_class_def by (auto split: if_splits intro: exI [of _ Log] exI [of _ Instruction] exI [of _ Transaction] exI [of _ Block])
next
  assume "\<exists>kind. k = kind_string kind"
  then obtain kind where "k = kind_string kind" ..
  then show "\<exists>c. handler_class k = Inr c" using handler_class_cases by (cases kind) blast+
qed

text \<open>The objects nested in those of a manifest.\<close>

lemma mapping_nested: "(''mapping'', JObj m) \<in> set ds \<Longrightarrow> (C_SolanaMapping, m) \<in> set (nested_objects C_RuntimeDataSource ds)"
  by (erule nested_objectsI [where ds = "[TypeOf C_SolanaMapping, ValidateNested]"]) (simp_all add: class_properties_def nested_values_def)

lemma handler_nested:
  "(''handlers'', JArr hs) \<in> set m \<Longrightarrow> JObj h \<in> set hs \<Longrightarrow> handler_class (object_kind h) = Inr c \<Longrightarrow>
     (c, h) \<in> set (nested_objects C_SolanaMapping m)"
  by (erule nested_objectsI [where ds = "[HandlersByKind, IsArray, ValidateNested]"]) (simp_all add: class_properties_def nested_values_def)

lemma filter_nested:
  assumes "(''filter'', JObj f) \<in> set h"
  shows "(C_InstructionFilter, f) \<in> set (nested_objects C_InstructionHandler h)"
    and "(C_TransactionFilter, f) \<in> set (nested_objects C_TransactionHandler h)"
    and "(C_LogFilter, f) \<in> set (nested_objects C_LogHandler h)"
  using nested_objectsI [OF assms, of C_InstructionHandler "[IsOptional, ValidateNested, TypeOf C_InstructionFilter]" f]
    nested_objectsI [OF assms, of C_TransactionHandler "[IsOptional, ValidateNested, TypeOf C_TransactionFilter]" f]
    nested_objectsI [OF assms, of C_LogHandler "[IsOptional, ValidateNested, TypeOf C_LogFilter]" f]
  by (simp_all add: class_properties_def nested_values_def)

lemma asset_nested:
  "(''assets'', JObj es) \<in> set ds \<Longrightarrow> (name, JObj e) \<in> set es \<Longrightarrow>
     (C_FileReference, e) \<in> set (nested_objects C_RuntimeDataSource ds)"
  by (erule nested_objectsI [where ds = "[TypeOf C_FileReference, ValidateNestedEach, IsOptional]"]) (force simp: class_properties_def nested_values_def)+

lemma data_source_nested:
  "(''dataSources'', JArr dss) \<in> set dep \<Longrightarrow> JObj ds \<in> set dss \<Longrightarrow> map_of ds ''kind'' = Some (JStr ''solana/Runtime'') \<Longrightarrow>
     (C_RuntimeDataSource, ds) \<in> set (nested_objects C_Deployment dep)"
  by (erule nested_objectsI [where ds = "[IsArray, ValidateNested, TypeByKind C_CustomDataSource C_RuntimeDataSource]"])
    (simp_all add: class_properties_def nested_values_def object_kind_def kind_class_def)

lemma includeFailed_unknown:
  assumes "''includeFailed'' \<notin> set (base C_InstructionFilter)"
    and "(''mapping'', JObj m) \<in> set ds" and "(''handlers'', JArr hs) \<in> set m" and "JObj h \<in> set hs"
    and "map_of h ''kind'' = Some (JStr (kind_string Instruction))" and "(''filter'', JObj f) \<in> set h"
    and "(''includeFailed'', v) \<in> set f"
  shows "has_unknown base C_RuntimeDataSource ds"
proof -
  have "\<not> known_property base C_InstructionFilter ''includeFailed''"
    using assms(1) by (simp add: known_property_def class_properties_def)
  then have "has_unknown base C_InstructionFilter f"
    by (rule has_unknown.here [OF assms(7)])
  then have "has_unknown base C_InstructionHandler h"
    by (rule has_unknown.nested [OF filter_nested(1) [OF assms(6)]])
  moreover have "handler_class (object_kind h) = Inr C_InstructionHandler"
    using assms(5) handler_class_cases(3) by (simp add: object_kind_def)
  ultimately have "has_unknown base C_SolanaMapping m"
    using has_unknown.nested [OF handler_nested [OF assms(3,4)]] by blast
  then show ?thesis by (rule has_unknown.nested [OF mapping_nested [OF assms(2)]])
qed

text \<open>
  The timeout of an endpoint, documented in \<open>ISolanaEndpointConfig\<close>, is not a property of the
  class that endpoints are validated with, which has \<open>batchSize\<close> instead.
\<close>

lemma requestTimeout_unknown:
  "''requestTimeout'' \<notin> set (base C_EndpointConfig) \<Longrightarrow> (''requestTimeout'', v) \<in> set config \<Longrightarrow>
     has_unknown base C_EndpointConfig config"
  by (rule has_unknown.here) (auto simp: known_property_def class_properties_def)

text \<open>C32: \<open>includeFailed\<close>, a documented field of the instruction filter, cannot be used in a
  manifest: the class of the filter has the property under another spelling, so a runtime data
  source with an instruction handler whose filter sets \<open>includeFailed\<close> fails its validation, and
  so does every deployment that lists the data source, given that the validator reports unknown
  properties of the objects it visits.\<close>

theorem includeFailed_rejected:
  assumes "\<And>c fs. has_unknown base c fs \<Longrightarrow> validateSync \<lparr>whitelist = True, forbidNonWhitelisted = True\<rparr> c (JObj fs) \<noteq> []"
    and "''includeFailed'' \<notin> set (base C_InstructionFilter)"
    and "(''mapping'', JObj m) \<in> set ds" and "(''handlers'', JArr hs) \<in> set m" and "JObj h \<in> set hs"
    and "map_of h ''kind'' = Some (JStr (kind_string Instruction))" and "(''filter'', JObj f) \<in> set h"
    and "(''includeFailed'', v) \<in> set f" and "map_of ds ''kind'' = Some (JStr ''solana/Runtime'')"
  shows "(\<exists>msg. runtime_datasource_validate validateSync (JObj ds) = Inl (Error msg)) \<and>
    (\<forall>dep dss errorMessage. (''dataSources'', JArr dss) \<in> set dep \<and> JObj ds \<in> set dss \<longrightarrow>
       (\<exists>msg. validateObject validateSync C_Deployment (JObj dep) errorMessage = Inl (Error msg)))"
proof -
  note unknown = includeFailed_unknown [where base = base, OF assms(2-8)]
  have "has_unknown base C_Deployment dep" if "(''dataSources'', JArr dss) \<in> set dep" "JObj ds \<in> set dss" for dep dss
    using data_source_nested [OF that assms(9)] unknown by (rule has_unknown.nested)
  with assms(1) [OF unknown] assms(1) show ?thesis
    by (auto simp: runtime_datasource_validate_def validateObject_def Let_def)
qed

definition example_runtime_ds :: "js_fields \<Rightarrow> js_fields" where
  "example_runtime_ds f =
     [(''kind'', JStr ''solana/Runtime''),
      (''mapping'', JObj [(''file'', JStr ''index.js''),
        (''handlers'', JArr [JObj [(''kind'', JStr (kind_string Instruction)), (''handler'', JStr ''h''), (''filter'', JObj f)]])])]"

theorem includeFailed_rejected_witness:
  "\<exists>msg. validateObject
     (\<lambda>opts c v. case v of JObj fs \<Rightarrow> if has_unknown (\<lambda>c. []) c fs then [''property should not exist''] else [] | _ \<Rightarrow> []) C_Deployment
     (JObj [(''dataSources'', JArr [JObj (example_runtime_ds [(''includeFailed'', JBool True)])])]) ''invalid'' = Inl (Error msg)"
proof -
  let ?ds = "example_runtime_ds [(''includeFailed'', JBool True)]"
  let ?validate = "\<lambda>(opts :: validator_options) c v. case v of JObj fs \<Rightarrow> if has_unknown (\<lambda>c. []) c fs then [''property should not exist''] else [] | _ \<Rightarrow> []"
  note rejected = includeFailed_rejected [where validateSync = ?validate and base = "\<lambda>c. []" and ds = ?ds]
  have "(\<exists>msg. runtime_datasource_validate ?validate (JObj ?ds) = Inl (Error msg)) \<and>
    (\<forall>dep dss errorMessage. (''dataSources'', JArr dss) \<in> set dep \<and> JObj ?ds \<in> set dss \<longrightarrow>
       (\<exists>msg. validateObject ?validate C_Deployment (JObj dep) errorMessage = Inl (Error msg)))"
  proof (rule rejected)
    show "(''mapping'', JObj [(''file'', JStr ''index.js''),
        (''handlers'', JArr [JObj [(''kind'', JStr (kind_string Instruction)), (''handler'', JStr ''h''),
           (''filter'', JObj [(''includeFailed'', JBool True)])]])]) \<in> set ?ds"
      by (simp add: example_runtime_ds_def)
    show "map_of ?ds ''kind'' = Some (JStr ''solana/Runtime'')" by (simp add: example_runtime_ds_def)
  qed (auto split: if_splits)
  then show ?thesis by auto
qed

text \<open>C31: creating a runtime data source merges the arguments into the filter of every handler,
  the argument taking precedence over the template's value and the other fields kept; the
  kinds and functions stay. The merge has happened also when the call throws, which it does
  exactly for a handler kind it does not know or a validation error.\<close>

theorem updateDynamicDs_merges:
  assumes "dy_kind ds = SolanaDatasourceKind_Runtime" and "updateDynamicDs validateDs (Some args) ds = (r, ds')"
  shows "list_all2 (\<lambda>h h'. rh_kind h' = rh_kind h \<and> rh_handler h' = rh_handler h \<and>
      (\<exists>f'. rh_filter h' = Some f' \<and>
        map_of f' = map_of (case rh_filter h of None \<Rightarrow> [] | Some f \<Rightarrow> f) ++ map_of (rev args)))
      (dy_handlers ds) (dy_handlers ds') \<and>
    (r = Inr () \<longleftrightarrow> (\<forall>h \<in> set (dy_handlers ds). \<exists>kind. rh_kind h = kind_string kind) \<and> validateDs ds' = [])"
proof
  have ds': "ds' = ds\<lparr>dy_handlers := map (merge_filter (Some args)) (dy_handlers ds)\<rparr>"
    using assms by (auto simp: updateDynamicDs_def Let_def split: sum.splits if_splits)
  then show "list_all2 (\<lambda>h h'. rh_kind h' = rh_kind h \<and> rh_handler h' = rh_handler h \<and>
      (\<exists>f'. rh_filter h' = Some f' \<and>
        map_of f' = map_of (case rh_filter h of None \<Rightarrow> [] | Some f \<Rightarrow> f) ++ map_of (rev args)))
      (dy_handlers ds) (dy_handlers ds')"
    by (simp add: list_all2_map2 list_all2_same merge_filter_def map_of_set_entries)
  have kinds: "(\<exists>cs. traverse (\<lambda>h. handler_class (rh_kind h)) (dy_handlers ds') = Inr cs) \<longleftrightarrow>
      (\<forall>h \<in> set (dy_handlers ds). \<exists>kind. rh_kind h = kind_string kind)"
    unfolding traverse_total handler_class_total by (simp add: ds' merge_filter_def)
  show "r = Inr () \<longleftrightarrow> (\<forall>h \<in> set (dy_handlers ds). \<exists>kind. rh_kind h = kind_string kind) \<and> validateDs ds' = []"
    unfolding kinds [symmetric] using assms
    by (auto simp: updateDynamicDs_def Let_def ds' split: sum.splits if_splits)
qed

theorem updateDynamicDs_merges_witness:
  "\<exists>r ds' h f. updateDynamicDs (\<lambda>d. []) (Some [(''programId'', JStr ''A'')])
       \<lparr>dy_kind = ''solana/Runtime'', dy_handlers = [\<lparr>rh_kind = ''solana/LogHandler'', rh_handler = ''h'', rh_filter = None\<rparr>],
        dy_file = ''index.js'', dy_processor = None\<rparr> = (r, ds') \<and>
     dy_handlers ds' = [h] \<and> rh_filter h = Some f \<and> map_of f ''programId'' = Some (JStr ''A'') \<and> r = Inr ()"
proof -
  let ?ds = "\<lparr>dy_kind = ''solana/Runtime'', dy_handlers = [\<lparr>rh_kind = ''solana/LogHandler'', rh_handler = ''h'', rh_filter = None\<rparr>],
        dy_file = ''index.js'', dy_processor = None\<rparr>"
  obtain r ds' where run: "updateDynamicDs (\<lambda>d. []) (Some [(''programId'', JStr ''A'')]) ?ds = (r, ds')" by force
  have k: "dy_kind ?ds = SolanaDatasourceKind_Runtime" by (simp add: SolanaDatasourceKind_Runtime_def)
  have "\<exists>kind. ''solana/LogHandler'' = kind_string kind" by (rule exI [of _ Log]) simp
  with updateDynamicDs_merges [OF k run] run show ?thesis by (auto simp: list_all2_Cons1)
qed

end
