(* ===== verification/BlockJson.thy ===== *)
theory BlockJson
  imports BlockTheorems
begin

section \<open>The JSON of a block and its size\<close>

text \<open>
  \<open>omit\<close> and the \<open>toJSON\<close> closures of \<open>packages/node/src/solana/block.solana.ts\<close>, and
  \<open>getBlockSize\<close> of \<open>indexer/types.ts\<close>. A wrapped object is listed by its own properties; a
  getter, a reference to another object of the block and a function are told apart from data,
  because a getter must not run when the size is taken. Optional fields that are absent print
  nothing; amounts, heights and times are \<open>bigint\<close>.
\<close>

subsection \<open>Own properties and omit\<close>

datatype own_property =
    Data js_value
  | Getter
  | Reference
  | Function

definition omit :: "(string \<times> own_property) list \<Rightarrow> string list \<Rightarrow> (string \<times> own_property) list" where
  "omit input omitted = filter (\<lambda>(k, p). k \<notin> set omitted) input"

text \<open>
  What \<open>JSON.stringify\<close> prints of an object with these properties: data, and nothing for a
  function. On a getter it would start a decoding, on a reference print the other object; the
  result is \<open>None\<close> then.
\<close>

fun print_properties :: "(string \<times> own_property) list \<Rightarrow> js_fields option" where
  "print_properties [] = Some []"
| "print_properties ((k, Data v) # ps) = map_option (Cons (k, v)) (print_properties ps)"
| "print_properties ((k, Function) # ps) = print_properties ps"
| "print_properties ((k, Getter) # ps) = None"
| "print_properties ((k, Reference) # ps) = None"

definition int_json :: "nat \<Rightarrow> js_value" where
  "int_json n = JNum (int n)"

definition instruction_properties :: "sol_instruction \<Rightarrow> (string \<times> own_property) list" where
  "instruction_properties i =
     map (\<lambda>(k, v). (k, Data v))
       ([(''accounts'', JArr (map int_json (raw_instruction.accounts i))), (''data'', JStr (raw_instruction.data i)),
         (''programIdIndex'', int_json (programIdIndex i))] @ optional_field ''stackHeight'' int_json (stackHeight i) @
        [(''index'', JArr (map int_json (index i)))]) @
     [(''transaction'', Reference), (''block'', Reference), (''decodedData'', Getter), (''toJSON'', Function)]"

definition instruction_toJSON :: "sol_instruction \<Rightarrow> (string \<times> own_property) list" where
  "instruction_toJSON res = omit (instruction_properties res) [''block'', ''decodedData'', ''transaction'']"

fun kind_text :: "log_kind \<Rightarrow> string" where
  "kind_text LogLog = ''log''"
| "kind_text LogData = ''data''"
| "kind_text LogOther = ''other''"

text \<open>
  \<open>decodedMessage\<close> is a getter, except on a log of \<open>wrapLogs\<close> of type \<open>log\<close>, where it is a
  resolved promise; both are left out.
\<close>

definition log_properties :: "log_message \<Rightarrow> (string \<times> own_property) list" where
  "log_properties l =
     map (\<lambda>(k, v). (k, Data v))
       ([(''message'', JStr (log_text l))] @ optional_field ''programId'' JStr (log_programId l) @
        [(''logIndex'', int_json (logIndex l)), (''type'', JStr (kind_text (log_type l)))]) @
     [(''decodedMessage'', Getter), (''toJSON'', Function)]"

definition log_toJSON :: "log_message \<Rightarrow> (string \<times> own_property) list" where
  "log_toJSON r = omit (log_properties r) [''decodedMessage'']"

definition object_json :: "(string \<times> own_property) list \<Rightarrow> js_value" where
  "object_json ps = (case print_properties ps of None \<Rightarrow> JNull | Some fs \<Rightarrow> JObj fs)"

subsection \<open>Transactions\<close>

definition base_block_json :: "base_block \<Rightarrow> js_value" where
  "base_block_json b =
     JObj ([(''blockHeight'', JBig (bb_blockHeight b)), (''blockTime'', JBig (bb_blockTime b)),
            (''blockhash'', JStr (bb_blockhash b)), (''parentSlot'', JBig (bb_parentSlot b)),
            (''previousBlockhash'', JStr (bb_previousBlockhash b))] @ bb_rest b)"

definition message_json :: "sol_instruction tx_message \<Rightarrow> js_value" where
  "message_json m =
     JObj ([(''accountKeys'', strings_json (accountKeys m)),
            (''instructions'', JArr (map (\<lambda>i. object_json (instruction_toJSON i)) (instructions m)))] @ message_rest m)"

definition inner_json :: "sol_instruction inner_instructions \<Rightarrow> js_value" where
  "inner_json g =
     JObj [(''index'', int_json (ii_index g)),
           (''instructions'', JArr (map (\<lambda>i. object_json (instruction_toJSON i)) (ii_instructions g)))]"

definition meta_json :: "unit sol_meta_ext tx_meta_scheme \<Rightarrow> js_value" where
  "meta_json m =
     JObj ([(''err'', nullable id (err m)), (''fee'', JBig (fee m)),
            (''loadedAddresses'', JObj [(''readonly'', strings_json (readonly (loadedAddresses m))),
                                        (''writable'', strings_json (writable (loadedAddresses m)))])] @
           meta_rest m @
           optional_field ''logMessages'' (nullable strings_json) (kept_logMessages m) @
           [(''innerInstructions'', JArr (map inner_json (innerInstructions m))),
            (''logs'', nullable (\<lambda>ls. JArr (map (\<lambda>l. object_json (log_toJSON l)) ls)) (logs m))])"

definition tx_json :: "sol_tx \<Rightarrow> js_value" where
  "tx_json t =
     JObj [(''meta'', nullable meta_json (meta t)),
           (''transaction'', JObj [(''message'', message_json (message (transaction t))),
                                   (''signatures'', strings_json (signatures (transaction t)))]),
           (''version'', version t), (''block'', base_block_json (tx_block t))]"

text \<open>
  The size: the UTF-8 length of the text of each transaction, summed. \<open>patched\<close> is whether
  \<open>BigInt.prototype.toJSON\<close> is set in the process.
\<close>

definition getBlockSize :: "bool \<Rightarrow> sol_block \<Rightarrow> nat result" where
  "getBlockSize patched block =
     (case traverse (\<lambda>tx. JSON_stringify patched (tx_json tx)) (transactions block) of
        Inl e \<Rightarrow> Inl e
      | Inr texts \<Rightarrow> Inr (foldl (+) 0 (map byteLength texts)))"

lemma print_data [simp]: "print_properties (map (\<lambda>(k, v). (k, Data v)) fs @ ps) = map_option (append fs) (print_properties ps)"
  by (induction fs) (auto simp: option.map_comp comp_def option.map_id [unfolded id_def])

lemma omit_data:
  "(\<And>k. k \<in> set omitted \<Longrightarrow> k \<notin> fst ` set fs) \<Longrightarrow>
     omit (map (\<lambda>(k, v). (k, Data v)) fs @ ps) omitted = map (\<lambda>(k, v). (k, Data v)) fs @ omit ps omitted"
  by (force simp: omit_def filter_id_conv)

text \<open>No getter runs and no other object is printed: the texts are those of the data alone.\<close>

lemma instruction_toJSON_data:
  "print_properties (instruction_toJSON i) =
     Some ([(''accounts'', JArr (map int_json (raw_instruction.accounts i))), (''data'', JStr (raw_instruction.data i)),
        (''programIdIndex'', int_json (programIdIndex i))] @ optional_field ''stackHeight'' int_json (stackHeight i) @
       [(''index'', JArr (map int_json (index i)))])"
  unfolding instruction_toJSON_def instruction_properties_def
  by (subst omit_data) (auto simp: omit_def)

lemma log_toJSON_data:
  "print_properties (log_toJSON l) =
     Some ([(''message'', JStr (log_text l))] @ optional_field ''programId'' JStr (log_programId l) @
        [(''logIndex'', int_json (logIndex l)), (''type'', JStr (kind_text (log_type l)))])"
  unfolding log_toJSON_def log_properties_def
  by (subst omit_data) (auto simp: omit_def)

end
