(* ===== verification/BlockJsonTheorems.thy ===== *)
theory BlockJsonTheorems
  imports BlockJson
begin

section \<open>The properties of the JSON of a block\<close>

text \<open>
  The size of a block is a lower-bounded measure of its raw data, does not depend on what has
  been decoded, and exists in a process exactly when that process can print a \<open>bigint\<close>.
\<close>

subsection \<open>The text is at least as long as the strings in it\<close>

fun string_bytes :: "js_value \<Rightarrow> nat" where
  "string_bytes (JStr s) = byteLength s"
| "string_bytes (JArr vs) = sum_list (map string_bytes vs)"
| "string_bytes (JObj fs) = sum_list (map (\<lambda>(k, v). string_bytes v) fs)"
| "string_bytes v = 0"

lemma byteLength_escape: "byteLength [c] \<le> byteLength (escape c)"
  by (simp add: escape_def byteLength_Cons)

lemma byteLength_quote: "byteLength s \<le> byteLength (quote s)"
proof (induction s)
  case (Cons c s)
  have "byteLength (c # s) = byteLength [c] + byteLength s" by (simp add: byteLength_Cons)
  with Cons byteLength_escape [of c] show ?case by (simp add: quote_def byteLength_Cons)
qed simp

lemma byteLength_join: "sum_list (map byteLength ss) \<le> byteLength (join_comma ss)"
  by (induction ss rule: join_comma.induct) (auto simp: byteLength_Cons)

lemma string_bytes_text: "string_bytes v \<le> byteLength (json_text v)"
proof (induction v rule: json_text.induct)
  case (6 vs)
  have "sum_list (map string_bytes vs) \<le> sum_list (map byteLength (map json_text vs))"
    using 6 by (simp add: comp_def sum_list_mono)
  also have "\<dots> \<le> byteLength (join_comma (map json_text vs))" by (rule byteLength_join)
  finally show ?case by (simp add: byteLength_Cons)
next
  case (7 fs)
  have "sum_list (map (\<lambda>(k, v). string_bytes v) fs) \<le>
      sum_list (map byteLength (map (\<lambda>(k, v). quote k @ CHR '':'' # json_text v) fs))"
    unfolding map_map by (rule sum_list_mono) (use 7 in \<open>force simp: byteLength_Cons intro: trans_le_add2\<close>)
  also have "\<dots> \<le> byteLength (join_comma (map (\<lambda>(k, v). quote k @ CHR '':'' # json_text v) fs))"
    by (rule byteLength_join)
  finally show ?case by (simp add: byteLength_Cons)
qed (simp_all add: byteLength_quote)

subsection \<open>The strings of a transaction\<close>

lemma string_bytes_int [simp]: "string_bytes (int_json n) = 0"
  by (simp add: int_json_def)

lemma string_bytes_strings [simp]: "string_bytes (strings_json ss) = sum_list (map byteLength ss)"
  by (simp add: strings_json_def comp_def)

lemma string_bytes_instruction: "string_bytes (object_json (instruction_toJSON i)) = byteLength (raw_instruction.data i)"
  by (cases "stackHeight i") (simp_all add: object_json_def instruction_toJSON_data optional_field_def comp_def)

definition instruction_bytes :: "raw_instruction list \<Rightarrow> nat" where
  "instruction_bytes raws = sum_list (map (\<lambda>r. byteLength (raw_instruction.data r)) raws)"

text \<open>The data of the instructions, the inner ones included, and the log lines of a response.\<close>

definition raw_tx_bytes :: "raw_tx \<Rightarrow> nat" where
  "raw_tx_bytes tx =
     instruction_bytes (instructions (message (transaction tx))) +
     (case meta tx of
        None \<Rightarrow> 0
      | Some m \<Rightarrow>
          sum_list (map (\<lambda>g. instruction_bytes (ii_instructions g))
            (case raw_innerInstructions m of None \<Rightarrow> [] | Some gs \<Rightarrow> gs)) +
          (case logMessages m of None \<Rightarrow> 0 | Some ls \<Rightarrow> sum_list (map byteLength ls)))"

lemma instructions_bytes:
  assumes "wrapped_all base tx outer raws insts"
  shows "sum_list (map (\<lambda>i. string_bytes (object_json (instruction_toJSON i))) insts) = instruction_bytes raws"
proof -
  have "raw_instruction.data (raw_instruction.truncate i) = raw_instruction.data i" for i :: sol_instruction
    by (simp add: raw_instruction.defs)
  moreover have "raws = map raw_instruction.truncate insts" using assms by (simp add: wrapped_all_def)
  ultimately show ?thesis by (simp add: instruction_bytes_def string_bytes_instruction comp_def)
qed

lemma meta_bytes:
  assumes "wrapped_meta base tx m m'"
  shows "sum_list (map (\<lambda>g. instruction_bytes (ii_instructions g))
            (case raw_innerInstructions m of None \<Rightarrow> [] | Some gs \<Rightarrow> gs)) +
          (case logMessages m of None \<Rightarrow> 0 | Some ls \<Rightarrow> sum_list (map byteLength ls)) \<le> string_bytes (meta_json m')"
proof -
  have "list_all2 (\<lambda>raws insts. ii_index insts = ii_index raws \<and>
          wrapped_all base tx [ii_index raws] (ii_instructions raws) (ii_instructions insts))
        (case raw_innerInstructions m of None \<Rightarrow> [] | Some inners \<Rightarrow> inners) (innerInstructions m')"
    using assms by (simp add: wrapped_meta_def)
  then have "sum_list (map (\<lambda>g. instruction_bytes (ii_instructions g))
      (case raw_innerInstructions m of None \<Rightarrow> [] | Some gs \<Rightarrow> gs)) =
      sum_list (map (\<lambda>g. string_bytes (inner_json g)) (innerInstructions m'))"
    by (induction rule: list_all2_induct) (auto simp: inner_json_def comp_def dest!: instructions_bytes)
  moreover have "kept_logMessages m' = Some (logMessages m) \<or> logMessages m = None"
    using assms by (auto simp: wrapped_meta_def split: option.splits)
  ultimately show ?thesis
    by (auto simp: meta_json_def comp_def optional_field_def nullable_def split: option.splits)
qed

lemma tx_bytes: "wrapped_tx base tx t \<Longrightarrow> raw_tx_bytes tx \<le> string_bytes (tx_json t)"
proof -
  assume w: "wrapped_tx base tx t"
  then have "rel_option (wrapped_meta base tx) (meta tx) (meta t)" by (simp add: wrapped_tx_def)
  then have "(case meta tx of None \<Rightarrow> 0 | Some m \<Rightarrow>
      sum_list (map (\<lambda>g. instruction_bytes (ii_instructions g))
            (case raw_innerInstructions m of None \<Rightarrow> [] | Some gs \<Rightarrow> gs)) +
          (case logMessages m of None \<Rightarrow> 0 | Some ls \<Rightarrow> sum_list (map byteLength ls))) \<le> string_bytes (nullable meta_json (meta t))"
    by cases (use meta_bytes in \<open>auto simp: nullable_def\<close>)
  moreover have "instruction_bytes (instructions (message (transaction tx))) \<le> string_bytes (message_json (message (transaction t)))"
    using w instructions_bytes by (fastforce simp: wrapped_tx_def message_json_def comp_def)
  ultimately show ?thesis by (simp add: raw_tx_bytes_def tx_json_def)
qed

lemma foldl_plus_nat: "foldl (+) (n :: nat) xs = n + sum_list xs"
  by (induction xs arbitrary: n) simp_all

lemma getBlockSize_patched:
  "getBlockSize True b = Inr (sum_list (map (\<lambda>t. byteLength (json_text (tx_json t))) (transactions b)))"
proof -
  have "traverse (\<lambda>tx. JSON_stringify True (tx_json tx)) (transactions b) = Inr (map (\<lambda>t. json_text (tx_json t)) (transactions b))"
    by (rule traverse_Inr_map) (simp add: JSON_stringify_def)
  then show ?thesis by (simp add: getBlockSize_def comp_def foldl_plus_nat)
qed

subsection \<open>Size\<close>

text \<open>C38: the size of a transformed block exists in a process whose \<open>bigint\<close>s print, and is at
  least the number of bytes of the instruction data and log lines of the response.\<close>

theorem block_size_bounds_raw_data:
  assumes "transformBlock raw = Inr b"
  shows "\<exists>n. getBlockSize True b = Inr n \<and> sum_list (map raw_tx_bytes (raw_transactions raw)) \<le> n"
proof -
  have "list_all2 (wrapped_tx (base_block.truncate raw)) (raw_transactions raw) (transactions b)"
    using transformBlock_wrapped [OF assms] by simp
  then have "sum_list (map raw_tx_bytes (raw_transactions raw)) \<le>
      sum_list (map (\<lambda>t. byteLength (json_text (tx_json t))) (transactions b))"
  proof (induction rule: list_all2_induct)
    case (Cons tx txs t ts)
    have "raw_tx_bytes tx \<le> byteLength (json_text (tx_json t))"
      by (rule order_trans [OF tx_bytes [OF Cons.hyps(1)] string_bytes_text])
    with Cons.IH show ?case by simp
  qed simp
  then show ?thesis by (simp add: getBlockSize_patched)
qed

theorem block_size_bounds_raw_data_witness:
  "\<exists>b n. transformBlock (example_raw_block (Some [''Program log: x''])) = Inr b \<and> getBlockSize True b = Inr n \<and> 16 \<le> n"
proof -
  let ?raw = "example_raw_block (Some [''Program log: x''])"
  have "\<exists>b. transformBlock ?raw = Inr b"
    unfolding transformBlock_total
    by (simp add: example_raw_block_def example_raw_tx_def tx_parses_def logs_parse_def unparsable_def
        is_message_def startsWith_def)
  then obtain b where b: "transformBlock ?raw = Inr b" ..
  have "sum_list (map raw_tx_bytes (raw_transactions ?raw)) = 16"
    by (simp add: example_raw_block_def example_raw_tx_def raw_tx_bytes_def instruction_bytes_def byteLength_def)
  with block_size_bounds_raw_data [OF b] b show ?thesis by auto
qed

text \<open>What instructions and logs have decoded so far, forgotten.\<close>

definition forget_instruction :: "sol_instruction \<Rightarrow> sol_instruction" where
  "forget_instruction i = i\<lparr>pendingDecode := None\<rparr>"

definition forget_log :: "log_message \<Rightarrow> log_message" where
  "forget_log l = l\<lparr>log_pendingDecode := None\<rparr>"

definition forget_tx :: "sol_tx \<Rightarrow> sol_tx" where
  "forget_tx t =
     t\<lparr>transaction := (transaction t)\<lparr>message := (message (transaction t))\<lparr>instructions :=
           map forget_instruction (instructions (message (transaction t)))\<rparr>\<rparr>,
       meta := map_option (\<lambda>m. m\<lparr>
           innerInstructions := map (\<lambda>g. g\<lparr>ii_instructions := map forget_instruction (ii_instructions g)\<rparr>) (innerInstructions m),
           logs := map_option (map forget_log) (logs m)\<rparr>) (meta t)\<rparr>"

lemma forget_instruction_json: "instruction_toJSON (forget_instruction i) = instruction_toJSON i"
  by (simp add: instruction_toJSON_def instruction_properties_def forget_instruction_def)

lemma forget_log_json: "log_toJSON (forget_log l) = log_toJSON l"
  by (simp add: log_toJSON_def log_properties_def forget_log_def)

lemma forget_tx_json: "tx_json (forget_tx t) = tx_json t"
  by (simp add: tx_json_def forget_tx_def message_json_def meta_json_def inner_json_def nullable_def comp_def
       forget_instruction_json forget_log_json split: option.split)

text \<open>Decoding does not change the size: two blocks that differ only in what their
  instructions and logs have decoded so far have the same size, and preparing data for a
  handler only adds what has been decoded.\<close>

theorem block_size_ignores_decoding:
  assumes "map forget_tx (transactions b) = map forget_tx (transactions b')"
  shows "getBlockSize patched b = getBlockSize patched b' \<and>
    (\<forall>f i. forget_instruction (snd (get_decodedData f i)) = forget_instruction i) \<and>
    (\<forall>f l. forget_log (snd (get_decodedMessage f l)) = forget_log l)"
proof -
  have "traverse (\<lambda>tx. JSON_stringify patched (tx_json tx)) ts =
      traverse (\<lambda>tx. JSON_stringify patched (tx_json tx)) (map forget_tx ts)" for ts
    by (induction ts) (simp_all add: forget_tx_json cong: sum.case_cong)
  with assms have "traverse (\<lambda>tx. JSON_stringify patched (tx_json tx)) (transactions b) =
      traverse (\<lambda>tx. JSON_stringify patched (tx_json tx)) (transactions b')" by metis
  then have "getBlockSize patched b = getBlockSize patched b'" unfolding getBlockSize_def by simp
  moreover have "forget_instruction (snd (get_decodedData f i)) = forget_instruction i" for f i
    by (simp add: get_decodedData_def forget_instruction_def Let_def split: option.split)
  moreover have "forget_log (snd (get_decodedMessage f l)) = forget_log l" for f l
    by (simp add: get_decodedMessage_def forget_log_def Let_def split: option.split)
  ultimately show ?thesis by blast
qed

definition example_prepared :: "decoded_data option option \<Rightarrow> sol_block" where
  "example_prepared d =
     (let raw = example_raw_block None; base = base_block.truncate raw; tx = example_raw_tx None;
          inst = wrapInstruction [0] \<lparr>accounts = [0], data = ''2'', programIdIndex = 1, stackHeight = None\<rparr> tx base in
      base_block.extend base (sol_block.fields
        [tx.extend \<lparr>transaction = \<lparr>message = \<lparr>accountKeys = [''S'', ''A''], instructions = [inst\<lparr>pendingDecode := d\<rparr>],
           message_rest = []\<rparr>, signatures = [''sig'']\<rparr>, meta = None, version = JStr ''legacy''\<rparr> (sol_tx.fields base)]))"

theorem block_size_ignores_decoding_witness:
  "transactions (example_prepared None) \<noteq> transactions (example_prepared (Some (Some \<lparr>dd_name = ''route'', dd_data = JNull\<rparr>))) \<and>
     getBlockSize True (example_prepared None) =
       getBlockSize True (example_prepared (Some (Some \<lparr>dd_name = ''route'', dd_data = JNull\<rparr>)))"
proof -
  let ?d = "Some (Some \<lparr>dd_name = ''route'', dd_data = JNull\<rparr>)"
  have "map forget_tx (transactions (example_prepared None)) = map forget_tx (transactions (example_prepared ?d))"
    by (simp add: example_prepared_def Let_def base_block.defs sol_block.defs tx.defs sol_tx.defs forget_tx_def forget_instruction_def)
  from block_size_ignores_decoding [OF this, of True] show ?thesis
    by (simp add: example_prepared_def Let_def base_block.defs sol_block.defs tx.defs sol_tx.defs wrapInstruction_def)
qed

text \<open>Without \<open>BigInt.prototype.toJSON\<close> every transaction fails on the \<open>bigint\<close>s of its block.\<close>

lemma getBlockSize_unpatched:
  "getBlockSize False b =
     (if transactions b = [] then Inr 0 else Inl (TypeError ''Do not know how to serialize a BigInt''))"
  by (cases "transactions b") (simp_all add: getBlockSize_def JSON_stringify_def tx_json_def base_block_json_def)

text \<open>The JSON of an instruction or a log is made of its data alone. Its \<open>toJSON\<close> leaves out
  the getter, which would start a decoding, and the references to the transaction and the block,
  without which printing the object itself is not possible.\<close>

theorem toJSON_prints_data_only:
  "print_properties (instruction_properties i) = None \<and> print_properties (log_properties l) = None \<and>
   (\<exists>fs. print_properties (instruction_toJSON i) = Some fs \<and>
      set (map fst fs) \<subseteq> {''accounts'', ''data'', ''programIdIndex'', ''stackHeight'', ''index''} \<and>
      \<not> has_bigint (JObj fs)) \<and>
   (\<exists>fs. print_properties (log_toJSON l) = Some fs \<and>
      set (map fst fs) \<subseteq> {''message'', ''programId'', ''logIndex'', ''type''} \<and> \<not> has_bigint (JObj fs))"
proof -
  have ints: "\<not> list_ex has_bigint (map int_json ns)" for ns by (induction ns) (simp_all add: int_json_def)
  show ?thesis
    unfolding instruction_toJSON_data log_toJSON_data
    by (auto simp: instruction_properties_def log_properties_def ints optional_field_def int_json_def split: option.splits)
qed

end
