(* ===== verification/Pipeline.thy ===== *)
theory Pipeline
  imports IndexerTheorems DictionaryTheorems ServiceTheorems BlockJsonTheorems
begin

section \<open>From a block to its handlers\<close>

text \<open>
  What the indexer, the worker and the blockchain service pass on: the decoder that a handler gets
  in its sandbox (\<open>getDsProcessor\<close> of \<open>indexer.manager.ts\<close>), \<open>indexBlock\<close>, the worker's
  \<open>processFetchedBlock\<close>, and the safe API, which Solana does not have. Then the properties that
  span the two ways a block arrives, from the endpoint and from the dictionary.
\<close>

subsection \<open>The sandbox\<close>

text \<open>
  The object \<open>{decodeInstruction, decodeLogs}\<close>: the functions of the service's decoder in
  the state \<open>d\<close>, without access to its other methods.
\<close>

record sandbox_decoder =
  sd_decodeInstruction :: "raw_instruction \<Rightarrow> raw_tx \<Rightarrow> decoded_data option"
  sd_decodeLogs :: "string list option \<Rightarrow> log_message list option result"

definition injected_decoder :: "idl_lib \<Rightarrow> decoder \<Rightarrow> sandbox_decoder" where
  "injected_decoder lib d =
     \<lparr>sd_decodeInstruction = (\<lambda>instruction tx. decodeInstructionRaw lib d instruction tx), sd_decodeLogs = wrapLogs\<rparr>"

text \<open>\<open>getSafeApi\<close> of \<open>SolanaApi\<close> returns \<open>undefined\<close>; the one of a connection throws.\<close>

definition api_getSafeApi :: "solana_api \<Rightarrow> int \<Rightarrow> unit" where
  "api_getSafeApi api height = ()"

definition connection_safeApi :: "int \<Rightarrow> unit result" where
  "connection_safeApi height = Inl (Error ''Not Implemented: safeApi'')"

definition api_connect :: "unit result" where
  "api_connect = Inl (Error ''Not implemented: connect'')"

text \<open>\<open>disconnect\<close> does nothing; a connection passes both on.\<close>

definition api_disconnect :: "unit result" where
  "api_disconnect = Inr ()"

definition apiConnect :: "unit result" where
  "apiConnect = api_connect"

definition apiDisconnect :: "unit result" where
  "apiDisconnect = api_disconnect"

definition service_safeApi :: "solana_api \<Rightarrow> int \<Rightarrow> unit" where
  "service_safeApi api height = api_getSafeApi api height"

definition getSafeApi :: "solana_api \<Rightarrow> sol_block \<Rightarrow> unit" where
  "getSafeApi api block = service_safeApi api (bb_blockHeight block)"

text \<open>\<open>sandboxService.getDsProcessor\<close> of node-core is the parameter \<open>sandbox\<close>.\<close>

definition getDsProcessor ::
  "idl_lib \<Rightarrow> decoder \<Rightarrow> (datasource \<Rightarrow> unit \<Rightarrow> solana_api \<Rightarrow> sandbox_decoder \<Rightarrow> 'vm) \<Rightarrow> solana_api \<Rightarrow> datasource \<Rightarrow> unit \<Rightarrow> 'vm" where
  "getDsProcessor lib d sandbox api ds safeApi = sandbox ds safeApi api (injected_decoder lib d)"

text \<open>\<open>internalIndexBlock\<close> of node-core is a parameter; it gets the block, the data sources and the safe API on demand.\<close>

definition indexBlock ::
  "(iblock \<Rightarrow> datasource list \<Rightarrow> (unit \<Rightarrow> unit) \<Rightarrow> 'r) \<Rightarrow> solana_api \<Rightarrow> iblock \<Rightarrow> datasource list \<Rightarrow> 'r" where
  "indexBlock internalIndexBlock api block dataSources =
     internalIndexBlock block dataSources (\<lambda>u. getSafeApi api (ib_block block))"

definition processFetchedBlock ::
  "(iblock \<Rightarrow> datasource list \<Rightarrow> (unit \<Rightarrow> unit) \<Rightarrow> 'r) \<Rightarrow> solana_api \<Rightarrow> iblock \<Rightarrow> datasource list \<Rightarrow> 'r" where
  "processFetchedBlock internalIndexBlock api block dataSources = indexBlock internalIndexBlock api block dataSources"

definition service_getBlockSize :: "bool \<Rightarrow> iblock \<Rightarrow> nat result" where
  "service_getBlockSize patched block = getBlockSize patched (ib_block block)"

definition worker_getBlockSize :: "bool \<Rightarrow> iblock \<Rightarrow> nat result" where
  "worker_getBlockSize patched block = getBlockSize patched (ib_block block)"

text \<open>\<open>apiService.fetchBlocks\<close> (the pool of node-core) and \<open>worker.fetchBlock\<close> are parameters.\<close>

definition service_fetchBlocks :: "(int list \<Rightarrow> iblock list result) \<Rightarrow> int list \<Rightarrow> iblock list result" where
  "service_fetchBlocks apiService_fetchBlocks blockNums = apiService_fetchBlocks blockNums"

definition fetchBlockWorker :: "('w \<Rightarrow> int \<Rightarrow> int \<Rightarrow> header result) \<Rightarrow> 'w \<Rightarrow> int \<Rightarrow> header result" where
  "fetchBlockWorker worker_fetchBlock worker blockNum = worker_fetchBlock worker blockNum 0"

lemma truncate_instruction [simp]:
  "raw_instruction.data (raw_instruction.truncate i) = raw_instruction.data i"
  "programIdIndex (raw_instruction.truncate i) = programIdIndex i"
  by (simp_all add: raw_instruction.defs)

text \<open>C39: the decoder a handler gets in the sandbox decodes as the lazy getters do: for the
  raw form of an instruction of a transformed block it returns what \<open>decodedData\<close> would, and
  for the log lines of the endpoint it returns the logs of the transaction.\<close>

theorem sandbox_decoder_agrees:
  assumes "transformBlock raw = Inr b" and "tx \<in> set (raw_transactions raw)"
  shows "\<exists>t \<in> set (transactions b).
    (\<forall>i \<in> set (instruction_order t).
       sd_decodeInstruction (injected_decoder lib d) (raw_instruction.truncate i) tx = fst (get_decodedData (decodeInstruction lib d) i)) \<and>
    (\<forall>m. meta tx = Some m \<and> dictionaryLogs m = None \<longrightarrow>
       (\<exists>m'. meta t = Some m' \<and> sd_decodeLogs (injected_decoder lib d) (logMessages m) = Inr (logs m')))"
proof -
  from transformBlock_wrapped [OF assms(1)] assms(2) obtain t where t: "t \<in> set (transactions b)"
    and w: "wrapped_tx (base_block.truncate raw) tx t"
    by (auto simp: list_all2_conv_all_nth in_set_conv_nth) metis
  have raw: "decodeInstructionRaw lib d (raw_instruction.truncate i) tx' = decodeInstructionRaw lib d i tx'"
    for i :: sol_instruction and tx'
    by (simp only: decodeInstructionRaw_def truncate_instruction)
  have fresh: "inst_transaction i = tx \<and> pendingDecode i = None" if "i \<in> set (instruction_order t)" for i
  proof -
    from that consider "i \<in> set (instructions (message (transaction t)))"
      | g where "g \<in> set (tx_inner t)" "i \<in> set (ii_instructions g)"
      by (auto simp: instruction_order_def in_set_enumerate_eq)
    then show ?thesis
    proof cases
      case 1
      with w show ?thesis by (auto simp: wrapped_tx_def wrapped_all_def list_all_iff)
    next
      case 2
      then obtain m' where m': "meta t = Some m'" "g \<in> set (innerInstructions m')"
        by (cases "meta t") (simp_all add: tx_inner_def)
      with w obtain m where "wrapped_meta (base_block.truncate raw) tx m m'"
        by (auto simp: wrapped_tx_def option_rel_Some2)
      with m'(2) 2(2) show ?thesis
        by (auto simp: wrapped_meta_def wrapped_all_def list_all_iff dest: list_all2_set_right)
    qed
  qed
  have "\<exists>m'. meta t = Some m' \<and> wrapLogs (logMessages m) = Inr (logs m')"
    if "meta tx = Some m" "dictionaryLogs m = None" for m
    using w that by (auto simp: wrapped_tx_def wrapped_meta_def option_rel_Some1)
  with t fresh show ?thesis
    by (intro bexI [of _ t]) (auto simp: injected_decoder_def raw get_decodedData_def decodeInstruction_def Let_def)
qed

theorem sandbox_decoder_agrees_witness:
  "\<exists>b t i. transformBlock (example_raw_block None) = Inr b \<and> t \<in> set (transactions b) \<and> i \<in> set (instruction_order t) \<and>
     sd_decodeInstruction (injected_decoder example_lib example_decoder) (raw_instruction.truncate i) (example_raw_tx None) =
       fst (get_decodedData (decodeInstruction example_lib example_decoder) i)"
proof -
  have "\<exists>b. transformBlock (example_raw_block None) = Inr b"
    unfolding transformBlock_total by (simp add: example_raw_block_def example_raw_tx_def tx_parses_def logs_parse_def)
  then obtain b where b: "transformBlock (example_raw_block None) = Inr b" ..
  have "example_raw_tx None \<in> set (raw_transactions (example_raw_block None))" by (simp add: example_raw_block_def)
  from sandbox_decoder_agrees [OF b this, of example_lib example_decoder] obtain t where t: "t \<in> set (transactions b)"
    and eq: "\<forall>i \<in> set (instruction_order t).
       sd_decodeInstruction (injected_decoder example_lib example_decoder) (raw_instruction.truncate i) (example_raw_tx None) =
         fst (get_decodedData (decodeInstruction example_lib example_decoder) i)" by blast
  from transformBlock_wrapped [OF b] t have "instructions (message (transaction t)) \<noteq> []"
    by (auto simp: example_raw_block_def example_raw_tx_def list_all2_Cons1 wrapped_tx_def wrapped_all_def)
  then obtain i rest where "instructions (message (transaction t)) = i # rest" by (cases "instructions (message (transaction t))") auto
  then have "i \<in> set (instruction_order t)" by (simp add: instruction_order_def)
  with b t eq show ?thesis by blast
qed

subsection \<open>Blocks from the dictionary\<close>

text \<open>
  \<open>dictionary_form r r'\<close>: \<open>r'\<close> is the transaction \<open>r\<close> of the endpoint as the dictionary returns
  it, with its logs already attributed as \<open>wrapLogs\<close> would.
\<close>

definition dictionary_meta :: "unit raw_meta_ext tx_meta_scheme \<Rightarrow> unit raw_meta_ext tx_meta_scheme \<Rightarrow> bool" where
  "dictionary_meta m m' =
     (tx_meta.truncate m' = tx_meta.truncate m \<and> raw_innerInstructions m' = raw_innerInstructions m \<and>
      dictionaryLogs m = None \<and> logMessages m' = None \<and>
      (\<exists>ls. dictionaryLogs m' = Some ls \<and> wrapLogs (logMessages m) = Inr (Some (wrapDictionaryLogs ls))))"

definition dictionary_form :: "raw_tx \<Rightarrow> raw_tx \<Rightarrow> bool" where
  "dictionary_form r r' =
     (transaction r' = transaction r \<and> version r' = version r \<and> rel_option dictionary_meta (meta r) (meta r'))"

definition same_instruction :: "sol_instruction \<Rightarrow> sol_instruction \<Rightarrow> bool" where
  "same_instruction i i' =
     (raw_instruction.truncate i' = raw_instruction.truncate i \<and> index i' = index i \<and>
      dictionary_form (inst_transaction i) (inst_transaction i'))"

text \<open>Two items are alike when every handler's filter answers the same and they decode to the same data.\<close>

definition alike :: "item \<Rightarrow> item \<Rightarrow> bool" where
  "alike x y =
     (item_kind x = item_kind y \<and>
      (\<forall>lib fts h d. getFilterTypeMap lib fts h x d = getFilterTypeMap lib fts h y d) \<and>
      (\<forall>lib d i j. x = InstructionItem i \<and> y = InstructionItem j \<longrightarrow> decodeInstruction lib d i = decodeInstruction lib d j) \<and>
      (\<forall>lib d k l. x = LogItem k \<and> y = LogItem l \<longrightarrow> decodeLog lib d k = decodeLog lib d l))"

lemma dictionary_form_accounts:
  assumes "dictionary_form r r'"
  shows "allAccounts r' = allAccounts r" and "tx_failed r' = tx_failed r"
proof -
  from assms have "rel_option dictionary_meta (meta r) (meta r')" by (simp add: dictionary_form_def)
  then have "allAccounts r' = allAccounts r \<and> tx_failed r' = tx_failed r"
    using assms by cases (auto simp: allAccounts_def tx_failed_def dictionary_form_def dictionary_meta_def tx_meta.defs)
  then show "allAccounts r' = allAccounts r" "tx_failed r' = tx_failed r" by simp_all
qed

lemma same_instruction_alike:
  assumes "same_instruction i i'"
  shows "alike (InstructionItem i) (InstructionItem i')"
proof -
  have f: "accounts i' = accounts i" "data i' = data i" "programIdIndex i' = programIdIndex i"
    and tx: "dictionary_form (inst_transaction i) (inst_transaction i')"
    using assms by (simp_all add: same_instruction_def raw_instruction.defs)
  note a = dictionary_form_accounts [OF tx]
  have p: "getProgramId i' = getProgramId i" by (simp add: getProgramId_def getAccountByIndex_def f a)
  have "transaction (inst_transaction i') = transaction (inst_transaction i)"
    using tx by (simp add: dictionary_form_def)
  then have "account_at i' = account_at i" by (intro ext) (simp only: account_at_def f)
  then have "static_match i' = static_match i" by (intro ext) (simp only: static_match_def accounts_match_def p a)
  then have "filterInstructionsProcessor lib i flt d = filterInstructionsProcessor lib i' flt d" for lib flt d
  proof (cases flt)
    case (Some f)
    show ?thesis unfolding Some filterInstructions_static p f \<open>static_match i' = static_match i\<close> ..
  qed (simp add: filterInstructionsProcessor_def)
  then have "getFilterTypeMap lib fts h (InstructionItem i) d = getFilterTypeMap lib fts h (InstructionItem i') d" for lib fts h d
    by (cases h) simp_all
  moreover have "decodeInstruction lib d i = decodeInstruction lib d i'" for lib d
    by (simp only: decodeInstruction_def decodeInstructionRaw_def f a)
  ultimately show ?thesis by (simp add: alike_def)
qed

lemma wrapped_all_nth:
  assumes "wrapped_all base r outer raws insts" and "n < length raws"
  shows "raw_instruction.truncate (insts ! n) = raws ! n \<and> index (insts ! n) = outer @ [n] \<and> inst_transaction (insts ! n) = r"
proof -
  have m: "map raw_instruction.truncate insts = raws" "map index insts = map (\<lambda>j. outer @ [j]) [0..<length raws]"
    using assms(1) by (simp_all add: wrapped_all_def)
  from map_eq_imp_length_eq [OF m(2)] have "length insts = length raws" by simp
  with arg_cong [OF m(1), of "\<lambda>xs. xs ! n"] arg_cong [OF m(2), of "\<lambda>xs. xs ! n"] assms show ?thesis
    by (simp add: wrapped_all_def list_all_length)
qed

lemma wrapped_all_length: "wrapped_all base r outer raws insts \<Longrightarrow> length insts = length raws"
  by (auto simp: wrapped_all_def)

lemma wrapped_all_same:
  assumes "wrapped_all base r outer raws insts" and "wrapped_all base r' outer raws insts'" and "dictionary_form r r'"
  shows "list_all2 same_instruction insts insts'"
  using assms by (intro list_all2_all_nthI) (simp_all add: wrapped_all_length same_instruction_def wrapped_all_nth)

definition same_group :: "sol_instruction inner_instructions \<Rightarrow> sol_instruction inner_instructions \<Rightarrow> bool" where
  "same_group g g' = (ii_index g = ii_index g' \<and> list_all2 same_instruction (ii_instructions g) (ii_instructions g'))"

lemma same_groups_at:
  "list_all2 same_group gs gs' \<Longrightarrow>
     list_all2 same_instruction (concat (map ii_instructions (filter (\<lambda>g. ii_index g = k) gs)))
       (concat (map ii_instructions (filter (\<lambda>g. ii_index g = k) gs')))"
  by (induction rule: list_all2_induct) (auto simp: same_group_def list_all2_appendI)

lemma same_order:
  assumes "list_all2 same_group gs gs'"
  shows "list_all2 same_instruction insts insts' \<Longrightarrow> list_all2 same_instruction
     (concat (map (\<lambda>(i, x). x # concat (map ii_instructions (filter (\<lambda>g. ii_index g = i) gs))) (enumerate n insts)))
     (concat (map (\<lambda>(i, x). x # concat (map ii_instructions (filter (\<lambda>g. ii_index g = i) gs'))) (enumerate n insts')))"
proof (induction insts insts' arbitrary: n rule: list_all2_induct)
  case (Cons x xs y ys)
  then show ?case using same_groups_at [OF assms, of n] by (simp add: list_all2_appendI)
qed simp

lemma dictionary_tx_items:
  assumes "wrapped_tx base r t" and "wrapped_tx base r' t'" and "dictionary_form r r'"
  shows "list_all2 alike (tx_items t) (tx_items t')"
proof -
  have tx: "alike (TransactionItem t) (TransactionItem t')"
  proof -
    have "filterTransactionsProcessor t flt = filterTransactionsProcessor t' flt" for flt
      using assms by (simp add: filterTransactions_iff wrapped_tx_def dictionary_form_def split: option.split)
    then have "getFilterTypeMap lib fts h (TransactionItem t) d = getFilterTypeMap lib fts h (TransactionItem t') d" for lib fts h d
      by (cases h) simp_all
    then show ?thesis by (simp add: alike_def)
  qed
  have top: "list_all2 same_instruction (instructions (message (transaction t))) (instructions (message (transaction t')))"
    using assms wrapped_all_same [OF _ _ assms(3)] by (fastforce simp: wrapped_tx_def dictionary_form_def)
  have "list_all2 same_group (tx_inner t) (tx_inner t') \<and> tx_logs t = tx_logs t'"
  proof (cases "meta r")
    case None
    with assms show ?thesis by (simp add: wrapped_tx_def dictionary_form_def tx_inner_def tx_logs_def)
  next
    case (Some m)
    then obtain m' n n' where m: "meta r' = Some m'" "dictionary_meta m m'" "meta t = Some n" "meta t' = Some n'"
        "wrapped_meta base r m n" "wrapped_meta base r' m' n'"
      using assms by (auto simp: wrapped_tx_def dictionary_form_def option_rel_Some1)
    let ?raws = "case raw_innerInstructions m of None \<Rightarrow> [] | Some gs \<Rightarrow> gs"
    have "list_all2 (\<lambda>raws insts. ii_index insts = ii_index raws \<and>
          wrapped_all base r [ii_index raws] (ii_instructions raws) (ii_instructions insts)) ?raws (innerInstructions n)"
      "list_all2 (\<lambda>raws insts. ii_index insts = ii_index raws \<and>
          wrapped_all base r' [ii_index raws] (ii_instructions raws) (ii_instructions insts)) ?raws (innerInstructions n')"
      using m by (simp_all add: wrapped_meta_def dictionary_meta_def)
    then have "list_all2 same_group (innerInstructions n) (innerInstructions n')"
      using wrapped_all_same [OF _ _ assms(3)] by (fastforce simp: list_all2_conv_all_nth same_group_def)
    moreover have "logs n = logs n'" using m(2,5,6) by (auto simp: wrapped_meta_def dictionary_meta_def)
    ultimately show ?thesis using m(3,4) by (simp add: tx_inner_def tx_logs_def)
  qed
  then have order: "list_all2 same_instruction (instruction_order t) (instruction_order t')" and lg: "tx_logs t = tx_logs t'"
    using same_order [OF _ top] by (simp_all add: instruction_order_def)
  have "list_all2 alike (map InstructionItem (instruction_order t)) (map InstructionItem (instruction_order t'))"
    using order same_instruction_alike by (auto simp: list_all2_map1 list_all2_map2 elim: list_all2_mono)
  moreover have "list_all2 alike (map LogItem ls) (map LogItem ls)" for ls
    by (simp add: list_all2_same alike_def)
  ultimately show ?thesis using tx lg by (simp add: tx_items_def list_all2_appendI)
qed

text \<open>C13: a block is indexed alike whether it comes from the endpoint or from the dictionary. When
  the dictionary returns the block with its logs attributed as \<open>wrapLogs\<close> attributes them, it
  transforms whenever the block of the endpoint does, and the items offered to the handlers
  match one by one: each has the same kind, every filter of every handler gives the same
  answer on both, and instructions and logs decode to the same data.\<close>

theorem dictionary_block_indexed_alike:
  assumes "transformBlock raw = Inr b" and "base_block.truncate raw' = base_block.truncate raw"
    and "list_all2 dictionary_form (raw_transactions raw) (raw_transactions raw')"
  shows "\<exists>b'. transformBlock raw' = Inr b' \<and> list_all2 alike (block_items b) (block_items b')"
proof -
  have "tx_parses r'" if "dictionary_form r r'" for r r'
    using that by (auto simp: tx_parses_def logs_parse_def dictionary_form_def dictionary_meta_def option_rel_Some2 split: option.splits)
  with assms(3) have "list_all tx_parses (raw_transactions raw')"
    by (auto simp: list_all_iff dest: list_all2_set_right)
  then obtain b' where b': "transformBlock raw' = Inr b'" using transformBlock_total by blast
  let ?base = "base_block.truncate raw"
  note w = transformBlock_wrapped [OF assms(1)] transformBlock_wrapped [OF b', unfolded assms(2)]
  have "alike (BlockItem b) (BlockItem b')"
  proof -
    have "bb_blockHeight b = bb_blockHeight b'" "bb_blockTime b = bb_blockTime b'"
      using w by (simp_all add: base_block.defs)
    then have "filterBlocksProcessor fts b flt = filterBlocksProcessor fts b' flt" for fts flt
      by (simp only: filterBlocksProcessor_def)
    then have "getFilterTypeMap lib fts h (BlockItem b) d = getFilterTypeMap lib fts h (BlockItem b') d" for lib fts h d
      by (cases h) simp_all
    then show ?thesis by (simp add: alike_def)
  qed
  moreover have "list_all2 (\<lambda>t t'. list_all2 alike (tx_items t) (tx_items t')) (transactions b) (transactions b')"
    using w assms(3) dictionary_tx_items by (fastforce simp: list_all2_conv_all_nth)
  then have "list_all2 alike (concat (map tx_items (transactions b))) (concat (map tx_items (transactions b')))"
    by (induction rule: list_all2_induct) (simp_all add: list_all2_appendI)
  ultimately show ?thesis using b' by (auto simp: block_items_def)
qed

definition example_lines :: "string list" where
  "example_lines = [''Program A invoke [1]'', ''Program log: x'', ''Program A success'']"

definition example_dictionary_block :: raw_block where
  "example_dictionary_block = (example_raw_block None)\<lparr>raw_transactions :=
     [(example_raw_tx None)\<lparr>meta := map_option (\<lambda>m. m\<lparr>dictionaryLogs :=
        Some [\<lparr>dl_message = ''Program log: x'', dl_logIndex = 1, dl_programId = ''A'', dl_kind = LogLog\<rparr>]\<rparr>) (meta (example_raw_tx None))\<rparr>]\<rparr>"

theorem dictionary_block_indexed_alike_witness:
  "\<exists>b b'. transformBlock (example_raw_block (Some example_lines)) = Inr b \<and> transformBlock example_dictionary_block = Inr b' \<and>
     list_all2 alike (block_items b) (block_items b') \<and> block_items b \<noteq> []"
proof -
  let ?raw = "example_raw_block (Some example_lines)"
  have wrap: "wrapLogs (Some example_lines) = Inr (Some (wrapDictionaryLogs
      [\<lparr>dl_message = ''Program log: x'', dl_logIndex = 1, dl_programId = ''A'', dl_kind = LogLog\<rparr>]))"
    by (simp add: example_lines_def wrapLogs_def wrapLogs_line_def startsWith_def program_line_def mk_log_def wrapDictionaryLogs_def last_opt_def)
  have "\<exists>b. transformBlock ?raw = Inr b"
    using wrap by (simp add: transformBlock_def transformTx_def transformMeta_def example_raw_block_def example_raw_tx_def Let_def)
  then obtain b where b: "transformBlock ?raw = Inr b" ..
  have base: "base_block.truncate example_dictionary_block = base_block.truncate ?raw"
    by (simp add: example_dictionary_block_def example_raw_block_def base_block.defs)
  have "list_all2 dictionary_form (raw_transactions ?raw) (raw_transactions example_dictionary_block)"
    using wrap by (simp add: example_dictionary_block_def example_raw_block_def example_raw_tx_def dictionary_form_def
        dictionary_meta_def tx_meta.defs)
  from dictionary_block_indexed_alike [OF b base this] b show ?thesis by (auto simp: block_items_def)
qed

end
