(* ===== verification/ApiService.thy ===== *)
theory ApiService
  imports RpcTheorems Codec
begin

section \<open>The API service, its connections and accounts\<close>

text \<open>
  \<open>SolanaApiService.init\<close> of \<open>solana/api.service.solana.ts\<close>, \<open>SolanaApiConnection.create\<close> of
  \<open>api.connection.ts\<close>, and \<open>getAccountInfo\<close> of \<open>api.solana.ts\<close>. The decoder of the service is
  an object that all connections share, so it is a reference here. \<open>createConnections\<close> and
  \<open>profilerWrap\<close> of node-core are parameters, and so is the client of \<open>@solana/rpc\<close>.
\<close>

subsection \<open>Connections\<close>

record endpoint_config =
  ec_requestTimeout :: "int option"
  ec_rest :: "(string \<times> string) list"

record connection =
  unsafeApi :: solana_api
  conn_decoder :: nat
  conn_networkMeta :: network_meta

definition create_connection ::
  "(string \<Rightarrow> rpc_client result) \<Rightarrow> string \<Rightarrow> nat \<Rightarrow> endpoint_config option \<Rightarrow> bool option \<Rightarrow> connection result" where
  "create_connection createSolanaRpc endpoint dec config treatLongTermStorageSkipAsSkipped =
     (case create_api createSolanaRpc endpoint (case config of None \<Rightarrow> None | Some c \<Rightarrow> ec_requestTimeout c)
             treatLongTermStorageSkipAsSkipped of
        Inl e \<Rightarrow> Inl e
      | Inr api \<Rightarrow> Inr \<lparr>unsafeApi = api, conn_decoder = dec, conn_networkMeta = networkMeta api\<rparr>)"

subsection \<open>The service\<close>

text \<open>
  The endpoints of a network: one, several, or a record of configurations. The code assigns
  \<open>network.endpoint[endpoint] = config\<close>: on a record that sets the entry, on an array it adds
  a property next to the elements, on a string it throws (modules are strict code).
\<close>

datatype endpoints =
    OneEndpoint string
  | ManyEndpoints "string list" "(string \<times> endpoint_config) list"
  | NamedEndpoints "(string \<times> endpoint_config) list"

record network =
  nw_chainId :: string
  nw_endpoint :: endpoints

fun assign_endpoint :: "string \<Rightarrow> endpoint_config \<Rightarrow> endpoints \<Rightarrow> endpoints result" where
  "assign_endpoint e c (OneEndpoint s) = Inl (TypeError ''Cannot create property on string'')"
| "assign_endpoint e c (ManyEndpoints ss props) = Inr (ManyEndpoints ss (set_entry e c props))"
| "assign_endpoint e c (NamedEndpoints es) = Inr (NamedEndpoints (set_entry e c es))"

text \<open>
  The configuration of the node: the primary endpoint given on the command line, the skip option
  and the profiler.
\<close>

record node_config =
  primaryNetworkEndpoint :: "(string \<times> endpoint_config) option"
  cfg_treatLongTermStorageSkipAsSkipped :: "bool option"
  profiler :: bool

record api_service =
  fetchBlocksFunction :: "fetch_func option"
  svc_decoder :: nat
  connections :: "connection list"

definition updateBlockFetching ::
  "(string \<Rightarrow> string result) \<Rightarrow> (fetch_func \<Rightarrow> fetch_func) \<Rightarrow> node_config \<Rightarrow> api_service \<Rightarrow> api_service" where
  "updateBlockFetching hostname profilerWrap cfg s =
     s\<lparr>fetchBlocksFunction :=
         Some (if profiler cfg then profilerWrap (fetchFullBlocksBatch hostname) else fetchFullBlocksBatch hostname)\<rparr>"

definition connection_factory ::
  "(string \<Rightarrow> rpc_client result) \<Rightarrow> node_config \<Rightarrow> api_service \<Rightarrow> string \<Rightarrow> endpoint_config option \<Rightarrow> connection result" where
  "connection_factory createSolanaRpc cfg s endpoint config =
     create_connection createSolanaRpc endpoint (svc_decoder s) config
       (Some (node_config_treatSkip (cfg_treatLongTermStorageSkipAsSkipped cfg)))"

definition service_network :: "network result \<Rightarrow> node_config \<Rightarrow> network result" where
  "service_network project_network cfg =
     (case project_network of
        Inl e \<Rightarrow> Inl (ProcessExit ''Failed to init api'')
      | Inr n \<Rightarrow>
          (case primaryNetworkEndpoint cfg of
             None \<Rightarrow> Inr n
           | Some (endpoint, config) \<Rightarrow>
               (case assign_endpoint endpoint config (nw_endpoint n) of
                  Inl e \<Rightarrow> Inl e
                | Inr es \<Rightarrow> Inr (n\<lparr>nw_endpoint := es\<rparr>))))"

text \<open>\<open>dec\<close> is the reference of the decoder that \<open>new SolanaDecoder()\<close> returns.\<close>

definition init_api_service ::
  "(string \<Rightarrow> rpc_client result) \<Rightarrow> (string \<Rightarrow> string result) \<Rightarrow> (fetch_func \<Rightarrow> fetch_func) \<Rightarrow>
   (network \<Rightarrow> (string \<Rightarrow> endpoint_config option \<Rightarrow> connection result) \<Rightarrow> connection list result) \<Rightarrow>
   network result \<Rightarrow> node_config \<Rightarrow> nat \<Rightarrow> api_service result" where
  "init_api_service createSolanaRpc hostname profilerWrap createConnections project_network cfg dec =
     (case service_network project_network cfg of
        Inl e \<Rightarrow> Inl e
      | Inr n \<Rightarrow>
          (let s = updateBlockFetching hostname profilerWrap cfg
                     \<lparr>fetchBlocksFunction = None, svc_decoder = dec, connections = []\<rparr>
           in case createConnections n (connection_factory createSolanaRpc cfg s) of
                Inl e \<Rightarrow> Inl e
              | Inr cs \<Rightarrow> Inr (s\<lparr>connections := cs\<rparr>)))"

definition metadataMismatchError :: "string \<Rightarrow> string \<Rightarrow> string \<Rightarrow> js_error" where
  "metadataMismatchError metadata expected actual =
     Error (''Value of '' @ metadata @ '' does not match across all endpoints. Please check that your endpoints are for the same network.'' @
       CHR 0x0A # CHR 0x0A # ''       Expected: '' @ expected @ CHR 0x0A # ''       Actual: '' @ actual)"

subsection \<open>Accounts\<close>

text \<open>
  \<open>getAccountInfo\<close> takes a string or an object with \<open>toBase58\<close>; \<open>assertIsAddress\<close> of
  \<open>@solana/addresses\<close> and the request are parameters. The answer has the data in base64.
\<close>

datatype address_arg =
    AddressString string
  | AddressObject string

fun address_string :: "address_arg \<Rightarrow> string" where
  "address_string (AddressString s) = s"
| "address_string (AddressObject base58) = base58"

definition getAccountInfo ::
  "(string \<Rightarrow> unit result) \<Rightarrow> (string \<Rightarrow> string option result) \<Rightarrow> address_arg \<Rightarrow> bytes option result" where
  "getAccountInfo assertIsAddress rpc_getAccountInfo address =
     (case assertIsAddress (address_string address) of
        Inl e \<Rightarrow> Inl e
      | Inr u \<Rightarrow>
          (case rpc_getAccountInfo (address_string address) of
             Inl e \<Rightarrow> Inl e
           | Inr None \<Rightarrow> Inr None
           | Inr (Some data64) \<Rightarrow> Inr (Some (base64_decode data64))))"

end
