(* ===== verification/ApiServiceTheorems.thy ===== *)
theory ApiServiceTheorems
  imports ApiService
begin

section \<open>The properties of the API service\<close>

text \<open>
  Every connection of an initialised service decodes with the service's decoder, identifies its
  network by the genesis hash its endpoint reports, and can fetch at once, because the fetch
  function is set before the connections are made.
\<close>

lemma create_connection_Inr:
  "create_connection createSolanaRpc endpoint dec config treat = Inr c \<longleftrightarrow>
     (\<exists>client hash. createSolanaRpc endpoint = Inr client \<and> rpc_getGenesisHash client = Inr hash \<and>
        c = \<lparr>unsafeApi = \<lparr>api_client = client, api_genesisBlockHash = hash, api_endpoint = endpoint,
               api_requestTimeout = (case (case config of None \<Rightarrow> None | Some k \<Rightarrow> ec_requestTimeout k) of
                  None \<Rightarrow> REQUEST_TIMEOUT | Some t \<Rightarrow> t),
               api_treatLongTermStorageSkipAsSkipped = (case treat of None \<Rightarrow> True | Some b \<Rightarrow> b)\<rparr>,
             conn_decoder = dec,
             conn_networkMeta = \<lparr>nm_chain = hash, nm_specName = ''solana'', nm_genesisHash = hash\<rparr>\<rparr>)"
  by (auto simp: create_connection_def create_api_def networkMeta_def getGenesisHash_def getSpecName_def split: sum.splits)

lemma init_api_service_Inr:
  assumes "init_api_service createSolanaRpc hostname profilerWrap createConnections project_network cfg dec = Inr s"
  shows "\<exists>n s0. service_network project_network cfg = Inr n \<and>
    s0 = updateBlockFetching hostname profilerWrap cfg \<lparr>fetchBlocksFunction = None, svc_decoder = dec, connections = []\<rparr> \<and>
    createConnections n (connection_factory createSolanaRpc cfg s0) = Inr (connections s) \<and>
    s = s0\<lparr>connections := connections s\<rparr>"
  using assms by (auto simp: init_api_service_def Let_def split: sum.splits)

text \<open>The endpoints a network names, with their configurations.\<close>

fun endpoint_entries :: "endpoints \<Rightarrow> (string \<times> endpoint_config option) list" where
  "endpoint_entries (OneEndpoint e) = [(e, None)]"
| "endpoint_entries (ManyEndpoints es props) = map (\<lambda>e. (e, None)) es"
| "endpoint_entries (NamedEndpoints es) = map (\<lambda>(e, c). (e, Some c)) es"

text \<open>When the API service starts, each of its connections, which the pool made for an endpoint
  of the network with the function it was given, uses the one decoder of the service, names the
  network by the genesis hash that its own endpoint reports, has the configured or the default
  timeout and skip option, and can fetch blocks at once.\<close>

theorem init_api_service_connections:
  assumes "init_api_service createSolanaRpc hostname profilerWrap createConnections project_network cfg dec = Inr s"
    and "\<And>n f cs. createConnections n f = Inr cs \<Longrightarrow>
           \<forall>c \<in> set cs. \<exists>(e, k) \<in> set (endpoint_entries (nw_endpoint n)). f e k = Inr c"
    and "\<And>f. profilerWrap f = f" and "c \<in> set (connections s)"
  shows "conn_decoder c = dec \<and> svc_decoder s = dec \<and>
    (\<exists>n e k client hash. service_network project_network cfg = Inr n \<and> (e, k) \<in> set (endpoint_entries (nw_endpoint n)) \<and>
       createSolanaRpc e = Inr client \<and> rpc_getGenesisHash client = Inr hash \<and>
       unsafeApi c = \<lparr>api_client = client, api_genesisBlockHash = hash, api_endpoint = e,
         api_requestTimeout = (case k of None \<Rightarrow> 30000 | Some kc \<Rightarrow> (case ec_requestTimeout kc of None \<Rightarrow> 30000 | Some t \<Rightarrow> t)),
         api_treatLongTermStorageSkipAsSkipped = (cfg_treatLongTermStorageSkipAsSkipped cfg \<noteq> Some False)\<rparr> \<and>
       nm_chain (conn_networkMeta c) = hash \<and> nm_genesisHash (conn_networkMeta c) = hash) \<and>
    connection_fetchBlocks (fetchBlocksFunction s) (unsafeApi c) = fetchBlocks hostname (unsafeApi c)"
proof -
  from init_api_service_Inr [OF assms(1)] obtain n s0 where n: "service_network project_network cfg = Inr n"
      and s0: "s0 = updateBlockFetching hostname profilerWrap cfg \<lparr>fetchBlocksFunction = None, svc_decoder = dec, connections = []\<rparr>"
      and made: "createConnections n (connection_factory createSolanaRpc cfg s0) = Inr (connections s)"
      and s: "s = s0\<lparr>connections := connections s\<rparr>" by blast
  have f0: "fetchBlocksFunction s0 = Some (fetchFullBlocksBatch hostname)" "svc_decoder s0 = dec"
    by (simp_all add: s0 updateBlockFetching_def assms(3))
  have f: "fetchBlocksFunction s = fetchBlocksFunction s0" "svc_decoder s = svc_decoder s0"
    by (subst s, simp)+
  from assms(2) [OF made] assms(4) obtain e k where e: "(e, k) \<in> set (endpoint_entries (nw_endpoint n))"
      and "connection_factory createSolanaRpc cfg s0 e k = Inr c" by blast
  then obtain client hash where "createSolanaRpc e = Inr client" "rpc_getGenesisHash client = Inr hash"
      and c: "c = \<lparr>unsafeApi = \<lparr>api_client = client, api_genesisBlockHash = hash, api_endpoint = e,
         api_requestTimeout = (case k of None \<Rightarrow> 30000 | Some kc \<Rightarrow> (case ec_requestTimeout kc of None \<Rightarrow> 30000 | Some t \<Rightarrow> t)),
         api_treatLongTermStorageSkipAsSkipped = (cfg_treatLongTermStorageSkipAsSkipped cfg \<noteq> Some False)\<rparr>,
         conn_decoder = dec, conn_networkMeta = \<lparr>nm_chain = hash, nm_specName = ''solana'', nm_genesisHash = hash\<rparr>\<rparr>"
    by (auto simp: connection_factory_def create_connection_Inr node_config_treatSkip_def REQUEST_TIMEOUT_def f0
        split: option.splits)
  moreover have "connection_fetchBlocks (fetchBlocksFunction s) (unsafeApi c) = fetchBlocks hostname (unsafeApi c)"
    by (intro ext) (simp add: f f0 connection_fetchBlocks_def fetchBlocksBatches_def fetchFullBlocksBatch_def)
  ultimately show ?thesis using n e f f0 by auto
qed

text \<open>A pool that connects the endpoints of a network one after another.\<close>

definition connect_each ::
  "network \<Rightarrow> (string \<Rightarrow> endpoint_config option \<Rightarrow> connection result) \<Rightarrow> connection list result" where
  "connect_each n f = traverse (\<lambda>(e, k). f e k) (endpoint_entries (nw_endpoint n))"

lemma connect_each_made:
  "connect_each n f = Inr cs \<Longrightarrow> \<forall>c \<in> set cs. \<exists>(e, k) \<in> set (endpoint_entries (nw_endpoint n)). f e k = Inr c"
  by (auto simp: connect_each_def traverse_Inr_iff dest!: list_all2_set_right)

definition example_config :: "(string \<times> endpoint_config) option \<Rightarrow> node_config" where
  "example_config p = \<lparr>primaryNetworkEndpoint = p, cfg_treatLongTermStorageSkipAsSkipped = None, profiler = False\<rparr>"

definition example_client :: "string \<Rightarrow> rpc_client result" where
  "example_client e = Inr (api_client (block_api (\<lambda>n. Inr None)))"

theorem init_api_service_connections_witness:
  "\<exists>s c. init_api_service example_client Inr (\<lambda>f. f) connect_each (Inr \<lparr>nw_chainId = ''g'', nw_endpoint = OneEndpoint ''http://x''\<rparr>)
      (example_config None) 7 = Inr s \<and> connections s = [c] \<and> conn_decoder c = 7 \<and> nm_chain (conn_networkMeta c) = ''g''"
proof -
  let ?init = "init_api_service example_client Inr (\<lambda>f. f) connect_each (Inr \<lparr>nw_chainId = ''g'', nw_endpoint = OneEndpoint ''http://x''\<rparr>)
      (example_config None) 7"
  obtain s c where s: "?init = Inr s" "connections s = [c]"
    by (simp add: init_api_service_def service_network_def connect_each_def example_config_def Let_def connection_factory_def
        create_connection_def create_api_def example_client_def block_api_def)
  from init_api_service_connections [OF s(1) connect_each_made, of c] s show ?thesis
    by (auto simp: example_client_def block_api_def)
qed

text \<open>The primary endpoint of the command line is set in a record of endpoints, where it
  replaces a configuration of its own and no other; when the network gives its endpoint as a
  string, the service does not start, and when it gives an array, the primary endpoint is not
  among those connected. A project without a readable network ends the process.\<close>

theorem primary_endpoint:
  assumes "primaryNetworkEndpoint cfg = Some (e, k)"
  shows "(\<forall>n es. nw_endpoint n = NamedEndpoints es \<longrightarrow>
      (\<exists>es'. service_network (Inr n) cfg = Inr (n\<lparr>nw_endpoint := NamedEndpoints es'\<rparr>) \<and> map_of es' = (map_of es)(e \<mapsto> k))) \<and>
    (\<forall>n u. nw_endpoint n = OneEndpoint u \<longrightarrow>
      (\<exists>m. init_api_service createSolanaRpc hostname profilerWrap createConnections (Inr n) cfg dec = Inl (TypeError m))) \<and>
    (\<forall>n us props. nw_endpoint n = ManyEndpoints us props \<longrightarrow>
      (\<exists>n'. service_network (Inr n) cfg = Inr n' \<and> endpoint_entries (nw_endpoint n') = endpoint_entries (nw_endpoint n))) \<and>
    (\<forall>err. init_api_service createSolanaRpc hostname profilerWrap createConnections (Inl err) cfg dec =
       Inl (ProcessExit ''Failed to init api''))"
  using assms by (auto simp: service_network_def init_api_service_def)

theorem primary_endpoint_witness:
  "\<exists>m. init_api_service example_client Inr (\<lambda>f. f) connect_each (Inr \<lparr>nw_chainId = ''g'', nw_endpoint = OneEndpoint ''http://x''\<rparr>)
     (example_config (Some (''http://y'', \<lparr>ec_requestTimeout = None, ec_rest = []\<rparr>))) 7 = Inl (TypeError m)"
proof -
  have "primaryNetworkEndpoint (example_config (Some (''http://y'', \<lparr>ec_requestTimeout = None, ec_rest = []\<rparr>))) =
      Some (''http://y'', \<lparr>ec_requestTimeout = None, ec_rest = []\<rparr>)" by (simp add: example_config_def)
  from primary_endpoint [OF this, of example_client Inr "\<lambda>f. f" connect_each 7] show ?thesis by simp
qed

text \<open>Account data comes back as it was stored: when the endpoint answers with the base64 text of some bytes,
  \<open>getAccountInfo\<close> returns these bytes, for an address given as a string or as a public key,
  and nothing is requested for a text that is not an address.\<close>

theorem getAccountInfo_bytes:
  assumes "rpc_getAccountInfo s = Inr (map_option base64_encode stored)" and "address_string a = s"
  shows "getAccountInfo assertIsAddress rpc_getAccountInfo a =
    (case assertIsAddress s of Inl e \<Rightarrow> Inl e | Inr u \<Rightarrow> Inr stored)"
  using assms by (auto simp: getAccountInfo_def base64.decode_encode split: sum.split option.split)

theorem getAccountInfo_bytes_witness:
  "getAccountInfo (\<lambda>s. Inr ()) (\<lambda>s. Inr (Some (base64_encode [1, 2, 3]))) (AddressObject ''A'') = Inr (Some [1, 2, 3])"
  by (subst getAccountInfo_bytes [where s = "''A''" and stored = "Some [1, 2, 3]"]) simp_all

end
