(* ===== verification/DictionaryV2.thy ===== *)
theory DictionaryV2
  imports Manifest ApiService DictionaryTheorems
begin

section \<open>The dictionary client\<close>

text \<open>
  The class \<open>SolanaDictionaryV2\<close> of \<open>indexer/dictionary/v2/solanaDictionaryV2.ts\<close>: its creation,
  the request it sends, and the numbers of its answers. JSON numbers of the dictionary go
  through the response transformer of \<open>@solana/rpc-transformers\<close>, which turns them into
  \<open>bigint\<close>s except at the key paths that \<open>parseBlock\<close> lists. \<open>DictionaryV2\<close> of node-core (the
  requests) and the transformer are parameters.
\<close>

subsection \<open>Creation and requests\<close>

record dictionary_v2 =
  dv_endpoint :: string
  dv_chainId :: string
  dv_decoder :: nat

definition new_SolanaDictionaryV2 :: "string \<Rightarrow> network \<Rightarrow> api_service \<Rightarrow> dictionary_v2" where
  "new_SolanaDictionaryV2 endpoint project_network api =
     \<lparr>dv_endpoint = endpoint, dv_chainId = nw_chainId project_network, dv_decoder = svc_decoder api\<rparr>"

text \<open>\<open>init\<close> of the base class asks the endpoint for its metadata and may throw.\<close>

definition create_dictionary ::
  "(dictionary_v2 \<Rightarrow> 'd result) \<Rightarrow> string \<Rightarrow> network \<Rightarrow> api_service \<Rightarrow> 'd result" where
  "create_dictionary init endpoint project_network api = init (new_SolanaDictionaryV2 endpoint project_network api)"

definition service_dictionaries ::
  "(dictionary_v2 \<Rightarrow> 'd result) \<Rightarrow> (network \<Rightarrow> string list result) \<Rightarrow> network \<Rightarrow> api_service \<Rightarrow> 'd list result" where
  "service_dictionaries init getDictionaryEndpoints project_network api =
     initDictionaries (\<lambda>endpoint. create_dictionary init endpoint project_network api) (getDictionaryEndpoints project_network)"

definition buildDictionaryQueryEntries ::
  "idl_lib \<Rightarrow> datasource list \<Rightarrow> decoder \<Rightarrow> query_entry result \<times> decoder" where
  "buildDictionaryQueryEntries lib dataSources d = buildDictionaryV2QueryEntry lib dataSources d"

definition MIN_FETCH_LIMIT :: int where
  "MIN_FETCH_LIMIT = 200"

text \<open>What the answer has to contain: the objects with the related data of each.\<close>

record field_selection =
  blockHeader :: bool
  logs_transaction :: bool
  instructions_transaction :: bool
  transactions_log :: bool
  transactions_instructions :: bool

definition selected_fields :: field_selection where
  "selected_fields =
     \<lparr>blockHeader = True, logs_transaction = True, instructions_transaction = True, transactions_log = True,
      transactions_instructions = True\<rparr>"

definition getData ::
  "(int \<Rightarrow> int \<Rightarrow> int \<Rightarrow> field_selection \<Rightarrow> 'a) \<Rightarrow> int \<Rightarrow> int \<Rightarrow> int option \<Rightarrow> 'a" where
  "getData base_getData startBlock endBlock limit =
     base_getData startBlock endBlock (case limit of None \<Rightarrow> MIN_FETCH_LIMIT | Some l \<Rightarrow> l) selected_fields"

subsection \<open>Key paths\<close>

datatype key_segment =
    Key string
  | KEYPATH_WILDCARD

datatype json_key =
    Field string
  | Index nat

definition in_meta :: "key_segment list \<Rightarrow> key_segment list" where
  "in_meta p = [Key ''transactions'', KEYPATH_WILDCARD, Key ''meta''] @ p"

text \<open>\<open>innerInstructionsConfigs\<close> and \<open>messageConfig\<close> are constants of \<open>@solana/rpc-transformers\<close>.\<close>

definition allowedNumericKeyPaths :: "key_segment list list \<Rightarrow> key_segment list list \<Rightarrow> key_segment list list" where
  "allowedNumericKeyPaths innerInstructionsConfigs messageConfig =
     [in_meta [Key ''preTokenBalances'', KEYPATH_WILDCARD, Key ''accountIndex''],
      in_meta [Key ''preTokenBalances'', KEYPATH_WILDCARD, Key ''uiTokenAmount'', Key ''decimals''],
      in_meta [Key ''postTokenBalances'', KEYPATH_WILDCARD, Key ''accountIndex''],
      in_meta [Key ''postTokenBalances'', KEYPATH_WILDCARD, Key ''uiTokenAmount'', Key ''decimals''],
      in_meta [Key ''rewards'', KEYPATH_WILDCARD, Key ''commission'']] @
     map (\<lambda>c. in_meta ([Key ''innerInstructions'', KEYPATH_WILDCARD] @ c)) innerInstructionsConfigs @
     map (\<lambda>c. [Key ''transactions'', KEYPATH_WILDCARD, Key ''transaction'', Key ''message''] @ c) messageConfig @
     [[Key ''rewards'', KEYPATH_WILDCARD, Key ''commission'']]"

text \<open>A wildcard stands for any index of an array.\<close>

fun segment_matches :: "key_segment \<Rightarrow> json_key \<Rightarrow> bool" where
  "segment_matches (Key k) (Field f) = (k = f)"
| "segment_matches KEYPATH_WILDCARD (Index i) = True"
| "segment_matches s k = False"

definition stays_number :: "key_segment list list \<Rightarrow> json_key list \<Rightarrow> bool" where
  "stays_number paths at = list_ex (\<lambda>p. list_all2 segment_matches p at) paths"

fun json_child :: "js_value \<Rightarrow> json_key \<Rightarrow> js_value option" where
  "json_child (JObj fs) (Field f) = map_of fs f"
| "json_child (JArr vs) (Index i) = nth_opt vs i"
| "json_child v k = None"

fun json_at :: "js_value \<Rightarrow> json_key list \<Rightarrow> js_value option" where
  "json_at v [] = Some v"
| "json_at v (k # ks) = (case json_child v k of None \<Rightarrow> None | Some w \<Rightarrow> json_at w ks)"

text \<open>
  The documented effect of the transformer on numbers: the number at an allowed path stays one,
  any other becomes a \<open>bigint\<close>.
\<close>

definition transforms_numbers :: "(key_segment list list \<Rightarrow> js_value \<Rightarrow> js_value) \<Rightarrow> bool" where
  "transforms_numbers transformer =
     (\<forall>paths v at n. json_at v at = Some (JNum n) \<longrightarrow>
        json_at (transformer paths v) at = Some (if stays_number paths at then JNum n else JBig n))"

text \<open>\<open>parseBlock\<close> on the JSON of a block: the value that \<open>transformBlock\<close> then reads.\<close>

definition rpcBlock ::
  "(key_segment list list \<Rightarrow> js_value \<Rightarrow> js_value) \<Rightarrow> key_segment list list \<Rightarrow> key_segment list list \<Rightarrow> js_value \<Rightarrow> js_value" where
  "rpcBlock transformer innerInstructionsConfigs messageConfig block =
     transformer (allowedNumericKeyPaths innerInstructionsConfigs messageConfig) block"

subsection \<open>Which numbers stay numbers\<close>

lemma match_Key:
  "list_all2 segment_matches (Key k # p) at \<longleftrightarrow> (\<exists>rest. at = Field k # rest \<and> list_all2 segment_matches p rest)"
proof (cases at)
  case (Cons a rest)
  then show ?thesis by (cases a) auto
qed simp

lemma match_wildcard:
  "list_all2 segment_matches (KEYPATH_WILDCARD # p) at \<longleftrightarrow> (\<exists>j rest. at = Index j # rest \<and> list_all2 segment_matches p rest)"
proof (cases at)
  case (Cons a rest)
  then show ?thesis by (cases a) auto
qed simp

lemma stays_number_simps [simp]:
  "\<not> stays_number [] at" "stays_number (p # ps) at \<longleftrightarrow> list_all2 segment_matches p at \<or> stays_number ps at"
  "stays_number (ps @ qs) at \<longleftrightarrow> stays_number ps at \<or> stays_number qs at"
  by (simp_all add: stays_number_def)

lemma stays_under_Key:
  "stays_number (map (\<lambda>c. Key k # f c) ps) at \<longleftrightarrow> (\<exists>rest. at = Field k # rest \<and> stays_number (map f ps) rest)"
  by (induction ps) (auto simp: match_Key)

lemma stays_under_wildcard:
  "stays_number (map (\<lambda>c. KEYPATH_WILDCARD # f c) ps) at \<longleftrightarrow> (\<exists>j rest. at = Index j # rest \<and> stays_number (map f ps) rest)"
  by (induction ps) (auto simp: match_wildcard)

text \<open>A transformer with the documented effect: the paths are followed down the value.\<close>

fun below :: "key_segment list list \<Rightarrow> json_key \<Rightarrow> key_segment list list" where
  "below [] k = []"
| "below ([] # ps) k = below ps k"
| "below ((s # p) # ps) k = (if segment_matches s k then p # below ps k else below ps k)"

lemma stays_number_below: "stays_number ps (k # at) = stays_number (below ps k) at"
  by (induction ps k rule: below.induct) auto

lemma stays_number_Nil: "stays_number ps [] = ([] \<in> set ps)"
  by (induction ps) auto

lemma below_Index: "below ps (Index i) = below ps (Index 0)"
proof (induction ps "Index i" rule: below.induct)
  case (3 s p ps)
  then show ?case by (cases s) simp_all
qed simp_all

fun upcast :: "key_segment list list \<Rightarrow> js_value \<Rightarrow> js_value" where
  "upcast ps (JNum n) = (if [] \<in> set ps then JNum n else JBig n)"
| "upcast ps (JArr vs) = JArr (map (upcast (below ps (Index 0))) vs)"
| "upcast ps (JObj fs) = JObj (map (\<lambda>(k, v). (k, upcast (below ps (Field k)) v)) fs)"
| "upcast ps v = v"

lemma json_child_upcast: "json_child v k = Some w \<Longrightarrow> json_child (upcast ps v) k = Some (upcast (below ps k) w)"
proof (induction v k rule: json_child.induct)
  case (1 fs f)
  then show ?case by (induction fs) auto
next
  case (2 vs i)
  then show ?case by (simp add: nth_opt_def below_Index [of ps i] split: if_splits)
qed simp_all

lemma upcast_transforms: "transforms_numbers upcast"
proof -
  have "json_at v at = Some (JNum n) \<Longrightarrow> json_at (upcast ps v) at = Some (if stays_number ps at then JNum n else JBig n)" for ps v at n
  proof (induction at arbitrary: ps v)
    case (Cons k at)
    then obtain w where "json_child v k = Some w" "json_at w at = Some (JNum n)" by (auto split: option.splits)
    with Cons.IH [of w] show ?case by (simp add: json_child_upcast stays_number_below)
  qed (simp add: stays_number_Nil)
  then show ?thesis by (simp add: transforms_numbers_def)
qed

subsection \<open>The numbers of a dictionary block\<close>

text \<open>
  The positions of numbers that \<open>types/src/solana.ts\<close> declares as \<open>number\<close>, as a tree of fields
  and indices. \<open>innerInstructionsConfigs\<close> and \<open>messageConfig\<close> are documented to list those of an
  inner group and of a message (\<open>library_paths\<close>).
\<close>

fun under :: "string \<Rightarrow> (json_key list \<Rightarrow> bool) \<Rightarrow> json_key list \<Rightarrow> bool" where
  "under k P (Field f # at) = (f = k \<and> P at)"
| "under k P at = False"

fun each :: "(json_key list \<Rightarrow> bool) \<Rightarrow> json_key list \<Rightarrow> bool" where
  "each P (Index i # at) = P at"
| "each P at = False"

definition here_ends :: "json_key list \<Rightarrow> bool" where
  "here_ends at = (at = [])"

definition instruction_number :: "json_key list \<Rightarrow> bool" where
  "instruction_number at =
     (under ''accounts'' (each here_ends) at \<or> under ''programIdIndex'' here_ends at \<or> under ''stackHeight'' here_ends at)"

definition inner_group_number :: "json_key list \<Rightarrow> bool" where
  "inner_group_number at = (under ''index'' here_ends at \<or> under ''instructions'' (each instruction_number) at)"

definition message_number :: "json_key list \<Rightarrow> bool" where
  "message_number at =
     (under ''header'' (\<lambda>at. under ''numReadonlySignedAccounts'' here_ends at \<or> under ''numReadonlyUnsignedAccounts'' here_ends at \<or>
        under ''numRequiredSignatures'' here_ends at) at \<or>
      under ''addressTableLookups'' (each (\<lambda>at. under ''readonlyIndexes'' (each here_ends) at \<or> under ''writableIndexes'' (each here_ends) at)) at \<or>
      under ''instructions'' (each instruction_number) at)"

definition library_paths :: "key_segment list list \<Rightarrow> key_segment list list \<Rightarrow> bool" where
  "library_paths inners msgs \<longleftrightarrow> stays_number inners = inner_group_number \<and> stays_number msgs = message_number"

text \<open>The account index and the decimals of a token balance and the commission of a reward are numbers by their types in \<open>@solana/rpc-types\<close>.\<close>

definition balances_number :: "json_key list \<Rightarrow> bool" where
  "balances_number = each (\<lambda>at. under ''accountIndex'' here_ends at \<or> under ''uiTokenAmount'' (under ''decimals'' here_ends) at)"

definition rewards_number :: "json_key list \<Rightarrow> bool" where
  "rewards_number = each (under ''commission'' here_ends)"

definition number_position :: "json_key list \<Rightarrow> bool" where
  "number_position at =
     (under ''rewards'' rewards_number at \<or>
      under ''transactions'' (each (\<lambda>at.
        under ''meta'' (\<lambda>at.
          under ''preTokenBalances'' balances_number at \<or> under ''postTokenBalances'' balances_number at \<or>
          under ''rewards'' rewards_number at \<or> under ''innerInstructions'' (each inner_group_number) at) at \<or>
        under ''transaction'' (under ''message'' message_number) at)) at)"

definition logIndex_position :: "nat \<Rightarrow> nat \<Rightarrow> json_key list" where
  "logIndex_position i j = [Field ''transactions'', Index i, Field ''meta'', Field ''logs'', Index j, Field ''logIndex'']"

lemmas position_defs = number_position_def message_number_def inner_group_number_def instruction_number_def
  balances_number_def rewards_number_def

text \<open>A path matches where its fields and wildcards lead; alternatives below a key are alternatives of paths.\<close>

lemma path_matches:
  "list_all2 segment_matches (Key k # p) = under k (list_all2 segment_matches p)"
  "list_all2 segment_matches (KEYPATH_WILDCARD # p) = each (list_all2 segment_matches p)"
  "list_all2 segment_matches [] = here_ends"
proof -
  show "list_all2 segment_matches (Key k # p) = under k (list_all2 segment_matches p)"
  proof
    fix at show "list_all2 segment_matches (Key k # p) at = under k (list_all2 segment_matches p) at"
      by (cases "(k, list_all2 segment_matches p, at)" rule: under.cases) auto
  qed
  show "list_all2 segment_matches (KEYPATH_WILDCARD # p) = each (list_all2 segment_matches p)"
  proof
    fix at show "list_all2 segment_matches (KEYPATH_WILDCARD # p) at = each (list_all2 segment_matches p) at"
      by (cases "(list_all2 segment_matches p, at)" rule: each.cases) auto
  qed
  show "list_all2 segment_matches [] = here_ends"
    by (rule ext) (simp add: here_ends_def)
qed

lemma paths_match:
  "stays_number (map (\<lambda>c. Key k # f c) ps) = under k (stays_number (map f ps))"
  "stays_number (map (\<lambda>c. KEYPATH_WILDCARD # f c) ps) = each (stays_number (map f ps))"
proof -
  have "stays_number (map (\<lambda>c. Key k # f c) ps) at = under k (stays_number (map f ps)) at" for at
    unfolding stays_under_Key by (cases "(k, stays_number (map f ps), at)" rule: under.cases) auto
  then show "stays_number (map (\<lambda>c. Key k # f c) ps) = under k (stays_number (map f ps))" ..
  have "stays_number (map (\<lambda>c. KEYPATH_WILDCARD # f c) ps) at = each (stays_number (map f ps)) at" for at
    unfolding stays_under_wildcard by (cases "(stays_number (map f ps), at)" rule: each.cases) auto
  then show "stays_number (map (\<lambda>c. KEYPATH_WILDCARD # f c) ps) = each (stays_number (map f ps))" ..
qed

lemma no_path: "stays_number [] at \<longleftrightarrow> False"
  by simp

lemma alternatives:
  "under k (\<lambda>at. P at \<or> Q at) at \<longleftrightarrow> under k P at \<or> under k Q at"
  "each (\<lambda>at. P at \<or> Q at) at \<longleftrightarrow> each P at \<or> each Q at"
proof -
  show "under k (\<lambda>at. P at \<or> Q at) at \<longleftrightarrow> under k P at \<or> under k Q at"
    by (cases "(k, P, at)" rule: under.cases) auto
  show "each (\<lambda>at. P at \<or> Q at) at \<longleftrightarrow> each P at \<or> each Q at"
    by (cases "(P, at)" rule: each.cases) auto
qed

lemma stays_number_position:
  assumes "library_paths inners msgs"
  shows "stays_number (allowedNumericKeyPaths inners msgs) at \<longleftrightarrow> number_position at"
proof -
  have lib: "stays_number (map (\<lambda>c. c) inners) = inner_group_number" "stays_number (map (\<lambda>c. c) msgs) = message_number"
    using assms by (simp_all add: library_paths_def)
  show ?thesis
    unfolding allowedNumericKeyPaths_def in_meta_def append_Cons append_Nil no_path stays_number_simps(2,3) path_matches paths_match lib
      number_position_def balances_number_def rewards_number_def alternatives
    by blast
qed

text \<open>C37: a number of a dictionary block reaches the handlers as a number at exactly these
  positions: the instructions, header and lookups of a message and the inner instructions, where
  \<open>solana.ts\<close> declares numbers, the account index and the decimals of a token balance, and the
  commission of a reward. Everywhere else it becomes a \<open>bigint\<close>, also the \<open>logIndex\<close> of a log,
  which \<open>solana.ts\<close> declares as a number. The constants of the transformer library list the
  positions in a message and in an inner group (\<open>library_paths\<close>).\<close>

theorem dictionary_log_index_is_bigint:
  assumes "transforms_numbers transformer" and "library_paths inners msgs"
  shows "(\<forall>at n. json_at block at = Some (JNum n) \<longrightarrow>
        json_at (rpcBlock transformer inners msgs block) at = Some (if number_position at then JNum n else JBig n)) \<and>
    (\<forall>i j n. json_at block (logIndex_position i j) = Some (JNum n) \<longrightarrow>
        json_at (rpcBlock transformer inners msgs block) (logIndex_position i j) = Some (JBig n))"
proof -
  have num: "json_at block at = Some (JNum n) \<Longrightarrow> json_at (rpcBlock transformer inners msgs block) at =
      Some (if number_position at then JNum n else JBig n)" for at n
    using assms(1) stays_number_position [OF assms(2)] by (simp only: transforms_numbers_def rpcBlock_def)
  have "\<not> number_position (logIndex_position i j)" for i j by (simp add: logIndex_position_def position_defs)
  with num show ?thesis by simp
qed

definition example_inners :: "key_segment list list" where
  "example_inners =
     [[Key ''index''], [Key ''instructions'', KEYPATH_WILDCARD, Key ''accounts'', KEYPATH_WILDCARD],
      [Key ''instructions'', KEYPATH_WILDCARD, Key ''programIdIndex''], [Key ''instructions'', KEYPATH_WILDCARD, Key ''stackHeight'']]"

definition example_messages :: "key_segment list list" where
  "example_messages =
     [[Key ''addressTableLookups'', KEYPATH_WILDCARD, Key ''writableIndexes'', KEYPATH_WILDCARD],
      [Key ''addressTableLookups'', KEYPATH_WILDCARD, Key ''readonlyIndexes'', KEYPATH_WILDCARD],
      [Key ''header'', Key ''numReadonlySignedAccounts''], [Key ''header'', Key ''numReadonlyUnsignedAccounts''],
      [Key ''header'', Key ''numRequiredSignatures''],
      [Key ''instructions'', KEYPATH_WILDCARD, Key ''accounts'', KEYPATH_WILDCARD],
      [Key ''instructions'', KEYPATH_WILDCARD, Key ''programIdIndex''], [Key ''instructions'', KEYPATH_WILDCARD, Key ''stackHeight'']]"

lemma example_library_paths: "library_paths example_inners example_messages"
proof -
  have "stays_number example_inners at = inner_group_number at" for at
    unfolding example_inners_def no_path stays_number_simps(2,3) path_matches inner_group_number_def instruction_number_def alternatives by blast
  moreover have "stays_number example_messages at = message_number at" for at
    unfolding example_messages_def no_path stays_number_simps(2,3) path_matches message_number_def instruction_number_def alternatives by blast
  ultimately show ?thesis by (auto simp: library_paths_def)
qed

definition example_dictionary_block :: js_value where
  "example_dictionary_block =
     JObj [(''parentSlot'', JNum 7), (''transactions'', JArr [JObj [(''meta'',
       JObj [(''logs'', JArr [JObj [(''logIndex'', JNum 3)]]),
             (''preTokenBalances'', JArr [JObj [(''uiTokenAmount'', JObj [(''decimals'', JNum 6)])]])])]])]"

theorem dictionary_log_index_is_bigint_witness:
  "json_at (rpcBlock upcast example_inners example_messages example_dictionary_block) (logIndex_position 0 0) = Some (JBig 3) \<and>
   json_at (rpcBlock upcast example_inners example_messages example_dictionary_block)
     [Field ''transactions'', Index 0, Field ''meta'', Field ''preTokenBalances'', Index 0, Field ''uiTokenAmount'', Field ''decimals''] =
       Some (JNum 6)"
proof -
  note numbers = dictionary_log_index_is_bigint [OF upcast_transforms example_library_paths, of example_dictionary_block]
  have "json_at example_dictionary_block (logIndex_position 0 0) = Some (JNum 3)"
    by (simp add: example_dictionary_block_def logIndex_position_def)
  moreover have "json_at example_dictionary_block
      [Field ''transactions'', Index 0, Field ''meta'', Field ''preTokenBalances'', Index 0, Field ''uiTokenAmount'', Field ''decimals''] = Some (JNum 6)"
    by (simp add: example_dictionary_block_def)
  ultimately show ?thesis using numbers by (simp add: logIndex_position_def position_defs here_ends_def del: json_at.simps)
qed

end
