(* ===== verification/Loading.thy ===== *)
theory Loading
  imports ServiceTheorems
begin

section \<open>Concurrent loading of IDLs\<close>

text \<open>
  \<open>onProjectChange\<close> of \<open>blockchain.service.ts\<close> starts \<open>loadIdls\<close> of \<open>decoder.ts\<close> for all data sources
  before any of them has finished. A load is a task that checks whether a program's IDL is there,
  reads its file and stores it; other tasks run between the check and the store. The step relation
  allows every such interleaving (and more: a task may also pause after a store). \<open>load_all\<close> of
  \<open>Services\<close>, which loads one data source after another, is one of them.
\<close>

record load_task =
  todo :: "(string \<times> string) list"
  reading :: "(string \<times> string) option"
  rejected :: bool

definition new_task :: "(string \<times> string) list \<Rightarrow> load_task" where
  "new_task entries = \<lparr>todo = entries, reading = None, rejected = False\<rparr>"

abbreviation finished_task :: load_task where
  "finished_task \<equiv> new_task []"

type_synonym idl_store = "string \<Rightarrow> idl option option"

definition idl_there :: "idl_store \<Rightarrow> string \<Rightarrow> bool" where
  "idl_there s name = (\<exists>i. s name = Some (Some i))"

text \<open>
  One step of task \<open>k\<close>: the check \<open>if (this.idls[name]) continue\<close>, the start of the read, the
  store when it succeeds, the rejection when the file cannot be read or parsed.
\<close>

inductive load_step ::
  "(string \<Rightarrow> idl option result) \<Rightarrow> idl_store \<times> load_task list \<Rightarrow> idl_store \<times> load_task list \<Rightarrow> bool" for read where
  skip: "k < length ts \<Longrightarrow> ts ! k = \<lparr>todo = (name, path) # rest, reading = None, rejected = False\<rparr> \<Longrightarrow>
     idl_there s name \<Longrightarrow> load_step read (s, ts) (s, ts[k := new_task rest])"
| start: "k < length ts \<Longrightarrow> ts ! k = \<lparr>todo = (name, path) # rest, reading = None, rejected = False\<rparr> \<Longrightarrow>
     \<not> idl_there s name \<Longrightarrow>
     load_step read (s, ts) (s, ts[k := \<lparr>todo = rest, reading = Some (name, path), rejected = False\<rparr>])"
| store: "k < length ts \<Longrightarrow> ts ! k = \<lparr>todo = rest, reading = Some (name, path), rejected = False\<rparr> \<Longrightarrow>
     read path = Inr v \<Longrightarrow> load_step read (s, ts) (s(name \<mapsto> v), ts[k := new_task rest])"
| reject: "k < length ts \<Longrightarrow> ts ! k = \<lparr>todo = rest, reading = Some (name, path), rejected = False\<rparr> \<Longrightarrow>
     read path = Inl e \<Longrightarrow>
     load_step read (s, ts) (s, ts[k := \<lparr>todo = rest, reading = None, rejected = True\<rparr>])"

definition load_steps where
  "load_steps read = (load_step read)\<^sup>*\<^sup>*"

definition all_finished :: "load_task list \<Rightarrow> bool" where
  "all_finished ts = list_all (\<lambda>t. t = finished_task) ts"

subsection \<open>What the loads lead to\<close>

text \<open>
  The store that the entries ask for over \<open>s0\<close>: what was there stays, a program gets the IDL of
  the file its entry names.
\<close>

definition target :: "(string \<Rightarrow> idl option result) \<Rightarrow> (string \<times> string) list \<Rightarrow> idl_store \<Rightarrow> idl_store" where
  "target read entries s0 name =
     (if idl_there s0 name then s0 name
      else case map_of entries name of
        None \<Rightarrow> s0 name
      | Some path \<Rightarrow> (case read path of Inl e \<Rightarrow> s0 name | Inr v \<Rightarrow> Some v))"

text \<open>Every program is named with one file.\<close>

definition one_file :: "(string \<times> string) list \<Rightarrow> bool" where
  "one_file entries = (\<forall>(name, path) \<in> set entries. map_of entries name = Some path)"

fun task_ok :: "(string \<Rightarrow> idl option result) \<Rightarrow> (string \<times> string) list \<Rightarrow> idl_store \<Rightarrow> idl_store \<Rightarrow> (string \<times> string) list \<Rightarrow> load_task \<Rightarrow> bool" where
  "task_ok read entries s0 s own t =
     (set (todo t) \<subseteq> set entries \<and>
      (\<forall>name path. reading t = Some (name, path) \<longrightarrow> (name, path) \<in> set entries \<and> \<not> idl_there s0 name) \<and>
      (rejected t \<or> (\<forall>name path. (name, path) \<in> set own \<longrightarrow> (name, path) \<in> set (todo t) \<or> reading t = Some (name, path) \<or> s name = target read entries s0 name)))"

definition load_inv ::
  "(string \<Rightarrow> idl option result) \<Rightarrow> (string \<times> string) list list \<Rightarrow> idl_store \<Rightarrow> idl_store \<times> load_task list \<Rightarrow> bool" where
  "load_inv read owns s0 c =
     (case c of (s, ts) \<Rightarrow>
       (\<forall>name. s name = s0 name \<or> s name = target read (concat owns) s0 name) \<and>
       list_all2 (task_ok read (concat owns) s0 s) owns ts)"

lemma target_there: "idl_there s0 name \<Longrightarrow> target read entries s0 name = s0 name"
  by (simp add: target_def)

lemma load_inv_init: "load_inv read owns s0 (s0, map new_task owns)"
  by (auto simp: load_inv_def list_all2_map2 list_all2_same new_task_def)

lemma task_ok_store:
  assumes "task_ok read entries s0 s own t" and "v = target read entries s0 name"
  shows "task_ok read entries s0 (s(name := v)) own t"
  using assms by (cases t) auto

lemma update_task: "list_all2 P owns ts \<Longrightarrow> P (owns ! k) t \<Longrightarrow> list_all2 P owns (ts[k := t])"
  by (metis list_all2_update_cong list_update_id)

lemma load_inv_task:
  assumes "load_inv read owns s0 (s, ts)" and "k < length ts" and "ts ! k = t"
  shows "task_ok read (concat owns) s0 s (owns ! k) t" and "list_all2 (task_ok read (concat owns) s0 s) owns ts"
    and "\<And>name. s name = s0 name \<or> s name = target read (concat owns) s0 name"
  using assms by (auto simp: load_inv_def list_all2_conv_all_nth simp del: task_ok.simps)

lemma load_inv_step:
  assumes "load_step read c c'" and "load_inv read owns s0 c" and "one_file (concat owns)"
  shows "load_inv read owns s0 c'"
  using assms(1,2)
proof (induction rule: load_step.induct)
  case (skip k ts name path rest s)
  note inv = load_inv_task [OF skip(4,1,2)]
  have "s name = target read (concat owns) s0 name"
    using inv(3) [of name] skip(3) by (auto simp: idl_there_def target_def)
  with inv(1) have "task_ok read (concat owns) s0 s (owns ! k) (new_task rest)" by (auto simp: new_task_def)
  from update_task [OF inv(2) this] inv(3) show ?case by (simp add: load_inv_def del: task_ok.simps)
next
  case (start k ts name path rest s)
  note inv = load_inv_task [OF start(4,1,2)]
  have "\<not> idl_there s0 name"
    using start(3) inv(3) [of name] target_there [of s0 name] by (auto simp: idl_there_def)
  with inv(1) have "task_ok read (concat owns) s0 s (owns ! k) \<lparr>todo = rest, reading = Some (name, path), rejected = False\<rparr>"
    by auto
  from update_task [OF inv(2) this] inv(3) show ?case by (simp add: load_inv_def del: task_ok.simps)
next
  case (store k ts rest name path v s)
  note inv = load_inv_task [OF store(4,1,2)]
  then have e: "(name, path) \<in> set (concat owns)" "\<not> idl_there s0 name" by auto
  with assms(3) have "map_of (concat owns) name = Some path" by (auto simp: one_file_def)
  with e store(3) have v: "Some v = target read (concat owns) s0 name" by (simp add: target_def)
  have "task_ok read (concat owns) s0 (s(name \<mapsto> v)) (owns ! k) (new_task rest)"
    using task_ok_store [OF inv(1) v] v by (simp add: new_task_def) metis
  moreover have "list_all2 (task_ok read (concat owns) s0 (s(name \<mapsto> v))) owns ts"
    using inv(2) by (rule list_all2_mono) (rule task_ok_store [OF _ v])
  ultimately have "list_all2 (task_ok read (concat owns) s0 (s(name \<mapsto> v))) owns (ts[k := new_task rest])"
    by (intro update_task)
  with inv(3) v show ?case by (simp add: load_inv_def del: task_ok.simps)
next
  case (reject k ts rest name path e s)
  note inv = load_inv_task [OF reject(4,1,2)]
  then have "task_ok read (concat owns) s0 s (owns ! k) \<lparr>todo = rest, reading = None, rejected = True\<rparr>" by auto
  from update_task [OF inv(2) this] inv(3) show ?case by (simp add: load_inv_def del: task_ok.simps)
qed

lemma load_steps_inv:
  assumes "load_steps read (s0, map new_task owns) c" and "one_file (concat owns)"
  shows "load_inv read owns s0 c"
  using assms(1) unfolding load_steps_def
  by (induction rule: rtranclp_induct) (auto intro: load_inv_init load_inv_step [OF _ _ assms(2)])

lemma finished_target:
  assumes "load_steps read (s0, map new_task owns) (s, ts)" and "one_file (concat owns)" and "all_finished ts"
  shows "s = target read (concat owns) s0"
proof
  fix name
  from load_steps_inv [OF assms(1,2)] have s: "s name = s0 name \<or> s name = target read (concat owns) s0 name"
    and ok: "list_all2 (task_ok read (concat owns) s0 s) owns ts" by (simp_all add: load_inv_def)
  show "s name = target read (concat owns) s0 name"
  proof (cases "name \<in> fst ` set (concat owns)")
    case True
    then obtain own path where own: "own \<in> set owns" "(name, path) \<in> set own" by auto
    then obtain k where k: "k < length owns" "owns ! k = own" by (auto simp: in_set_conv_nth)
    with ok assms(3) have "task_ok read (concat owns) s0 s own finished_task"
      by (fastforce simp: all_finished_def list_all2_conv_all_nth list_all_length simp del: task_ok.simps)
    with own(2) show ?thesis by (auto simp: new_task_def)
  next
    case False
    then have "map_of (concat owns) name = None" by (simp only: map_of_eq_None_iff) simp
    with s show ?thesis by (auto simp: target_def)
  qed
qed

subsection \<open>The sequential run is one interleaving\<close>

definition ds_entries :: "datasource \<Rightarrow> (string \<times> string) list" where
  "ds_entries ds = (case assets ds of None \<Rightarrow> [] | Some entries \<Rightarrow> entries)"

lemma load_steps_refl [simp]: "load_steps read c c"
  by (simp add: load_steps_def)

lemma load_steps_trans: "load_steps read c c1 \<Longrightarrow> load_steps read c1 c2 \<Longrightarrow> load_steps read c c2"
  unfolding load_steps_def by (rule rtranclp_trans)

lemma load_steps_step: "load_step read c c1 \<Longrightarrow> load_steps read c1 c2 \<Longrightarrow> load_steps read c c2"
  unfolding load_steps_def by (rule converse_rtranclp_into_rtranclp)

lemma load_assets_steps:
  "load_assets readFile parseJson entries d = (Inr u, d') \<Longrightarrow> k < length ts \<Longrightarrow> ts ! k = new_task entries \<Longrightarrow>
     load_steps (read_idl readFile parseJson) (idls d, ts) (idls d', ts[k := finished_task])"
proof (induction entries arbitrary: d ts)
  case Nil
  then have "ts[k := finished_task] = ts" by (metis list_update_id)
  with Nil show ?case by simp
next
  case (Cons entry rest)
  obtain name path where e: "entry = (name, path)" by force
  let ?ts = "ts[k := new_task rest]" and ?read = "read_idl readFile parseJson"
  have at: "ts ! k = \<lparr>todo = (name, path) # rest, reading = None, rejected = False\<rparr>"
    using Cons.prems(3) e by (simp add: new_task_def)
  show ?case
  proof (cases "loaded d name")
    case True
    then have "load_step ?read (idls d, ts) (idls d, ?ts)"
      using load_step.skip [OF Cons.prems(2) at] by (simp add: loaded_def idl_there_def)
    moreover have "load_steps ?read (idls d, ?ts) (idls d', ?ts[k := finished_task])"
      using Cons.IH [of d ?ts] Cons.prems True e by (simp add: load_assets_cons)
    ultimately show ?thesis using load_steps_step by fastforce
  next
    case False
    with Cons.prems(1) e obtain v where v: "?read path = Inr v"
      and rest: "load_assets readFile parseJson rest (d\<lparr>idls := (idls d)(name \<mapsto> v)\<rparr>) = (Inr u, d')"
      by (auto simp: load_assets_cons split: sum.splits)
    let ?mid = "ts[k := \<lparr>todo = rest, reading = Some (name, path), rejected = False\<rparr>]"
    have "load_step ?read (idls d, ts) (idls d, ?mid)"
      using load_step.start [OF Cons.prems(2) at] False by (simp add: loaded_def idl_there_def)
    moreover have "load_step ?read (idls d, ?mid) ((idls d)(name \<mapsto> v), ?mid[k := new_task rest])"
      using Cons.prems(2) v by (intro load_step.store) simp_all
    moreover have "load_steps ?read ((idls d)(name \<mapsto> v), ?ts) (idls d', ?ts[k := finished_task])"
      using Cons.IH [OF rest, of ?ts] Cons.prems(2) by (simp add: fun_upd_def)
    ultimately show ?thesis using load_steps_step by fastforce
  qed
qed

lemma load_all_steps:
  "load_all readFile parseJson dss d = (Inr u, d') \<Longrightarrow>
     load_steps (read_idl readFile parseJson) (idls d, ts @ map (\<lambda>ds. new_task (ds_entries ds)) dss)
       (idls d', ts @ replicate (length dss) finished_task)"
proof (induction dss arbitrary: d ts)
  case (Cons ds dss)
  let ?tasks = "map (\<lambda>ds. new_task (ds_entries ds)) dss" and ?read = "read_idl readFile parseJson"
  obtain r1 d1 where l: "loadIdls readFile parseJson ds d = (r1, d1)" by force
  obtain r2 d2 where "load_all readFile parseJson dss d1 = (r2, d2)" by force
  with l Cons.prems have ok: "r1 = Inr ()" and rest: "load_all readFile parseJson dss d1 = (Inr u, d')"
    by (auto split: sum.splits)
  have "load_assets readFile parseJson (ds_entries ds) d = (Inr (), d1)"
    using l ok by (simp add: loadIdls_def ds_entries_def split: option.splits)
  from load_assets_steps [OF this, of "length ts" "ts @ new_task (ds_entries ds) # ?tasks"]
  have "load_steps ?read (idls d, ts @ new_task (ds_entries ds) # ?tasks) (idls d1, (ts @ [finished_task]) @ ?tasks)" by simp
  with Cons.IH [OF rest, of "ts @ [finished_task]"] show ?case using load_steps_trans by fastforce
qed simp

text \<open>C14: the concurrent loads of a project whose data sources name one file for each program end
  with the same IDLs in every order of their reads, those that loading the data sources one
  after another gives; so what the other properties say of the sequential load holds for the
  concurrent one.\<close>

theorem concurrent_loads_agree:
  assumes "load_all readFile parseJson dss d = (Inr u, d')"
    and "one_file (concat (map ds_entries dss))"
    and "load_steps (read_idl readFile parseJson) (idls d, map (\<lambda>ds. new_task (ds_entries ds)) dss) (s, ts)"
    and "all_finished ts"
  shows "s = idls d'"
proof -
  let ?owns = "map ds_entries dss" and ?read = "read_idl readFile parseJson"
  have tasks: "map (\<lambda>ds. new_task (ds_entries ds)) dss = map new_task ?owns" by simp
  have "s = target ?read (concat ?owns) (idls d)"
    using finished_target [OF assms(3) [unfolded tasks] assms(2,4)] .
  moreover have "load_steps ?read (idls d, map new_task ?owns) (idls d', replicate (length dss) finished_task)"
    using load_all_steps [OF assms(1), of "[]"] by (simp add: comp_def)
  then have "idls d' = target ?read (concat ?owns) (idls d)"
    by (rule finished_target [OF _ assms(2)]) (simp add: all_finished_def list_all_iff)
  ultimately show ?thesis by simp
qed

theorem concurrent_loads_agree_witness:
  "\<exists>ts. load_steps (read_idl (\<lambda>f. Inr ''{}'') (\<lambda>s. Inr (Some example_idl))) (idls new_SolanaDecoder,
       map (\<lambda>ds. new_task (ds_entries ds)) [example_ds [], example_ds []]) (idls example_decoder, ts) \<and>
     all_finished ts \<and> idls example_decoder = idls (snd (load_all (\<lambda>f. Inr ''{}'') (\<lambda>s. Inr (Some example_idl))
       [example_ds [], example_ds []] new_SolanaDecoder))"
proof -
  let ?dss = "[example_ds [], example_ds []]" and ?read = "\<lambda>f. Inr ''{}''" and ?parse = "\<lambda>s. Inr (Some example_idl)"
  have again: "loadIdls ?read ?parse (example_ds []) example_decoder = (Inr (), example_decoder)"
    by (simp add: loadIdls_def example_ds_def load_assets_cons loaded_def example_decoder_def)
  have run: "load_all ?read ?parse ?dss new_SolanaDecoder = (Inr (), example_decoder)"
    by (simp add: example_load again)
  have steps: "load_steps (read_idl ?read ?parse) (idls new_SolanaDecoder, map (\<lambda>ds. new_task (ds_entries ds)) ?dss)
      (idls example_decoder, replicate (length ?dss) finished_task)"
    using load_all_steps [OF run, of "[]"] by (simp add: comp_def)
  have one: "one_file (concat (map ds_entries ?dss))"
    by (simp add: one_file_def ds_entries_def example_ds_def)
  have fin: "all_finished (replicate (length ?dss) finished_task)" by (simp add: all_finished_def)
  from concurrent_loads_agree [OF run one steps fin] steps fin run show ?thesis by auto
qed

end
