(* ===== verification/Generate.thy ===== *)
theory Generate
  imports Loading
begin

section \<open>Generation of interfaces from IDLs\<close>

text \<open>
  \<open>generateIDLInterfaces\<close> and \<open>fixTypeImports\<close> of
  \<open>packages/common-solana/src/codegen/codegen.ts\<close>. The state is the files written so far and
  the templates rendered. Codama's \<open>renderVisitor\<close> (the files it writes for an IDL into a
  directory), \<open>pascalCase\<close>, the callback \<open>renderTemplate\<close> and \<open>path.join\<close> are parameters.
\<close>

subsection \<open>The state and its files\<close>

record template_call =
  tc_template :: string
  tc_output :: string
  tc_name :: string
  tc_instructions :: "string list"

record gen_state =
  files :: "(string \<times> string) list"
  rendered :: "template_call list"

definition CODAMA_PATH :: string where
  "CODAMA_PATH = ''/src/types/program-interfaces''"

definition IDL_PATH :: string where
  "IDL_PATH = ''/src/types/handler-inputs''"

definition INSTRUCTION_TEMPLATE_TS :: string where
  "INSTRUCTION_TEMPLATE_TS = ''../../templates/idl.ts.ejs''"

definition import_from :: "string \<Rightarrow> string" where
  "import_from package =
     join_lines [''import {'', ''  combineCodec,'', ''  getEnumDecoder,'', ''  getEnumEncoder,'',
       ''  type FixedSizeCodec,'', ''  type FixedSizeDecoder,'', ''  type FixedSizeEncoder,'',
       ''} from '' @ CHR 0x27 # package @ CHR 0x27 # '';'']"

text \<open>\<open>glob(output/types/*.ts)\<close>: the files of the directory itself.\<close>

definition in_types :: "string \<Rightarrow> string \<Rightarrow> bool" where
  "in_types output path =
     (let dir = output @ ''/types/''; base = drop (length dir) path in
      startsWith path dir \<and> CHR ''/'' \<notin> set base \<and> suffix ''.ts'' base)"

definition fixTypeImports :: "string \<Rightarrow> (string \<times> string) list \<Rightarrow> (string \<times> string) list" where
  "fixTypeImports output fs =
     map (\<lambda>(path, content).
       (path, if in_types output path
              then replace_first (import_from ''@solana/kit'') (import_from ''@solana/codecs'') content
              else content)) fs"

subsection \<open>The generator\<close>

text \<open>\<open>assets\<close> may come as a \<open>Map\<close> or as a plain object of the same entries.\<close>

datatype assets_arg =
    AssetsMap "(string \<times> string) list"
  | AssetsObject "(string \<times> string) list"

record raw_datasource =
  rd_kind :: string
  rd_mapping :: mapping
  rd_assets :: "assets_arg option"
  rd_processor :: "processor option"

fun as_map :: "assets_arg \<Rightarrow> (string \<times> string) list" where
  "as_map (AssetsMap es) = es"
| "as_map (AssetsObject es) = set_entries [] es"

definition normalise_assets :: "raw_datasource \<Rightarrow> datasource" where
  "normalise_assets d =
     \<lparr>ds_kind = rd_kind d, ds_mapping = rd_mapping d, assets = map_option as_map (rd_assets d), ds_processor = rd_processor d\<rparr>"

text \<open>\<open>new Map(...flatMap(entries))\<close>: a program named again keeps its place and gets the later file.\<close>

definition all_assets :: "datasource list \<Rightarrow> (string \<times> string) list" where
  "all_assets dataSources =
     set_entries [] (concat (map ds_entries (filter (\<lambda>ds. assets ds \<noteq> None) dataSources)))"

record gen_env =
  ge_lib :: idl_lib
  parseFile :: "string \<Rightarrow> root_node result"
  join :: "string list \<Rightarrow> string"
  renderVisitor :: "string \<Rightarrow> root_node \<Rightarrow> (string \<times> string) list result"
  renderTemplate :: "template_call \<Rightarrow> unit result"

definition instruction_names :: "idl_lib \<Rightarrow> root_node \<Rightarrow> string list result" where
  "instruction_names lib root =
     (case get_program root of
        Inl e \<Rightarrow> Inl e
      | Inr p \<Rightarrow> Inr (map (\<lambda>inst. pascalCase lib (in_name inst)) (pn_instructions p)))"

text \<open>The body of the loop for one program.\<close>

definition generate_one :: "gen_env \<Rightarrow> string \<Rightarrow> string \<Rightarrow> string \<Rightarrow> gen_state \<Rightarrow> unit result \<times> gen_state" where
  "generate_one env projectPath name path s =
     (case parseFile env (join env [projectPath, path]) of
        Inl e \<Rightarrow> (Inl e, s)
      | Inr root \<Rightarrow>
     (let output = join env [projectPath, CODAMA_PATH, name] in
      case renderVisitor env output root of
        Inl e \<Rightarrow> (Inl e, s)
      | Inr written \<Rightarrow>
     (let s1 = s\<lparr>files := fixTypeImports output (set_entries (files s) written)\<rparr> in
      case instruction_names (ge_lib env) root of
        Inl e \<Rightarrow> (Inl e, s1)
      | Inr names \<Rightarrow>
     (let call = \<lparr>tc_template = INSTRUCTION_TEMPLATE_TS, tc_output = join env [projectPath, IDL_PATH, name @ ''.ts''],
                  tc_name = name, tc_instructions = names\<rparr> in
      case renderTemplate env call of
        Inl e \<Rightarrow> (Inl e, s1)
      | Inr u \<Rightarrow> (Inr (), s1\<lparr>rendered := rendered s1 @ [call]\<rparr>)))))"

fun generate_all :: "gen_env \<Rightarrow> string \<Rightarrow> (string \<times> string) list \<Rightarrow> gen_state \<Rightarrow> unit result \<times> gen_state" where
  "generate_all env projectPath [] s = (Inr (), s)"
| "generate_all env projectPath ((name, path) # rest) s =
     (case generate_one env projectPath name path s of
        (Inl e, s') \<Rightarrow> (Inl e, s')
      | (Inr u, s') \<Rightarrow> generate_all env projectPath rest s')"

definition generateIDLInterfaces ::
  "gen_env \<Rightarrow> raw_datasource list \<Rightarrow> string \<Rightarrow> gen_state \<Rightarrow> unit result \<times> gen_state" where
  "generateIDLInterfaces env rawDataSources projectPath s =
     (let dataSources = map normalise_assets rawDataSources in
      case validateDiscriminators (ge_lib env) (parseFile env) (\<lambda>path. join env [projectPath, path])
             (filter (\<lambda>ds. ds_kind ds = SolanaDatasourceKind_Runtime) dataSources) of
        Inl e \<Rightarrow> (Inl e, s)
      | Inr u \<Rightarrow> generate_all env projectPath (all_assets dataSources) s)"

end
