(* ===== verification/GenerateTheorems.thy ===== *)
theory GenerateTheorems
  imports Generate
begin

section \<open>The properties of the generator\<close>

text \<open>
  Nothing is written for a project that does not validate; a run that ends has rendered one set
  of interfaces per program, from the file the last data source names; and where two data
  sources name different files for a program, the node and the generator may not agree.
\<close>

definition program_call :: "gen_env \<Rightarrow> string \<Rightarrow> string \<times> string \<Rightarrow> template_call \<Rightarrow> bool" where
  "program_call env projectPath entry call =
     (\<exists>root p. parseFile env (join env [projectPath, snd entry]) = Inr root \<and> rn_program root = Some p \<and>
        call = \<lparr>tc_template = INSTRUCTION_TEMPLATE_TS, tc_output = join env [projectPath, IDL_PATH, fst entry @ ''.ts''],
                tc_name = fst entry,
                tc_instructions = map (\<lambda>inst. pascalCase (ge_lib env) (in_name inst)) (pn_instructions p)\<rparr>)"

lemma generate_one_call:
  "generate_one env projectPath name path s = (Inr u, s') \<Longrightarrow>
     \<exists>call. rendered s' = rendered s @ [call] \<and> program_call env projectPath (name, path) call"
  by (auto simp: generate_one_def Let_def program_call_def instruction_names_def get_program_def
      split: sum.splits option.splits)

lemma generate_one_stops:
  "generate_one env projectPath name path s = (Inl e, s') \<Longrightarrow> rendered s' = rendered s"
  by (auto simp: generate_one_def Let_def split: sum.splits)

lemma generate_all_calls:
  "generate_all env projectPath entries s = (r, s') \<Longrightarrow>
     \<exists>calls. rendered s' = rendered s @ calls \<and>
       list_all2 (program_call env projectPath) (take (length calls) entries) calls \<and>
       (r = Inr () \<longleftrightarrow> length calls = length entries)"
proof (induction entries arbitrary: s)
  case (Cons entry rest)
  obtain name path where e: "entry = (name, path)" by force
  obtain r1 s1 where one: "generate_one env projectPath name path s = (r1, s1)" by force
  show ?case
  proof (cases r1)
    case (Inl err)
    with Cons.prems e one generate_one_stops [of env projectPath name path s err s1] show ?thesis
      by (intro exI [of _ "[]"]) auto
  next
    case (Inr u)
    with Cons.prems e one have rest: "generate_all env projectPath rest s1 = (r, s')" by simp
    from generate_one_call [OF one [unfolded Inr]] obtain call
      where c: "rendered s1 = rendered s @ [call]" "program_call env projectPath entry call" by (auto simp: e)
    from Cons.IH [OF rest] obtain calls where "rendered s' = rendered s1 @ calls"
        "list_all2 (program_call env projectPath) (take (length calls) rest) calls"
        "r = Inr () \<longleftrightarrow> length calls = length rest" by blast
    with c show ?thesis by (intro exI [of _ "call # calls"]) simp
  qed
qed (auto intro: exI [of _ "[]"])

lemma ds_entries_concat: "concat (map ds_entries (filter (\<lambda>ds. assets ds \<noteq> None) dss)) = concat (map ds_entries dss)"
  by (induction dss) (auto simp: ds_entries_def)

lemma all_assets_props:
  "distinct (map fst (all_assets dss))" "map_of (all_assets dss) = map_of (rev (concat (map ds_entries dss)))"
  unfolding all_assets_def ds_entries_concat by (simp_all add: set_entries_distinct map_of_set_entries)

subsection \<open>An example\<close>

fun example_join :: "string list \<Rightarrow> string" where
  "example_join [] = ''''"
| "example_join [p] = p"
| "example_join (p # q # ps) =
     (let rest = example_join (q # ps) in if startsWith rest ''/'' then p @ rest else p @ ''/'' @ rest)"

definition example_gen_env :: gen_env where
  "example_gen_env =
     \<lparr>ge_lib = example_lib, parseFile = (\<lambda>path. Inr (idl_root example_idl)), join = example_join,
      renderVisitor = (\<lambda>output root. Inr [(output @ ''/index.ts'', '''')]), renderTemplate = (\<lambda>call. Inr ())\<rparr>"

definition example_raw_ds :: "string \<Rightarrow> raw_datasource" where
  "example_raw_ds path =
     \<lparr>rd_kind = SolanaDatasourceKind_Runtime, rd_mapping = \<lparr>handlers = [], mapping_file = ''index.js''\<rparr>,
      rd_assets = Some (AssetsObject [(''A'', path)]), rd_processor = None\<rparr>"

lemma example_gen_simps:
  "ge_lib example_gen_env = example_lib" "parseFile example_gen_env path = Inr (idl_root example_idl)"
  "join example_gen_env = example_join" "renderVisitor example_gen_env output root = Inr [(output @ ''/index.ts'', '''')]"
  "renderTemplate example_gen_env call = Inr ()" "pascalCase example_lib s = s"
  "rn_program (idl_root example_idl) = Some (example_program\<lparr>publicKey := ''''\<rparr>)"
  "normalise_assets (example_raw_ds path) = (example_ds [])\<lparr>assets := Some [(''A'', path)]\<rparr>"
  by (simp_all add: example_gen_env_def example_lib_def example_idl_def example_raw_ds_def normalise_assets_def
      example_ds_def SolanaDatasourceKind_Runtime_def set_entries_def)

lemma example_ds_simps:
  "ds_kind (example_ds hs) = SolanaDatasourceKind_Runtime" "ds_mapping (example_ds hs) = \<lparr>handlers = hs, mapping_file = ''index.js''\<rparr>"
  by (simp_all add: example_ds_def SolanaDatasourceKind_Runtime_def)

subsection \<open>The generator\<close>

text \<open>The generator renders nothing and writes nothing for a project whose discriminators do
  not validate. When it returns, it has rendered exactly one template for each program that a
  data source names, with the instructions of the IDL in the file that the last such data
  source names.\<close>

theorem generate_one_template_per_program:
  assumes "generateIDLInterfaces env dss projectPath s = (r, s')"
  shows "(validateDiscriminators (ge_lib env) (parseFile env) (\<lambda>path. join env [projectPath, path])
        (filter (\<lambda>ds. ds_kind ds = SolanaDatasourceKind_Runtime) (map normalise_assets dss)) \<noteq> Inr () \<longrightarrow> s' = s \<and> isl r) \<and>
    (r = Inr () \<longrightarrow> (\<exists>entries calls. rendered s' = rendered s @ calls \<and>
       list_all2 (program_call env projectPath) entries calls \<and> distinct (map tc_name calls) \<and>
       map_of entries = map_of (rev (concat (map (ds_entries \<circ> normalise_assets) dss)))))"
proof -
  let ?valid = "validateDiscriminators (ge_lib env) (parseFile env) (\<lambda>path. join env [projectPath, path])
        (filter (\<lambda>ds. ds_kind ds = SolanaDatasourceKind_Runtime) (map normalise_assets dss))"
  let ?entries = "all_assets (map normalise_assets dss)"
  have names: "map tc_name calls = map fst entries" if "list_all2 (program_call env projectPath) entries calls" for entries calls
    using that by (induction rule: list_all2_induct) (auto simp: program_call_def)
  show ?thesis
  proof (cases ?valid)
    case (Inl e)
    have "generateIDLInterfaces env dss projectPath s = (Inl e, s)"
      unfolding generateIDLInterfaces_def Let_def Inl by (simp only: sum.case)
    then have "r = Inl e" "s' = s" using assms by simp_all
    then show ?thesis by simp
  next
    case (Inr u)
    with assms have "generate_all env projectPath ?entries s = (r, s')" by (simp add: generateIDLInterfaces_def)
    from generate_all_calls [OF this] obtain calls where c: "rendered s' = rendered s @ calls"
        "list_all2 (program_call env projectPath) (take (length calls) ?entries) calls"
        "r = Inr () \<longleftrightarrow> length calls = length ?entries" by blast
    have "\<exists>entries calls. rendered s' = rendered s @ calls \<and>
       list_all2 (program_call env projectPath) entries calls \<and> distinct (map tc_name calls) \<and>
       map_of entries = map_of (rev (concat (map (ds_entries \<circ> normalise_assets) dss)))" if "r = Inr ()"
      using c that names [OF c(2)] all_assets_props [of "map normalise_assets dss"]
      by (intro exI [of _ ?entries] exI [of _ calls]) simp
    with Inr show ?thesis by simp
  qed
qed

theorem generate_one_template_per_program_witness:
  "rendered (snd (generateIDLInterfaces example_gen_env [example_raw_ds ''a.json'', example_raw_ds ''b.json''] ''p''
       \<lparr>files = [], rendered = []\<rparr>)) =
     [\<lparr>tc_template = INSTRUCTION_TEMPLATE_TS, tc_output = ''p/src/types/handler-inputs/A.ts'', tc_name = ''A'',
       tc_instructions = [''noDisc'', ''route'']\<rparr>]"
proof -
  let ?dss = "[example_raw_ds ''a.json'', example_raw_ds ''b.json'']" and ?s = "\<lparr>files = [], rendered = []\<rparr> :: gen_state"
  obtain r s' where run: "generateIDLInterfaces example_gen_env ?dss ''p'' ?s = (r, s')" by force
  have ok: "r = Inr ()" using run
    by (auto simp: generateIDLInterfaces_def example_gen_simps example_ds_simps get_program_def validateDiscriminators_def all_assets_def ds_entries_def set_entries_def
        generate_one_def instruction_names_def example_program_def Let_def)
  from generate_one_template_per_program [OF run] ok obtain entries calls where c: "rendered s' = calls"
      "list_all2 (program_call example_gen_env ''p'') entries calls" "distinct (map tc_name calls)"
      "map_of entries = [''A'' \<mapsto> ''b.json'']"
    by (auto simp: example_gen_simps ds_entries_def fun_upd_def fun_eq_iff)
  have names: "map tc_name calls = map fst entries"
    using c(2) by (induction rule: list_all2_induct) (auto simp: program_call_def)
  have "set (map fst entries) = {''A''}" using arg_cong [OF c(4), of dom] by (simp add: dom_map_of_conv_image_fst)
  with c(3) names have "map fst entries = [''A'']"
    by (cases "map fst entries"; cases "tl (map fst entries)") auto
  then obtain f where "entries = [(''A'', f)]" by (cases entries) auto
  moreover from this c(4) have "f = ''b.json''" by (auto dest: fun_cong [of _ _ "''A''"])
  ultimately show ?thesis using c(1,2) run
    by (auto simp: program_call_def list_all2_Cons1 example_gen_simps example_program_def IDL_PATH_def Let_def startsWith_def)
qed

subsection \<open>Two files for one program\<close>

text \<open>C36: when two data sources name different files for one program, the IDL the node runs with
  depends on which read ends last, while the interfaces are generated from the file that the last
  data source names.\<close>

theorem conflicting_idl_files:
  assumes "assets ds1 = Some [(name, f1)]" and "assets ds2 = Some [(name, f2)]" and "\<not> idl_there s name"
    and "read f1 = Inr v1" and "read f2 = Inr v2"
  shows "(\<exists>ts. load_steps read (s, map (\<lambda>ds. new_task (ds_entries ds)) [ds1, ds2]) (s(name \<mapsto> v1), ts) \<and> all_finished ts) \<and>
    (\<exists>ts. load_steps read (s, map (\<lambda>ds. new_task (ds_entries ds)) [ds1, ds2]) (s(name \<mapsto> v2), ts) \<and> all_finished ts) \<and>
    map_of (all_assets [ds1, ds2]) name = Some f2"
proof -
  let ?w = "\<lambda>f. \<lparr>todo = [], reading = Some (name, f), rejected = False\<rparr> :: load_task"
  have es: "ds_entries ds1 = [(name, f1)]" "ds_entries ds2 = [(name, f2)]"
    using assms(1,2) by (simp_all add: ds_entries_def)
  have s1: "load_step read (s, [new_task [(name, f1)], new_task [(name, f2)]]) (s, [?w f1, new_task [(name, f2)]])"
    using load_step.start [of 0 "[new_task [(name, f1)], new_task [(name, f2)]]" name f1 "[]" s read] assms(3)
    by (simp add: new_task_def)
  have s2: "load_step read (s, [?w f1, new_task [(name, f2)]]) (s, [?w f1, ?w f2])"
    using load_step.start [of 1 "[?w f1, new_task [(name, f2)]]" name f2 "[]" s read] assms(3)
    by (simp add: new_task_def)
  have start: "load_steps read (s, map (\<lambda>ds. new_task (ds_entries ds)) [ds1, ds2]) c" if "load_steps read (s, [?w f1, ?w f2]) c" for c
    using load_steps_step [OF s1 load_steps_step [OF s2 that]] by (simp add: es)
  have first: "load_step read (t, [?w f1, x]) (t(name \<mapsto> v1), [finished_task, x])" for t x
    using load_step.store [of 0 "[?w f1, x]" "[]" name f1 read v1 t] assms(4) by simp
  have second: "load_step read (t, [x, ?w f2]) (t(name \<mapsto> v2), [x, finished_task])" for t x
    using load_step.store [of 1 "[x, ?w f2]" "[]" name f2 read v2 t] assms(5) by simp
  have fin: "all_finished [finished_task, finished_task]" by (simp add: all_finished_def)
  have "load_steps read (s, [?w f1, ?w f2]) (s(name \<mapsto> v1), [finished_task, finished_task])"
    using load_steps_step [OF second load_steps_step [OF first load_steps_refl], of s] by simp
  moreover have "load_steps read (s, [?w f1, ?w f2]) (s(name \<mapsto> v2), [finished_task, finished_task])"
    using load_steps_step [OF first load_steps_step [OF second load_steps_refl], of s] by simp
  moreover have "map_of (all_assets [ds1, ds2]) name = Some f2"
    by (simp add: all_assets_props es)
  ultimately show ?thesis using start fin by blast
qed

theorem conflicting_idl_files_witness:
  "\<exists>i j ts us. i \<noteq> j \<and>
     load_steps (\<lambda>f. Inr (if f = ''a.json'' then i else j)) (Map.empty, [new_task [(''A'', ''a.json'')], new_task [(''A'', ''b.json'')]])
       ([''A'' \<mapsto> i], ts) \<and> all_finished ts \<and>
     load_steps (\<lambda>f. Inr (if f = ''a.json'' then i else j)) (Map.empty, [new_task [(''A'', ''a.json'')], new_task [(''A'', ''b.json'')]])
       ([''A'' \<mapsto> j], us) \<and> all_finished us"
proof -
  let ?i = "Some example_idl" and ?j = "Some (example_idl\<lparr>idl_events := None\<rparr>)"
  have "?i \<noteq> ?j" by (simp add: example_idl_def)
  with conflicting_idl_files [of "example_ds []" "''A''" "''a.json''" "(example_ds [])\<lparr>assets := Some [(''A'', ''b.json'')]\<rparr>" "''b.json''"
      Map.empty "\<lambda>f. Inr (if f = ''a.json'' then ?i else ?j)" ?i ?j]
  show ?thesis
    by (intro exI [of _ ?i] exI [of _ ?j]) (auto simp: example_ds_def idl_there_def ds_entries_def)
qed

end
