(* ===== verification/Startup.thy ===== *)
theory Startup
  imports Pipeline
begin

section \<open>Start-up of the processes\<close>

text \<open>
  \<open>main.ts\<close>, \<open>init.ts\<close>, \<open>yargs.ts\<close>, \<open>indexer/worker/worker.ts\<close>, \<open>subcommands/testing.service.ts\<close>
  and the \<open>*.init.ts\<close> files. Each is a list of steps; what a step of NestJS or node-core does is
  its outcome, a parameter, and a run stops at the first step that throws. The trace is the
  list of steps begun. Log lines are left out.
\<close>

subsection \<open>Steps\<close>

datatype step =
    PatchBigInt
  | InitLogger
  | Import string
  | CreateApp string
  | InitApp
  | InitProject "int option"
  | InitFetch int
  | EnableShutdownHooks
  | Listen int
  | InitWorkerServices
  | CreateWorkerHost
  | GetTestRunner
  | RunTests
  | ForceClean
  | Reindex int
  | Exit int

fun perform :: "(step \<Rightarrow> unit result) \<Rightarrow> step list \<Rightarrow> unit result \<times> step list" where
  "perform outcome [] = (Inr (), [])"
| "perform outcome (s # ss) =
     (case outcome s of
        Inl e \<Rightarrow> (Inl e, [s])
      | Inr u \<Rightarrow> (case perform outcome ss of (r, trace) \<Rightarrow> (r, s # trace)))"

text \<open>The arguments of the command line that the code reads.\<close>

record arguments =
  arg_port :: "int option"
  arg_subcommand :: "string option"

subsection \<open>The node\<close>

definition bootstrap ::
  "(int option \<Rightarrow> int result) \<Rightarrow> (step \<Rightarrow> unit result) \<Rightarrow> int \<Rightarrow> arguments \<Rightarrow> unit result \<times> step list" where
  "bootstrap getValidPort outcome startHeight argv =
     (case getValidPort (arg_port argv) of
        Inl e \<Rightarrow> (Inl e, [])
      | Inr port \<Rightarrow>
          (case perform outcome [CreateApp ''AppModule'', InitApp, InitProject None, InitFetch startHeight,
                                 EnableShutdownHooks, Listen port] of
             (Inl e, trace) \<Rightarrow> (Inl (ProcessExit ''Node failed to start''), trace)
           | (Inr u, trace) \<Rightarrow> (Inr (), trace)))"

text \<open>
  \<open>libs\<close> are the steps that the libraries take when they are imported. The main process sets
  \<open>BigInt.prototype.toJSON\<close> and starts the node when there is no subcommand.
\<close>

definition main_process ::
  "step list \<Rightarrow> (int option \<Rightarrow> int result) \<Rightarrow> (step \<Rightarrow> unit result) \<Rightarrow> int \<Rightarrow> arguments \<Rightarrow> step list" where
  "main_process libs getValidPort outcome startHeight argv =
     libs @ [PatchBigInt, InitLogger] @
     (if truthy (arg_subcommand argv) then [] else Import ''./init'' # snd (bootstrap getValidPort outcome startHeight argv))"

subsection \<open>A worker\<close>

definition initWorker :: "(step \<Rightarrow> unit result) \<Rightarrow> int option \<Rightarrow> unit result \<times> step list" where
  "initWorker outcome startHeight =
     perform outcome [CreateApp ''WorkerModule'', InitApp, InitProject startHeight, InitWorkerServices]"

definition worker_process :: "step list \<Rightarrow> (step \<Rightarrow> unit result) \<Rightarrow> int option \<Rightarrow> step list" where
  "worker_process libs outcome startHeight =
     [InitLogger] @ libs @ [CreateWorkerHost] @ snd (initWorker outcome startHeight)"

subsection \<open>Subcommands\<close>

definition getTestRunner :: "(step \<Rightarrow> unit result) \<Rightarrow> unit result \<times> step list" where
  "getTestRunner outcome = perform outcome [CreateApp ''TestingModule'', InitApp, InitProject None, GetTestRunner]"

text \<open>\<open>getInstance\<close> is \<open>ConfigureModule.getInstance\<close>; \<open>process.exit(0)\<close> follows a run of the tests.\<close>

definition testingInit :: "unit result \<Rightarrow> (step \<Rightarrow> unit result) \<Rightarrow> unit result \<times> step list" where
  "testingInit getInstance outcome =
     (case getInstance of
        Inl e \<Rightarrow> (Inl (ProcessExit ''Testing failed''), [])
      | Inr u \<Rightarrow>
          (case perform outcome [RunTests] of
             (Inl e, trace) \<Rightarrow> (Inl (ProcessExit ''Testing failed''), trace)
           | (Inr u, trace) \<Rightarrow> (Inr (), trace @ [Exit 0])))"

definition forceCleanInit :: "(step \<Rightarrow> unit result) \<Rightarrow> unit result \<times> step list" where
  "forceCleanInit outcome = perform outcome [ForceClean]"

definition reindexInit :: "(step \<Rightarrow> unit result) \<Rightarrow> int \<Rightarrow> unit result \<times> step list" where
  "reindexInit outcome targetHeight = perform outcome [Reindex targetHeight]"

datatype subcommand =
    TestingCommand
  | ForceCleanCommand
  | ReindexCommand int

text \<open>Each callback of \<open>yargsBuilder\<close> imports its file before it runs.\<close>

fun subcommand_callback :: "unit result \<Rightarrow> (step \<Rightarrow> unit result) \<Rightarrow> subcommand \<Rightarrow> unit result \<times> step list" where
  "subcommand_callback getInstance outcome TestingCommand =
     (case testingInit getInstance outcome of (r, trace) \<Rightarrow> (r, Import ''./subcommands/testing.init'' # trace))"
| "subcommand_callback getInstance outcome ForceCleanCommand =
     (case forceCleanInit outcome of (r, trace) \<Rightarrow> (r, Import ''./subcommands/forceClean.init'' # trace))"
| "subcommand_callback getInstance outcome (ReindexCommand targetHeight) =
     (case reindexInit outcome targetHeight of (r, trace) \<Rightarrow> (r, Import ''./subcommands/reindex.init'' # trace))"

text \<open>The options the node adds to those of node-core, with their defaults.\<close>

record run_options =
  default_requestTimeout :: int
  default_treatLongTermStorageSkipAsSkipped :: bool

definition runOptions :: run_options where
  "runOptions = \<lparr>default_requestTimeout = 30000, default_treatLongTermStorageSkipAsSkipped = True\<rparr>"

text \<open>The defaults of the command line are those the code uses without it.\<close>

lemma runOptions_defaults:
  "default_requestTimeout runOptions = REQUEST_TIMEOUT"
  "node_config_treatSkip (Some (default_treatLongTermStorageSkipAsSkipped runOptions)) = node_config_treatSkip None"
  by (simp_all add: runOptions_def REQUEST_TIMEOUT_def node_config_treatSkip_def)

subsection \<open>Properties\<close>

text \<open>The node listens on its port only when the application, the project and then the
  fetch service have been initialised; it starts exactly when a port is found and every step
  succeeds. A step that fails ends the process with one message, whereas a failure to find a
  port passes to the caller as it is.\<close>

theorem bootstrap_listens_last:
  assumes "bootstrap getValidPort outcome startHeight argv = (r, trace)"
  shows "(Listen port \<in> set trace \<longrightarrow>
       (\<forall>s \<in> {CreateApp ''AppModule'', InitApp, InitProject None, InitFetch startHeight, EnableShutdownHooks}. outcome s = Inr ()) \<and>
       getValidPort (arg_port argv) = Inr port) \<and>
    (r = Inr () \<longleftrightarrow> (\<exists>p. getValidPort (arg_port argv) = Inr p \<and>
       (\<forall>s \<in> {CreateApp ''AppModule'', InitApp, InitProject None, InitFetch startHeight, EnableShutdownHooks, Listen p}. outcome s = Inr ()))) \<and>
    (\<forall>e. r = Inl e \<longrightarrow> getValidPort (arg_port argv) = Inl e \<and> trace = [] \<or> e = ProcessExit ''Node failed to start'')"
  using assms by (auto simp: bootstrap_def split: sum.splits)

theorem bootstrap_listens_last_witness:
  "Listen 3000 \<in> set (snd (bootstrap (\<lambda>p. Inr 3000) (\<lambda>s. Inr ()) 1 \<lparr>arg_port = None, arg_subcommand = None\<rparr>))"
proof -
  let ?argv = "\<lparr>arg_port = None, arg_subcommand = None\<rparr>"
  obtain r trace where run: "bootstrap (\<lambda>p. Inr 3000) (\<lambda>s. Inr ()) 1 ?argv = (r, trace)" by force
  from bootstrap_listens_last [OF run, of 3000] have "r = Inr ()" by simp
  with run show ?thesis by (auto simp: bootstrap_def)
qed

text \<open>The main process can take the size of every block. A worker process, whose entry file
  does not set \<open>BigInt.prototype.toJSON\<close>, can take the size of a block with transactions exactly
  when one of the libraries it imports sets it.\<close>

theorem worker_sizes_blocks_iff_patched:
  "(\<exists>n. service_getBlockSize (PatchBigInt \<in> set (main_process libs getValidPort outcome startHeight argv)) block = Inr n) \<and>
   ((\<exists>n. worker_getBlockSize (PatchBigInt \<in> set (worker_process libs outcome height)) block = Inr n) \<longleftrightarrow>
      transactions (ib_block block) = [] \<or> PatchBigInt \<in> set libs)"
proof -
  have "PatchBigInt \<in> set (main_process libs getValidPort outcome startHeight argv)" by (simp add: main_process_def)
  moreover have "PatchBigInt \<in> set (worker_process libs outcome height) \<longleftrightarrow> PatchBigInt \<in> set libs"
    by (auto simp: worker_process_def initWorker_def split: sum.splits)
  ultimately show ?thesis
    by (cases "PatchBigInt \<in> set libs")
       (auto simp: service_getBlockSize_def worker_getBlockSize_def getBlockSize_patched getBlockSize_unpatched)
qed

end
