(* ===== verification/Wiring.thy ===== *)
theory Wiring
  imports Prelude
begin

section \<open>The modules of the processes\<close>

text \<open>
  The NestJS modules under \<open>packages/node/src\<close>: \<open>app.module.ts\<close>, \<open>indexer/fetch.module.ts\<close>,
  \<open>indexer/worker/worker.module.ts\<close>, \<open>worker-fetch.module.ts\<close>, \<open>subcommands/*.module.ts\<close> and
  \<open>configure/configure.module.ts\<close>. A provider is a token with what it asks for; a class of
  node-core asks for things the repository does not say, so its list is empty. What a module
  needs from the libraries is what its providers ask for and neither the module nor the global
  \<open>ConfigureModule\<close> provides.
\<close>

subsection \<open>Tokens, providers and modules\<close>

datatype token =
    Named string
  | Class string

record provider =
  provide :: token
  inject :: "token list"

record nest_module =
  imports_of :: "string list"
  providers :: "provider list"
  exports :: "token list"

text \<open>What the constructors of the repository's classes ask for.\<close>

definition constructor_inject :: "(string \<times> token list) list" where
  "constructor_inject =
     [(''BlockchainService'', [Named ''APIService'']),
      (''IndexerManager'',
        [Named ''APIService'', Class ''NodeConfig'', Class ''SandboxService'', Class ''DsProcessorService'',
         Class ''DynamicDsService'', Named ''IUnfinalizedBlocksService'', Named ''IBlockchainService'']),
      (''UnfinalizedBlocksService'', [Class ''NodeConfig'', Named ''IStoreModelProvider'', Named ''IBlockchainService'']),
      (''SolanaDictionaryService'',
        [Named ''ISubqueryProject'', Class ''NodeConfig'', Class ''EventEmitter2'', Named ''APIService'']),
      (''WorkerService'',
        [Named ''APIService'', Class ''IndexerManager'', Named ''IProjectService'', Named ''IProjectUpgradeService'',
         Class ''NodeConfig'']),
      (''TestingService'', [Class ''NodeConfig'', Named ''ISubqueryProject''])]"

definition useClass :: "token \<Rightarrow> string \<Rightarrow> provider" where
  "useClass t c = \<lparr>provide = t, inject = (case map_of constructor_inject c of None \<Rightarrow> [] | Some ts \<Rightarrow> ts)\<rparr>"

definition as_class :: "string \<Rightarrow> provider" where
  "as_class c = useClass (Class c) c"

definition useFactory :: "token \<Rightarrow> token list \<Rightarrow> provider" where
  "useFactory t ts = \<lparr>provide = t, inject = ts\<rparr>"

definition useValue :: "token \<Rightarrow> provider" where
  "useValue t = \<lparr>provide = t, inject = []\<rparr>"

text \<open>The API service, made by \<open>SolanaApiService.init\<close>.\<close>

definition api_service_provider :: provider where
  "api_service_provider =
     useFactory (Named ''APIService'')
       [Named ''ISubqueryProject'', Class ''ConnectionPoolService'', Class ''EventEmitter2'', Class ''NodeConfig'']"

subsection \<open>The modules\<close>

definition ConfigureModule :: nest_module where
  "ConfigureModule =
     \<lparr>imports_of = [],
      providers = [useValue (Class ''NodeConfig''), useValue (Named ''ISubqueryProject''),
                   useValue (Named ''IProjectUpgradeService''), useValue (Named ''Null'')],
      exports = [Class ''NodeConfig'', Named ''ISubqueryProject'', Named ''IProjectUpgradeService'', Named ''Null'']\<rparr>"

definition FetchModule :: nest_module where
  "FetchModule =
     \<lparr>imports_of = [''CoreModule''],
      providers =
        [api_service_provider,
         useClass (Named ''IBlockchainService'') ''BlockchainService'',
         as_class ''IndexerManager'',
         as_class ''MultiChainRewindService'',
         useFactory (Named ''IBlockDispatcher'')
           [Class ''NodeConfig'', Class ''EventEmitter2'', Named ''IProjectService'', Named ''IProjectUpgradeService'',
            Class ''InMemoryCacheService'', Class ''StoreService'', Named ''IStoreModelProvider'', Class ''PoiSyncService'',
            Named ''ISubqueryProject'', Class ''DynamicDsService'', Named ''IUnfinalizedBlocksService'',
            Class ''ConnectionPoolStateManager'', Named ''IBlockchainService'', Class ''IndexerManager'',
            Class ''MultiChainRewindService'', Class ''MonitorService''],
         as_class ''FetchService'',
         useClass (Class ''DictionaryService'') ''SolanaDictionaryService'',
         as_class ''DsProcessorService'',
         as_class ''DynamicDsService'',
         useClass (Named ''IProjectService'') ''ProjectService'',
         useClass (Named ''IUnfinalizedBlocksService'') ''UnfinalizedBlocksService''],
      exports = []\<rparr>"

definition AppModule :: nest_module where
  "AppModule =
     \<lparr>imports_of = [''DbModule'', ''EventEmitterModule'', ''ConfigureModule'', ''ScheduleModule'', ''CoreModule'', ''FetchModule'', ''MetaModule''],
      providers = [], exports = []\<rparr>"

definition WorkerFetchModule :: nest_module where
  "WorkerFetchModule =
     \<lparr>imports_of = [''WorkerCoreModule''],
      providers =
        [as_class ''DsProcessorService'',
         as_class ''IndexerManager'',
         api_service_provider,
         useClass (Named ''IProjectService'') ''ProjectService'',
         useClass (Named ''IBlockchainService'') ''BlockchainService'',
         as_class ''WorkerService''],
      exports = []\<rparr>"

definition WorkerModule :: nest_module where
  "WorkerModule =
     \<lparr>imports_of = [''DbModule'', ''EventEmitterModule'', ''ConfigureModule'', ''ScheduleModule'', ''WorkerCoreModule'', ''WorkerFetchModule''],
      providers = [], exports = []\<rparr>"

definition TestingFeatureModule :: nest_module where
  "TestingFeatureModule =
     \<lparr>imports_of = [''TestingCoreModule''],
      providers =
        [useClass (Named ''IProjectService'') ''ProjectService'',
         api_service_provider,
         useClass (Named ''IUnfinalizedBlocksService'') ''UnfinalizedBlocksService'',
         useClass (Named ''IBlockchainService'') ''BlockchainService'',
         as_class ''TestRunner'',
         useClass (Named ''IIndexerManager'') ''IndexerManager'',
         as_class ''DsProcessorService'',
         as_class ''DynamicDsService'',
         as_class ''MultiChainRewindService''],
      exports = [Class ''TestRunner'']\<rparr>"

definition TestingModule :: nest_module where
  "TestingModule =
     \<lparr>imports_of = [''DbModule'', ''ConfigureModule'', ''EventEmitterModule'', ''ScheduleModule'', ''TestingFeatureModule''],
      providers = [], exports = []\<rparr>"

definition ReindexFeatureModule :: nest_module where
  "ReindexFeatureModule =
     \<lparr>imports_of = [],
      providers =
        [useFactory (Named ''IStoreModelProvider'') [Class ''NodeConfig'', Class ''EventEmitter2'', Class ''Sequelize''],
         as_class ''StoreService'',
         as_class ''ReindexService'',
         as_class ''PoiService'',
         as_class ''ForceCleanService'',
         useClass (Named ''UnfinalizedBlocksService'') ''UnfinalizedBlocksService'',
         useClass (Named ''DynamicDsService'') ''DynamicDsService'',
         as_class ''DsProcessorService'',
         as_class ''ConnectionPoolStateManager'',
         as_class ''ConnectionPoolService'',
         api_service_provider,
         useClass (Named ''IBlockchainService'') ''BlockchainService'',
         as_class ''MultiChainRewindService'',
         as_class ''SchedulerRegistry''],
      exports = []\<rparr>"

definition ReindexModule :: nest_module where
  "ReindexModule =
     \<lparr>imports_of = [''DbModule'', ''ConfigureModule'', ''ReindexFeatureModule'', ''EventEmitterModule''], providers = [], exports = []\<rparr>"

definition ForceCleanModule :: nest_module where
  "ForceCleanModule =
     \<lparr>imports_of = [''DbModule'', ''ConfigureModule'', ''ForceCleanFeatureModule''], providers = [], exports = []\<rparr>"

subsection \<open>What the libraries must provide\<close>

definition provided :: "nest_module \<Rightarrow> nest_module \<Rightarrow> token list" where
  "provided app m =
     map provide (providers m) @ (if ''ConfigureModule'' \<in> set (imports_of app) then exports ConfigureModule else [])"

definition library_needs :: "nest_module \<Rightarrow> nest_module \<Rightarrow> token list" where
  "library_needs app m = uniq (filter (\<lambda>t. \<not> List.member (provided app m) t) (concat (map inject (providers m))))"

text \<open>Which token needs which, among those of one module.\<close>

definition needs :: "nest_module \<Rightarrow> (token \<times> token) set" where
  "needs m = {(t, u). \<exists>p \<in> set (providers m). t = provide p \<and> u \<in> set (inject p)}"

text \<open>An order in which everything can be made.\<close>

definition made_after :: "token \<Rightarrow> nat" where
  "made_after t =
     (case map_of [(Named ''IBlockDispatcher'', 6), (Class ''WorkerService'', 6), (Class ''IndexerManager'', 5),
                   (Named ''IIndexerManager'', 5), (Named ''IUnfinalizedBlocksService'', 4),
                   (Named ''UnfinalizedBlocksService'', 4), (Named ''IBlockchainService'', 3),
                   (Class ''DictionaryService'', 3), (Named ''IStoreModelProvider'', 2), (Named ''APIService'', 2)] t of
        None \<Rightarrow> 0
      | Some n \<Rightarrow> n)"

definition ordered :: "nest_module \<Rightarrow> bool" where
  "ordered m = list_all (\<lambda>p. list_all (\<lambda>u. made_after u < made_after (provide p)) (inject p)) (providers m)"

lemma needs_all: "needs m \<subseteq> {(t, u). made_after u < made_after t} \<longleftrightarrow>
    list_all (\<lambda>p. list_all (\<lambda>u. made_after u < made_after (provide p)) (inject p)) (providers m)"
  by (auto simp: needs_def list_all_iff)

lemma needs_acyclic:
  assumes "ordered m"
  shows "acyclic (needs m)"
proof -
  have "converse (needs m) \<subseteq> measure made_after" using assms by (auto simp: ordered_def needs_all [symmetric])
  then have "acyclic (converse (needs m))" by (metis acyclic_subset wf_acyclic wf_measure)
  then show ?thesis by (simp only: acyclic_converse)
qed

lemmas module_defs = as_class_def useClass_def useFactory_def useValue_def api_service_provider_def constructor_inject_def

lemma modules_ordered: "ordered FetchModule" "ordered WorkerFetchModule" "ordered TestingFeatureModule" "ordered ReindexFeatureModule"
  by code_simp+

lemma modules_need:
  "library_needs AppModule FetchModule =
     [Class ''ConnectionPoolService'', Class ''EventEmitter2'', Class ''SandboxService'', Class ''InMemoryCacheService'',
      Class ''StoreService'', Named ''IStoreModelProvider'', Class ''PoiSyncService'', Class ''ConnectionPoolStateManager'',
      Class ''MonitorService'']"
  "library_needs WorkerModule WorkerFetchModule =
     [Class ''SandboxService'', Class ''DynamicDsService'', Named ''IUnfinalizedBlocksService'',
      Class ''ConnectionPoolService'', Class ''EventEmitter2'']"
  "library_needs TestingModule TestingFeatureModule =
     [Class ''ConnectionPoolService'', Class ''EventEmitter2'', Named ''IStoreModelProvider'', Class ''SandboxService'']"
  "library_needs ReindexModule ReindexFeatureModule = [Class ''EventEmitter2'', Class ''Sequelize'']"
  by code_simp+

text \<open>In every process the tokens of the repository's own services are provided: what its
  providers ask for and its modules lack are classes and tokens of node-core, NestJS and the
  database. The one service of the repository among them is \<open>IUnfinalizedBlocksService\<close> in a
  worker. No module has a cycle among its providers.\<close>

theorem modules_provide_services:
  "library_needs AppModule FetchModule =
     [Class ''ConnectionPoolService'', Class ''EventEmitter2'', Class ''SandboxService'', Class ''InMemoryCacheService'',
      Class ''StoreService'', Named ''IStoreModelProvider'', Class ''PoiSyncService'', Class ''ConnectionPoolStateManager'',
      Class ''MonitorService''] \<and>
   library_needs WorkerModule WorkerFetchModule =
     [Class ''SandboxService'', Class ''DynamicDsService'', Named ''IUnfinalizedBlocksService'',
      Class ''ConnectionPoolService'', Class ''EventEmitter2''] \<and>
   library_needs TestingModule TestingFeatureModule =
     [Class ''ConnectionPoolService'', Class ''EventEmitter2'', Named ''IStoreModelProvider'', Class ''SandboxService''] \<and>
   library_needs ReindexModule ReindexFeatureModule = [Class ''EventEmitter2'', Class ''Sequelize''] \<and>
   acyclic (needs FetchModule) \<and> acyclic (needs WorkerFetchModule) \<and> acyclic (needs TestingFeatureModule) \<and>
   acyclic (needs ReindexFeatureModule)"
  using modules_ordered needs_acyclic by (simp add: modules_need)

end
