(* ===== verification/TsTypes.thy ===== *)
theory TsTypes
  imports Json
begin

section \<open>Declared types\<close>

text \<open>
  The types of \<open>packages/types/src\<close> are TypeScript types, checked at compile time only and cast
  around where data comes from outside. Here a type is a value, and \<open>conforms\<close> says when an
  object has it: structurally, with extra properties allowed. An object is seen as a tree of its
  own properties (\<open>view\<close>), in which a promise is told apart from data. \<open>TDict\<close> is a map from
  strings, seen as an object; \<open>TTuple m n\<close> an array of \<open>m\<close> to \<open>n\<close> elements. Where an object spreads
  another and then sets a property, the property set stands first in the list.
\<close>

datatype ts_type =
    TString
  | TNumber
  | TBigint
  | TBoolean
  | TNull
  | TAnything
  | TLiteral string
  | TPromise
  | TArray ts_type
  | TUnion ts_type ts_type
  | TIntersection ts_type ts_type
  | TRecord "(string \<times> field_type) list"
  | TDict ts_type
  | TTuple nat nat ts_type
and field_type =
    Required ts_type
  | Optional ts_type

datatype view =
    VNull
  | VBool bool
  | VNum int
  | VBig int
  | VStr string
  | VArr "view list"
  | VObj "(string \<times> view) list"
  | VPromise

fun view_json :: "js_value \<Rightarrow> view" where
  "view_json JNull = VNull"
| "view_json (JBool b) = VBool b"
| "view_json (JNum n) = VNum n"
| "view_json (JBig n) = VBig n"
| "view_json (JStr s) = VStr s"
| "view_json (JArr vs) = VArr (map view_json vs)"
| "view_json (JObj fs) = VObj (map (\<lambda>(k, v). (k, view_json v)) fs)"

definition view_fields :: "js_fields \<Rightarrow> (string \<times> view) list" where
  "view_fields fs = map (\<lambda>(k, v). (k, view_json v)) fs"

text \<open>An optional property may be absent; a required one that is absent is \<open>undefined\<close>.\<close>

fun conforms :: "ts_type \<Rightarrow> view \<Rightarrow> bool"
  and has_fields :: "(string \<times> field_type) list \<Rightarrow> (string \<times> view) list \<Rightarrow> bool"
  and has_field :: "string \<times> field_type \<Rightarrow> (string \<times> view) list \<Rightarrow> bool"
  and field_conforms :: "field_type \<Rightarrow> view option \<Rightarrow> bool" where
  "conforms TString v = (case v of VStr s \<Rightarrow> True | _ \<Rightarrow> False)"
| "conforms TNumber v = (case v of VNum n \<Rightarrow> True | _ \<Rightarrow> False)"
| "conforms TBigint v = (case v of VBig n \<Rightarrow> True | _ \<Rightarrow> False)"
| "conforms TBoolean v = (case v of VBool b \<Rightarrow> True | _ \<Rightarrow> False)"
| "conforms TNull v = (v = VNull)"
| "conforms TAnything v = True"
| "conforms (TLiteral l) v = (v = VStr l)"
| "conforms TPromise v = (v = VPromise)"
| "conforms (TArray t) v = (case v of VArr vs \<Rightarrow> list_all (conforms t) vs | _ \<Rightarrow> False)"
| "conforms (TUnion t u) v = (conforms t v \<or> conforms u v)"
| "conforms (TIntersection t u) v = (conforms t v \<and> conforms u v)"
| "conforms (TRecord fields) v = (case v of VObj props \<Rightarrow> has_fields fields props | _ \<Rightarrow> False)"
| "conforms (TDict t) v = (case v of VObj props \<Rightarrow> list_all (\<lambda>(k, w). conforms t w) props | _ \<Rightarrow> False)"
| "conforms (TTuple m n t) v = (case v of VArr vs \<Rightarrow> m \<le> length vs \<and> length vs \<le> n \<and> list_all (conforms t) vs | _ \<Rightarrow> False)"
| "has_fields [] props = True"
| "has_fields (f # fields) props = (has_field f props \<and> has_fields fields props)"
| "has_field (k, ft) props = field_conforms ft (map_of props k)"
| "field_conforms (Required t) p = (case p of None \<Rightarrow> False | Some v \<Rightarrow> conforms t v)"
| "field_conforms (Optional t) p = (case p of None \<Rightarrow> True | Some v \<Rightarrow> conforms t v)"

lemma conforms_leaf [simp]:
  "conforms TString (VStr s)" "conforms TNumber (VNum n)" "conforms TBigint (VBig n)" "conforms TBoolean (VBool b)"
  "conforms (TArray t) (VArr vs) \<longleftrightarrow> (\<forall>v \<in> set vs. conforms t v)" "\<not> conforms (TArray t) VNull" "\<not> conforms (TRecord fs) VNull"
  by (simp_all add: list_all_iff)

declare conforms.simps(1,2,3,4,9) [simp del]

definition nullable_type :: "ts_type \<Rightarrow> ts_type" where
  "nullable_type t = TUnion t TNull"

lemma conforms_nullable: "conforms (nullable_type t) v \<longleftrightarrow> conforms t v \<or> v = VNull"
  by (simp add: nullable_type_def)

text \<open>Only the properties a type names matter.\<close>

lemma has_fields_cong:
  "(\<And>k. k \<in> fst ` set fields \<Longrightarrow> map_of props k = map_of props' k) \<Longrightarrow> has_fields fields props = has_fields fields props'"
  by (induction fields) auto

lemma has_fields_append [simp]: "has_fields (fs @ gs) props \<longleftrightarrow> has_fields fs props \<and> has_fields gs props"
  by (induction fs) auto

text \<open>Plain data as a view.\<close>

lemma view_lookup [simp]: "map_of (map (\<lambda>(k, v). (k, view_json v)) fs) k = map_option view_json (map_of fs k)"
  by (induction fs) auto

lemma view_json_cases [simp]:
  "conforms TString (view_json v) \<longleftrightarrow> (\<exists>s. v = JStr s)"
  "conforms TBoolean (view_json v) \<longleftrightarrow> (\<exists>b. v = JBool b)"
  "view_json v = VNull \<longleftrightarrow> v = JNull"
  "view_json v = VStr s \<longleftrightarrow> v = JStr s"
  by (cases v; simp add: conforms.simps(1,4))+

lemma conforms_json_array: "conforms (TArray t) (view_json v) \<longleftrightarrow> (\<exists>vs. v = JArr vs \<and> (\<forall>x \<in> set vs. conforms t (view_json x)))"
  by (cases v) (auto simp: conforms.simps(9) list_all_iff)

lemma conforms_json_record: "conforms (TRecord fields) (view_json v) \<longleftrightarrow>
    (\<exists>fs. v = JObj fs \<and> has_fields fields (map (\<lambda>(k, v). (k, view_json v)) fs))"
  by (cases v) auto

lemma conforms_json_dict: "conforms (TDict t) (view_json v) \<longleftrightarrow> (\<exists>fs. v = JObj fs \<and> (\<forall>(k, x) \<in> set fs. conforms t (view_json x)))"
  by (cases v) (auto simp: list_all_iff)

lemma conforms_json_tuple: "conforms (TTuple m n t) (view_json v) \<longleftrightarrow>
    (\<exists>vs. v = JArr vs \<and> m \<le> length vs \<and> length vs \<le> n \<and> (\<forall>x \<in> set vs. conforms t (view_json x)))"
  by (cases v) (auto simp: list_all_iff)

end
