(* ===== verification/SolanaTyping.thy ===== *)
theory SolanaTyping
  imports TsTypes BlockTheorems Indexer
begin

section \<open>The types handlers are written against\<close>

text \<open>
  The declared types of \<open>packages/types/src/solana.ts\<close> and the input map of \<open>project.ts\<close>, as values
  of \<open>ts_type\<close>, and the objects of the model as trees of their properties. The types of
  \<open>@solana/kit\<close> are parameters.
\<close>

subsection \<open>Types of the libraries\<close>

record kit_types =
  Address :: ts_type
  Base58EncodedBytes :: ts_type
  Base64EncodedDataResponse :: ts_type
  Blockhash :: ts_type
  Slot :: ts_type
  UnixTimestamp :: ts_type
  Lamports :: ts_type
  TransactionError :: ts_type
  TransactionStatus :: ts_type
  TransactionVersion :: ts_type
  TokenBalance :: ts_type
  Reward :: ts_type
  TransactionForFullJson :: ts_type

subsection \<open>Types of the repository\<close>

definition AddressTableLookup :: "kit_types \<Rightarrow> ts_type" where
  "AddressTableLookup K =
     TRecord [(''accountKey'', Required (Address K)), (''readonlyIndexes'', Required (TArray TNumber)),
              (''writableIndexes'', Required (TArray TNumber))]"

definition TransactionForFullMetaLoadedAddresses :: "kit_types \<Rightarrow> ts_type" where
  "TransactionForFullMetaLoadedAddresses K =
     TRecord [(''loadedAddresses'', Required (TRecord
       [(''readonly'', Required (TArray (Address K))), (''writable'', Required (TArray (Address K)))]))]"

definition TransactionForFullTransactionAddressTableLookups :: "kit_types \<Rightarrow> ts_type" where
  "TransactionForFullTransactionAddressTableLookups K =
     TRecord [(''message'', Required (TRecord
       [(''addressTableLookups'', Optional (nullable_type (TArray (AddressTableLookup K))))]))]"

text \<open>The type of the instructions is an argument, since the response has the same message with its own.\<close>

definition TransactionForFullTransactionJsonBase :: "kit_types \<Rightarrow> ts_type \<Rightarrow> ts_type" where
  "TransactionForFullTransactionJsonBase K instruction =
     TRecord [(''message'', Required (TRecord
         [(''accountKeys'', Required (TArray (Address K))),
          (''header'', Required (TRecord [(''numReadonlySignedAccounts'', Required TNumber),
             (''numReadonlyUnsignedAccounts'', Required TNumber), (''numRequiredSignatures'', Required TNumber)])),
          (''instructions'', Required (TArray instruction)),
          (''recentBlockhash'', Required (Blockhash K))])),
       (''signatures'', Required (TArray (Base58EncodedBytes K)))]"

definition ReturnData :: "kit_types \<Rightarrow> ts_type" where
  "ReturnData K = TRecord [(''data'', Required (Base64EncodedDataResponse K)), (''programId'', Required (Address K))]"

definition DecodedData :: ts_type where
  "DecodedData = TRecord [(''name'', Required TString), (''data'', Required TAnything)]"

definition SolanaLogMessage :: ts_type where
  "SolanaLogMessage =
     TRecord [(''message'', Required TString), (''decodedMessage'', Required TPromise), (''programId'', Required TString),
       (''logIndex'', Required TNumber),
       (''type'', Required (TUnion (TLiteral ''log'') (TUnion (TLiteral ''data'') (TLiteral ''other''))))]"

text \<open>The fields of \<open>meta\<close> that are taken over from the response.\<close>

definition copied_meta_fields :: "kit_types \<Rightarrow> (string \<times> field_type) list" where
  "copied_meta_fields K =
     [(''computeUnitsConsumed'', Optional TBigint),
      (''err'', Required (nullable_type (TransactionError K))),
      (''fee'', Required (Lamports K)),
      (''postBalances'', Required (TArray (Lamports K))),
      (''postTokenBalances'', Optional (TArray (TokenBalance K))),
      (''preBalances'', Required (TArray (Lamports K))),
      (''preTokenBalances'', Optional (TArray (TokenBalance K))),
      (''returnData'', Optional (ReturnData K)),
      (''rewards'', Required (nullable_type (TArray (Reward K)))),
      (''status'', Required (TransactionStatus K))]"

definition TransactionForFullMetaBase :: "kit_types \<Rightarrow> ts_type" where
  "TransactionForFullMetaBase K =
     TRecord ((''logs'', Required (nullable_type (TArray SolanaLogMessage))) # copied_meta_fields K)"

definition TransactionForFullMetaInnerInstructionsUnparsed :: "ts_type \<Rightarrow> ts_type" where
  "TransactionForFullMetaInnerInstructionsUnparsed instruction =
     TRecord [(''innerInstructions'', Required (TArray (TRecord
       [(''index'', Required TNumber), (''instructions'', Required (TArray instruction))])))]"

definition BaseSolanaBlock :: "kit_types \<Rightarrow> ts_type" where
  "BaseSolanaBlock K =
     TRecord [(''blockHeight'', Required TBigint), (''blockTime'', Required (UnixTimestamp K)),
       (''blockhash'', Required (Blockhash K)), (''parentSlot'', Required (Slot K)),
       (''previousBlockhash'', Required (Blockhash K))]"

definition SolanaInstruction :: "kit_types \<Rightarrow> ts_type" where
  "SolanaInstruction K =
     TRecord [(''index'', Required (TArray TNumber)), (''accounts'', Required (TArray TNumber)),
       (''data'', Required (Base58EncodedBytes K)), (''decodedData'', Required TPromise),
       (''programIdIndex'', Required TNumber), (''stackHeight'', Optional TNumber),
       (''transaction'', Required (TransactionForFullJson K)), (''block'', Required (BaseSolanaBlock K))]"

definition SolanaTransaction :: "kit_types \<Rightarrow> ts_type" where
  "SolanaTransaction K =
     TRecord
       [(''meta'', Required (nullable_type (TIntersection (TransactionForFullMetaBase K)
          (TIntersection (TransactionForFullMetaInnerInstructionsUnparsed (SolanaInstruction K))
             (TransactionForFullMetaLoadedAddresses K))))),
        (''transaction'', Required (TIntersection (TransactionForFullTransactionAddressTableLookups K)
           (TransactionForFullTransactionJsonBase K (SolanaInstruction K)))),
        (''version'', Required (TransactionVersion K)),
        (''block'', Required (BaseSolanaBlock K))]"

definition SolanaBlock :: "kit_types \<Rightarrow> ts_type" where
  "SolanaBlock K =
     TIntersection (BaseSolanaBlock K) (TRecord [(''transactions'', Required (TArray (SolanaTransaction K)))])"

text \<open>\<open>RawSolanaBlock\<close> of \<open>block.solana.ts\<close>.\<close>

definition RawSolanaBlock :: "kit_types \<Rightarrow> ts_type" where
  "RawSolanaBlock K =
     TRecord [(''blockHeight'', Required TBigint), (''blockTime'', Required (UnixTimestamp K)),
       (''blockhash'', Required (Blockhash K)), (''parentSlot'', Required (Slot K)),
       (''previousBlockhash'', Required (Blockhash K)),
       (''transactions'', Required (TArray (TransactionForFullJson K)))]"

text \<open>What a handler of each kind is called with (\<open>SolanaRuntimeHandlerInputMap\<close>).\<close>

fun SolanaRuntimeHandlerInputMap :: "kit_types \<Rightarrow> SolanaHandlerKind \<Rightarrow> ts_type" where
  "SolanaRuntimeHandlerInputMap K Block = SolanaBlock K"
| "SolanaRuntimeHandlerInputMap K Transaction = SolanaTransaction K"
| "SolanaRuntimeHandlerInputMap K Instruction = SolanaInstruction K"
| "SolanaRuntimeHandlerInputMap K Log = SolanaLogMessage"

subsection \<open>Objects as trees\<close>

definition VNat :: "nat \<Rightarrow> view" where
  "VNat n = VNum (int n)"

definition VStrings :: "string list \<Rightarrow> view" where
  "VStrings ss = VArr (map VStr ss)"

definition raw_instruction_fields :: "'z raw_instruction_scheme \<Rightarrow> (string \<times> view) list" where
  "raw_instruction_fields i =
     [(''accounts'', VArr (map VNat (accounts i))), (''data'', VStr (data i)), (''programIdIndex'', VNat (programIdIndex i))] @
     (case stackHeight i of None \<Rightarrow> [] | Some n \<Rightarrow> [(''stackHeight'', VNat n)])"

definition base_fields :: "'z base_block_scheme \<Rightarrow> (string \<times> view) list" where
  "base_fields b =
     [(''blockHeight'', VBig (bb_blockHeight b)), (''blockTime'', VBig (bb_blockTime b)), (''blockhash'', VStr (bb_blockhash b)),
      (''parentSlot'', VBig (bb_parentSlot b)), (''previousBlockhash'', VStr (bb_previousBlockhash b))] @
     view_fields (bb_rest b)"

definition body_view :: "('i \<Rightarrow> view) \<Rightarrow> 'i tx_body \<Rightarrow> view" where
  "body_view f b =
     VObj [(''message'', VObj ([(''accountKeys'', VStrings (accountKeys (message b))),
                                (''instructions'', VArr (map f (instructions (message b))))] @
                               view_fields (message_rest (message b)))),
           (''signatures'', VStrings (signatures b))]"

definition inner_view :: "('i \<Rightarrow> view) \<Rightarrow> 'i inner_instructions \<Rightarrow> view" where
  "inner_view f g = VObj [(''index'', VNat (ii_index g)), (''instructions'', VArr (map f (ii_instructions g)))]"

definition meta_fields :: "'z tx_meta_scheme \<Rightarrow> (string \<times> view) list" where
  "meta_fields m =
     [(''err'', case err m of None \<Rightarrow> VNull | Some e \<Rightarrow> view_json e), (''fee'', VBig (fee m)),
      (''loadedAddresses'', VObj [(''readonly'', VStrings (readonly (loadedAddresses m))),
                                  (''writable'', VStrings (writable (loadedAddresses m)))])] @
     view_fields (meta_rest m)"

fun kind_view :: "log_kind \<Rightarrow> view" where
  "kind_view LogLog = VStr ''log''"
| "kind_view LogData = VStr ''data''"
| "kind_view LogOther = VStr ''other''"

definition dictionary_log_view :: "dictionary_log \<Rightarrow> view" where
  "dictionary_log_view l =
     VObj [(''message'', VStr (dl_message l)), (''logIndex'', VNat (dl_logIndex l)), (''programId'', VStr (dl_programId l)),
           (''kind'', kind_view (dl_kind l))]"

definition nullable_strings :: "string list option \<Rightarrow> view" where
  "nullable_strings ss = (case ss of None \<Rightarrow> VNull | Some xs \<Rightarrow> VStrings xs)"

definition raw_meta_view :: "unit raw_meta_ext tx_meta_scheme \<Rightarrow> view" where
  "raw_meta_view m =
     VObj ([(''innerInstructions'', case raw_innerInstructions m of None \<Rightarrow> VNull
               | Some gs \<Rightarrow> VArr (map (inner_view (\<lambda>i. VObj (raw_instruction_fields i))) gs))] @
           meta_fields m @
           (case dictionaryLogs m of
              None \<Rightarrow> [(''logMessages'', nullable_strings (logMessages m))]
            | Some ls \<Rightarrow> [(''logs'', VArr (map dictionary_log_view ls))]))"

definition raw_tx_view :: "raw_tx \<Rightarrow> view" where
  "raw_tx_view t =
     VObj [(''transaction'', body_view (\<lambda>i. VObj (raw_instruction_fields i)) (transaction t)),
           (''meta'', case meta t of None \<Rightarrow> VNull | Some m \<Rightarrow> raw_meta_view m), (''version'', view_json (version t))]"

definition raw_block_view :: "raw_block \<Rightarrow> view" where
  "raw_block_view b = VObj ((''transactions'', VArr (map raw_tx_view (raw_transactions b))) # base_fields b)"

definition instruction_view :: "sol_instruction \<Rightarrow> view" where
  "instruction_view i =
     VObj (raw_instruction_fields i @
       [(''index'', VArr (map VNat (index i))), (''transaction'', raw_tx_view (inst_transaction i)),
        (''block'', VObj (base_fields (inst_block i))), (''decodedData'', VPromise)])"

definition log_view :: "log_message \<Rightarrow> view" where
  "log_view l =
     VObj ([(''message'', VStr (log_text l)), (''logIndex'', VNat (logIndex l)), (''type'', kind_view (log_type l)),
            (''decodedMessage'', VPromise)] @
           (case log_programId l of None \<Rightarrow> [] | Some p \<Rightarrow> [(''programId'', VStr p)]))"

definition meta_view :: "unit sol_meta_ext tx_meta_scheme \<Rightarrow> view" where
  "meta_view m =
     VObj ([(''innerInstructions'', VArr (map (inner_view instruction_view) (innerInstructions m))),
            (''logs'', case logs m of None \<Rightarrow> VNull | Some ls \<Rightarrow> VArr (map log_view ls))] @
           meta_fields m @
           (case kept_logMessages m of None \<Rightarrow> [] | Some ls \<Rightarrow> [(''logMessages'', nullable_strings ls)]))"

definition tx_view :: "sol_tx \<Rightarrow> view" where
  "tx_view t =
     VObj [(''block'', VObj (base_fields (tx_block t))), (''transaction'', body_view instruction_view (transaction t)),
           (''meta'', case meta t of None \<Rightarrow> VNull | Some m \<Rightarrow> meta_view m), (''version'', view_json (version t))]"

definition block_view :: "sol_block \<Rightarrow> view" where
  "block_view b = VObj ((''transactions'', VArr (map tx_view (transactions b))) # base_fields b)"

fun item_view :: "item \<Rightarrow> view" where
  "item_view (BlockItem b) = block_view b"
| "item_view (TransactionItem t) = tx_view t"
| "item_view (InstructionItem i) = instruction_view i"
| "item_view (LogItem l) = log_view l"

end
