(* ===== verification/SolanaTypingTheorems.thy ===== *)
theory SolanaTypingTheorems
  imports SolanaTyping
begin

section \<open>What handlers are given has the declared types\<close>

text \<open>
  The response of the endpoint is typed by \<open>@solana/kit\<close>; from a response of that type the
  transformation makes a block of the type the handlers are written against, except for one
  property, the program of a log.
\<close>

subsection \<open>The response\<close>

definition response_instruction :: "kit_types \<Rightarrow> ts_type" where
  "response_instruction K =
     TRecord [(''accounts'', Required (TArray TNumber)), (''data'', Required (Base58EncodedBytes K)),
       (''programIdIndex'', Required TNumber), (''stackHeight'', Optional TNumber)]"

definition response_meta :: "kit_types \<Rightarrow> ts_type" where
  "response_meta K =
     TIntersection (TRecord (copied_meta_fields K))
       (TIntersection
         (TRecord [(''innerInstructions'', Optional (nullable_type (TArray (TRecord
            [(''index'', Required TNumber), (''instructions'', Required (TArray (response_instruction K)))]))))])
         (TransactionForFullMetaLoadedAddresses K))"

definition response_tx :: "kit_types \<Rightarrow> ts_type" where
  "response_tx K =
     TRecord
       [(''meta'', Required (nullable_type (response_meta K))),
        (''transaction'', Required (TIntersection (TransactionForFullTransactionAddressTableLookups K)
           (TransactionForFullTransactionJsonBase K (response_instruction K)))),
        (''version'', Required (TransactionVersion K))]"

text \<open>
  \<open>TransactionForFullJson\<close> of the library has the parts that the types of the repository repeat.
\<close>

definition kit_response :: "kit_types \<Rightarrow> bool" where
  "kit_response K = (\<forall>v. conforms (TransactionForFullJson K) v \<longrightarrow> conforms (response_tx K) v)"

subsection \<open>Instructions and logs\<close>

lemma conforms_VNat [simp]: "conforms TNumber (VNat n)"
  by (simp add: VNat_def)

lemma raw_instruction_conforms:
  "conforms (response_instruction K) (VObj (raw_instruction_fields i)) \<longleftrightarrow> conforms (Base58EncodedBytes K) (VStr (data i))"
  by (auto simp: response_instruction_def raw_instruction_fields_def split: option.split)

lemma instruction_conforms:
  assumes "conforms (Base58EncodedBytes K) (VStr (data i))"
    and "conforms (TransactionForFullJson K) (raw_tx_view (inst_transaction i))"
    and "conforms (BaseSolanaBlock K) (VObj (base_fields (inst_block i)))"
  shows "conforms (SolanaInstruction K) (instruction_view i)"
  using assms by (auto simp: SolanaInstruction_def instruction_view_def raw_instruction_fields_def split: option.split)

lemma log_conforms: "conforms SolanaLogMessage (log_view l) \<longleftrightarrow> log_programId l \<noteq> None"
  by (cases "log_type l") (auto simp: SolanaLogMessage_def log_view_def split: option.split)

lemma wrapped_conforms:
  assumes "wrapped_all base tx outer raws insts" and "i \<in> set insts"
    and "\<And>r. r \<in> set raws \<Longrightarrow> conforms (response_instruction K) (VObj (raw_instruction_fields r))"
    and "conforms (TransactionForFullJson K) (raw_tx_view tx)" and "conforms (BaseSolanaBlock K) (VObj (base_fields base))"
  shows "conforms (SolanaInstruction K) (instruction_view i)"
proof (rule instruction_conforms)
  from assms(1,2) have at: "raw_instruction.truncate i \<in> set raws" "inst_transaction i = tx" "inst_block i = base"
    by (auto simp: wrapped_all_def list_all_iff)
  then show "conforms (TransactionForFullJson K) (raw_tx_view (inst_transaction i))"
    "conforms (BaseSolanaBlock K) (VObj (base_fields (inst_block i)))" using assms(4,5) by simp_all
  have "data i = data (raw_instruction.truncate i)" by (simp add: raw_instruction.defs)
  then show "conforms (Base58EncodedBytes K) (VStr (data i))"
    using assms(3) [OF at(1)] by (simp only: raw_instruction_conforms)
qed

subsection \<open>Transactions\<close>

lemma map_of_middle:
  "k \<notin> fst ` set xs \<Longrightarrow> k \<notin> fst ` set zs \<Longrightarrow> map_of (xs @ ys @ zs) k = map_of ys k"
  by (auto simp: map_add_def map_of_eq_None_iff [THEN iffD2] split: option.split)

lemma meta_fields_truncate [simp]: "meta_fields (tx_meta.truncate m) = meta_fields m"
  by (simp add: meta_fields_def tx_meta.defs)

text \<open>The fields taken over, and those of the lookup tables, have the same values in either view.\<close>

lemma copied_fields:
  assumes "fst ` set xs \<inter> fst ` set tfs = {}" and "fst ` set zs \<inter> fst ` set tfs = {}"
  shows "has_fields tfs (xs @ ys @ zs) = has_fields tfs ys"
  using assms by (intro has_fields_cong map_of_middle) auto

lemma inner_conforms:
  assumes "wrapped_meta base tx m m'" and "conforms (response_meta K) (raw_meta_view m)"
    and "conforms (TransactionForFullJson K) (raw_tx_view tx)" and "conforms (BaseSolanaBlock K) (VObj (base_fields base))"
  shows "\<forall>g \<in> set (innerInstructions m'). \<forall>i \<in> set (ii_instructions g). conforms (SolanaInstruction K) (instruction_view i)"
proof (intro ballI)
  fix g i assume g: "g \<in> set (innerInstructions m')" "i \<in> set (ii_instructions g)"
  with assms(1) obtain h where h: "h \<in> set (case raw_innerInstructions m of None \<Rightarrow> [] | Some inners \<Rightarrow> inners)"
      "wrapped_all base tx [ii_index h] (ii_instructions h) (ii_instructions g)"
    by (auto simp: wrapped_meta_def dest!: list_all2_set_right)
  have "conforms (response_instruction K) (VObj (raw_instruction_fields r))" if "r \<in> set (ii_instructions h)" for r
    using assms(2) h(1) that
    by (auto simp: response_meta_def raw_meta_view_def conforms_nullable inner_view_def split: option.splits)
  with wrapped_conforms [OF h(2) g(2) _ assms(3,4)] show "conforms (SolanaInstruction K) (instruction_view i)" by simp
qed

lemma meta_conforms:
  assumes "wrapped_meta base tx m m'" and "conforms (response_meta K) (raw_meta_view m)"
    and "conforms (TransactionForFullJson K) (raw_tx_view tx)" and "conforms (BaseSolanaBlock K) (VObj (base_fields base))"
  shows "conforms (TIntersection (TransactionForFullMetaBase K)
      (TIntersection (TransactionForFullMetaInnerInstructionsUnparsed (SolanaInstruction K))
         (TransactionForFullMetaLoadedAddresses K))) (meta_view m') \<longleftrightarrow>
    (\<forall>ls. logs m' = Some ls \<longrightarrow> (\<forall>l \<in> set ls. log_programId l \<noteq> None))"
proof -
  have mf: "meta_fields m' = meta_fields m"
    using assms(1) meta_fields_truncate [of m] meta_fields_truncate [of m'] by (simp only: wrapped_meta_def)
  let ?raw = "[(''innerInstructions'', case raw_innerInstructions m of None \<Rightarrow> VNull
      | Some gs \<Rightarrow> VArr (map (inner_view (\<lambda>i. VObj (raw_instruction_fields i))) gs))]"
    and ?tail = "case dictionaryLogs m of None \<Rightarrow> [(''logMessages'', nullable_strings (logMessages m))]
      | Some ls \<Rightarrow> [(''logs'', VArr (map dictionary_log_view ls))]"
  let ?new = "[(''innerInstructions'', VArr (map (inner_view instruction_view) (innerInstructions m'))),
      (''logs'', case logs m' of None \<Rightarrow> VNull | Some ls \<Rightarrow> VArr (map log_view ls))]"
    and ?kept = "case kept_logMessages m' of None \<Rightarrow> [] | Some ls \<Rightarrow> [(''logMessages'', nullable_strings ls)]"
  have copied: "has_fields (copied_meta_fields K) (?raw @ meta_fields m @ ?tail) = has_fields (copied_meta_fields K) (meta_fields m)"
      "has_fields (copied_meta_fields K) (?new @ meta_fields m @ ?kept) = has_fields (copied_meta_fields K) (meta_fields m)"
    by (rule copied_fields; cases "dictionaryLogs m"; cases "kept_logMessages m'"; simp add: copied_meta_fields_def)+
  have loaded: "conforms (TransactionForFullMetaLoadedAddresses K) (meta_view m') =
      conforms (TransactionForFullMetaLoadedAddresses K) (raw_meta_view m)"
    using assms(1) by (simp add: TransactionForFullMetaLoadedAddresses_def meta_view_def raw_meta_view_def meta_fields_def
        wrapped_meta_def tx_meta.defs)
  have "conforms (TransactionForFullMetaInnerInstructionsUnparsed (SolanaInstruction K)) (meta_view m')"
    using inner_conforms [OF assms] by (auto simp: TransactionForFullMetaInnerInstructionsUnparsed_def meta_view_def inner_view_def)
  moreover have "conforms (TransactionForFullMetaBase K) (meta_view m') \<longleftrightarrow>
      (\<forall>ls. logs m' = Some ls \<longrightarrow> (\<forall>l \<in> set ls. log_programId l \<noteq> None))"
    using assms(2) copied
    by (auto simp: TransactionForFullMetaBase_def meta_view_def mf response_meta_def raw_meta_view_def conforms_nullable
        log_conforms split: option.split)
  ultimately show ?thesis using assms(2) loaded by (simp add: response_meta_def)
qed

lemma body_conforms:
  assumes "conforms (TIntersection (TransactionForFullTransactionAddressTableLookups K)
      (TransactionForFullTransactionJsonBase K (response_instruction K))) (body_view (\<lambda>i. VObj (raw_instruction_fields i)) b)"
    and "signatures b' = signatures b" "accountKeys (message b') = accountKeys (message b)"
      "message_rest (message b') = message_rest (message b)"
    and "\<forall>i \<in> set (instructions (message b')). conforms (SolanaInstruction K) (instruction_view i)"
  shows "conforms (TIntersection (TransactionForFullTransactionAddressTableLookups K)
      (TransactionForFullTransactionJsonBase K (SolanaInstruction K))) (body_view instruction_view b')"
  using assms
  by (auto simp: TransactionForFullTransactionAddressTableLookups_def TransactionForFullTransactionJsonBase_def body_view_def
      split: option.splits)

lemma tx_conforms:
  assumes "wrapped_tx base tx t" and "kit_response K" and "conforms (TransactionForFullJson K) (raw_tx_view tx)"
    and "conforms (BaseSolanaBlock K) (VObj (base_fields base))"
  shows "conforms (SolanaTransaction K) (tx_view t) \<longleftrightarrow> (\<forall>l \<in> set (tx_logs t). log_programId l \<noteq> None)"
    and "\<forall>i \<in> set (instruction_order t). conforms (SolanaInstruction K) (instruction_view i)"
proof -
  from assms(2,3) have r: "conforms (response_tx K) (raw_tx_view tx)" by (simp add: kit_response_def)
  then have raws: "conforms (response_instruction K) (VObj (raw_instruction_fields r))"
    if "r \<in> set (instructions (message (transaction tx)))" for r
    using that by (auto simp: response_tx_def raw_tx_view_def body_view_def TransactionForFullTransactionJsonBase_def)
  have i: "\<forall>i \<in> set (instructions (message (transaction t))). conforms (SolanaInstruction K) (instruction_view i)"
    using assms(1) wrapped_conforms [OF _ _ raws assms(3,4)] by (auto simp: wrapped_tx_def)
  have body: "conforms (TIntersection (TransactionForFullTransactionAddressTableLookups K)
      (TransactionForFullTransactionJsonBase K (SolanaInstruction K))) (body_view instruction_view (transaction t))"
    by (rule body_conforms [OF _ _ _ _ i]) (use r assms(1) in \<open>simp_all add: response_tx_def raw_tx_view_def wrapped_tx_def\<close>)
  have m: "rel_option (wrapped_meta base tx) (meta tx) (meta t)" using assms(1) by (simp add: wrapped_tx_def)
  then have "\<forall>g \<in> set (tx_inner t). \<forall>i \<in> set (ii_instructions g). conforms (SolanaInstruction K) (instruction_view i)"
  proof cases
    case (Some m m')
    from r Some(1) have "conforms (response_meta K) (raw_meta_view m)"
      by (simp add: response_tx_def raw_tx_view_def conforms_nullable raw_meta_view_def)
    from inner_conforms [OF Some(3) this assms(3,4)] Some(2) show ?thesis by (simp add: tx_inner_def)
  qed (simp add: tx_inner_def)
  with i show "\<forall>i \<in> set (instruction_order t). conforms (SolanaInstruction K) (instruction_view i)"
    by (auto simp: instruction_order_def in_set_enumerate_eq)
  from m have "conforms (nullable_type (TIntersection (TransactionForFullMetaBase K)
      (TIntersection (TransactionForFullMetaInnerInstructionsUnparsed (SolanaInstruction K))
         (TransactionForFullMetaLoadedAddresses K)))) (case meta t of None \<Rightarrow> VNull | Some m \<Rightarrow> meta_view m) \<longleftrightarrow>
    (\<forall>l \<in> set (tx_logs t). log_programId l \<noteq> None)"
  proof cases
    case None
    then show ?thesis by (simp add: conforms_nullable tx_logs_def)
  next
    case (Some m m')
    from r Some(1) have "conforms (response_meta K) (raw_meta_view m)"
      by (simp add: response_tx_def raw_tx_view_def conforms_nullable raw_meta_view_def)
    from meta_conforms [OF Some(3) this assms(3,4)] Some(2) show ?thesis
      by (auto simp: conforms_nullable tx_logs_def meta_view_def simp del: conforms.simps(11,12) split: option.splits)
  qed
  with body r assms(1,4) show "conforms (SolanaTransaction K) (tx_view t) \<longleftrightarrow> (\<forall>l \<in> set (tx_logs t). log_programId l \<noteq> None)"
    by (simp add: SolanaTransaction_def tx_view_def response_tx_def raw_tx_view_def wrapped_tx_def del: conforms.simps(11))
qed

subsection \<open>Blocks\<close>

lemma base_fields_truncate [simp]: "base_fields (base_block.truncate b) = base_fields b"
  by (simp add: base_fields_def base_block.defs)

lemma raw_block_conforms:
  assumes "conforms (RawSolanaBlock K) (raw_block_view raw)"
  shows "conforms (BaseSolanaBlock K) (VObj (base_fields raw))"
    and "\<forall>tx \<in> set (raw_transactions raw). conforms (TransactionForFullJson K) (raw_tx_view tx)"
  using assms by (auto simp: RawSolanaBlock_def raw_block_view_def BaseSolanaBlock_def base_fields_def)

text \<open>The logs that an item holds.\<close>

fun item_logs :: "item \<Rightarrow> log_message list" where
  "item_logs (BlockItem b) = concat (map tx_logs (transactions b))"
| "item_logs (TransactionItem t) = tx_logs t"
| "item_logs (InstructionItem i) = []"
| "item_logs (LogItem l) = [l]"

text \<open>C20: from a response of the type the library declares, \<open>transformBlock\<close> makes objects of the
  types that handlers are written against: the block, its transactions and logs exactly when
  each log in them has a program, the instructions always, the inner ones included. The one
  property that may be missing is \<open>programId\<close>, for a line outside every program.\<close>

theorem handler_inputs_typed:
  assumes "transformBlock raw = Inr b" and "conforms (RawSolanaBlock K) (raw_block_view raw)" and "kit_response K"
    and "x \<in> set (block_items b)"
  shows "conforms (SolanaRuntimeHandlerInputMap K (item_kind x)) (item_view x) \<longleftrightarrow>
    (\<forall>l \<in> set (item_logs x). log_programId l \<noteq> None)"
proof -
  let ?base = "base_block.truncate raw"
  from transformBlock_wrapped [OF assms(1)] have b: "base_block.truncate b = ?base"
    and w: "list_all2 (wrapped_tx ?base) (raw_transactions raw) (transactions b)" by simp_all
  note raw = raw_block_conforms [OF assms(2)]
  have base: "conforms (BaseSolanaBlock K) (VObj (base_fields ?base))" using raw(1) by simp
  have txs: "(conforms (SolanaTransaction K) (tx_view t) \<longleftrightarrow> (\<forall>l \<in> set (tx_logs t). log_programId l \<noteq> None)) \<and>
      (\<forall>i \<in> set (instruction_order t). conforms (SolanaInstruction K) (instruction_view i))" if "t \<in> set (transactions b)" for t
  proof -
    from list_all2_set_right [OF w that] obtain tx where "tx \<in> set (raw_transactions raw)" "wrapped_tx ?base tx t" by blast
    with tx_conforms [OF _ assms(3) _ base] raw(2) show ?thesis by blast
  qed
  have "base_fields b = base_fields raw" using b base_fields_truncate by metis
  with raw(1) have "conforms (BaseSolanaBlock K) (block_view b)"
    by (simp add: block_view_def BaseSolanaBlock_def)
  with txs have block: "conforms (SolanaBlock K) (block_view b) \<longleftrightarrow>
      (\<forall>t \<in> set (transactions b). \<forall>l \<in> set (tx_logs t). log_programId l \<noteq> None)"
    by (auto simp: SolanaBlock_def block_view_def)
  show ?thesis
  proof (cases x)
    case (BlockItem c)
    with assms(4) have "c = b" by (auto simp: block_items_def tx_items_def)
    with block BlockItem show ?thesis by auto
  next
    case (TransactionItem t)
    with assms(4) have "t \<in> set (transactions b)" by (auto simp: block_items_def tx_items_def)
    with txs TransactionItem show ?thesis by simp
  next
    case (InstructionItem i)
    with assms(4) obtain t where "t \<in> set (transactions b)" "i \<in> set (instruction_order t)"
      by (auto simp: block_items_def tx_items_def)
    with txs InstructionItem show ?thesis by simp
  next
    case (LogItem l)
    then show ?thesis by (simp add: log_conforms)
  qed
qed

definition example_kit :: kit_types where
  "example_kit =
     (let K = \<lparr>Address = TString, Base58EncodedBytes = TString, Base64EncodedDataResponse = TAnything, Blockhash = TString,
            Slot = TBigint, UnixTimestamp = TBigint, Lamports = TBigint, TransactionError = TAnything, TransactionStatus = TAnything,
            TransactionVersion = TUnion (TLiteral ''legacy'') TNumber, TokenBalance = TAnything, Reward = TAnything,
            TransactionForFullJson = TAnything\<rparr>
      in K\<lparr>TransactionForFullJson := response_tx K\<rparr>)"

definition typed_raw_block :: "string list option \<Rightarrow> raw_block" where
  "typed_raw_block lines =
     \<lparr>bb_blockHeight = 95, bb_blockTime = 1700000000, bb_blockhash = ''h'', bb_parentSlot = 98,
      bb_previousBlockhash = ''g'', bb_rest = [],
      raw_transactions =
       [\<lparr>transaction = \<lparr>message = \<lparr>accountKeys = [''S'', ''A''],
            instructions = [\<lparr>accounts = [0], data = ''2'', programIdIndex = 1, stackHeight = None\<rparr>],
            message_rest = [(''header'', JObj [(''numReadonlySignedAccounts'', JNum 0), (''numReadonlyUnsignedAccounts'', JNum 1),
              (''numRequiredSignatures'', JNum 1)]), (''recentBlockhash'', JStr ''f'')]\<rparr>, signatures = [''sig'']\<rparr>,
        meta = Some \<lparr>err = None, fee = 5000, loadedAddresses = \<lparr>writable = [''W''], readonly = [''R'']\<rparr>,
            meta_rest = [(''postBalances'', JArr [JBig 3]), (''preBalances'', JArr [JBig 5003]), (''rewards'', JNull),
              (''status'', JObj [(''Ok'', JNull)])],
            raw_innerInstructions = Some [\<lparr>ii_index = 0, ii_instructions =
              [\<lparr>accounts = [0, 2], data = ''3'', programIdIndex = 3, stackHeight = Some 2\<rparr>]\<rparr>],
            logMessages = lines, dictionaryLogs = None\<rparr>,
        version = JStr ''legacy''\<rparr>]\<rparr>"

lemma kit_response_example: "kit_response example_kit"
  by (simp add: kit_response_def example_kit_def Let_def response_tx_def response_meta_def response_instruction_def
      copied_meta_fields_def TransactionForFullMetaLoadedAddresses_def ReturnData_def
      TransactionForFullTransactionAddressTableLookups_def TransactionForFullTransactionJsonBase_def AddressTableLookup_def)

lemma typed_raw_block_conforms: "conforms (RawSolanaBlock example_kit) (raw_block_view (typed_raw_block lines))"
  by (cases lines) (simp_all add: RawSolanaBlock_def raw_block_view_def typed_raw_block_def base_fields_def example_kit_def Let_def
      response_tx_def response_meta_def response_instruction_def copied_meta_fields_def TransactionForFullMetaLoadedAddresses_def
      TransactionForFullTransactionAddressTableLookups_def TransactionForFullTransactionJsonBase_def view_fields_def
      raw_tx_view_def body_view_def raw_meta_view_def meta_fields_def inner_view_def raw_instruction_fields_def VNat_def VStrings_def
      nullable_type_def)

definition log_programs :: "raw_block \<Rightarrow> string option list option" where
  "log_programs raw =
     (case transformBlock raw of Inl e \<Rightarrow> None | Inr b \<Rightarrow> Some (map log_programId (concat (map tx_logs (transactions b)))))"

text \<open>A line outside every program is a log without a program; without lines the block has its type.\<close>

theorem handler_inputs_typed_witness:
  "\<exists>b c. transformBlock (typed_raw_block None) = Inr b \<and> transformBlock (typed_raw_block (Some [''Program log: x''])) = Inr c \<and>
     conforms (SolanaBlock example_kit) (block_view b) \<and> \<not> conforms (SolanaBlock example_kit) (block_view c)"
proof -
  have iff: "conforms (SolanaBlock example_kit) (block_view b) \<longleftrightarrow> (\<forall>l \<in> set (concat (map tx_logs (transactions b))). log_programId l \<noteq> None)"
    if "transformBlock (typed_raw_block lines) = Inr b" for lines b
    using handler_inputs_typed [OF that typed_raw_block_conforms kit_response_example, of "BlockItem b"]
    by (simp add: block_items_def)
  have "log_programs (typed_raw_block None) = Some []" by code_simp
  then obtain b where b: "transformBlock (typed_raw_block None) = Inr b" "concat (map tx_logs (transactions b)) = []"
    by (auto simp: log_programs_def split: sum.splits)
  have "log_programs (typed_raw_block (Some [''Program log: x''])) = Some [None]" by code_simp
  then obtain c where c: "transformBlock (typed_raw_block (Some [''Program log: x''])) = Inr c"
      "map log_programId (concat (map tx_logs (transactions c))) = [None]"
    by (auto simp: log_programs_def split: sum.splits)
  from c(2) have "None \<in> log_programId ` set (concat (map tx_logs (transactions c)))"
    by (metis list.set_intros(1) set_map)
  then have "\<exists>l \<in> set (concat (map tx_logs (transactions c))). log_programId l = None" by (metis image_iff)
  with iff [OF b(1)] iff [OF c(1)] b c(1) show ?thesis by auto
qed

end
