(* ===== verification/ProjectTyping.thy ===== *)
theory ProjectTyping
  imports SolanaTyping Manifest
begin

section \<open>The types of a project\<close>

text \<open>
  The declared types of filters, handlers, mappings and data sources (\<open>packages/types/src/solana.ts\<close>
  and \<open>project.ts\<close>), and what the decorators of the manifest classes check of an object, as
  class-validator documents them. The types of \<open>@subql/types-core\<close> are parameters.
\<close>

subsection \<open>Types\<close>

record core_types =
  BlockFilter :: ts_type
  FileReference :: ts_type
  BaseDataSource :: ts_type
  BaseCustomDataSource :: ts_type
  Processor :: ts_type
  BaseTemplateDataSource :: "ts_type \<Rightarrow> ts_type"
  IEndpointConfig :: ts_type
  IProjectNetworkConfig :: "ts_type \<Rightarrow> ts_type"
  CommonSubqueryProject :: "ts_type \<Rightarrow> ts_type \<Rightarrow> ts_type \<Rightarrow> ts_type"
  ProjectManifestV1_0_0 :: "ts_type \<Rightarrow> ts_type"
  SecondLayerHandlerProcessor_0_0_0 :: "SolanaHandlerKind \<Rightarrow> (SolanaHandlerKind \<Rightarrow> ts_type) \<Rightarrow> (SolanaHandlerKind \<Rightarrow> ts_type) \<Rightarrow>
    ts_type \<Rightarrow> ts_type \<Rightarrow> ts_type \<Rightarrow> ts_type \<Rightarrow> ts_type"
  SecondLayerHandlerProcessor_1_0_0 :: "SolanaHandlerKind \<Rightarrow> (SolanaHandlerKind \<Rightarrow> ts_type) \<Rightarrow> (SolanaHandlerKind \<Rightarrow> ts_type) \<Rightarrow>
    ts_type \<Rightarrow> ts_type \<Rightarrow> ts_type \<Rightarrow> ts_type \<Rightarrow> ts_type"
  DsProcessor :: "ts_type \<Rightarrow> ts_type \<Rightarrow> ts_type \<Rightarrow> ts_type"

definition SolanaTransactionFilter :: ts_type where
  "SolanaTransactionFilter = TRecord [(''signerAccountKey'', Optional TString)]"

definition InstructionAccountFilter :: ts_type where
  "InstructionAccountFilter = nullable_type (TArray TString)"

definition SolanaInstructionFilter :: ts_type where
  "SolanaInstructionFilter =
     TRecord [(''programId'', Optional TString), (''discriminator'', Optional TString),
       (''accounts'', Optional (TTuple 1 16 InstructionAccountFilter)), (''includeFailed'', Optional TBoolean)]"

definition SolanaLogFilter :: ts_type where
  "SolanaLogFilter = TRecord [(''programId'', Optional TString)]"

fun SolanaRuntimeFilterMap :: "core_types \<Rightarrow> SolanaHandlerKind \<Rightarrow> ts_type" where
  "SolanaRuntimeFilterMap C Block = BlockFilter C"
| "SolanaRuntimeFilterMap C Transaction = SolanaTransactionFilter"
| "SolanaRuntimeFilterMap C Instruction = SolanaInstructionFilter"
| "SolanaRuntimeFilterMap C Log = SolanaLogFilter"

definition SubqlCustomHandler :: "ts_type \<Rightarrow> ts_type \<Rightarrow> ts_type" where
  "SubqlCustomHandler kind flt =
     TRecord [(''kind'', Required kind), (''handler'', Required TString), (''filter'', Optional flt)]"

definition SubqlBlockHandler :: "core_types \<Rightarrow> ts_type" where
  "SubqlBlockHandler C = SubqlCustomHandler (TLiteral (kind_string Block)) (BlockFilter C)"

definition SubqlTransactionHandler :: ts_type where
  "SubqlTransactionHandler = SubqlCustomHandler (TLiteral (kind_string Transaction)) SolanaTransactionFilter"

definition SubqlInstructionHandler :: ts_type where
  "SubqlInstructionHandler = SubqlCustomHandler (TLiteral (kind_string Instruction)) SolanaInstructionFilter"

definition SubqlLogHandler :: ts_type where
  "SubqlLogHandler = SubqlCustomHandler (TLiteral (kind_string Log)) SolanaLogFilter"

definition SubqlRuntimeHandler :: "core_types \<Rightarrow> ts_type" where
  "SubqlRuntimeHandler C =
     TUnion (SubqlBlockHandler C) (TUnion SubqlTransactionHandler (TUnion SubqlInstructionHandler SubqlLogHandler))"

definition SubqlHandler :: "core_types \<Rightarrow> ts_type" where
  "SubqlHandler C = TUnion (SubqlRuntimeHandler C) (SubqlCustomHandler TString TAnything)"

definition SubqlHandlerFilter :: "core_types \<Rightarrow> ts_type" where
  "SubqlHandlerFilter C =
     TUnion (BlockFilter C) (TUnion SolanaTransactionFilter (TUnion SolanaInstructionFilter SolanaLogFilter))"

definition SubqlMapping :: "core_types \<Rightarrow> ts_type \<Rightarrow> ts_type" where
  "SubqlMapping C handler_type =
     TIntersection (FileReference C) (TRecord [(''handlers'', Required (TArray handler_type))])"

text \<open>\<open>mapping\<close> is a property of the base type, of the type that is its argument.\<close>

definition SubqlRuntimeDatasource :: "core_types \<Rightarrow> ts_type" where
  "SubqlRuntimeDatasource C =
     TIntersection (BaseDataSource C)
       (TRecord [(''mapping'', Required (SubqlMapping C (SubqlRuntimeHandler C))),
                 (''kind'', Required (TLiteral SolanaDatasourceKind_Runtime)),
                 (''assets'', Optional (TDict (FileReference C)))])"

definition SubqlCustomDatasource :: "core_types \<Rightarrow> ts_type" where
  "SubqlCustomDatasource C =
     TIntersection (BaseCustomDataSource C)
       (TRecord [(''mapping'', Required (SubqlMapping C (SubqlCustomHandler TString (TDict TAnything)))),
                 (''kind'', Required TString),
                 (''assets'', Optional (TDict (FileReference C))),
                 (''processor'', Required (Processor C))])"

definition SubqlDatasource :: "core_types \<Rightarrow> ts_type" where
  "SubqlDatasource C = TUnion (SubqlRuntimeDatasource C) (SubqlCustomDatasource C)"

text \<open>
  Templates, projects and the processors of custom data sources: the generic types of
  types-core at the types above. \<open>ApiWrapper\<close> is \<open>unknown\<close>.
\<close>

definition RuntimeDatasourceTemplate :: "core_types \<Rightarrow> ts_type" where
  "RuntimeDatasourceTemplate C = BaseTemplateDataSource C (SubqlRuntimeDatasource C)"

definition CustomDatasourceTemplate :: "core_types \<Rightarrow> ts_type" where
  "CustomDatasourceTemplate C = BaseTemplateDataSource C (SubqlCustomDatasource C)"

definition SolanaProjectManifestV1_0_0 :: "core_types \<Rightarrow> ts_type" where
  "SolanaProjectManifestV1_0_0 C = ProjectManifestV1_0_0 C (TUnion (SubqlRuntimeDatasource C) (SubqlCustomDatasource C))"

definition SecondLayerHandlerProcessor :: "core_types \<Rightarrow> kit_types \<Rightarrow> SolanaHandlerKind \<Rightarrow> ts_type \<Rightarrow> ts_type \<Rightarrow> ts_type \<Rightarrow> ts_type" where
  "SecondLayerHandlerProcessor C K kind flt entry ds =
     TUnion
       (SecondLayerHandlerProcessor_0_0_0 C kind (SolanaRuntimeHandlerInputMap K) (SolanaRuntimeFilterMap C) flt entry ds TAnything)
       (SecondLayerHandlerProcessor_1_0_0 C kind (SolanaRuntimeHandlerInputMap K) (SolanaRuntimeFilterMap C) flt entry ds TAnything)"

definition SecondLayerHandlerProcessorArray :: "core_types \<Rightarrow> kit_types \<Rightarrow> ts_type \<Rightarrow> ts_type \<Rightarrow> ts_type \<Rightarrow> ts_type" where
  "SecondLayerHandlerProcessorArray C K flt t ds =
     TUnion (SecondLayerHandlerProcessor C K Block flt t ds)
       (TUnion (SecondLayerHandlerProcessor C K Transaction flt t ds)
         (TUnion (SecondLayerHandlerProcessor C K Instruction flt t ds) (SecondLayerHandlerProcessor C K Log flt t ds)))"

definition SubqlDatasourceProcessor :: "core_types \<Rightarrow> kit_types \<Rightarrow> ts_type \<Rightarrow> ts_type \<Rightarrow> ts_type" where
  "SubqlDatasourceProcessor C K flt ds =
     DsProcessor C ds (TDict (SecondLayerHandlerProcessorArray C K flt TAnything ds)) TAnything"

definition ISolanaEndpointConfig :: "core_types \<Rightarrow> ts_type" where
  "ISolanaEndpointConfig C = TIntersection (IEndpointConfig C) (TRecord [(''requestTimeout'', Optional TNumber)])"

definition SolanaNetworkConfig :: "core_types \<Rightarrow> ts_type" where
  "SolanaNetworkConfig C = IProjectNetworkConfig C (ISolanaEndpointConfig C)"

definition SolanaProject :: "core_types \<Rightarrow> ts_type \<Rightarrow> ts_type" where
  "SolanaProject C ds =
     CommonSubqueryProject C (SolanaNetworkConfig C) (TUnion (SubqlRuntimeDatasource C) ds)
       (TUnion (BaseTemplateDataSource C (SubqlRuntimeDatasource C)) (BaseTemplateDataSource C ds))"

subsection \<open>What the decorators check\<close>

text \<open>
  The documented checks, for the decorators that check a value: \<open>IsOptional\<close> skips the others for
  a missing or \<open>null\<close> value, \<open>ValidateIf\<close> when its condition is false; \<open>ValidateNested\<close> wants
  objects, lets a missing value and \<open>null\<close> pass, and the checks of the objects are those of
  their class. A map is an object here.
\<close>

definition nestable :: "js_value \<Rightarrow> bool" where
  "nestable v = (case v of JObj fs \<Rightarrow> True | JArr vs \<Rightarrow> True | JNull \<Rightarrow> True | _ \<Rightarrow> False)"

fun decorator_ok :: "js_value option \<Rightarrow> decorator \<Rightarrow> bool" where
  "decorator_ok v IsString = (case v of Some (JStr s) \<Rightarrow> True | _ \<Rightarrow> False)"
| "decorator_ok v IsArray = (case v of Some (JArr vs) \<Rightarrow> True | _ \<Rightarrow> False)"
| "decorator_ok v IsBoolean = (case v of Some (JBool b) \<Rightarrow> True | _ \<Rightarrow> False)"
| "decorator_ok v IsObject = (case v of Some (JObj fs) \<Rightarrow> True | _ \<Rightarrow> False)"
| "decorator_ok v (IsDefined msg) = (v \<noteq> None \<and> v \<noteq> Some JNull)"
| "decorator_ok v (IsEnum vals g) = (case v of Some (JStr s) \<Rightarrow> s \<in> vals | _ \<Rightarrow> False)"
| "decorator_ok v ValidateNested = (case v of Some (JArr vs) \<Rightarrow> list_all nestable vs | Some w \<Rightarrow> nestable w | None \<Rightarrow> True)"
| "decorator_ok v ValidateNestedEach =
     (case v of Some (JObj entries) \<Rightarrow> list_all (\<lambda>(k, w). nestable w) entries
              | Some (JArr vs) \<Rightarrow> list_all nestable vs | Some w \<Rightarrow> nestable w | None \<Rightarrow> True)"
| "decorator_ok v d = True"

definition skipped :: "js_fields \<Rightarrow> decorator list \<Rightarrow> js_value option \<Rightarrow> bool" where
  "skipped fs ds v \<longleftrightarrow>
     IsOptional \<in> set ds \<and> (v = None \<or> v = Some JNull) \<or>
     list_ex (\<lambda>d. case d of ValidateIfSet p \<Rightarrow> map_of fs p = None | _ \<Rightarrow> False) ds"

definition property_ok :: "js_fields \<Rightarrow> decorator list \<Rightarrow> js_value option \<Rightarrow> bool" where
  "property_ok fs ds v \<longleftrightarrow> skipped fs ds v \<or> list_all (decorator_ok v) ds"

text \<open>A validator that reports every violation, those of nested objects and unknown properties included.\<close>

abbreviation whitelisting :: validator_options where
  "whitelisting \<equiv> \<lparr>whitelist = True, forbidNonWhitelisted = True\<rparr>"

definition respects_tables :: "(model_class \<Rightarrow> string list) \<Rightarrow> validator \<Rightarrow> bool" where
  "respects_tables base validateSync =
     (\<forall>c fs. validateSync whitelisting c (JObj fs) = [] \<longrightarrow>
        \<not> has_unknown base c fs \<and>
        (\<forall>(k, ds) \<in> set (class_properties c). property_ok fs ds (map_of fs k)) \<and>
        (\<forall>(c', fs') \<in> set (nested_objects c fs). validateSync whitelisting c' (JObj fs') = []))"

end
