(* ===== verification/ProjectTypingTheorems.thy ===== *)
theory ProjectTypingTheorems
  imports ProjectTyping ManifestTheorems
begin

section \<open>What validation gives of the declared types\<close>

text \<open>
  A data source that passes its validation has its declared type, apart from what the decorators
  do not check, which \<open>plain_handler\<close> and \<open>plain_assets\<close> write out.
\<close>

subsection \<open>What the decorators leave unchecked\<close>

definition plain_accounts :: "js_value option \<Rightarrow> bool" where
  "plain_accounts v =
     (case v of
        None \<Rightarrow> True
      | Some (JArr vs) \<Rightarrow> 1 \<le> length vs \<and> length vs \<le> 16 \<and> (\<forall>x \<in> set vs. conforms InstructionAccountFilter (view_json x))
      | _ \<Rightarrow> False)"

fun plain_filter :: "model_class \<Rightarrow> js_fields \<Rightarrow> bool" where
  "plain_filter C_TransactionHandler f = (map_of f ''signerAccountKey'' \<noteq> Some JNull)"
| "plain_filter C_LogHandler f = (map_of f ''programId'' \<noteq> Some JNull)"
| "plain_filter C_InstructionHandler f =
     (map_of f ''discriminator'' \<noteq> Some JNull \<and> plain_accounts (map_of f ''accounts'') \<and>
      (case map_of f ''discriminator'' of
         None \<Rightarrow> (case map_of f ''programId'' of None \<Rightarrow> True | Some (JStr s) \<Rightarrow> True | _ \<Rightarrow> False)
       | Some v \<Rightarrow> True))"
| "plain_filter c f = True"

definition plain_handler :: "core_types \<Rightarrow> model_class \<Rightarrow> js_fields \<Rightarrow> bool" where
  "plain_handler C c h =
     (case map_of h ''filter'' of
        None \<Rightarrow> True
      | Some v \<Rightarrow>
          (if c = C_BlockHandler then conforms (BlockFilter C) (view_json v)
           else (case v of JObj f \<Rightarrow> plain_filter c f | _ \<Rightarrow> False)))"

definition plain_assets :: "js_value option \<Rightarrow> bool" where
  "plain_assets v =
     (case v of None \<Rightarrow> True | Some (JObj entries) \<Rightarrow> (\<forall>(name, e) \<in> set entries. \<exists>fs. e = JObj fs) | _ \<Rightarrow> False)"

text \<open>The mapping, which no decorator requires to be there.\<close>

definition plain_mapping :: "core_types \<Rightarrow> js_value option \<Rightarrow> bool" where
  "plain_mapping C v =
     (case v of
        Some (JObj m) \<Rightarrow>
          (case map_of m ''handlers'' of
             Some (JArr hs) \<Rightarrow>
               (case transform_handlers hs of
                  Inl e \<Rightarrow> False
                | Inr cs \<Rightarrow> list_all2 (\<lambda>w c. \<forall>h. w = JObj h \<longrightarrow> plain_handler C c h) hs cs)
           | _ \<Rightarrow> False)
      | _ \<Rightarrow> False)"

subsection \<open>Validated objects\<close>

definition validated :: "validator \<Rightarrow> model_class \<Rightarrow> js_fields \<Rightarrow> bool" where
  "validated validateSync c fs = (validateSync whitelisting c (JObj fs) = [])"

lemma validated_known: "respects_tables base validateSync \<Longrightarrow> validated validateSync c fs \<Longrightarrow> \<not> has_unknown base c fs"
  by (simp add: respects_tables_def validated_def)

lemma validated_nested:
  "respects_tables base validateSync \<Longrightarrow> validated validateSync c fs \<Longrightarrow> (c', fs') \<in> set (nested_objects c fs) \<Longrightarrow>
     validated validateSync c' fs'"
  by (fastforce simp: respects_tables_def validated_def)

lemma validated_properties:
  "respects_tables base validateSync \<Longrightarrow> validated validateSync c fs \<Longrightarrow>
     \<forall>(k, ds) \<in> set (class_properties c). property_ok fs ds (map_of fs k)"
  by (simp add: respects_tables_def validated_def)

lemmas check_simps = class_properties_def property_ok_def skipped_def has_fields.simps

lemma kinds_of_classes:
  "handler_class k = Inr c \<Longrightarrow>
     (c = C_BlockHandler \<and> k = kind_string Block) \<or> (c = C_TransactionHandler \<and> k = kind_string Transaction) \<or>
     (c = C_InstructionHandler \<and> k = kind_string Instruction) \<or> (c = C_LogHandler \<and> k = kind_string Log)"
  by (auto simp: handler_class_def split: if_splits)

lemma conforms_json_union: "conforms (TUnion t u) v \<longleftrightarrow> conforms t v \<or> conforms u v"
  by simp

lemma value_string: "(case v of Some (JStr s) \<Rightarrow> True | _ \<Rightarrow> False) \<longleftrightarrow> (\<exists>s. v = Some (JStr s))"
  by (auto split: option.splits js_value.splits)

lemma value_boolean: "(case v of Some (JBool s) \<Rightarrow> True | _ \<Rightarrow> False) \<longleftrightarrow> (\<exists>s. v = Some (JBool s))"
  by (auto split: option.splits js_value.splits)

lemma optional_json: "field_conforms (Optional t) (map_option view_json v) \<longleftrightarrow> (\<forall>x. v = Some x \<longrightarrow> conforms t (view_json x))"
  by (cases v) simp_all

lemma required_json: "field_conforms (Required t) (map_option view_json v) \<longleftrightarrow> (\<exists>x. v = Some x \<and> conforms t (view_json x))"
  by (cases v) simp_all


subsection \<open>Filters and handlers\<close>

lemmas optional_fields = has_fields.simps has_field.simps view_lookup optional_json required_json

lemma transaction_filter_typed:
  assumes "respects_tables base validateSync" and "validated validateSync C_TransactionFilter f"
  shows "conforms SolanaTransactionFilter (view_json (JObj f)) \<longleftrightarrow> map_of f ''signerAccountKey'' \<noteq> Some JNull"
  using validated_properties [OF assms]
  by (auto simp: check_simps SolanaTransactionFilter_def optional_fields value_string conforms.simps(1))

lemma log_filter_typed:
  assumes "respects_tables base validateSync" and "validated validateSync C_LogFilter f"
  shows "conforms SolanaLogFilter (view_json (JObj f)) \<longleftrightarrow> map_of f ''programId'' \<noteq> Some JNull"
  using validated_properties [OF assms]
  by (auto simp: check_simps SolanaLogFilter_def optional_fields value_string conforms.simps(1))

lemma validated_includeFailed:
  assumes "respects_tables base validateSync" and "''includeFailed'' \<notin> set (base C_InstructionFilter)"
    and "validated validateSync C_InstructionFilter f"
  shows "map_of f ''includeFailed'' = None"
proof (rule ccontr)
  assume "map_of f ''includeFailed'' \<noteq> None"
  then obtain v where v: "(''includeFailed'', v) \<in> set f" by (auto dest: map_of_SomeD)
  have "\<not> known_property base C_InstructionFilter ''includeFailed''"
    using assms(2) by (simp add: known_property_def class_properties_def)
  from has_unknown.here [OF v this] validated_known [OF assms(1,3)] show False by blast
qed

lemma accounts_typed:
  "field_conforms (Optional (TTuple 1 16 InstructionAccountFilter)) (map_option view_json v) \<longleftrightarrow> plain_accounts v"
  unfolding optional_json conforms_json_tuple plain_accounts_def by (auto split: option.splits js_value.splits)

lemma instruction_filter_typed:
  assumes "respects_tables base validateSync" and "''includeFailed'' \<notin> set (base C_InstructionFilter)"
    and "validated validateSync C_InstructionFilter f"
  shows "conforms SolanaInstructionFilter (view_json (JObj f)) \<longleftrightarrow> plain_filter C_InstructionHandler f"
proof -
  have checks: "map_of f ''discriminator'' = None \<or> (\<exists>s. map_of f ''programId'' = Some (JStr s))"
    "map_of f ''discriminator'' = None \<or> map_of f ''discriminator'' = Some JNull \<or> (\<exists>s. map_of f ''discriminator'' = Some (JStr s))"
    using validated_properties [OF assms(1,3)] by (auto simp: check_simps value_string)
  have "conforms SolanaInstructionFilter (view_json (JObj f)) \<longleftrightarrow>
      field_conforms (Optional TString) (map_option view_json (map_of f ''programId'')) \<and>
      field_conforms (Optional TString) (map_option view_json (map_of f ''discriminator'')) \<and>
      plain_accounts (map_of f ''accounts'')"
    unfolding SolanaInstructionFilter_def conforms.simps(12) view_json.simps view.case has_fields.simps has_field.simps view_lookup
      accounts_typed validated_includeFailed [OF assms]
    by simp
  also have "\<dots> \<longleftrightarrow> plain_filter C_InstructionHandler f"
    unfolding optional_json plain_filter.simps using checks by (auto split: option.splits js_value.splits)
  finally show ?thesis .
qed


lemma transform_handler_Inr:
  assumes "transform_handler v = Inr c"
  obtains h kind where "v = JObj h" and "map_of h ''kind'' = Some (JStr (kind_string kind))" and "handler_class (kind_string kind) = Inr c"
proof -
  have "handler_class ''undefined'' \<noteq> Inr c" by (simp add: handler_class_def)
  with assms obtain h k where h: "v = JObj h" "map_of h ''kind'' = Some (JStr k)" and k: "handler_class k = Inr c"
    unfolding transform_handler_def handler_kind_def by (auto split: js_value.splits option.splits)
  from k obtain kind where "k = kind_string kind" using handler_class_total by blast
  with h k that show ?thesis by blast
qed

lemma custom_handler_typed:
  "conforms (SubqlCustomHandler (TLiteral k) t) (view_json (JObj h)) \<longleftrightarrow>
     map_of h ''kind'' = Some (JStr k) \<and> (\<exists>s. map_of h ''handler'' = Some (JStr s)) \<and>
     (\<forall>x. map_of h ''filter'' = Some x \<longrightarrow> conforms t (view_json x))"
  unfolding SubqlCustomHandler_def conforms.simps(12) view_json.simps view.case has_fields.simps has_field.simps view_lookup
    required_json optional_json by auto

lemma runtime_handler_typed:
  assumes "map_of h ''kind'' = Some (JStr (kind_string kind))" and "map_of h ''handler'' = Some (JStr s)"
  shows "conforms (SubqlRuntimeHandler C) (view_json (JObj h)) \<longleftrightarrow>
    (\<forall>x. map_of h ''filter'' = Some x \<longrightarrow> conforms (SolanaRuntimeFilterMap C kind) (view_json x))"
  unfolding SubqlRuntimeHandler_def SubqlBlockHandler_def SubqlTransactionHandler_def SubqlInstructionHandler_def SubqlLogHandler_def
    conforms.simps(10) custom_handler_typed
  using assms by (cases kind) simp_all

lemma filter_typed:
  assumes "respects_tables base validateSync" and "''includeFailed'' \<notin> set (base C_InstructionFilter)"
    and "handler_class (kind_string kind) = Inr c" and "validated validateSync c h" and "map_of h ''filter'' = Some x"
  shows "conforms (SolanaRuntimeFilterMap C kind) (view_json x) \<longleftrightarrow> plain_handler C c h"
proof (cases "\<exists>f. x = JObj f \<and> kind \<noteq> Block")
  case True
  then obtain f where x: "x = JObj f" and "kind \<noteq> Block" by blast
  note nested = filter_nested [OF map_of_SomeD [OF assms(5) [unfolded x]]]
  show ?thesis
  proof (cases kind)
    case Block
    with \<open>kind \<noteq> Block\<close> show ?thesis by simp
  next
    case Transaction
    with assms(3) have c: "c = C_TransactionHandler" by (simp add: handler_class_def)
    from transaction_filter_typed [OF assms(1) validated_nested [OF assms(1) assms(4) [unfolded c] nested(2)]]
    show ?thesis by (simp add: Transaction c x plain_handler_def assms(5) del: view_json.simps)
  next
    case Instruction
    with assms(3) have c: "c = C_InstructionHandler" by (simp add: handler_class_def)
    from instruction_filter_typed [OF assms(1,2) validated_nested [OF assms(1) assms(4) [unfolded c] nested(1)]]
    show ?thesis by (simp add: Instruction c x plain_handler_def assms(5) del: view_json.simps plain_filter.simps)
  next
    case Log
    with assms(3) have c: "c = C_LogHandler" by (simp add: handler_class_def)
    from log_filter_typed [OF assms(1) validated_nested [OF assms(1) assms(4) [unfolded c] nested(3)]]
    show ?thesis by (simp add: Log c x plain_handler_def assms(5) del: view_json.simps)
  qed
next
  case False
  then show ?thesis
    using assms(3,5) by (cases kind; cases x)
      (simp_all add: handler_class_def plain_handler_def SolanaTransactionFilter_def SolanaInstructionFilter_def SolanaLogFilter_def
        split: if_splits)
qed


lemma handler_typed:
  assumes "respects_tables base validateSync" and "''includeFailed'' \<notin> set (base C_InstructionFilter)"
    and "transform_handler (JObj h) = Inr c" and "validated validateSync c h"
  shows "conforms (SubqlRuntimeHandler C) (view_json (JObj h)) \<longleftrightarrow> plain_handler C c h"
proof -
  from assms(3) obtain kind where kind: "map_of h ''kind'' = Some (JStr (kind_string kind))" and c: "handler_class (kind_string kind) = Inr c"
    by (rule transform_handler_Inr) blast
  have "\<exists>s. map_of h ''handler'' = Some (JStr s)"
    using validated_properties [OF assms(1,4)] kinds_of_classes [OF c] by (auto simp: check_simps value_string)
  then obtain s where s: "map_of h ''handler'' = Some (JStr s)" ..
  show ?thesis
  proof (cases "map_of h ''filter''")
    case None
    then show ?thesis unfolding runtime_handler_typed [OF kind s] by (simp add: plain_handler_def)
  next
    case (Some x)
    then show ?thesis unfolding runtime_handler_typed [OF kind s] using filter_typed [OF assms(1,2) c assms(4) Some] by simp
  qed
qed

subsection \<open>Data sources\<close>

lemma handlers_typed:
  assumes "respects_tables base validateSync" and "''includeFailed'' \<notin> set (base C_InstructionFilter)"
    and "validated validateSync C_SolanaMapping m" and "map_of m ''handlers'' = Some (JArr hs)" and "transform_handlers hs = Inr cs"
  shows "(\<forall>v \<in> set hs. conforms (SubqlRuntimeHandler C) (view_json v)) \<longleftrightarrow>
    list_all2 (\<lambda>v c. \<forall>h. v = JObj h \<longrightarrow> plain_handler C c h) hs cs"
proof -
  have "conforms (SubqlRuntimeHandler C) (view_json v) \<longleftrightarrow> (\<forall>h. v = JObj h \<longrightarrow> plain_handler C c h)"
    if "v \<in> set hs" and t: "transform_handler v = Inr c" for v c
  proof -
    from t obtain h kind where v: "v = JObj h" and k: "map_of h ''kind'' = Some (JStr (kind_string kind))"
      and c: "handler_class (kind_string kind) = Inr c" by (rule transform_handler_Inr)
    have "handler_class (object_kind h) = Inr c" using k c by (simp add: object_kind_def)
    from validated_nested [OF assms(1,3) handler_nested [OF map_of_SomeD [OF assms(4)] _ this]] that(1) v
    have "validated validateSync c h" by simp
    from handler_typed [OF assms(1,2) t [unfolded v] this] v show ?thesis by simp
  qed
  then have each: "list_all2 (\<lambda>v c. v \<in> set hs \<and> transform_handler v = Inr c) hs cs \<Longrightarrow> ?thesis"
    by (simp add: list_all2_conv_all_nth all_set_conv_all_nth)
  from assms(5) have "list_all2 (\<lambda>v c. transform_handler v = Inr c) hs cs"
    unfolding transform_handlers_def traverse_Inr_iff .
  then show ?thesis by (intro each) (simp add: list_all2_conv_all_nth)
qed

lemma validated_file:
  assumes "respects_tables base validateSync" and "validated validateSync c fs" and "c = C_FileReference \<or> c = C_SolanaMapping"
  shows "\<exists>s. map_of fs ''file'' = Some (JStr s)"
  using validated_properties [OF assms(1,2)] assms(3) by (auto simp: check_simps value_string)

lemma file_reference_typed:
  assumes "\<And>v. conforms (FileReference C) v \<longleftrightarrow> conforms (TRecord [(''file'', Required TString)]) v"
  shows "conforms (FileReference C) (view_json v) \<longleftrightarrow> (\<exists>fs s. v = JObj fs \<and> map_of fs ''file'' = Some (JStr s))"
  unfolding assms conforms_json_record has_fields.simps has_field.simps view_lookup required_json by auto

lemma assets_typed:
  assumes "respects_tables base validateSync" and "validated validateSync C_RuntimeDataSource ds"
    and "\<And>v. conforms (FileReference C) v \<longleftrightarrow> conforms (TRecord [(''file'', Required TString)]) v"
  shows "(\<forall>x. map_of ds ''assets'' = Some x \<longrightarrow> conforms (TDict (FileReference C)) (view_json x)) \<longleftrightarrow> plain_assets (map_of ds ''assets'')"
proof -
  have "\<exists>s. map_of fs ''file'' = Some (JStr s)"
    if "map_of ds ''assets'' = Some (JObj entries)" and "(name, JObj fs) \<in> set entries" for entries name fs
    using validated_file [OF assms(1) validated_nested [OF assms(1,2) asset_nested [OF map_of_SomeD [OF that(1)] that(2)]]] by simp
  then show ?thesis
    unfolding conforms_json_dict file_reference_typed [OF assms(3)] plain_assets_def
    by (auto split: option.splits js_value.splits)
qed

text \<open>
  A validator for a given list of objects, each with its class: it accepts exactly these, and
  respects the tables when each of them has the properties of its class and leads to objects of
  the list only.
\<close>

definition accepting :: "(model_class \<times> js_fields) list \<Rightarrow> validator" where
  "accepting pairs = (\<lambda>opts c v. case v of JObj fs \<Rightarrow> if (c, fs) \<in> set pairs then [] else [''invalid''] | _ \<Rightarrow> [])"

definition table_checked :: "(model_class \<times> js_fields) list \<Rightarrow> model_class \<times> js_fields \<Rightarrow> bool" where
  "table_checked pairs p =
     (case p of (c, fs) \<Rightarrow>
        list_all (\<lambda>(k, v). k \<in> fst ` set (class_properties c)) fs \<and>
        list_all (\<lambda>(k, ds). property_ok fs ds (map_of fs k)) (class_properties c) \<and>
        set (nested_objects c fs) \<subseteq> set pairs)"

lemma accepting_respects:
  assumes "\<forall>p \<in> set pairs. table_checked pairs p"
  shows "respects_tables (\<lambda>c. []) (accepting pairs)"
proof -
  have "(c, fs) \<notin> set pairs" if "has_unknown (\<lambda>c. []) c fs" for c fs
    using that
  proof induction
    case (here k v fs c)
    with assms show ?case by (force simp: table_checked_def known_property_def list_all_iff)
  next
    case (nested c' fs' c fs)
    with assms show ?case by (force simp: table_checked_def)
  qed
  with assms show ?thesis by (fastforce simp: respects_tables_def accepting_def table_checked_def list_all_iff)
qed

definition example_pairs :: "js_fields \<Rightarrow> (model_class \<times> js_fields) list" where
  "example_pairs f =
     (let h = [(''kind'', JStr (kind_string Instruction)), (''handler'', JStr ''h''), (''filter'', JObj f)]
      in [(C_RuntimeDataSource, example_runtime_ds f),
          (C_SolanaMapping, [(''file'', JStr ''index.js''), (''handlers'', JArr [JObj h])]),
          (C_InstructionHandler, h), (C_InstructionFilter, f)])"

definition example_core :: core_types where
  "example_core =
     \<lparr>BlockFilter = TRecord [], FileReference = TRecord [(''file'', Required TString)],
      BaseDataSource = TAnything, BaseCustomDataSource = TAnything, Processor = TAnything,
      BaseTemplateDataSource = (\<lambda>t. t), IEndpointConfig = TAnything, IProjectNetworkConfig = (\<lambda>t. t),
      CommonSubqueryProject = (\<lambda>a b c. TAnything), ProjectManifestV1_0_0 = (\<lambda>t. TAnything),
      SecondLayerHandlerProcessor_0_0_0 = (\<lambda>k i f a b c d. TAnything), SecondLayerHandlerProcessor_1_0_0 = (\<lambda>k i f a b c d. TAnything),
      DsProcessor = (\<lambda>a b c. TAnything)\<rparr>"

lemma instruction_kind: "''solana/InstructionHandler'' \<in> range kind_string"
  by (rule image_eqI [of _ _ Instruction]) simp_all

lemma example_respects: "respects_tables (\<lambda>c. []) (accepting (example_pairs [(''programId'', v)]))"
proof (rule accepting_respects)
  show "\<forall>p \<in> set (example_pairs [(''programId'', v)]). table_checked (example_pairs [(''programId'', v)]) p"
    unfolding example_pairs_def Let_def
    by (simp add: table_checked_def nestable_def example_runtime_ds_def nested_objects_def nested_values_def object_kind_def
        handler_class_def check_simps SolanaDatasourceKind_Runtime_def List.map_filter_def instruction_kind)
qed

text \<open>A handler of the declared type is one that the \<open>@Transform\<close> knows.\<close>

lemma typed_handler_known:
  assumes "conforms (SubqlRuntimeHandler C) (view_json v)"
  shows "\<exists>c. transform_handler v = Inr c"
proof -
  from assms obtain kind t where t: "conforms (SubqlCustomHandler (TLiteral (kind_string kind)) t) (view_json v)"
    unfolding SubqlRuntimeHandler_def SubqlBlockHandler_def SubqlTransactionHandler_def SubqlInstructionHandler_def SubqlLogHandler_def
      conforms.simps(10) by blast
  then obtain h where v: "v = JObj h" unfolding SubqlCustomHandler_def conforms_json_record by blast
  with t have "map_of h ''kind'' = Some (JStr (kind_string kind))" by (simp add: custom_handler_typed del: view_json.simps)
  with v handler_class_total [of "kind_string kind"] show ?thesis
    by (auto simp: transform_handler_def handler_kind_def)
qed

lemma mapping_typed:
  assumes "respects_tables base validateSync" and "''includeFailed'' \<notin> set (base C_InstructionFilter)"
    and "\<And>v. conforms (FileReference C) v \<longleftrightarrow> conforms (TRecord [(''file'', Required TString)]) v"
    and "validated validateSync C_SolanaMapping m"
  shows "conforms (SubqlMapping C (SubqlRuntimeHandler C)) (view_json (JObj m)) \<longleftrightarrow> plain_mapping C (Some (JObj m))"
proof -
  from validated_properties [OF assms(1,4)] obtain hs where hs: "map_of m ''handlers'' = Some (JArr hs)"
    by (auto simp: check_simps split: option.splits js_value.splits)
  have typed: "conforms (SubqlMapping C (SubqlRuntimeHandler C)) (view_json (JObj m)) \<longleftrightarrow>
      (\<forall>v \<in> set hs. conforms (SubqlRuntimeHandler C) (view_json v))"
    using validated_file [OF assms(1,4)] hs
    unfolding SubqlMapping_def conforms.simps(11) file_reference_typed [OF assms(3)] conforms_json_record has_fields.simps has_field.simps
      view_lookup required_json conforms_json_array by auto
  show ?thesis
  proof (cases "transform_handlers hs")
    case (Inl e)
    then have "\<not> (\<exists>cs. traverse transform_handler hs = Inr cs)" by (simp add: transform_handlers_def)
    with typed_handler_known have "\<not> (\<forall>v \<in> set hs. conforms (SubqlRuntimeHandler C) (view_json v))"
      unfolding traverse_total by blast
    with typed Inl hs show ?thesis by (simp add: plain_mapping_def)
  next
    case (Inr cs)
    with typed hs handlers_typed [OF assms(1,2,4) hs Inr] show ?thesis by (simp add: plain_mapping_def)
  qed
qed

text \<open>C33: a runtime data source that passes its validation has the declared type
  \<open>SubqlRuntimeDatasource\<close> exactly when it has the base type of types-core and what the classes
  leave unchecked is right. The mapping is there and an object, and its handlers have the four
  kinds; every filter is an object, whose optional strings are not \<open>null\<close>, and the filter of a
  block handler has its type; the filter of an instruction handler has a list of 1 to 16
  \<open>null\<close>s and lists of addresses as \<open>accounts\<close> and, without a discriminator, a string as
  \<open>programId\<close>; every asset is an object. The validator reports what the tables of decorators say.\<close>

theorem validated_datasource_typed:
  assumes "runtime_datasource_validate validateSync (JObj ds) = Inr ()"
    and "respects_tables base validateSync" and "''includeFailed'' \<notin> set (base C_InstructionFilter)"
    and "\<And>v. conforms (FileReference C) v \<longleftrightarrow> conforms (TRecord [(''file'', Required TString)]) v"
  shows "conforms (SubqlRuntimeDatasource C) (view_json (JObj ds)) \<longleftrightarrow>
    conforms (BaseDataSource C) (view_json (JObj ds)) \<and> plain_mapping C (map_of ds ''mapping'') \<and> plain_assets (map_of ds ''assets'')"
proof -
  have valid: "validated validateSync C_RuntimeDataSource ds"
    using assms(1) by (auto simp: runtime_datasource_validate_def validateObject_def validated_def Let_def split: if_splits)
  have kind: "map_of ds ''kind'' = Some (JStr SolanaDatasourceKind_Runtime)"
    using validated_properties [OF assms(2) valid] by (auto simp: check_simps split: option.splits js_value.splits)
  have "conforms (SubqlMapping C (SubqlRuntimeHandler C)) (view_json x) \<longleftrightarrow> plain_mapping C (Some x)"
    if x: "map_of ds ''mapping'' = Some x" for x
  proof (cases "\<exists>m. x = JObj m")
    case True
    then obtain m where m: "x = JObj m" ..
    note nested = validated_nested [OF assms(2) valid mapping_nested [OF map_of_SomeD [OF x [unfolded m]]]]
    show ?thesis unfolding m by (rule mapping_typed [OF assms(2-4) nested])
  next
    case False
    then have "\<not> conforms (SubqlMapping C (SubqlRuntimeHandler C)) (view_json x)"
      unfolding SubqlMapping_def conforms.simps(11) conforms_json_record by blast
    with False show ?thesis by (cases x) (simp_all add: plain_mapping_def)
  qed
  then have "(\<exists>x. map_of ds ''mapping'' = Some x \<and> conforms (SubqlMapping C (SubqlRuntimeHandler C)) (view_json x)) \<longleftrightarrow>
      plain_mapping C (map_of ds ''mapping'')"
    by (cases "map_of ds ''mapping''") (simp_all add: plain_mapping_def)
  then show ?thesis
    using kind assets_typed [OF assms(2) valid assms(4)]
    unfolding SubqlRuntimeDatasource_def conforms.simps(11) conforms_json_record has_fields.simps has_field.simps
      view_lookup required_json optional_json by auto
qed

lemma kind_only_respects: "respects_tables (\<lambda>c. []) (accepting [(C_RuntimeDataSource, [(''kind'', JStr ''solana/Runtime'')])])"
  by (rule accepting_respects)
    (simp add: table_checked_def nested_objects_def nested_values_def check_simps SolanaDatasourceKind_Runtime_def)

theorem validated_datasource_typed_witness:
  "conforms (SubqlRuntimeDatasource example_core) (view_json (JObj (example_runtime_ds [(''programId'', JStr ''11111111'')]))) \<and>
   runtime_datasource_validate (accepting (example_pairs [(''programId'', JNum 11111111)]))
     (JObj (example_runtime_ds [(''programId'', JNum 11111111)])) = Inr () \<and>
   \<not> conforms (SubqlRuntimeDatasource example_core) (view_json (JObj (example_runtime_ds [(''programId'', JNum 11111111)]))) \<and>
   runtime_datasource_validate (accepting [(C_RuntimeDataSource, [(''kind'', JStr ''solana/Runtime'')])])
     (JObj [(''kind'', JStr ''solana/Runtime'')]) = Inr () \<and>
   \<not> conforms (SubqlRuntimeDatasource example_core) (view_json (JObj [(''kind'', JStr ''solana/Runtime'')]))"
proof -
  let ?ds = "\<lambda>v. example_runtime_ds [(''programId'', v)]" and ?bare = "[(''kind'', JStr ''solana/Runtime'')]"
  have valid: "runtime_datasource_validate (accepting (example_pairs [(''programId'', v)])) (JObj (?ds v)) = Inr ()" for v
    by (simp add: runtime_datasource_validate_def validateObject_def accepting_def example_pairs_def Let_def)
  have bare: "runtime_datasource_validate (accepting [(C_RuntimeDataSource, ?bare)]) (JObj ?bare) = Inr ()"
    by (simp add: runtime_datasource_validate_def validateObject_def accepting_def Let_def)
  have fr: "conforms (FileReference example_core) v \<longleftrightarrow> conforms (TRecord [(''file'', Required TString)]) v" for v
    by (simp add: example_core_def)
  have base: "conforms (BaseDataSource example_core) v" for v by (simp add: example_core_def)
  have typed: "conforms (SubqlRuntimeDatasource example_core) (view_json (JObj (?ds v))) \<longleftrightarrow>
      conforms (BaseDataSource example_core) (view_json (JObj (?ds v))) \<and>
      plain_mapping example_core (map_of (?ds v) ''mapping'') \<and> plain_assets (map_of (?ds v) ''assets'')" for v
    by (rule validated_datasource_typed [where base = "\<lambda>c. []", OF valid example_respects _ fr]) simp
  have "\<not> conforms (SubqlRuntimeDatasource example_core) (view_json (JObj ?bare))"
    using validated_datasource_typed [where base = "\<lambda>c. []", OF bare kind_only_respects _ fr] by (simp add: plain_mapping_def)
  then show ?thesis using valid [of "JNum 11111111"] bare typed [of "JNum 11111111"] typed [of "JStr ''11111111''"] base
    by (simp add: plain_assets_def plain_mapping_def plain_handler_def plain_accounts_def example_runtime_ds_def
        transform_handlers_def transform_handler_def handler_kind_def handler_class_def)
qed

end
