(* ===== verification/SharedCache.thy ===== *)
theory SharedCache
  imports DecoderTheorems
begin

section \<open>Several decoders in one process\<close>

text \<open>
  \<open>Memoize\<close> (\<open>utils/decorators.ts\<close>) makes its cache when the class is defined, and its key is the
  text of the arguments alone. So all instances of \<open>SolanaDecoder\<close> in a process share one cache.
  A node has one instance; the \<open>test\<close> subcommand makes an application context for each test,
  each with its own service and its own decoder (\<open>SolanaApiService.init\<close>). Here a process is
  the IDLs of its decoders and the one cache, and every operation of \<open>Decoder\<close> is lifted to it.
\<close>

subsection \<open>The state and its steps\<close>

record decoder_process =
  decoders :: "(string \<Rightarrow> idl option option) list"
  shared_cache :: "string \<Rightarrow> bytes option"

definition new_process :: decoder_process where
  "new_process = \<lparr>decoders = [], shared_cache = (\<lambda>k. None)\<rparr>"

definition decoder_at :: "decoder_process \<Rightarrow> nat \<Rightarrow> decoder" where
  "decoder_at p k = \<lparr>idls = decoders p ! k, disc_cache = shared_cache p\<rparr>"

text \<open>\<open>new SolanaDecoder()\<close>: no IDLs, but the cache of the process.\<close>

definition create_decoder :: "decoder_process \<Rightarrow> decoder_process" where
  "create_decoder p = p\<lparr>decoders := decoders p @ [idls new_SolanaDecoder]\<rparr>"

text \<open>A method of the decoder \<open>k\<close>.\<close>

definition on_decoder :: "(decoder \<Rightarrow> 'r \<times> decoder) \<Rightarrow> nat \<Rightarrow> decoder_process \<Rightarrow> 'r \<times> decoder_process" where
  "on_decoder f k p =
     (case f (decoder_at p k) of
        (r, d) \<Rightarrow> (r, \<lparr>decoders = (decoders p)[k := idls d], shared_cache = disc_cache d\<rparr>))"

inductive process_step :: "idl_lib \<Rightarrow> decoder_process \<Rightarrow> decoder_process \<Rightarrow> bool" for lib where
  create: "process_step lib p (create_decoder p)"
| load: "k < length (decoders p) \<Longrightarrow> on_decoder (loadIdls readFile parseJson ds) k p = (r, p') \<Longrightarrow> process_step lib p p'"
| lookup: "k < length (decoders p) \<Longrightarrow> on_decoder (parseDiscriminator lib input pid) k p = (r, p') \<Longrightarrow> process_step lib p p'"

definition process_reaches :: "idl_lib \<Rightarrow> decoder_process \<Rightarrow> decoder_process \<Rightarrow> bool" where
  "process_reaches lib = (process_step lib)\<^sup>*\<^sup>*"

lemma process_reaches_refl [simp]: "process_reaches lib p p"
  by (simp add: process_reaches_def)

lemma process_reaches_step: "process_reaches lib p p' \<Longrightarrow> process_step lib p' p'' \<Longrightarrow> process_reaches lib p p''"
  by (simp add: process_reaches_def)

text \<open>With one decoder the process is that decoder, so that the theorems of one decoder apply.\<close>

definition process_of :: "decoder \<Rightarrow> decoder_process" where
  "process_of d = \<lparr>decoders = [idls d], shared_cache = disc_cache d\<rparr>"

lemma on_single_decoder: "on_decoder f 0 (process_of d) = (fst (f d), process_of (snd (f d)))"
proof -
  have "decoder_at (process_of d) 0 = d" by (simp add: decoder_at_def process_of_def)
  then show ?thesis by (simp add: on_decoder_def process_of_def split_def)
qed

subsection \<open>What the cache holds\<close>

text \<open>The answer that decoder \<open>k\<close> would compute itself.\<close>

definition own_answer :: "idl_lib \<Rightarrow> decoder_process \<Rightarrow> nat \<Rightarrow> string \<times> string option \<Rightarrow> bytes result" where
  "own_answer lib p k args = parseDiscriminator_body lib (decoder_at p k) args"

text \<open>Every cached answer is the own answer of some decoder.\<close>

definition cache_justified :: "idl_lib \<Rightarrow> decoder_process \<Rightarrow> bool" where
  "cache_justified lib p =
     (\<forall>args bs. shared_cache p (memo_key args) = Some bs \<longrightarrow> (\<exists>j < length (decoders p). own_answer lib p j args = Inr bs))"

lemma own_answer_kept:
  assumes "own_answer lib p j args = Inr bs" and "idls_kept (decoder_at p j) (decoder_at p' j)"
  shows "own_answer lib p' j args = Inr bs"
proof (cases args)
  case (Pair input pid)
  with assms(1) have "parseDiscriminator_body lib (decoder_at p j) (input, pid) = Inr bs" by (simp add: own_answer_def)
  from parseDiscriminator_body_mono [OF this assms(2)] Pair show ?thesis by (simp add: own_answer_def)
qed

lemma on_decoder_at:
  assumes "on_decoder f k p = (r, p')" and "k < length (decoders p)"
  shows "length (decoders p') = length (decoders p)"
    and "j \<noteq> k \<Longrightarrow> idls (decoder_at p' j) = idls (decoder_at p j)"
    and "decoder_at p' k = snd (f (decoder_at p k))" and "fst (f (decoder_at p k)) = r"
  using assms by (auto simp: on_decoder_def decoder_at_def split: prod.splits)

lemma cache_justified_on:
  assumes "cache_justified lib p" and "k < length (decoders p)" and "on_decoder f k p = (r, p')"
    and "idls_kept (decoder_at p k) (decoder_at p' k)"
    and "\<And>args bs. shared_cache p' (memo_key args) = Some bs \<Longrightarrow>
           shared_cache p (memo_key args) = Some bs \<or> own_answer lib p k args = Inr bs"
  shows "cache_justified lib p'"
  unfolding cache_justified_def
proof (intro allI impI)
  fix args bs
  assume "shared_cache p' (memo_key args) = Some bs"
  with assms(1,2,5) obtain j where j: "j < length (decoders p)" "own_answer lib p j args = Inr bs"
    unfolding cache_justified_def by blast
  note at = on_decoder_at [OF assms(3,2)]
  have "idls_kept (decoder_at p j) (decoder_at p' j)"
    using assms(4) at(2) [of j] by (cases "j = k") (simp_all add: idls_kept_def)
  with own_answer_kept j at(1) show "\<exists>j < length (decoders p'). own_answer lib p' j args = Inr bs" by metis
qed

lemma cache_justified_load:
  assumes "cache_justified lib p" and "k < length (decoders p)" and "on_decoder (loadIdls readFile parseJson ds) k p = (r, p')"
  shows "cache_justified lib p'"
proof (rule cache_justified_on [OF assms])
  note at = on_decoder_at [OF assms(3,2)]
  have kept: "idls_kept (decoder_at p k) (decoder_at p' k) \<and> disc_cache (decoder_at p' k) = disc_cache (decoder_at p k)"
    unfolding at(3) by (rule loadIdls_kept) (rule prod.collapse [symmetric])
  then show "idls_kept (decoder_at p k) (decoder_at p' k)" by simp
  from kept show "shared_cache p (memo_key args) = Some bs \<or> own_answer lib p k args = Inr bs"
    if "shared_cache p' (memo_key args) = Some bs" for args bs
    using that by (simp add: decoder_at_def)
qed

text \<open>The two cases of a lookup: the cached answer, or the own one, which is then stored.\<close>

lemma parseDiscriminator_cases:
  "parseDiscriminator lib input pid d =
     (case disc_cache d (memo_key (input, pid)) of
        Some bs \<Rightarrow> (Inr bs, d)
      | None \<Rightarrow> (case parseDiscriminator_body lib d (input, pid) of
                  Inl e \<Rightarrow> (Inl e, d)
                | Inr bs \<Rightarrow> (Inr bs, d\<lparr>disc_cache := (disc_cache d)(memo_key (input, pid) \<mapsto> bs)\<rparr>)))"
  by (simp add: parseDiscriminator_def Memoize_def split: option.split sum.split)

lemma cache_justified_lookup:
  assumes "cache_justified lib p" and "k < length (decoders p)" and "on_decoder (parseDiscriminator lib input pid) k p = (r, p')"
  shows "cache_justified lib p'"
proof (rule cache_justified_on [OF assms])
  note at = on_decoder_at [OF assms(3,2)]
  show "idls_kept (decoder_at p k) (decoder_at p' k)" by (simp add: at(3) idls_kept_def)
  show "shared_cache p (memo_key args) = Some bs \<or> own_answer lib p k args = Inr bs"
    if "shared_cache p' (memo_key args) = Some bs" for args bs
  proof -
    from that have "disc_cache (snd (parseDiscriminator lib input pid (decoder_at p k))) (memo_key args) = Some bs"
      by (simp add: at(3) [symmetric]) (simp add: decoder_at_def)
    then show ?thesis
      by (auto simp: parseDiscriminator_cases own_answer_def decoder_at_def memo.key_inject split: option.splits sum.splits if_splits)
  qed
qed

lemma own_answer_create: "j < length (decoders p) \<Longrightarrow> own_answer lib (create_decoder p) j = own_answer lib p j"
  by (intro ext) (simp add: own_answer_def create_decoder_def decoder_at_def nth_append)

lemma cache_justified_create: "cache_justified lib p \<Longrightarrow> cache_justified lib (create_decoder p)"
  unfolding cache_justified_def
proof (intro allI impI)
  fix args bs
  assume j: "\<forall>args bs. shared_cache p (memo_key args) = Some bs \<longrightarrow> (\<exists>j < length (decoders p). own_answer lib p j args = Inr bs)"
    and "shared_cache (create_decoder p) (memo_key args) = Some bs"
  then have "shared_cache p (memo_key args) = Some bs" by (simp add: create_decoder_def)
  with j obtain j where "j < length (decoders p)" "own_answer lib p j args = Inr bs" by blast
  then show "\<exists>j < length (decoders (create_decoder p)). own_answer lib (create_decoder p) j args = Inr bs"
    by (intro exI [of _ j]) (simp add: own_answer_create, simp add: create_decoder_def)
qed

lemma process_reaches_justified: "process_reaches lib new_process p \<Longrightarrow> cache_justified lib p"
  unfolding process_reaches_def
proof (induction rule: rtranclp_induct)
  case base
  show ?case by (simp add: cache_justified_def new_process_def)
next
  case (step p p')
  from step(2,3) show ?case
    by cases (auto intro: cache_justified_create cache_justified_load cache_justified_lookup)
qed

subsection \<open>What a lookup answers\<close>

definition idls_agree :: "decoder_process \<Rightarrow> bool" where
  "idls_agree p =
     (\<forall>i < length (decoders p). \<forall>j < length (decoders p). \<forall>pid a b.
        (decoders p ! i) pid = Some (Some a) \<and> (decoders p ! j) pid = Some (Some b) \<longrightarrow> a = b)"

lemma own_answers_agree:
  assumes "idls_agree p" and "i < length (decoders p)" and "j < length (decoders p)"
    and "own_answer lib p i args = Inr x" and "own_answer lib p j args = Inr y"
  shows "x = y"
proof (cases args)
  case (Pair input pid)
  show ?thesis
  proof (cases "isHex lib input")
    case True
    with assms(4,5) Pair show ?thesis by (simp add: own_answer_def parseDiscriminator_body_def)
  next
    case False
    with assms(4,5) Pair obtain a b where "lookup_idl (decoder_at p i) pid = Some (Some a)" "lookup_idl (decoder_at p j) pid = Some (Some b)"
      by (auto simp: own_answer_def parseDiscriminator_body_def split: option.splits)
    moreover from this assms(1-3) have "a = b" by (auto simp: idls_agree_def lookup_idl_def decoder_at_def)
    ultimately have "own_answer lib p i args = own_answer lib p j args"
      using False Pair by (simp add: own_answer_def parseDiscriminator_body_def)
    with assms(4,5) show ?thesis by simp
  qed
qed

lemma on_decoder_lookup:
  "fst (on_decoder (parseDiscriminator lib input pid) k p) =
     (case shared_cache p (memo_key (input, pid)) of Some bs \<Rightarrow> Inr bs | None \<Rightarrow> own_answer lib p k (input, pid))"
  by (simp add: on_decoder_def split_def parseDiscriminator_cases)
    (simp add: decoder_at_def own_answer_def split: option.split sum.split)

text \<open>C17: in every reachable state of a process with several decoders, a lookup of
  a discriminator answers as one of the decoders would with its own IDLs. Where the decoders have
  loaded the same IDL for each program, a decoder that can answer gets its own answer; what the
  others add is an answer for a program whose IDL it has not loaded.\<close>

theorem shared_cache_answers:
  assumes "process_reaches lib new_process p" and "k < length (decoders p)"
    and "on_decoder (parseDiscriminator lib input pid) k p = (r, p')"
  shows "(\<exists>j < length (decoders p). r = own_answer lib p j (input, pid)) \<and>
    (idls_agree p \<longrightarrow> (case own_answer lib p k (input, pid) of
        Inr bs \<Rightarrow> r = Inr bs
      | Inl e \<Rightarrow> r = Inl e \<or> (\<exists>j < length (decoders p). j \<noteq> k \<and> r = own_answer lib p j (input, pid))))"
proof (cases "shared_cache p (memo_key (input, pid))")
  case None
  with assms(2,3) on_decoder_lookup [of lib input pid k p] show ?thesis
    by (auto split: sum.split)
next
  case (Some bs)
  with assms(3) on_decoder_lookup [of lib input pid k p] have r: "r = Inr bs" by simp
  from process_reaches_justified [OF assms(1)] Some obtain j where j: "j < length (decoders p)" "own_answer lib p j (input, pid) = Inr bs"
    unfolding cache_justified_def by blast
  with r own_answers_agree [OF _ assms(2) j(1) _ j(2)] show ?thesis
    by (cases "own_answer lib p k (input, pid)") (auto intro!: exI [of _ j])
qed

text \<open>
  Two decoders with different IDLs for one program: the second is answered with the
  discriminator of the first.
\<close>

definition other_idl :: idl where
  "other_idl = example_idl\<lparr>idl_root := \<lparr>rn_program = Some \<lparr>pn_name = ''swap'', publicKey = ''A'',
      pn_instructions = [\<lparr>in_name = ''route'', arguments = [\<lparr>arg_name = ''discriminator'', defaultValue = Some (NumberValueNode 65)\<rparr>]\<rparr>],
      definedTypes = []\<rparr>\<rparr>\<rparr>"

definition two_decoders :: "bool \<Rightarrow> decoder_process" where
  "two_decoders both =
     \<lparr>decoders = [[''A'' \<mapsto> Some example_idl], if both then [''A'' \<mapsto> Some other_idl] else Map.empty], shared_cache = (\<lambda>k. None)\<rparr>"

lemma load_at:
  assumes "k < length (decoders p)" and "(decoders p ! k) ''A'' = None"
  shows "process_step lib p (p\<lparr>decoders := (decoders p)[k := (decoders p ! k)(''A'' \<mapsto> Some i)]\<rparr>)"
proof (rule process_step.load [OF assms(1)])
  show "on_decoder (loadIdls (\<lambda>f. Inr ''{}'') (\<lambda>s. Inr (Some i)) (example_ds [])) k p =
      (Inr (), p\<lparr>decoders := (decoders p)[k := (decoders p ! k)(''A'' \<mapsto> Some i)]\<rparr>)"
    using assms(2)
    by (simp add: on_decoder_def decoder_at_def loadIdls_def example_ds_def load_assets_cons loaded_def read_idl_def)
qed

lemma two_decoders_reached: "process_reaches lib new_process (two_decoders both)"
proof -
  let ?p1 = "create_decoder (create_decoder new_process)"
  let ?p2 = "?p1\<lparr>decoders := (decoders ?p1)[0 := (decoders ?p1 ! 0)(''A'' \<mapsto> Some example_idl)]\<rparr>"
  let ?p3 = "?p2\<lparr>decoders := (decoders ?p2)[1 := (decoders ?p2 ! 1)(''A'' \<mapsto> Some other_idl)]\<rparr>"
  note eqs = two_decoders_def create_decoder_def new_process_def new_SolanaDecoder_def
  have "process_reaches lib new_process ?p1"
    by (rule process_reaches_step [OF process_reaches_step [OF process_reaches_refl]]) (rule process_step.create)+
  moreover have step2: "process_step lib ?p1 ?p2" by (rule load_at) (simp_all add: eqs)
  ultimately have p2: "process_reaches lib new_process ?p2" by (rule process_reaches_step)
  moreover have "process_step lib ?p2 ?p3" by (rule load_at) (simp_all add: eqs)
  ultimately have p3: "process_reaches lib new_process ?p3" by (rule process_reaches_step)
  have "?p2 = two_decoders False" "?p3 = two_decoders True" by (simp_all add: eqs)
  with p2 p3 have "process_reaches lib new_process (two_decoders False)" "process_reaches lib new_process (two_decoders True)"
    by metis+
  then show ?thesis by (cases both) simp_all
qed

lemma answer_route:
  assumes "(decoders p ! k) ''A'' = Some (Some i)" and "parseIdl example_lib i = Inr root"
    and "findInstructionDiscriminatorByName example_lib root ''route'' = Inr (Some bs)"
  shows "own_answer example_lib p k (''route'', Some ''A'') = Inr bs"
  using assms by (simp add: own_answer_def decoder_at_def parseDiscriminator_body_def example_isHex lookup_idl_def)

lemma first_answer: "own_answer example_lib (two_decoders both) 0 (''route'', Some ''A'') = Inr [64]"
  by (rule answer_route [OF _ example_idl_parse(1)])
    (simp_all add: two_decoders_def findInstructionDiscriminatorByName_def example_idl_parse example_program_def
      getInstructionDiscriminatorBytes_def)

lemma other_answer: "own_answer example_lib (two_decoders True) 1 (''route'', Some ''A'') = Inr [65]"
proof (rule answer_route [of _ _ other_idl])
  show "parseIdl example_lib other_idl = Inr (idl_root other_idl)"
    by (simp add: parseIdl_def get_program_def example_lib_def other_idl_def)
qed (simp_all add: two_decoders_def other_idl_def findInstructionDiscriminatorByName_def get_program_def
      getInstructionDiscriminatorBytes_def)

text \<open>The first decoder has looked up \<open>route\<close>.\<close>

definition after_first :: "bool \<Rightarrow> decoder_process" where
  "after_first both = snd (on_decoder (parseDiscriminator example_lib ''route'' (Some ''A'')) 0 (two_decoders both))"

lemma after_first_eq:
  "after_first both = (two_decoders both)\<lparr>shared_cache := [memo_key (''route'', Some ''A'') \<mapsto> [64]]\<rparr>"
  using first_answer [of both]
  by (cases both)
    (simp_all add: after_first_def on_decoder_def split_def parseDiscriminator_cases own_answer_def decoder_at_def two_decoders_def)

lemma after_first_reached: "process_reaches example_lib new_process (after_first both)"
proof -
  have "process_step example_lib (two_decoders both) (after_first both)"
    unfolding after_first_def
    by (rule process_step.lookup [of 0 _ _ "''route''" "Some ''A''"]) (simp_all add: two_decoders_def prod_eq_iff)
  with two_decoders_reached show ?thesis by (rule process_reaches_step)
qed

theorem shared_cache_answers_witness:
  "fst (on_decoder (parseDiscriminator example_lib ''route'' (Some ''A'')) 1 (after_first False)) = Inr [64] \<and>
   idls_agree (after_first False) \<and> isl (own_answer example_lib (after_first False) 1 (''route'', Some ''A'')) \<and>
   fst (on_decoder (parseDiscriminator example_lib ''route'' (Some ''A'')) 1 (after_first True)) = Inr [64] \<and>
   own_answer example_lib (after_first True) 1 (''route'', Some ''A'') = Inr [65] \<and> \<not> idls_agree (after_first True)"
proof (intro conjI)
  have one: "1 < length (decoders (after_first both))" for both by (simp add: after_first_eq two_decoders_def)
  have gets: "fst (on_decoder (parseDiscriminator example_lib ''route'' (Some ''A'')) 1 (after_first both)) = Inr [64]" for both
    by (simp add: on_decoder_lookup after_first_eq)
  then show "fst (on_decoder (parseDiscriminator example_lib ''route'' (Some ''A'')) 1 (after_first False)) = Inr [64]"
    and "fst (on_decoder (parseDiscriminator example_lib ''route'' (Some ''A'')) 1 (after_first True)) = Inr [64]" by simp_all
  have own: "own_answer example_lib (after_first both) k = own_answer example_lib (two_decoders both) k" for both k
    by (intro ext) (auto simp: own_answer_def decoder_at_def after_first_eq parseDiscriminator_body_def lookup_idl_def)
  show "idls_agree (after_first False)"
    by (auto simp: idls_agree_def after_first_eq two_decoders_def less_Suc_eq split: if_splits)
  show "isl (own_answer example_lib (after_first False) 1 (''route'', Some ''A''))"
    unfolding own by (simp add: own_answer_def decoder_at_def two_decoders_def parseDiscriminator_body_def example_isHex lookup_idl_def)
  show other: "own_answer example_lib (after_first True) 1 (''route'', Some ''A'') = Inr [65]"
    unfolding own by (rule other_answer)
  from gets [of True] have "on_decoder (parseDiscriminator example_lib ''route'' (Some ''A'')) 1 (after_first True) =
      (Inr [64], snd (on_decoder (parseDiscriminator example_lib ''route'' (Some ''A'')) 1 (after_first True)))"
    by (metis prod.collapse)
  from shared_cache_answers [OF after_first_reached one this] other show "\<not> idls_agree (after_first True)" by auto
qed

end
