(* ===== verification/Release.thy ===== *)
theory Release
  imports Json
begin

section \<open>The release scripts\<close>

text \<open>
  The scripts of the actions \<open>create-release\<close> and \<open>create-prerelease\<close>
  (\<open>.github/actions\<close>): a release of a package is created with the section of its version
  in the changelog as the text. What a run does is the list of its \<open>release_event\<close>s and how it
  ends; the files, the arguments, the environment and the answer of the server are arguments.
\<close>

subsection \<open>Strings\<close>

fun str_includes :: "string \<Rightarrow> string \<Rightarrow> bool" where
  "str_includes [] p = (p = [])"
| "str_includes (x # xs) p = (startsWith (x # xs) p \<or> str_includes xs p)"

text \<open>A template prints a value that is \<open>undefined\<close> by that word.\<close>

definition template :: "string option \<Rightarrow> string" where
  "template v = (case v of None \<Rightarrow> ''undefined'' | Some s \<Rightarrow> s)"

definition newline :: string where
  "newline = [CHR 0x0A]"

text \<open>
  \<open>/## \[([0-9]+(\.[0-9]+)+)] - [0-9]{4}-[0-9]{2}-[0-9]{2}/i\<close>, anywhere in the line. Each run of
  digits ends at a character that is no digit, so that there is one way to match from a
  position: \<open>after_number\<close> reads the number up to its bracket, with at least one dot and a
  digit on either side of each, and gives what follows.
\<close>

fun after_number :: "nat \<Rightarrow> bool \<Rightarrow> string \<Rightarrow> string option" where
  "after_number dots digit_before [] = None"
| "after_number dots digit_before (c # s) =
     (if is_digit c then after_number dots True s
      else if c = CHR ''.'' \<and> digit_before then after_number (Suc dots) False s
      else if c = CHR '']'' \<and> digit_before \<and> 0 < dots then Some s
      else None)"

definition date_digit :: "nat \<Rightarrow> bool" where
  "date_digit i = (i \<noteq> 4 \<and> i \<noteq> 7)"

definition is_date :: "string \<Rightarrow> bool" where
  "is_date s \<longleftrightarrow> length s = 10 \<and> list_all (\<lambda>(i, c). if date_digit i then is_digit c else c = CHR ''-'') (enumerate 0 s)"

definition heading_at :: "string \<Rightarrow> bool" where
  "heading_at s \<longleftrightarrow> startsWith s ''## ['' \<and>
     (case after_number 0 False (drop 4 s) of
        None \<Rightarrow> False
      | Some rest \<Rightarrow> startsWith rest '' - '' \<and> is_date (take 10 (drop 3 rest)))"

fun release_heading :: "string \<Rightarrow> bool" where
  "release_heading [] = False"
| "release_heading (c # s) = (heading_at (c # s) \<or> release_heading s)"

subsection \<open>\<open>gh-release-script.js\<close>\<close>

record package_json =
  pj_name :: "string option"
  pj_version :: "string option"

record release_request =
  authorization :: string
  rr_owner :: string
  rr_name :: string
  rr_repo :: string
  tag_name :: string
  target_commitish :: string
  rr_body :: string

datatype release_event =
    SetFailed string
  | SetFailedError js_error
  | ConsoleLog string
  | CreateRelease release_request

datatype script_end =
    Completed
  | Exited nat
  | Uncaught js_error

definition checkForBetaVersion :: "string \<Rightarrow> bool" where
  "checkForBetaVersion version = str_includes version ''-''"

text \<open>The first loop: the index of the first line that mentions the version, and whether there is one.\<close>

fun find_version :: "string \<Rightarrow> string list \<Rightarrow> nat \<Rightarrow> nat \<times> bool" where
  "find_version version [] j = (0, False)"
| "find_version version (line # lines) j =
     (if str_includes line (''['' @ version @ '']'') then (j, True) else find_version version lines (Suc j))"

text \<open>The second loop: lines up to the next heading; the line at 0 is not tested.\<close>

fun collect_section :: "nat \<Rightarrow> string list \<Rightarrow> string \<Rightarrow> string" where
  "collect_section j [] releaseInfo = releaseInfo"
| "collect_section j (line # lines) releaseInfo =
     (if j = 0 then collect_section (Suc j) lines (releaseInfo @ line @ newline)
      else if \<not> release_heading line then collect_section (Suc j) lines (releaseInfo @ line @ newline)
      else releaseInfo)"

definition gatherReleaseInfo :: "(string \<Rightarrow> string result) \<Rightarrow> string \<Rightarrow> string \<Rightarrow> release_event list \<times> string result" where
  "gatherReleaseInfo readFileSync version logPath =
     (case readFileSync logPath of
        Inl e \<Rightarrow> ([], Inl e)
      | Inr changeLogs \<Rightarrow>
          (let lines = split_at (CHR 0x0A) changeLogs;
               (i, foundChangelog) = find_version version lines 0;
               lines = drop i lines;
               releaseInfo = if foundChangelog then collect_section 0 lines [] else []
           in ((if releaseInfo = [] then
                  [SetFailed ''No release info found, either missing in changelog or changelog is formatted incorrectly'']
                else []) @ [ConsoleLog ''Gathered release info...''], Inr releaseInfo)))"

definition publishRelease ::
  "(release_request \<Rightarrow> unit result) \<Rightarrow> string option \<Rightarrow> string option \<Rightarrow> string \<Rightarrow> string \<Rightarrow> string \<Rightarrow> release_event list" where
  "publishRelease octokit_request REPO_TOKEN commit repoName version releaseInfo =
     (let r = \<lparr>authorization = ''token '' @ template REPO_TOKEN, rr_owner = ''subquery'',
               rr_name = ''['' @ version @ ''] '' @ repoName, rr_repo = ''subql-solana'',
               tag_name = template (nth_opt (split_at (CHR ''/'') repoName) 1) @ ''/'' @ version,
               target_commitish = template commit, rr_body = releaseInfo\<rparr>
      in CreateRelease r # (case octokit_request r of Inl err \<Rightarrow> [SetFailedError err] | Inr u \<Rightarrow> []) @
         [ConsoleLog ''Release Created...''])"

definition gh_release_script ::
  "(string \<Rightarrow> package_json result) \<Rightarrow> (string \<Rightarrow> string result) \<Rightarrow> (release_request \<Rightarrow> unit result) \<Rightarrow> string option \<Rightarrow>
   string list \<Rightarrow> release_event list \<times> script_end" where
  "gh_release_script require_json readFileSync octokit_request REPO_TOKEN myArgs =
     (case require_json (template (nth_opt myArgs 0) @ ''/package.json'') of
        Inl e \<Rightarrow> ([], Uncaught e)
      | Inr pJson \<Rightarrow>
     (case pj_name pJson of
        None \<Rightarrow> ([], Uncaught (TypeError ''Cannot read properties of undefined''))
      | Some repoName \<Rightarrow>
     (case pj_version pJson of
        None \<Rightarrow> ([], Uncaught (TypeError ''Cannot read properties of undefined''))
      | Some version \<Rightarrow>
     (if checkForBetaVersion version then ([], Exited 0)
      else case gatherReleaseInfo readFileSync version (template (nth_opt myArgs 0) @ ''/CHANGELOG.md'') of
        (events, Inl e) \<Rightarrow> (events, Uncaught e)
      | (events, Inr releaseInfo) \<Rightarrow>
          (events @ publishRelease octokit_request REPO_TOKEN (nth_opt myArgs 1) repoName version releaseInfo, Completed)))))"

subsection \<open>\<open>remove-stable-version.js\<close>\<close>

text \<open>\<open>JSON.stringify(v, null, 2)\<close>, on a value that was parsed, so that no \<open>bigint\<close> is in it.\<close>

definition indented :: "string \<Rightarrow> char \<Rightarrow> string list \<Rightarrow> char \<Rightarrow> string" where
  "indented indent opening items closing =
     (if items = [] then [opening, closing]
      else opening # newline @ concat (mapi (\<lambda>k item. (if k = 0 then [] else CHR '','' # newline) @ indent @ ''  '' @ item) items) @
           newline @ indent @ [closing])"

fun json_indented :: "string \<Rightarrow> js_value \<Rightarrow> string" where
  "json_indented indent (JArr vs) = indented indent (CHR ''['') (map (json_indented (indent @ ''  '')) vs) (CHR '']'')"
| "json_indented indent (JObj fs) =
     indented indent (CHR ''{'') (map (\<lambda>(k, v). quote k @ '': '' @ json_indented (indent @ ''  '') v) fs) (CHR ''}'')"
| "json_indented indent v = json_text v"

text \<open>The file written, if any: its path and its text.\<close>

definition remove_stable_version :: "(string \<Rightarrow> js_fields result) \<Rightarrow> string list \<Rightarrow> (string \<times> string) option result" where
  "remove_stable_version require_json myArgs =
     (let path = template (nth_opt myArgs 0) @ ''/package.json'' in
      case require_json path of
        Inl e \<Rightarrow> Inl e
      | Inr pJson \<Rightarrow>
          Inr (if value_truthy (map_of pJson ''stableVersion'')
               then Some (path, json_indented [] (JObj (filter (\<lambda>(k, v). k \<noteq> ''stableVersion'') pJson)))
               else None))"

text \<open>A run on the object that a run has written changes nothing.\<close>

lemma remove_stable_version_once:
  "remove_stable_version (\<lambda>p. Inr (filter (\<lambda>(k, v). k \<noteq> ''stableVersion'') pJson)) myArgs = Inr None"
proof -
  have "map_of (filter (\<lambda>(k, v). k \<noteq> ''stableVersion'') pJson) ''stableVersion'' = None"
    by (auto simp: map_of_eq_None_iff)
  then show ?thesis by (simp add: remove_stable_version_def)
qed

end
