(* ===== verification/ReleaseTheorems.thy ===== *)
theory ReleaseTheorems
  imports Release
begin

section \<open>The properties of the release scripts\<close>

text \<open>
  The loops of \<open>gatherReleaseInfo\<close> as \<open>dropWhile\<close> and \<open>takeWhile\<close>, and the text it finds in a
  changelog that is printed section by section.
\<close>

subsection \<open>The loops\<close>

definition mentions :: "string \<Rightarrow> string \<Rightarrow> bool" where
  "mentions version line = str_includes line (''['' @ version @ '']'')"

definition unlines :: "string list \<Rightarrow> string" where
  "unlines lines = concat (map (\<lambda>l. l @ newline) lines)"

text \<open>The lines of the section: from the first mention of the version to the next heading.\<close>

definition section_lines :: "string \<Rightarrow> string list \<Rightarrow> string list" where
  "section_lines version lines =
     (case dropWhile (Not \<circ> mentions version) lines of
        [] \<Rightarrow> []
      | line # rest \<Rightarrow> line # takeWhile (Not \<circ> release_heading) rest)"

lemma find_version_eq:
  "find_version version lines j =
     (if list_ex (mentions version) lines then (j + length (takeWhile (Not \<circ> mentions version) lines), True) else (0, False))"
  by (induction lines arbitrary: j) (auto simp: mentions_def)

lemma collect_section_eq:
  "j > 0 \<Longrightarrow> collect_section j lines info = info @ unlines (takeWhile (Not \<circ> release_heading) lines)"
  by (induction lines arbitrary: j info) (auto simp: unlines_def)

lemma gatherReleaseInfo_eq:
  "gatherReleaseInfo readFileSync version logPath =
     (case readFileSync logPath of
        Inl e \<Rightarrow> ([], Inl e)
      | Inr changeLogs \<Rightarrow>
          (let info = unlines (section_lines version (split_at (CHR 0x0A) changeLogs))
           in ((if info = [] then
                  [SetFailed ''No release info found, either missing in changelog or changelog is formatted incorrectly'']
                else []) @ [ConsoleLog ''Gathered release info...''], Inr info)))"
proof (cases "readFileSync logPath")
  case (Inr changeLogs)
  let ?lines = "split_at (CHR 0x0A) changeLogs"
  have "(let (i, foundChangelog) = find_version version ?lines 0
         in if foundChangelog then collect_section 0 (drop i ?lines) [] else []) = unlines (section_lines version ?lines)"
  proof (cases "dropWhile (Not \<circ> mentions version) ?lines")
    case Nil
    then have "\<not> list_ex (mentions version) ?lines" by (auto simp: list_ex_iff)
    moreover from Nil have "section_lines version ?lines = []" by (simp only: section_lines_def list.case)
    ultimately show ?thesis by (simp add: find_version_eq unlines_def)
  next
    case (Cons line rest)
    then have "list_ex (mentions version) ?lines" by (metis comp_apply dropWhile_eq_Nil_conv list.distinct(1) list_ex_iff)
    with Cons show ?thesis
      by (simp add: find_version_eq section_lines_def dropWhile_eq_drop [symmetric] collect_section_eq) (simp add: unlines_def)
  qed
  with Inr show ?thesis by (simp add: gatherReleaseInfo_def Let_def split_def)
qed (simp add: gatherReleaseInfo_def)

lemma section_lines_append:
  assumes "list_all (Not \<circ> mentions version) pre" and "mentions version h" and "list_all (Not \<circ> release_heading) body"
    and "post = [] \<or> release_heading (hd post)"
  shows "section_lines version (pre @ (h # body) @ post) = h # body"
proof -
  have "dropWhile (Not \<circ> mentions version) (pre @ (h # body) @ post) = h # body @ post"
    using assms(1,2) by (induction pre) auto
  moreover have "takeWhile (Not \<circ> release_heading) (body @ post) = body"
    using assms(3,4) by (induction body; cases post) auto
  ultimately show ?thesis by (simp add: section_lines_def)
qed

subsection \<open>Printed changelogs\<close>

text \<open>A section as \<open>CHANGELOG.md\<close> has it: the version, as numbers with dots between them, the date and the notes.\<close>

record release_section =
  sec_version :: "nat list"
  sec_date :: string
  sec_notes :: "string list"

fun show_version :: "nat list \<Rightarrow> string" where
  "show_version [] = []"
| "show_version [n] = show_nat n"
| "show_version (n # ns) = show_nat n @ CHR ''.'' # show_version ns"

definition heading_of :: "release_section \<Rightarrow> string" where
  "heading_of s = ''## ['' @ show_version (sec_version s) @ ''] - '' @ sec_date s"

definition print_section :: "release_section \<Rightarrow> string list" where
  "print_section s = heading_of s # sec_notes s"

definition section_ok :: "release_section \<Rightarrow> bool" where
  "section_ok s \<longleftrightarrow> 2 \<le> length (sec_version s) \<and> is_date (sec_date s) \<and>
     list_all (\<lambda>l. \<not> release_heading l \<and> CHR 0x0A \<notin> set l) (sec_notes s)"

lemma after_number_digits:
  "list_all is_digit ds \<Longrightarrow> ds \<noteq> [] \<Longrightarrow> after_number dots b (ds @ s) = after_number dots True s"
proof (induction ds arbitrary: b)
  case (Cons d ds)
  then show ?case by (cases "ds = []") auto
qed simp

lemma not_digits [simp]: "\<not> is_digit CHR ''.''" "\<not> is_digit CHR ''-''" "\<not> is_digit CHR 0x0A" "\<not> is_digit CHR ''[''"
  by (simp_all add: is_digit_def)

lemma after_number_version:
  "ns \<noteq> [] \<Longrightarrow> 0 < dots \<or> 2 \<le> length ns \<Longrightarrow> after_number dots b (show_version ns @ CHR '']'' # s) = Some s"
  by (induction ns arbitrary: dots b rule: show_version.induct)
    (auto simp: after_number_digits [OF show_nat_digits])

lemma heading_of_release:
  assumes "section_ok s"
  shows "release_heading (heading_of s)"
proof -
  have "after_number 0 False (show_version (sec_version s) @ CHR '']'' # '' - '' @ sec_date s) = Some ('' - '' @ sec_date s)"
    by (rule after_number_version) (use assms in \<open>auto simp: section_ok_def\<close>)
  then have "heading_at (heading_of s)"
    using assms by (simp add: heading_of_def heading_at_def startsWith_def section_ok_def is_date_def)
  then show ?thesis by (cases "heading_of s") (simp_all add: heading_of_def)
qed

lemma show_version_chars: "set (show_version ns) \<subseteq> {c. is_digit c \<or> c = CHR ''.''}"
  using show_nat_digits by (induction ns rule: show_version.induct) (auto simp: list_all_iff)

lemma is_date_chars:
  assumes "is_date s"
  shows "set s \<subseteq> {c. is_digit c \<or> c = CHR ''-''}"
proof
  fix c assume "c \<in> set s"
  then obtain i where "i < length s" "s ! i = c" by (auto simp: in_set_conv_nth)
  then have "(i, c) \<in> set (enumerate 0 s)" by (simp add: in_set_enumerate_eq)
  with assms show "c \<in> {c. is_digit c \<or> c = CHR ''-''}" by (auto simp: is_date_def list_all_iff split: if_splits)
qed

lemma heading_of_line: "section_ok s \<Longrightarrow> CHR 0x0A \<notin> set (heading_of s)"
  using show_version_chars [of "sec_version s"] is_date_chars [of "sec_date s"]
  by (auto simp: section_ok_def heading_of_def is_digit_def)

lemma stable_version: "\<not> checkForBetaVersion (show_version ns)"
proof -
  have "str_includes s ''-'' \<longleftrightarrow> CHR ''-'' \<in> set s" for s
    by (induction s) (auto simp: startsWith_def)
  with show_version_chars [of ns] show ?thesis by (auto simp: checkForBetaVersion_def is_digit_def)
qed

lemma str_includes_append: "startsWith t p \<Longrightarrow> str_includes (s @ t) p"
proof (induction s)
  case Nil
  then show ?case by (cases t) (auto simp: startsWith_def)
qed simp

lemma heading_mentions: "mentions (show_version (sec_version s)) (heading_of s)"
proof -
  have "str_includes (''## '' @ (''['' @ show_version (sec_version s) @ '']'') @ '' - '' @ sec_date s)
      (''['' @ show_version (sec_version s) @ '']'')"
    by (rule str_includes_append) (rule startsWith_append)
  then show ?thesis by (simp add: mentions_def heading_of_def)
qed

lemma split_at_lines:
  "ls \<noteq> [] \<Longrightarrow> list_all (\<lambda>l. CHR 0x0A \<notin> set l) ls \<Longrightarrow> split_at (CHR 0x0A) (join_lines ls) = ls"
  by (induction ls rule: join_lines.induct) (simp_all add: split_at_word split_at_append)

subsection \<open>Properties\<close>

fun created :: "release_event list \<Rightarrow> release_request list" where
  "created [] = []"
| "created (CreateRelease r # es) = r # created es"
| "created (e # es) = created es"

lemma created_append [simp]: "created (es @ fs) = created es @ created fs"
  by (induction es rule: created.induct) simp_all

definition NO_INFO :: release_event where
  "NO_INFO = SetFailed ''No release info found, either missing in changelog or changelog is formatted incorrectly''"

lemma checkForBetaVersion_iff: "checkForBetaVersion version \<longleftrightarrow> CHR ''-'' \<in> set version"
proof -
  have "str_includes s ''-'' \<longleftrightarrow> CHR ''-'' \<in> set s" for s
    by (induction s) (auto simp: startsWith_def)
  then show ?thesis by (simp add: checkForBetaVersion_def)
qed

lemma section_lines_Nil: "unlines (section_lines version lines) = [] \<longleftrightarrow> (\<forall>l \<in> set lines. \<not> mentions version l)"
proof (cases "dropWhile (Not \<circ> mentions version) lines")
  case Nil
  then have "section_lines version lines = []" by (simp only: section_lines_def list.case)
  with Nil show ?thesis by (auto simp: unlines_def)
next
  case (Cons line rest)
  then have "\<not> (\<forall>l \<in> set lines. \<not> mentions version l)" by (metis comp_apply dropWhile_eq_Nil_conv list.distinct(1))
  moreover have "unlines (section_lines version lines) \<noteq> []"
    unfolding section_lines_def Cons by (simp add: unlines_def newline_def)
  ultimately show ?thesis by blast
qed

lemma created_publish:
  "created (publishRelease fetch token commit repoName version info) =
     [\<lparr>authorization = ''token '' @ template token, rr_owner = ''subquery'', rr_name = ''['' @ version @ ''] '' @ repoName,
       rr_repo = ''subql-solana'', tag_name = template (nth_opt (split_at (CHR ''/'') repoName) 1) @ ''/'' @ version,
       target_commitish = template commit, rr_body = info\<rparr>]"
  "NO_INFO \<notin> set (publishRelease fetch token commit repoName version info)"
  by (auto simp: publishRelease_def NO_INFO_def Let_def split: sum.split)

lemma script_run:
  assumes "require_json (template (nth_opt myArgs 0) @ ''/package.json'') = Inr \<lparr>pj_name = Some repoName, pj_version = Some version\<rparr>"
    and "readFileSync (template (nth_opt myArgs 0) @ ''/CHANGELOG.md'') = Inr changelog"
  shows "gh_release_script require_json readFileSync fetch token myArgs =
     (if CHR ''-'' \<in> set version then ([], Exited 0)
      else (let info = unlines (section_lines version (split_at (CHR 0x0A) changelog))
            in ((if info = [] then [NO_INFO] else []) @ ConsoleLog ''Gathered release info...'' #
                publishRelease fetch token (nth_opt myArgs 1) repoName version info, Completed)))"
  using assms by (simp add: gh_release_script_def gatherReleaseInfo_eq checkForBetaVersion_iff NO_INFO_def Let_def)

text \<open>For a package with a version and a readable changelog the release script creates
  no release when the version is a prerelease and exactly one otherwise, tagged with the name of
  the package and the version. The text is empty exactly when no line of the changelog mentions
  the version; the run is then marked as failed, and the release is created all the same.\<close>

theorem release_created_once:
  assumes "require_json (template (nth_opt myArgs 0) @ ''/package.json'') = Inr \<lparr>pj_name = Some repoName, pj_version = Some version\<rparr>"
    and "readFileSync (template (nth_opt myArgs 0) @ ''/CHANGELOG.md'') = Inr changelog"
    and "gh_release_script require_json readFileSync fetch token myArgs = (events, ending)"
  shows "if CHR ''-'' \<in> set version then events = [] \<and> ending = Exited 0
    else ending = Completed \<and>
      (\<exists>r. created events = [r] \<and> tag_name r = template (nth_opt (split_at (CHR ''/'') repoName) 1) @ ''/'' @ version \<and>
         ((rr_body r = []) = list_all (Not \<circ> mentions version) (split_at (CHR 0x0A) changelog)) \<and>
         ((NO_INFO \<in> set events) = (rr_body r = [])))"
proof -
  note run = script_run [of require_json myArgs repoName version readFileSync changelog fetch token, OF assms(1,2)]
  show ?thesis
  proof (cases "CHR ''-'' \<in> set version")
    case True
    with assms(3) run show ?thesis by simp
  next
    case False
    let ?info = "unlines (section_lines version (split_at (CHR 0x0A) changelog))"
    from assms(3) run False have "ending = Completed"
      and ev: "events = (if ?info = [] then [NO_INFO] else []) @ ConsoleLog ''Gathered release info...'' #
        publishRelease fetch token (nth_opt myArgs 1) repoName version ?info" by (simp_all add: Let_def split: if_splits)
    moreover have "created [NO_INFO] = []" "NO_INFO \<noteq> ConsoleLog m" for m by (simp_all add: NO_INFO_def)
    ultimately show ?thesis
      using False by (simp add: created_publish section_lines_Nil list_all_iff)
  qed
qed

definition example_package :: "nat list \<Rightarrow> string \<Rightarrow> package_json result" where
  "example_package ns path = Inr \<lparr>pj_name = Some ''@subql/node-solana'', pj_version = Some (show_version ns)\<rparr>"

definition example_sections :: "release_section list" where
  "example_sections =
     [\<lparr>sec_version = [6, 3, 1], sec_date = ''2026-06-18'', sec_notes = [''### Fixed'', ''- skipped slots'', []]\<rparr>,
      \<lparr>sec_version = [6, 3, 0], sec_date = ''2026-06-18'', sec_notes = [''### Fixed'', ''- block headers'']\<rparr>]"

definition example_changelog :: string where
  "example_changelog = join_lines (''# Changelog'' # concat (map print_section example_sections))"

theorem release_created_once_witness:
  "map rr_body (created (fst (gh_release_script (example_package [6, 4]) (\<lambda>p. Inr example_changelog) (\<lambda>r. Inr ()) None []))) = [[]]"
proof -
  obtain events ending where run: "gh_release_script (example_package [6, 4]) (\<lambda>p. Inr example_changelog) (\<lambda>r. Inr ()) None [] = (events, ending)"
    by force
  have "CHR ''-'' \<notin> set (show_version [6, 4])" by code_simp
  moreover have "list_all (Not \<circ> mentions (show_version [6, 4])) (split_at (CHR 0x0A) example_changelog)" by code_simp
  moreover have "example_package [6, 4] p = Inr \<lparr>pj_name = Some ''@subql/node-solana'', pj_version = Some (show_version [6, 4])\<rparr>" for p
    by (simp add: example_package_def)
  note release_created_once [OF this _ run]
  ultimately show ?thesis using run by auto
qed

lemma section_lines_first:
  "find (mentions version) pre = Some l \<Longrightarrow> \<exists>rest. section_lines version (pre @ post) = l # rest"
  by (induction pre) (auto simp: section_lines_def split: if_splits)

text \<open>C40: the release of a version of a changelog that is printed section by section. When no
  line before the section mentions the version in brackets, the text of the release is exactly
  the section, the heading and the notes; when one does, for instance in the notes of a newer
  section, the text starts at the first such line instead.\<close>

theorem release_text_is_section:
  assumes "require_json (template (nth_opt myArgs 0) @ ''/package.json'') =
      Inr \<lparr>pj_name = Some repoName, pj_version = Some (show_version (sec_version s))\<rparr>"
    and "readFileSync (template (nth_opt myArgs 0) @ ''/CHANGELOG.md'') =
      Inr (join_lines (pre @ concat (map print_section (earlier @ s # later))))"
    and "list_all (\<lambda>l. CHR 0x0A \<notin> set l) pre" and "list_all section_ok (earlier @ s # later)"
  shows "case find (mentions (show_version (sec_version s))) (pre @ concat (map print_section earlier)) of
      None \<Rightarrow> map rr_body (created (fst (gh_release_script require_json readFileSync fetch token myArgs))) = [unlines (print_section s)]
    | Some l \<Rightarrow> \<exists>rest. map rr_body (created (fst (gh_release_script require_json readFileSync fetch token myArgs))) = [unlines (l # rest)]"
proof -
  let ?ls = "pre @ concat (map print_section (earlier @ s # later))" and ?v = "show_version (sec_version s)"
  let ?before = "pre @ concat (map print_section earlier)"
  have "list_all (\<lambda>l. CHR 0x0A \<notin> set l) (print_section t)" if "section_ok t" for t
    using that heading_of_line [OF that] by (auto simp: print_section_def section_ok_def list_all_iff)
  with assms(3,4) have "split_at (CHR 0x0A) (join_lines ?ls) = ?ls"
    by (intro split_at_lines) (auto simp: print_section_def list_all_iff)
  moreover have "CHR ''-'' \<notin> set ?v" using stable_version by (simp add: checkForBetaVersion_iff)
  ultimately have body: "map rr_body (created (fst (gh_release_script require_json readFileSync fetch token myArgs))) =
      [unlines (section_lines ?v ?ls)]"
    using script_run [of require_json myArgs repoName ?v readFileSync _ fetch token, OF assms(1,2)]
    by (simp add: created_publish NO_INFO_def Let_def)
  show ?thesis
  proof (cases "find (mentions ?v) ?before")
    case None
    then have before: "list_all (Not \<circ> mentions ?v) ?before" by (auto simp: find_None_iff list_all_iff)
    have "concat (map print_section later) = [] \<or> release_heading (hd (concat (map print_section later)))"
      using assms(4) heading_of_release by (cases later) (auto simp: print_section_def)
    moreover have "list_all (Not \<circ> release_heading) (sec_notes s)"
      using assms(4) by (auto simp: section_ok_def list_all_iff)
    ultimately have "section_lines ?v ?ls = print_section s"
      using section_lines_append [OF before heading_mentions] by (simp add: print_section_def)
    with None body show ?thesis by simp
  next
    case (Some l)
    from section_lines_first [OF this, of "concat (map print_section (s # later))"]
    show ?thesis using Some body by auto
  qed
qed

definition referring_sections :: "release_section list" where
  "referring_sections =
     [\<lparr>sec_version = [6, 4], sec_date = ''2026-07-01'', sec_notes = [''- revert [6.3.0]'']\<rparr>,
      \<lparr>sec_version = [6, 3, 0], sec_date = ''2026-06-18'', sec_notes = [''- block headers'']\<rparr>]"

theorem release_text_is_section_witness:
  "map rr_body (created (fst (gh_release_script (example_package [6, 3, 0]) (\<lambda>p. Inr example_changelog) (\<lambda>r. Inr ()) None []))) =
     [unlines [''## [6.3.0] - 2026-06-18'', ''### Fixed'', ''- block headers'']] \<and>
   (\<exists>rest. map rr_body (created (fst (gh_release_script (example_package [6, 3, 0])
       (\<lambda>p. Inr (join_lines (concat (map print_section referring_sections)))) (\<lambda>r. Inr ()) None []))) =
     [unlines (''- revert [6.3.0]'' # rest)])"
proof
  let ?s = "example_sections ! 1"
  have "list_all section_ok example_sections" by code_simp
  moreover have "find (mentions (show_version [6, 3, 0])) ([''# Changelog''] @ concat (map print_section [example_sections ! 0])) = None"
    by code_simp
  moreover have "print_section ?s = [''## [6.3.0] - 2026-06-18'', ''### Fixed'', ''- block headers'']" by code_simp
  moreover have "example_sections = [example_sections ! 0] @ ?s # []" "sec_version ?s = [6, 3, 0]" by (simp_all add: example_sections_def)
  ultimately show "map rr_body (created (fst (gh_release_script (example_package [6, 3, 0]) (\<lambda>p. Inr example_changelog) (\<lambda>r. Inr ()) None []))) =
     [unlines [''## [6.3.0] - 2026-06-18'', ''### Fixed'', ''- block headers'']]"
    using release_text_is_section [of "example_package [6, 3, 0]" "[]" "''@subql/node-solana''" ?s "\<lambda>p. Inr example_changelog"
        "[''# Changelog'']" "[example_sections ! 0]" "[]" "\<lambda>r. Inr ()" None]
    by (simp add: example_package_def example_changelog_def)
  let ?t = "referring_sections ! 1" and ?log = "join_lines (concat (map print_section referring_sections))"
  have "list_all section_ok referring_sections" by code_simp
  moreover have "find (mentions (show_version [6, 3, 0])) ([] @ concat (map print_section [referring_sections ! 0])) = Some ''- revert [6.3.0]''"
    by code_simp
  moreover have "referring_sections = [referring_sections ! 0] @ ?t # []" "sec_version ?t = [6, 3, 0]" by (simp_all add: referring_sections_def)
  ultimately show "\<exists>rest. map rr_body (created (fst (gh_release_script (example_package [6, 3, 0]) (\<lambda>p. Inr ?log) (\<lambda>r. Inr ()) None []))) =
     [unlines (''- revert [6.3.0]'' # rest)]"
    using release_text_is_section [of "example_package [6, 3, 0]" "[]" "''@subql/node-solana''" ?t "\<lambda>p. Inr ?log"
        "[]" "[referring_sections ! 0]" "[]" "\<lambda>r. Inr ()" None]
    by (simp add: example_package_def)
qed

end
