(* ===== verification/Spec2Isabelle.thy ===== *)
theory Spec2Isabelle
  imports UnfinalizedTheorems DictionaryTheorems IndexerTheorems ServiceTheorems ManifestTheorems
    Pipeline ApiServiceTheorems DictionaryV2 GenerateTheorems Startup Wiring
    SolanaTypingTheorems ProjectTypingTheorems SharedCache ReleaseTheorems
begin

text \<open>
  A model of the Solana node of SubQuery (\<open>packages/node\<close>, with the parts of
  \<open>packages/common-solana\<close> and \<open>packages/types\<close> it rests on). The node reads blocks from a
  Solana RPC endpoint or a dictionary, turns them into the objects handed to a project's
  handlers, filters and decodes them with the project's IDLs, and, when it runs ahead of the
  finalized chain, keeps the headers of unfinalized blocks so that it can rewind on a fork.

  Data flow. \<open>SolanaApi\<close> asks the endpoint; \<open>transformBlock\<close> wraps the answer;
  \<open>SolanaApiConnection\<close> and \<open>SolanaApiService\<close> deliver batches; \<open>WorkerService\<close> and
  \<open>BlockchainService\<close> hand headers and blocks to the core; \<open>UnfinalizedBlocksService\<close> checks
  the headers; \<open>IndexerManager\<close> walks a block and calls the handlers whose filters accept; the
  filters and the handlers' data use \<open>SolanaDecoder\<close>; \<open>SolanaDictionaryV2\<close> turns the filters of
  a project into a query, so that only matching blocks are fetched. The core library
  \<open>@subql/node-core\<close>, Codama, \<open>bs58\<close>, \<open>@solana/rpc\<close> and class-validator are not in the
  repository: what the code uses of them are arguments of the definitions.

  Theories, and the code each models.

  \<^item> \<open>Prelude\<close>: exceptions as values (\<open>js_error\<close>, \<open>'a result\<close>), loops that stop at the first
    throw (\<open>traverse\<close>), arrays, strings and maps of JavaScript. \<open>Json\<close>: values and
    \<open>JSON.stringify\<close>, with the proof that different values have different texts; the interface
    \<open>injective_key\<close> of a printed key, interpreted on the arguments of the memoised method
    (\<open>Decoder\<close>) and on the three kinds of query condition (\<open>Dictionary\<close>).
  \<^item> \<open>SolanaTypes\<close>: \<open>types/src/solana.ts\<close>, the blocks, transactions, instructions, logs and
    filters as records. \<open>Project\<close>: \<open>types/src/project.ts\<close> and \<open>common-solana/src/project/utils.ts\<close>,
    handlers and data sources. \<open>TsTypes\<close>: TypeScript types as values, and what it is for an object
    to have one. \<open>SolanaTyping\<close> and \<open>SolanaTypingTheorems\<close>: the types of \<open>types/src/solana.ts\<close>
    and the input map of \<open>project.ts\<close> as such values, the objects of the model as trees, and that
    the transformation makes the one have the other.
  \<^item> \<open>BlockTransform\<close>: \<open>solana/block.solana.ts\<close>. \<open>LogTree\<close> gives \<open>wrapLogs\<close> its
    specification: the log is the printed form of a tree of program invocations, and each message
    belongs to the innermost invocation around it. \<open>BlockTheorems\<close> has its properties.
    \<open>BlockJson\<close> and \<open>BlockJsonTheorems\<close>: \<open>omit\<close>, the \<open>toJSON\<close> closures and \<open>getBlockSize\<close> of
    \<open>indexer/types.ts\<close>; an object is listed with its getters and references, so that reading one
    by accident would show.
  \<^item> \<open>RpcApi\<close>: \<open>solana/api.solana.ts\<close>, \<open>api.connection.ts\<close>, \<open>api.service.solana.ts\<close>,
    \<open>configure/NodeConfig.ts\<close>, with the interface \<open>header_source\<close> of the unfinalized-blocks
    service, interpreted on \<open>getHeaderByHeight\<close> (and in \<open>Services\<close> on the service method that
    passes it on). \<open>RpcTheorems\<close> has the properties. \<open>ApiService\<close> and \<open>ApiServiceTheorems\<close>: the
    start of the service, its connections and \<open>getAccountInfo\<close>.
  \<^item> \<open>Unfinalized\<close>: \<open>indexer/unfinalizedBlocks.service.ts\<close>, every method on the record
    \<open>ub_state\<close> (the three private fields and the metadata table). \<open>UnfinalizedProps\<close> has the
    lemmas on the backfill, the registration, the invariant \<open>ub_inv\<close> and the state machine
    \<open>ub_step\<close>; \<open>ForkDetection\<close> those on \<open>hasForked\<close> and the rewind target;
    \<open>UnfinalizedTheorems\<close> the properties.
  \<^item> \<open>Codec\<close>: byte buffers with \<open>indexOf\<close>, \<open>hex\<close> and \<open>base64\<close> of Node, and the interface
    \<open>byte_codec\<close>, interpreted on both encodings. \<open>Idl\<close>: \<open>common-solana/src/codegen/idl.ts\<close>.
    \<open>Decoder\<close>: \<open>solana/decoder.ts\<close> and \<open>utils/decorators.ts\<close>. \<open>DecoderTheorems\<close>: the decoder
    as a state machine with the coherence of its discriminator cache, and what decoding returns.
    \<open>SharedCache\<close>: processes with several decoders, which share the one cache of the class.
  \<^item> \<open>Filters\<close> and \<open>FilterTheorems\<close>: \<open>solana/utils.solana.ts\<close>.
  \<^item> \<open>Dictionary\<close> and \<open>DictionaryTheorems\<close>: \<open>indexer/dictionary\<close>; the abstract reading of the
    query conditions (\<open>tx_admits\<close>, \<open>instruction_admits\<close>, \<open>log_admits\<close>) and the coverage of the
    filters by the query. \<open>DictionaryV2\<close>: the class \<open>SolanaDictionaryV2\<close> with its requests, and
    the key paths at which the numbers of an answer stay numbers.
  \<^item> \<open>Indexer\<close> and \<open>IndexerTheorems\<close>: \<open>indexer/indexer.manager.ts\<close>; the nested loops refine a
    flat list of items.
  \<^item> \<open>Services\<close> and \<open>ServiceTheorems\<close>: \<open>blockchain.service.ts\<close>, \<open>worker.service.ts\<close> and the
    checks of \<open>codegen.ts\<close>. \<open>Loading\<close>: the concurrent \<open>loadIdls\<close> calls of a project as a step
    relation on the loader tasks, whose runs all end in the state of the sequential load.
    \<open>Generate\<close> and \<open>GenerateTheorems\<close>: the generator of \<open>codegen.ts\<close>.
  \<^item> \<open>Pipeline\<close>: what passes a block on (\<open>indexBlock\<close>, \<open>getDsProcessor\<close>, \<open>processFetchedBlock\<close>, the
    safe API), and the properties that span the two sources of blocks, the decoder and the indexer.
  \<^item> \<open>Startup\<close>: \<open>main.ts\<close>, \<open>init.ts\<close>, \<open>yargs.ts\<close>, \<open>worker.ts\<close> and the subcommands as lists of steps
    that stop at the first failure. \<open>Wiring\<close>: the NestJS modules as tables, and what they leave to
    the libraries.
  \<^item> \<open>Manifest\<close> and \<open>ManifestTheorems\<close>: \<open>common-solana/src/project/models.ts\<close>,
    \<open>versioned/v1_0_0/model.ts\<close>, \<open>ProjectManifestVersioned.ts\<close>, \<open>load.ts\<close>, the decorated classes
    as tables of properties, \<open>updateDynamicDs\<close> of \<open>blockchain.service.ts\<close> and
    \<open>configure/SubqueryProject.ts\<close>, with \<open>getInstance\<close> of \<open>configure.module.ts\<close>.
    \<open>ProjectTyping\<close>: the types of \<open>project.ts\<close> as values, and what the decorators check of an
    object; \<open>ProjectTypingTheorems\<close>: which validated data sources have their declared type.
  \<^item> \<open>Release\<close> and \<open>ReleaseTheorems\<close>: the scripts of \<open>.github/actions\<close> that create a release with
    the section of the changelog of its version, and that prepare a prerelease.

  State and effects. A class is a record and a method returns its result with the new record; a
  promise is its value; an exception is \<open>Inl\<close> and keeps the changes made before it. A call runs to
  its end before the next starts, so a finalized block that is registered while a processing
  step waits for the endpoint comes after the step here. Heights,
  slots and times are integers. Object identity matters in one place, the \<open>WeakMap\<close> of the
  worker, and there blocks are positions of a heap.

  Loops. The walks of the unfinalized-blocks service towards older slots have no bound in the
  code: they are partial functions into an option, \<open>None\<close> means that the call does not return,
  and the properties say when it does (\<open>hasForked_decides\<close>) and when it gives no verdict
  (\<open>skipped_slot_fork_unresolved\<close>). The pages of the proof of index end by a measure on the
  height. No fuel is used.

  Assumptions. The endpoint may answer anything, except where a property names what it assumes:
  one block behind both requests for a slot, an URL that parses, hashes of the finalized chain
  that are closed under parents. The response transformer of \<open>@solana/rpc-transformers\<close> turns
  numbers into \<open>bigint\<close>s except at the paths it is given (\<open>transforms_numbers\<close>), its constants
  list the numbers of a message and an inner group (\<open>library_paths\<close>), class-validator
  reports the properties it does not know and applies the decorators to an object and the ones
  nested in it (\<open>respects_tables\<close>), and the response type of \<open>@solana/kit\<close> has the parts
  that the types of the repository repeat (\<open>kit_response\<close>). The loads of IDLs, which the code starts together, run
  one after another in \<open>load_all\<close>; \<open>concurrent_loads_agree\<close> shows when that loses nothing and
  \<open>conflicting_idl_files\<close> when it does. The transactions of a
  dictionary block carry their logs; the \<open>logIndex\<close> of such a log is a natural number in the
  record of the model, although it arrives as a \<open>bigint\<close> (\<open>DictionaryV2\<close>), and no filter or decoder
  reads it. Characters are below 256, and a name inherited from
  \<open>Object.prototype\<close> is not used as a version or a kind.

  Not modelled: the virtual machine of the sandbox, the connection pool, the base dictionary, the
  queues and the modules of \<open>@subql/node-core\<close>; the libraries that read the decorators of the
  manifest classes and the base classes of \<open>@subql/common\<close>; the code Codama renders for an IDL and
  the template language; the NestJS container beyond its tables; log output; the
  definitions of the types of \<open>@subql/types-core\<close> and \<open>@solana/kit\<close>, which are parameters; the
  settings of the test runner and the linter, and the vendored package manager.
\<close>

section \<open>From the endpoint to the unfinalized blocks\<close>

text \<open>
  The property that spans the RPC client, the block transformation, the blockchain service and
  the unfinalized-blocks service.
\<close>

lemma register_fetched:
  assumes "ub_finalizedHeader s = Some f" and "ub_unfinalizedBlocks s = Some ubs" and "blockHeight f < blockHeight h"
    and "registerUnfinalizedBlock get h s = (r, s1)"
  shows "ub_finalizedHeader s1 = Some f \<and> ub_lastCheckedBlockHeight s1 = ub_lastCheckedBlockHeight s \<and>
    (\<exists>ubs1. ub_unfinalizedBlocks s1 = Some ubs1 \<and> (r = Inr None \<longrightarrow> last_opt ubs1 = Some h))"
proof -
  obtain q us where g: "gap_fill get ubs h = (q, us)" by fastforce
  consider e where "q = Inl e" | k where "q = Inr (Some k)" | "q = Inr None"
    by (metis obj_sumE option.exhaust)
  then show ?thesis
    using assms g by cases (auto simp: registerUnfinalizedBlock_eq push_and_save_def split: if_splits)
qed

text \<open>C8: with a height verified before, a block fetched for a slot above the finalized height and
  processed without a rewind is recorded: the last record is the header of that slot as the endpoint gives it, with the
  slot as its height.\<close>

theorem fetched_block_recorded:
  assumes "fetchBlock hostname api n = Inr b" and "service_getHeaderForHeight api n = Inr h"
    and "\<And>raw. rpc_getBlock (api_client api) n = Inr (Some raw) \<Longrightarrow>
           rpc_getBlockHeader (api_client api) n = Inr (Some (base_block.truncate raw))"
    and "ub_finalizedHeader s = Some f" and "ub_unfinalizedBlocks s = Some ubs" and "blockHeight f < n"
    and "js_truthy (ub_lastCheckedBlockHeight s)"
    and "processUnfinalizedBlocks (service_getHeaderForHeight api) (Some b) s = Some (Inr None, s')"
  shows "blockHeight h = n \<and> (\<exists>ubs'. ub_unfinalizedBlocks s' = Some ubs' \<and> last_opt ubs' = Some h)"
proof
  let ?get = "service_getHeaderForHeight api"
  have h: "getHeader b = h" "blockHeight h = n"
    using block_header_eq [OF assms(1) _ assms(3)] assms(2) by (auto simp: service_getHeaderForHeight_def)
  then show "blockHeight h = n" by simp
  obtain r s1 where reg: "registerUnfinalizedBlock ?get h s = (r, s1)" by fastforce
  from register_fetched [OF assms(4,5) _ reg] assms(6) h(2)
  obtain ubs1 where s1: "ub_finalizedHeader s1 = Some f" "ub_lastCheckedBlockHeight s1 = ub_lastCheckedBlockHeight s"
      "ub_unfinalizedBlocks s1 = Some ubs1" "r = Inr None \<Longrightarrow> last_opt ubs1 = Some h" by auto
  have ro: "register_optional ?get (Some h) s = (r, s1)" using reg by (simp add: register_optional_def)
  have "processUnfinalizedBlockHeader ?get (Some h) s = Some (Inr None, s')"
    using assms(8) h(1) by (simp add: processUnfinalizedBlocks_def)
  then show "\<exists>ubs'. ub_unfinalizedBlocks s' = Some ubs' \<and> last_opt ubs' = Some h"
  proof (cases rule: process_cases)
    case (rewind reg k)
    with ro s1 getLastCorrect_lost [of s1 f ubs1 ?get k] assms(7) show ?thesis by simp
  next
    case (no_fork s2)
    with ro have r: "r = Inr None" "s2 = s1" by auto
    with s1(4) obtain zs where u: "ubs1 = zs @ [h]" by (auto simp: last_opt_Some)
    have "last_opt (removeFinalized (blockHeight f) ubs1) = Some h"
      using assms(6) h(2) by (simp add: u removeFinalized_def)
    moreover have "last_opt ubs1 = Some h" by (simp add: u)
    ultimately show ?thesis
      using no_fork(3) r(2) deleteFinalizedBlock_eq [OF s1(1,3)] s1(3) by (auto split: if_splits)
  qed simp_all
qed

theorem fetched_block_recorded_witness:
  "\<exists>b h s'. fetchBlock Inr (skipping_api True) 100 = Inr b \<and>
     processUnfinalizedBlocks (service_getHeaderForHeight (skipping_api True)) (Some b)
       ((example_state [])\<lparr>ub_finalizedHeader := Some (example_header 98 ''g'' ''f'')\<rparr>) = Some (Inr None, s') \<and>
     ub_unfinalizedBlocks s' = Some [h] \<and> blockHeight h = 100"
proof -
  let ?api = "skipping_api True" and ?s = "(example_state [])\<lparr>ub_finalizedHeader := Some (example_header 98 ''g'' ''f'')\<rparr>"
  have raw: "rpc_getBlock (api_client ?api) 100 = Inr (Some (example_raw_block None))"
    and header: "rpc_getBlockHeader (api_client ?api) 100 = Inr (Some (base_block.truncate (example_raw_block None)))"
    by (simp_all add: skipping_api_def block_api_def)
  obtain block where block: "transformBlock (example_raw_block None) = Inr block"
    using transformBlock_total [of "example_raw_block None"]
    by (auto simp: example_raw_block_def example_raw_tx_def tx_parses_def logs_parse_def)
  let ?b = "formatBlockUtil block (Some 100)"
  have b: "fetchBlock Inr ?api 100 = Inr ?b" using raw block by (auto simp: fetchBlock_Inr)
  obtain h where h: "service_getHeaderForHeight ?api 100 = Inr h"
    using header by (auto simp: service_getHeaderForHeight_def getHeaderByHeight_Inr)
  obtain s' where run: "processUnfinalizedBlocks (service_getHeaderForHeight ?api) (Some ?b) ?s = Some (Inr None, s')"
      and one: "ub_unfinalizedBlocks s' = Some [solanaBlockToHeader block (Some 100)]"
    by (simp add: processUnfinalizedBlocks_def processUnfinalizedBlockHeader_def register_optional_def
        registerUnfinalizedBlock_def ub_defs detect_fork_def hasForked_def
        getClosestRecord_def deleteFinalizedBlock_def example_state_def example_header_def push_and_save_def
        saveUnfinalizedBlocks_def)
  have "blockHeight h = 100 \<and> (\<exists>ubs'. ub_unfinalizedBlocks s' = Some ubs' \<and> last_opt ubs' = Some h)"
    by (rule fetched_block_recorded [OF b h _ _ _ _ _ run]) (auto simp: raw header example_state_def example_header_def)
  with b run one show ?thesis by auto
qed

end
